(* ===== verification/Emumet_Prelude.thy ===== *)
theory Emumet_Prelude
  imports Main "HOL-Library.Word" "HOL-Library.Multiset"
begin

text \<open>
  Shared vocabulary of the development: Rust's \<open>Result\<close> as a sum type with the
  combinators that stand for the question-mark operator, for \<open>ok_or_else\<close>, for
  collecting an iterator of results and for a loop whose body may return early with an
  error, and the generic lemmas on lists, sorting and options that the component
  theories use. Nothing in this theory is specific to Emumet.
\<close>

named_theorems result_simps \<open>rewrite rules that run the result combinators\<close>
named_theorems table_simps \<open>rewrite rules for row lists that stand for database tables\<close>

subsection \<open>Results\<close>

text \<open>\<open>r?\<close> followed by the rest of the function: an error is returned at once.\<close>

definition res_bind :: "'e + 'a \<Rightarrow> ('a \<Rightarrow> 'e + 'b) \<Rightarrow> 'e + 'b" where
  "res_bind r f = (case r of Inl e \<Rightarrow> Inl e | Inr x \<Rightarrow> f x)"

definition res_map :: "('a \<Rightarrow> 'b) \<Rightarrow> 'e + 'a \<Rightarrow> 'e + 'b" where
  "res_map f r = (case r of Inl e \<Rightarrow> Inl e | Inr x \<Rightarrow> Inr (f x))"

text \<open>\<open>Option::ok_or_else\<close>.\<close>

definition ok_or :: "'e \<Rightarrow> 'a option \<Rightarrow> 'e + 'a" where
  "ok_or e m = (case m of None \<Rightarrow> Inl e | Some x \<Rightarrow> Inr x)"

text \<open>\<open>if !b { return Err(e) }\<close>.\<close>

definition ensure :: "bool \<Rightarrow> 'e \<Rightarrow> 'e + unit" where
  "ensure b e = (if b then Inr () else Inl e)"

definition is_ok :: "'e + 'a \<Rightarrow> bool" where
  "is_ok r = (case r of Inl _ \<Rightarrow> False | Inr _ \<Rightarrow> True)"

text \<open>A \<open>for\<close> loop over a vector whose body updates a state and may return early.\<close>

fun res_fold :: "('x \<Rightarrow> 's \<Rightarrow> 'e + 's) \<Rightarrow> 'x list \<Rightarrow> 's \<Rightarrow> 'e + 's" where
  "res_fold f [] s = Inr s"
| "res_fold f (x # xs) s = res_bind (f x s) (res_fold f xs)"

text \<open>\<open>collect::<Result<Vec<_>, _>>()\<close>: the first error, or all the values in order.\<close>

fun res_collect :: "('e + 'a) list \<Rightarrow> 'e + 'a list" where
  "res_collect [] = Inr []"
| "res_collect (r # rs) = res_bind r (\<lambda>x. res_map ((#) x) (res_collect rs))"

lemma res_bind_run [simp, result_simps]:
  "res_bind (Inl e) f = Inl e"
  "res_bind (Inr x) f = f x"
  by (simp_all add: res_bind_def)

lemma res_map_run [simp, result_simps]:
  "res_map g (Inl e) = Inl e"
  "res_map g (Inr x) = Inr (g x)"
  by (simp_all add: res_map_def)

lemma ok_or_run [simp, result_simps]:
  "ok_or e None = Inl e"
  "ok_or e (Some x) = Inr x"
  by (simp_all add: ok_or_def)

lemma is_ok_run [simp, result_simps]: "\<not> is_ok (Inl e)" "is_ok (Inr x)"
  by (simp_all add: is_ok_def)

lemma ensure_True [simp, result_simps]: "b \<Longrightarrow> ensure b e = Inr ()"
  by (simp add: ensure_def)

lemma ensure_False [simp, result_simps]: "\<not> b \<Longrightarrow> ensure b e = Inl e"
  by (simp add: ensure_def)

lemma res_bind_Inr_iff: "res_bind r f = Inr y \<longleftrightarrow> (\<exists>x. r = Inr x \<and> f x = Inr y)"
  by (cases r) simp_all

lemma res_bind_Inl_iff:
  "res_bind r f = Inl e \<longleftrightarrow> r = Inl e \<or> (\<exists>x. r = Inr x \<and> f x = Inl e)"
  by (cases r) auto

lemma res_map_Inr_iff: "res_map f r = Inr y \<longleftrightarrow> (\<exists>x. r = Inr x \<and> y = f x)"
  by (cases r) auto

lemma res_map_Inl_iff: "res_map f r = Inl e \<longleftrightarrow> r = Inl e"
  by (cases r) auto

lemma ok_or_Inr_iff: "ok_or e m = Inr x \<longleftrightarrow> m = Some x"
  by (cases m) auto

lemma ok_or_Inl_iff: "ok_or e m = Inl d \<longleftrightarrow> m = None \<and> d = e"
  by (cases m) auto

lemma ensure_Inr_iff: "ensure b e = Inr u \<longleftrightarrow> b"
  by (simp add: ensure_def)

lemma ensure_Inl_iff: "ensure b e = Inl d \<longleftrightarrow> \<not> b \<and> d = e"
  by (auto simp: ensure_def)

lemma is_ok_iff: "is_ok r \<longleftrightarrow> (\<exists>x. r = Inr x)"
  by (cases r) auto

lemmas result_iffs =
  res_bind_Inr_iff res_bind_Inl_iff res_map_Inr_iff res_map_Inl_iff
  ok_or_Inr_iff ok_or_Inl_iff ensure_Inr_iff ensure_Inl_iff

lemma res_bind_assoc: "res_bind (res_bind r f) g = res_bind r (\<lambda>x. res_bind (f x) g)"
  by (cases r) simp_all

lemma res_fold_append: "res_fold f (xs @ ys) s = res_bind (res_fold f xs s) (res_fold f ys)"
proof (induction xs arbitrary: s)
  case Nil
  then show ?case by simp
next
  case (Cons x xs)
  then show ?case by (cases "f x s") simp_all
qed

text \<open>A loop that ends normally keeps whatever its body keeps.\<close>

lemma res_fold_invariant:
  assumes "res_fold f xs s = Inr t"
    and "\<And>x s t. x \<in> set xs \<Longrightarrow> P s \<Longrightarrow> f x s = Inr t \<Longrightarrow> P t"
    and "P s"
  shows "P t"
  using assms
proof (induction xs arbitrary: s)
  case Nil
  then show ?case by simp
next
  case (Cons x xs)
  from Cons.prems(1) obtain u where u: "f x s = Inr u" and rest: "res_fold f xs u = Inr t"
    by (auto simp: res_bind_Inr_iff)
  from Cons.prems(2) [of x s u] Cons.prems(3) u have "P u" by simp
  moreover have "\<And>y s t. y \<in> set xs \<Longrightarrow> P s \<Longrightarrow> f y s = Inr t \<Longrightarrow> P t"
    using Cons.prems(2) by (meson list.set_intros(2))
  ultimately show ?case using Cons.IH [OF rest] by blast
qed

lemma res_collect_map_Inr: "res_collect (map (\<lambda>x. Inr (f x)) xs) = Inr (map f xs)"
  by (induction xs) simp_all

lemma res_collect_Inr_iff: "res_collect rs = Inr ys \<longleftrightarrow> rs = map Inr ys"
proof (induction rs arbitrary: ys)
  case Nil
  then show ?case by auto
next
  case (Cons r rs)
  then show ?case by (cases ys) (auto simp: result_iffs)
qed

subsection \<open>Lists and sorting\<close>

lemma filter_sort_key: "filter P (sort_key f xs) = sort_key f (filter P xs)"
  by (induction xs) (auto simp: filter_insort filter_insort_triv)

lemma sort_key_id: "sorted (map f xs) \<Longrightarrow> sort_key f xs = xs"
  by (induction xs) (auto simp: insort_is_Cons)

lemma sort_key_Nil_iff [simp]: "sort_key f xs = [] \<longleftrightarrow> xs = []"
  by (metis length_0_conv length_sort)

lemma sorted_key_last:
  assumes "sorted (map f xs)" and "x \<in> set xs"
  shows "f x \<le> f (last xs)"
proof -
  from assms(2) obtain ys y where "xs = ys @ [y]" by (metis empty_iff list.set(1) rev_exhaust)
  with assms show ?thesis by (auto simp: sorted_append)
qed

text \<open>Appending a row whose key exceeds every key present appends it after sorting too.\<close>

lemma sort_key_snoc_max:
  assumes "\<And>x. x \<in> set xs \<Longrightarrow> f x \<le> f y"
  shows "sort_key f (xs @ [y]) = sort_key f xs @ [y]"
proof (rule properties_for_sort_key)
  show "mset (sort_key f xs @ [y]) = mset (xs @ [y])" by simp
next
  fix k
  have "filter (\<lambda>x. f k = f x) (sort_key f xs) = filter (\<lambda>x. f k = f x) xs"
    by (metis (mono_tags, lifting) filter_cong sort_key_stable)
  then show "filter (\<lambda>x. f k = f x) (sort_key f xs @ [y]) = filter (\<lambda>x. f k = f x) (xs @ [y])"
    by simp
next
  show "sorted (map f (sort_key f xs @ [y]))"
    using assms by (auto simp: sorted_append)
qed

text \<open>Splitting a version-ordered stream at a version splits it into prefix and suffix.\<close>

lemma sorted_key_filter_split:
  fixes f :: "'a \<Rightarrow> 'k::linorder"
  assumes "sorted (map f xs)"
  shows "filter (\<lambda>x. f x \<le> v) xs @ filter (\<lambda>x. v < f x) xs = xs"
  using assms
proof (induction xs)
  case Nil
  then show ?case by simp
next
  case (Cons x xs)
  show ?case
  proof (cases "f x \<le> v")
    case True
    with Cons show ?thesis by auto
  next
    case False
    with Cons.prems have "filter (\<lambda>x. f x \<le> v) xs = []" "filter (\<lambda>x. v < f x) xs = xs"
      by (auto simp: filter_empty_conv intro!: filter_True)
    with False show ?thesis by auto
  qed
qed

lemma find_Some_iff_hd_filter: "List.find P xs = (case filter P xs of [] \<Rightarrow> None | x # _ \<Rightarrow> Some x)"
  by (induction xs) auto

lemma find_SomeD: "List.find P xs = Some x \<Longrightarrow> x \<in> set xs \<and> P x"
  by (auto simp: find_Some_iff)

lemma find_conj: "List.find P xs = Some x \<Longrightarrow> Q x \<Longrightarrow> List.find (\<lambda>y. P y \<and> Q y) xs = Some x"
  by (induction xs) (auto split: if_splits)

lemma find_None_all: "List.find P xs = None \<longleftrightarrow> (\<forall>x \<in> set xs. \<not> P x)"
  by (auto simp: find_None_iff)

lemma find_append:
  "List.find P (xs @ ys) = (case List.find P xs of None \<Rightarrow> List.find P ys | Some x \<Rightarrow> Some x)"
  by (induction xs) auto

text \<open>Looking up a key after an update of the rows that have it, and of other rows.\<close>

lemma find_map_same:
  assumes "\<And>x. P x \<Longrightarrow> P (f x)"
  shows "List.find P (map (\<lambda>x. if P x then f x else x) xs) = map_option f (List.find P xs)"
  using assms by (induction xs) auto

lemma find_map_other:
  assumes "\<And>x. Q x \<Longrightarrow> \<not> P x" and "\<And>x. Q x \<Longrightarrow> \<not> P (f x)"
  shows "List.find P (map (\<lambda>x. if Q x then f x else x) xs) = List.find P xs"
  using assms by (induction xs) auto

lemma find_filter_other:
  assumes "\<And>x. P x \<Longrightarrow> Q x"
  shows "List.find P (filter Q xs) = List.find P xs"
  using assms by (induction xs) auto

lemma find_filter_none: "(\<And>x. P x \<Longrightarrow> \<not> Q x) \<Longrightarrow> List.find P (filter Q xs) = None"
  by (auto simp: find_None_iff)

lemma find_unique_key:
  assumes "distinct (map f xs)" and "List.find (\<lambda>x. f x = k \<and> P x) xs = Some y"
  shows "List.find (\<lambda>x. f x = k) xs = Some y"
  using assms
proof (induction xs)
  case (Cons x xs)
  show ?case
  proof (cases "f x = k \<and> P x")
    case False
    with Cons.prems have rest: "List.find (\<lambda>x. f x = k \<and> P x) xs = Some y" by (simp split: if_splits)
    then have "f y = k" and "y \<in> set xs" by (auto dest: find_SomeD)
    with Cons.prems(1) have "f x \<noteq> k" by auto
    with Cons rest show ?thesis by simp
  qed (use Cons.prems in simp)
qed simp

subsection \<open>Ordered lists with distinct keys\<close>

text \<open>What lies above and below an element of an ordered list is what follows and precedes it.\<close>

lemma filter_above_key:
  fixes k :: "'r \<Rightarrow> 'k::linorder"
  assumes "sorted (map k xs)" and "distinct (map k xs)" and "n < length xs"
  shows "filter (\<lambda>x. k (xs ! n) < k x) xs = drop (Suc n) xs"
proof -
  have split: "xs = take (Suc n) xs @ drop (Suc n) xs" by simp
  have strict: "k (xs ! i) < k (xs ! j)" if "i < j" "j < length xs" for i j
    using assms(1,2) that sorted_iff_nth_mono_less [of "map k xs"] nth_eq_iff_index_eq [OF assms(2), of i j]
    by (simp add: order_less_le)
  have "\<forall>x \<in> set (take (Suc n) xs). \<not> k (xs ! n) < k x"
  proof
    fix x assume "x \<in> set (take (Suc n) xs)"
    then obtain i where "i < Suc n" "x = xs ! i" using assms(3) by (auto simp: in_set_conv_nth)
    then show "\<not> k (xs ! n) < k x" using strict [of i n] assms(3) by (cases "i = n") auto
  qed
  moreover have "\<forall>x \<in> set (drop (Suc n) xs). k (xs ! n) < k x"
    using strict by (auto simp: in_set_conv_nth)
  ultimately show ?thesis
    by (subst split, subst filter_append) (simp add: filter_empty_conv)
qed

lemma filter_until_key:
  fixes k :: "'r \<Rightarrow> 'k::linorder"
  assumes "sorted (map k xs)" and "distinct (map k xs)" and "n < length xs"
  shows "filter (\<lambda>x. k x < k (xs ! n)) xs = take n xs"
proof -
  have strict: "k (xs ! i) < k (xs ! j)" if "i < j" "j < length xs" for i j
    using assms(1,2) that sorted_iff_nth_mono_less [of "map k xs"] nth_eq_iff_index_eq [OF assms(2), of i j]
    by (simp add: order_less_le)
  have split: "xs = take n xs @ drop n xs" by simp
  have "\<forall>x \<in> set (take n xs). k x < k (xs ! n)"
    using strict assms(3) by (auto simp: in_set_conv_nth)
  moreover have "\<forall>x \<in> set (drop n xs). \<not> k x < k (xs ! n)"
  proof
    fix x assume "x \<in> set (drop n xs)"
    then obtain i where "i < length xs - n" "x = xs ! (n + i)" using assms(3) by (auto simp: in_set_conv_nth)
    moreover from this(1) have "n + i < length xs" by linarith
    ultimately show "\<not> k x < k (xs ! n)"
      using strict [of n "n + i"] by (cases "i = 0") (auto dest: less_imp_le simp: not_less)
  qed
  ultimately show ?thesis by (subst split, subst filter_append) (simp add: filter_empty_conv)
qed

end
