(* ===== verification/Rust_Strings.thy ===== *)
theory Rust_Strings
  imports Emumet_Prelude
begin

text \<open>
  The part of Rust's string library that the sources use. A Rust \<open>String\<close> is a
  sequence of UTF-8 bytes and is modelled as HOL's \<open>string\<close> with one \<open>char\<close> per
  byte; \<open>str_chars\<close> decodes the bytes into Unicode scalar values, which is what
  \<open>chars()\<close>, \<open>trim()\<close> and \<open>is_whitespace\<close> work on, while \<open>split\<close>,
  \<open>starts_with\<close> and \<open>trim_end_matches\<close> with an ASCII pattern and \<open>len()\<close>
  work on the bytes. The theory also prints integers in decimal, as \<open>to_string\<close> does.
\<close>

type_synonym scalar = nat

abbreviation byte_val :: "char \<Rightarrow> nat" where
  "byte_val c \<equiv> of_char c"

text \<open>
  Decoding of valid UTF-8 by the lead byte. A Rust string is always valid; a byte that
  starts no complete sequence is passed through, so that the function is total.
\<close>

fun str_chars :: "string \<Rightarrow> scalar list" where
  "str_chars [] = []"
| "str_chars (b # bs) =
    (let n = byte_val b in
     if n < 192 then n # str_chars bs
     else if n < 224 then
       (case bs of c1 # rest \<Rightarrow> ((n - 192) * 64 + (byte_val c1 - 128)) # str_chars rest
        | _ \<Rightarrow> n # str_chars bs)
     else if n < 240 then
       (case bs of c1 # c2 # rest \<Rightarrow>
          ((n - 224) * 4096 + (byte_val c1 - 128) * 64 + (byte_val c2 - 128)) # str_chars rest
        | _ \<Rightarrow> n # str_chars bs)
     else
       (case bs of c1 # c2 # c3 # rest \<Rightarrow>
          ((n - 240) * 262144 + (byte_val c1 - 128) * 4096 + (byte_val c2 - 128) * 64
            + (byte_val c3 - 128)) # str_chars rest
        | _ \<Rightarrow> n # str_chars bs))"

text \<open>\<open>char::is_whitespace\<close>: the Unicode \<open>White_Space\<close> property.\<close>

definition is_whitespace :: "scalar \<Rightarrow> bool" where
  "is_whitespace c \<longleftrightarrow>
     (9 \<le> c \<and> c \<le> 13) \<or> c = 32 \<or> c = 133 \<or> c = 160 \<or> c = 5760 \<or>
     (8192 \<le> c \<and> c \<le> 8202) \<or> c = 8232 \<or> c = 8233 \<or> c = 8239 \<or> c = 8287 \<or> c = 12288"

definition str_trim :: "scalar list \<Rightarrow> scalar list" where
  "str_trim cs = rev (dropWhile is_whitespace (rev (dropWhile is_whitespace cs)))"

definition trim_end_matches :: "char \<Rightarrow> string \<Rightarrow> string" where
  "trim_end_matches c s = rev (dropWhile (\<lambda>d. d = c) (rev s))"

definition starts_with :: "string \<Rightarrow> string \<Rightarrow> bool" where
  "starts_with p s = (take (length p) s = p)"

text \<open>\<open>s.split(c).collect()\<close>: always at least one part.\<close>

fun split_on :: "char \<Rightarrow> string \<Rightarrow> string list" where
  "split_on c [] = [[]]"
| "split_on c (d # ds) =
    (if d = c then [] # split_on c ds
     else (case split_on c ds of [] \<Rightarrow> [[d]] | p # ps \<Rightarrow> (d # p) # ps))"

text \<open>ASCII case, prefixes and suffixes, and splitting at the first occurrence of a character.\<close>

definition ascii_lower :: "char \<Rightarrow> char" where
  "ascii_lower c = (if 65 \<le> byte_val c \<and> byte_val c \<le> 90 then char_of (byte_val c + 32) else c)"

definition to_ascii_lowercase :: "string \<Rightarrow> string" where
  "to_ascii_lowercase s = map ascii_lower s"

definition eq_ignore_ascii_case :: "string \<Rightarrow> string \<Rightarrow> bool" where
  "eq_ignore_ascii_case s t = (to_ascii_lowercase s = to_ascii_lowercase t)"

definition ends_with :: "string \<Rightarrow> string \<Rightarrow> bool" where
  "ends_with p s = starts_with (rev p) (rev s)"

definition strip_prefix :: "string \<Rightarrow> string \<Rightarrow> string option" where
  "strip_prefix p s = (if starts_with p s then Some (drop (length p) s) else None)"

definition trim_start_matches :: "char \<Rightarrow> string \<Rightarrow> string" where
  "trim_start_matches c s = dropWhile (\<lambda>d. d = c) s"

fun split_once :: "char \<Rightarrow> string \<Rightarrow> (string \<times> string) option" where
  "split_once c [] = None"
| "split_once c (d # s) =
     (if d = c then Some ([], s) else map_option (\<lambda>(u, v). (d # u, v)) (split_once c s))"

text \<open>
  The bytes of each scalar value, cut as \<open>str_chars\<close> decodes them, and the functions of
  \<open>str\<close> that work on whole scalar values and return parts of the string.
\<close>

fun utf8_split :: "string \<Rightarrow> string list" where
  "utf8_split [] = []"
| "utf8_split (b # bs) =
    (let n = byte_val b in
     if n < 192 then [b] # utf8_split bs
     else if n < 224 then
       (case bs of c1 # rest \<Rightarrow> [b, c1] # utf8_split rest | _ \<Rightarrow> [b] # utf8_split bs)
     else if n < 240 then
       (case bs of c1 # c2 # rest \<Rightarrow> [b, c1, c2] # utf8_split rest | _ \<Rightarrow> [b] # utf8_split bs)
     else
       (case bs of c1 # c2 # c3 # rest \<Rightarrow> [b, c1, c2, c3] # utf8_split rest
        | _ \<Rightarrow> [b] # utf8_split bs))"

definition is_blank :: "string \<Rightarrow> bool" where
  "is_blank p = list_all is_whitespace (str_chars p)"

definition trim_text :: "string \<Rightarrow> string" where
  "trim_text s = concat (rev (dropWhile is_blank (rev (dropWhile is_blank (utf8_split s)))))"

function words_of :: "string list \<Rightarrow> string list" where
  "words_of [] = []"
| "words_of (p # ps) =
     (if is_blank p then words_of ps
      else concat (p # takeWhile (\<lambda>q. \<not> is_blank q) ps) # words_of (dropWhile (\<lambda>q. \<not> is_blank q) ps))"
  by pat_completeness auto
termination
  by (relation "measure length") (auto simp: le_imp_less_Suc length_dropWhile_le)

definition split_whitespace :: "string \<Rightarrow> string list" where
  "split_whitespace s = words_of (utf8_split s)"

text \<open>Decimal notation of an \<open>i64\<close>.\<close>

fun nat_to_string :: "nat \<Rightarrow> string" where
  "nat_to_string n =
     (if n < 10 then [char_of (48 + n)]
      else nat_to_string (n div 10) @ [char_of (48 + n mod 10)])"

declare nat_to_string.simps [simp del]

definition int_to_string :: "int \<Rightarrow> string" where
  "int_to_string i = (if i < 0 then CHR ''-'' # nat_to_string (nat (- i)) else nat_to_string (nat i))"

definition digit_val :: "char \<Rightarrow> nat" where
  "digit_val c = byte_val c - 48"

definition string_to_nat :: "string \<Rightarrow> nat" where
  "string_to_nat s = foldl (\<lambda>a c. 10 * a + digit_val c) 0 s"

subsection \<open>Trimming and prefixes\<close>

lemma dropWhile_eq_Nil: "dropWhile P xs = [] \<longleftrightarrow> list_all P xs"
  by (induction xs) auto

lemma str_trim_eq_Nil: "str_trim cs = [] \<longleftrightarrow> list_all is_whitespace cs"
proof -
  have "list_all is_whitespace (dropWhile is_whitespace cs) \<longleftrightarrow> list_all is_whitespace cs"
    by (induction cs) auto
  moreover have "str_trim cs = [] \<longleftrightarrow> list_all is_whitespace (rev (dropWhile is_whitespace cs))"
    by (simp only: str_trim_def dropWhile_eq_Nil rev_is_Nil_conv)
  ultimately show ?thesis by simp
qed

lemma trim_end_matches_no_suffix:
  "trim_end_matches c s = [] \<or> last (trim_end_matches c s) \<noteq> c"
  using hd_dropWhile [of "\<lambda>d. d = c" "rev s"]
  by (cases "dropWhile (\<lambda>d. d = c) (rev s) = []") (auto simp: trim_end_matches_def last_rev)

lemma trim_end_matches_id:
  assumes "s = [] \<or> last s \<noteq> c"
  shows "trim_end_matches c s = s"
proof (cases "rev s")
  case Nil
  then show ?thesis by (simp add: trim_end_matches_def)
next
  case (Cons d ds)
  then have "last s = d" by (metis hd_rev list.sel(1))
  moreover from Cons have "s \<noteq> []" by auto
  ultimately have "d \<noteq> c" using assms by auto
  then have "dropWhile (\<lambda>x. x = c) (d # ds) = d # ds" by simp
  with Cons have "trim_end_matches c s = rev (rev s)" by (simp only: trim_end_matches_def)
  then show ?thesis by simp
qed

lemma trim_end_matches_idem [simp]:
  "trim_end_matches c (trim_end_matches c s) = trim_end_matches c s"
  by (rule trim_end_matches_id) (rule trim_end_matches_no_suffix)

lemma trim_end_matches_replicate [simp]:
  "trim_end_matches c (s @ replicate n c) = trim_end_matches c s"
  by (induction n) (auto simp: trim_end_matches_def replicate_app_Cons_same)

lemma trim_end_matches_append:
  assumes "t \<noteq> []" and "last t \<noteq> c"
  shows "trim_end_matches c (s @ t) = s @ t"
  by (rule trim_end_matches_id) (use assms in auto)

subsection \<open>Splitting\<close>

lemma split_on_not_Nil [simp]: "split_on c s \<noteq> []"
  by (induction s) (auto split: list.splits)

lemma split_on_no_sep: "c \<notin> set s \<Longrightarrow> split_on c s = [s]"
  by (induction s) auto

lemma split_on_sep:
  "c \<notin> set u \<Longrightarrow> split_on c (u @ c # s) = u # split_on c s"
  by (induction u) auto

lemma split_on_parts: "p \<in> set (split_on c s) \<Longrightarrow> c \<notin> set p"
  by (induction s arbitrary: p) (auto split: if_splits list.splits)

lemma length_split_on: "length (split_on c s) = Suc (count_list s c)"
  by (induction s) (auto split: list.splits)

lemma split_on_two:
  "split_on c s = [u, v] \<longleftrightarrow> s = u @ c # v \<and> c \<notin> set u \<and> c \<notin> set v"
proof
  assume *: "split_on c s = [u, v]"
  then have "count_list s c = 1" using length_split_on [of c s] by simp
  then have "c \<in> set s" by (metis count_list_0_iff zero_neq_one)
  then obtain p q where s: "s = p @ c # q" and p: "c \<notin> set p"
    by (meson split_list_first)
  with * have q: "u = p" "split_on c q = [v]" by (auto simp: split_on_sep)
  from q(2) have "count_list q c = 0" using length_split_on [of c q] by simp
  then have "c \<notin> set q" by (simp add: count_list_0_iff)
  with q(2) have "q = v" by (simp add: split_on_no_sep)
  with s p q \<open>c \<notin> set q\<close> show "s = u @ c # v \<and> c \<notin> set u \<and> c \<notin> set v" by simp
next
  assume "s = u @ c # v \<and> c \<notin> set u \<and> c \<notin> set v"
  then show "split_on c s = [u, v]" by (simp add: split_on_sep split_on_no_sep)
qed

subsection \<open>Decimal printing is injective\<close>

lemma digit_val_char_of [simp]: "n < 10 \<Longrightarrow> digit_val (char_of (48 + n)) = n"
  by (simp add: digit_val_def)

lemma nat_to_string_digits: "c \<in> set (nat_to_string n) \<Longrightarrow> 48 \<le> byte_val c \<and> byte_val c \<le> 57"
proof (induction n rule: nat_to_string.induct)
  case (1 n)
  then show ?case
    by (subst (asm) (2) nat_to_string.simps) (auto split: if_splits)
qed

lemma string_to_nat_to_string [simp]: "string_to_nat (nat_to_string n) = n"
proof (induction n rule: nat_to_string.induct)
  case (1 n)
  show ?case
  proof (cases "n < 10")
    case True
    then show ?thesis by (subst nat_to_string.simps) (simp add: string_to_nat_def)
  next
    case False
    with 1 have "string_to_nat (nat_to_string (n div 10)) = n div 10" by simp
    then have "foldl (\<lambda>a c. 10 * a + digit_val c) 0 (nat_to_string (n div 10)) = n div 10"
      by (simp add: string_to_nat_def)
    with False show ?thesis
      by (subst nat_to_string.simps) (simp add: string_to_nat_def)
  qed
qed

lemma nat_to_string_inject [simp]: "nat_to_string m = nat_to_string n \<longleftrightarrow> m = n"
  by (metis string_to_nat_to_string)

lemma nat_to_string_not_Nil [simp]: "nat_to_string n \<noteq> []"
  by (subst nat_to_string.simps) simp

lemma nat_to_string_no_minus: "nat_to_string n \<noteq> CHR ''-'' # s"
proof
  assume "nat_to_string n = CHR ''-'' # s"
  then have "CHR ''-'' \<in> set (nat_to_string n)" by simp
  from nat_to_string_digits [OF this] show False by simp
qed

lemma int_to_string_inject [simp]: "int_to_string i = int_to_string j \<longleftrightarrow> i = j"
  using nat_to_string_no_minus nat_to_string_no_minus [symmetric]
  by (auto simp: int_to_string_def)

lemma int_to_string_chars:
  "c \<in> set (int_to_string i) \<Longrightarrow> c = CHR ''-'' \<or> (48 \<le> byte_val c \<and> byte_val c \<le> 57)"
  by (auto simp: int_to_string_def dest: nat_to_string_digits split: if_splits)

lemma int_to_string_not_Nil [simp]: "int_to_string i \<noteq> []"
  by (simp add: int_to_string_def)

subsection \<open>ASCII case\<close>

lemma ascii_lower_idem [simp]: "ascii_lower (ascii_lower c) = ascii_lower c"
  by (auto simp: ascii_lower_def)

lemma to_ascii_lowercase_idem [simp]: "to_ascii_lowercase (to_ascii_lowercase s) = to_ascii_lowercase s"
  by (simp add: to_ascii_lowercase_def)

lemma to_ascii_lowercase_append [simp]:
  "to_ascii_lowercase (s @ t) = to_ascii_lowercase s @ to_ascii_lowercase t"
  by (simp add: to_ascii_lowercase_def)

lemma eq_ignore_ascii_case_refl [simp]: "eq_ignore_ascii_case s s"
  by (simp add: eq_ignore_ascii_case_def)

subsection \<open>Splitting at the first occurrence\<close>

lemma split_once_None: "split_once c s = None \<longleftrightarrow> c \<notin> set s"
  by (induction s) auto

lemma split_once_Some: "split_once c s = Some (u, v) \<longleftrightarrow> s = u @ c # v \<and> c \<notin> set u"
proof (induction s arbitrary: u)
  case (Cons d s)
  show ?case
  proof (cases u)
    case Nil
    then show ?thesis by auto
  next
    case (Cons x xs)
    with Cons.IH [of xs] show ?thesis by auto
  qed
qed simp

lemma split_once_append [simp]: "c \<notin> set u \<Longrightarrow> split_once c (u @ c # v) = Some (u, v)"
  by (simp add: split_once_Some)

lemma strip_prefix_append [simp]: "strip_prefix p (p @ s) = Some s"
  by (simp add: strip_prefix_def starts_with_def)

lemma strip_prefix_Some: "strip_prefix p s = Some t \<longleftrightarrow> s = p @ t"
  by (auto simp: strip_prefix_def starts_with_def) (metis append_take_drop_id)

subsection \<open>ASCII text\<close>

definition ascii_graphic :: "char \<Rightarrow> bool" where
  "ascii_graphic c \<longleftrightarrow> 33 \<le> byte_val c \<and> byte_val c \<le> 126"

lemma utf8_split_ascii: "list_all (\<lambda>c. byte_val c < 128) s \<Longrightarrow> utf8_split s = map (\<lambda>c. [c]) s"
  by (induction s) auto

lemma is_blank_ascii: "byte_val c < 128 \<Longrightarrow> is_blank [c] \<longleftrightarrow> (9 \<le> byte_val c \<and> byte_val c \<le> 13) \<or> byte_val c = 32"
  by (auto simp: is_blank_def is_whitespace_def)

lemma is_blank_graphic: "ascii_graphic c \<Longrightarrow> \<not> is_blank [c]"
  by (subst is_blank_ascii) (auto simp: ascii_graphic_def)

lemma graphic_ascii: "list_all ascii_graphic s \<Longrightarrow> list_all (\<lambda>c. byte_val c < 128) s"
  by (auto simp: list_all_iff ascii_graphic_def)

lemma dropWhile_hd: "xs = [] \<or> \<not> P (hd xs) \<Longrightarrow> dropWhile P xs = xs"
  by (cases xs) auto

text \<open>Text without white space at its ends is not trimmed.\<close>

lemma trim_text_ascii:
  assumes "list_all (\<lambda>c. byte_val c < 128) s" and "s = [] \<or> ascii_graphic (hd s) \<and> ascii_graphic (last s)"
  shows "trim_text s = s"
proof (cases "s = []")
  case False
  have chunks: "utf8_split s = map (\<lambda>c. [c]) s" using assms(1) by (rule utf8_split_ascii)
  have "dropWhile is_blank (map (\<lambda>c. [c]) s) = map (\<lambda>c. [c]) s"
    by (rule dropWhile_hd) (use False assms(2) in \<open>simp add: hd_map is_blank_graphic\<close>)
  moreover have "dropWhile is_blank (rev (map (\<lambda>c. [c]) s)) = rev (map (\<lambda>c. [c]) s)"
    by (rule dropWhile_hd) (use False assms(2) in \<open>simp add: hd_rev last_map is_blank_graphic\<close>)
  ultimately have "trim_text s = concat (map (\<lambda>c. [c]) s)"
    unfolding trim_text_def chunks by (simp only: rev_rev_ident)
  then show ?thesis by simp
qed (simp add: trim_text_def)

lemma trim_text_graphic: "list_all ascii_graphic s \<Longrightarrow> trim_text s = s"
  by (rule trim_text_ascii, erule graphic_ascii) (auto simp: list_all_iff)

end
