(* ===== verification/Kernel_Base.thy ===== *)
theory Kernel_Base
  imports Rust_Strings
begin

text \<open>
  The vocabulary shared by all parts of the \<open>kernel\<close> crate: the error type
  (\<open>kernel/src/error.rs\<close>), the event and command envelopes and the expected version
  (\<open>kernel/src/entity/event.rs\<close>, \<open>event/version.rs\<close>), the snowflake identifiers
  (\<open>kernel/src/id.rs\<close>), creation times (\<open>entity/common/created_at.rs\<close>) and the
  three-valued field action with its hand-written serialisation
  (\<open>entity/common/field_action.rs\<close>).

  An \<open>i64\<close> identifier, version or sequence number is an \<open>int\<close>. A point in time is the
  number of nanoseconds since the Unix epoch. What the \<open>time\<close> crate, the \<open>ferroid\<close>
  generator (seen as a function of the last identifier) and the random \<open>nanoid\<close> generator
  compute are fields of the record \<open>env\<close>; \<open>time_crate\<close> and \<open>snowflake_crate\<close> state the
  documented behaviour the code relies on.
\<close>

unbundle bit_operations_syntax

datatype kernel_error =
    Concurrency | Timeout | Internal | PermissionDenied | NotFound | Rejected | Validation

type_synonym 'a kresult = "kernel_error + 'a"

type_synonym datetime = int
type_synonym version = int
type_synonym nanoid = string

subsection \<open>External functions\<close>

text \<open>A relation tuple as Ory Keto stores it (\<open>RelationTuple\<close> of \<open>driver/src/keto.rs\<close>).\<close>

record relation_tuple =
  rt_namespace :: string
  rt_object :: string
  rt_relation :: string
  rt_subject_id :: string

type_synonym http_status = nat

text \<open>
  A request to Keto answers with a status and a body, or not at all (\<open>None\<close>); a body that does
  not parse is \<open>None\<close> again. The first argument is what Keto has stored, and the writing
  requests return what it has stored afterwards. \<open>hash_order\<close> is the order in which a
  \<open>HashMap\<close> enumerates its keys.
\<close>

record env =
  now_utc :: datetime
  from_unix_timestamp :: "int \<Rightarrow> datetime option"
  replace_nanosecond :: "datetime \<Rightarrow> int \<Rightarrow> datetime option"
  next_snowflake :: "int \<Rightarrow> int"
  random_nanoid :: "nat \<Rightarrow> nanoid"
  hash_order :: "int list \<Rightarrow> int list"
  keto_check :: "relation_tuple list \<Rightarrow> relation_tuple \<Rightarrow> (http_status \<times> bool option) option"
  keto_list :: "relation_tuple list \<Rightarrow> string \<Rightarrow> string \<Rightarrow>
    (http_status \<times> (relation_tuple list \<times> string) option) option"
  keto_put :: "relation_tuple list \<Rightarrow> relation_tuple \<Rightarrow> http_status option \<times> relation_tuple list"
  keto_delete :: "relation_tuple list \<Rightarrow> relation_tuple \<Rightarrow> http_status option \<times> relation_tuple list"

text \<open>
  \<open>OffsetDateTime::from_unix_timestamp\<close> succeeds for every second of the years 1970 to 9999
  and \<open>replace_nanosecond\<close> replaces the sub-second part by any number below \<open>10\<^sup>9\<close>.
\<close>

definition time_crate :: "env \<Rightarrow> bool" where
  "time_crate e \<longleftrightarrow>
     (\<forall>s. 0 \<le> s \<and> s \<le> 253402300799 \<longrightarrow> from_unix_timestamp e s = Some (s * 1000000000)) \<and>
     (\<forall>t n. 0 \<le> n \<and> n < 1000000000 \<longrightarrow>
        replace_nanosecond e t n = Some (t - t mod 1000000000 + n))"

text \<open>
  The \<open>ferroid\<close> generator returns a snowflake above the one it returned before.
\<close>

definition snowflake_crate :: "env \<Rightarrow> bool" where
  "snowflake_crate e \<longleftrightarrow> (\<forall>n. n < next_snowflake e n)"

text \<open>A \<open>HashMap\<close> enumerates each of its keys once.\<close>

definition hash_map :: "env \<Rightarrow> bool" where
  "hash_map e \<longleftrightarrow> (\<forall>ks. mset (hash_order e ks) = mset ks)"

text \<open>A concrete instance, used by the examples.\<close>

definition clock_env :: "datetime \<Rightarrow> env" where
  "clock_env now =
     \<lparr> now_utc = now,
       from_unix_timestamp =
         (\<lambda>s. if 0 \<le> s \<and> s \<le> 253402300799 then Some (s * 1000000000) else None),
       replace_nanosecond =
         (\<lambda>t n. if 0 \<le> n \<and> n < 1000000000 then Some (t - t mod 1000000000 + n) else None),
       next_snowflake = (\<lambda>n. n + 1),
       random_nanoid = (\<lambda>n. CHR ''n'' # nat_to_string n),
       hash_order = (\<lambda>ks. ks),
       keto_check = (\<lambda>s t. if t \<in> set s then Some (200, Some True) else Some (403, None)),
       keto_list = (\<lambda>s subject token.
         Some (200, Some (filter (\<lambda>t. rt_subject_id t = subject) s, []))),
       keto_put = (\<lambda>s t. (Some 201, if t \<in> set s then s else s @ [t])),
       keto_delete = (\<lambda>s t. (Some 204, filter (\<lambda>x. x \<noteq> t) s)) \<rparr>"

subsection \<open>Envelopes\<close>

datatype expected_version = Nothing | At version

record 'e event_envelope =
  ee_id :: int
  ee_event :: 'e
  ee_version :: version

text \<open>The \<open>event_name\<close> column is derived by a macro and is never read back; it is left out.\<close>

record 'e command_envelope =
  ce_id :: int
  ce_event :: 'e
  ce_prev_version :: "expected_version option"

subsection \<open>Snowflake identifiers\<close>

definition EMUMET_EPOCH_MS :: "64 word" where
  "EMUMET_EPOCH_MS = 1767225600 * 1000"

definition MAX_WORKER_ID :: "64 word" where
  "MAX_WORKER_ID = push_bit 10 1 - 1"

text \<open>
  The widths reserved 1, timestamp 41, machine 10 and sequence 12 put the timestamp above the
  lowest 22 bits.
\<close>

definition TIMESTAMP_SHIFT :: nat where
  "TIMESTAMP_SHIFT = 10 + 12"

definition TIMESTAMP_MASK :: "64 word" where
  "TIMESTAMP_MASK = mask 41"

definition extract_timestamp_ms :: "int \<Rightarrow> 64 word" where
  "extract_timestamp_ms raw =
     (let ts_offset = drop_bit TIMESTAMP_SHIFT (word_of_int raw) AND TIMESTAMP_MASK
      in ts_offset + EMUMET_EPOCH_MS)"

definition from_timestamp_ms :: "env \<Rightarrow> 64 word \<Rightarrow> datetime kresult" where
  "from_timestamp_ms e ms =
     (let secs = uint (ms div 1000);
          nanos = uint ((ms mod 1000) * 1000000)
      in res_bind (ok_or Internal (from_unix_timestamp e secs))
           (\<lambda>d. ok_or Internal (replace_nanosecond e d nanos)))"

text \<open>The instant a snowflake identifier stands for, as a reference for the above.\<close>

definition id_created_at :: "int \<Rightarrow> datetime" where
  "id_created_at raw = uint (extract_timestamp_ms raw) * 1000000"

subsection \<open>Field actions\<close>

datatype 'a field_action = Unchanged | Clear | Set 'a

definition is_unchanged :: "'a field_action \<Rightarrow> bool" where
  "is_unchanged a = (case a of Unchanged \<Rightarrow> True | _ \<Rightarrow> False)"

primrec field_action_map :: "('a \<Rightarrow> 'b) \<Rightarrow> 'a field_action \<Rightarrow> 'b field_action" where
  "field_action_map f Unchanged = Unchanged"
| "field_action_map f Clear = Clear"
| "field_action_map f (Set v) = Set (f v)"

text \<open>
  A serialised value is \<open>None\<close> for JSON \<open>null\<close>: serde writes \<open>None\<close> and \<open>Some(None)\<close>
  alike.
\<close>

primrec field_action_serialize :: "'a field_action \<Rightarrow> 'a option" where
  "field_action_serialize Unchanged = None"
| "field_action_serialize Clear = None"
| "field_action_serialize (Set v) = Some v"

definition field_action_deserialize :: "'a option \<Rightarrow> 'a field_action" where
  "field_action_deserialize v = (case v of None \<Rightarrow> Clear | Some x \<Rightarrow> Set x)"

text \<open>
  A struct field declared with \<open>default\<close> and \<open>skip_serializing_if = is_unchanged\<close>: the
  outer option is \<open>None\<close> when the key is absent.
\<close>

definition serialize_field :: "'a field_action \<Rightarrow> 'a option option" where
  "serialize_field a = (if is_unchanged a then None else Some (field_action_serialize a))"

definition deserialize_field :: "'a option option \<Rightarrow> 'a field_action" where
  "deserialize_field k = (case k of None \<Rightarrow> Unchanged | Some v \<Rightarrow> field_action_deserialize v)"

subsection \<open>Lemmas\<close>

lemma time_crateD:
  assumes "time_crate e"
  shows "0 \<le> s \<Longrightarrow> s \<le> 253402300799 \<Longrightarrow> from_unix_timestamp e s = Some (s * 1000000000)"
    and "0 \<le> n \<Longrightarrow> n < 1000000000 \<Longrightarrow>
           replace_nanosecond e t n = Some (t - t mod 1000000000 + n)"
  using assms by (auto simp: time_crate_def)

lemma time_crate_clock_env [simp]: "time_crate (clock_env now)"
  by (simp add: time_crate_def clock_env_def)

lemma snowflake_crate_clock_env [simp]: "snowflake_crate (clock_env now)"
  by (simp add: snowflake_crate_def clock_env_def)

lemma hash_map_clock_env [simp]: "hash_map (clock_env now)"
  by (simp add: hash_map_def clock_env_def)

lemma now_utc_clock_env [simp]: "now_utc (clock_env now) = now"
  by (simp add: clock_env_def)

lemma uint_ts_offset:
  "uint (drop_bit TIMESTAMP_SHIFT (word_of_int raw :: 64 word) AND TIMESTAMP_MASK)
     = (raw mod 2 ^ 64) div 2 ^ 22 mod 2 ^ 41"
proof -
  have "uint (drop_bit 22 (word_of_int raw :: 64 word)) = (raw mod 2 ^ 64) div 2 ^ 22"
    by (simp add: drop_bit_eq_div uint_div_distrib uint_word_of_int)
  then show ?thesis
    by (simp add: TIMESTAMP_SHIFT_def TIMESTAMP_MASK_def take_bit_eq_mask [symmetric]
        take_bit_eq_mod uint_mod_distrib)
qed

lemma uint_extract_timestamp_ms:
  "uint (extract_timestamp_ms raw) = (raw mod 2 ^ 64) div 2 ^ 22 mod 2 ^ 41 + 1767225600000"
proof -
  let ?o = "drop_bit TIMESTAMP_SHIFT (word_of_int raw :: 64 word) AND TIMESTAMP_MASK"
  have o: "uint ?o = (raw mod 2 ^ 64) div 2 ^ 22 mod 2 ^ 41" by (rule uint_ts_offset)
  then have "uint ?o < 2 ^ 41" by simp
  then have "uint ?o + uint EMUMET_EPOCH_MS < 2 ^ 64"
    by (simp add: EMUMET_EPOCH_MS_def)
  then have "uint (?o + EMUMET_EPOCH_MS) = uint ?o + uint EMUMET_EPOCH_MS"
    using uint_add_lem [of ?o EMUMET_EPOCH_MS] by simp
  with o show ?thesis
    by (simp add: extract_timestamp_ms_def EMUMET_EPOCH_MS_def)
qed

lemma uint_extract_timestamp_ms_bounds:
  "1767225600000 \<le> uint (extract_timestamp_ms raw)"
  "uint (extract_timestamp_ms raw) < 1767225600000 + 2 ^ 41"
  by (simp_all add: uint_extract_timestamp_ms)

text \<open>With the time crate, a snowflake identifier always yields its creation time.\<close>

lemma from_timestamp_ms_ok:
  assumes "time_crate e" and "uint ms < 253402300800 * 1000"
  shows "from_timestamp_ms e ms = Inr (uint ms * 1000000)"
proof -
  have secs: "uint (ms div 1000) = uint ms div 1000"
    by (simp add: uint_div_distrib)
  have m: "uint (ms mod 1000) = uint ms mod 1000"
    by (simp add: uint_mod_distrib)
  have "uint ((ms mod 1000) * 1000000) = (uint ms mod 1000) * 1000000"
  proof -
    have "uint (ms mod 1000) * uint (1000000 :: 64 word) < 2 ^ LENGTH(64)"
      by (simp add: m)
    then have "uint (ms mod 1000 * 1000000) = uint (ms mod 1000) * uint (1000000 :: 64 word)"
      by (rule iffD1 [OF uint_mult_lem])
    then show ?thesis by (simp add: m)
  qed
  moreover have "(uint ms mod 1000) * 1000000 < 1000000000"
    by simp
  moreover have "uint ms div 1000 \<le> 253402300799" using assms(2) by linarith
  moreover have "0 \<le> uint ms div 1000" by (simp add: pos_imp_zdiv_nonneg_iff)
  moreover have "uint ms div 1000 * 1000000000 + uint ms mod 1000 * 1000000 = uint ms * 1000000"
    using div_mult_mod_eq [of "uint ms" 1000] by linarith
  ultimately show ?thesis
    using time_crateD [OF assms(1)]
    by (simp add: from_timestamp_ms_def Let_def secs)
qed

lemma created_at_of_id:
  "time_crate e \<Longrightarrow> from_timestamp_ms e (extract_timestamp_ms raw) = Inr (id_created_at raw)"
  using uint_extract_timestamp_ms_bounds [of raw]
  by (subst from_timestamp_ms_ok) (auto simp: id_created_at_def)

lemma extract_timestamp_ms_mono:
  assumes "0 \<le> i" and "i \<le> j" and "j < 2 ^ 63"
  shows "uint (extract_timestamp_ms i) \<le> uint (extract_timestamp_ms j)"
proof -
  have "j div 2 ^ 22 < 2 ^ 41" and "i div 2 ^ 22 < 2 ^ 41" and "i div 2 ^ 22 \<le> j div 2 ^ 22"
    using assms by (auto simp: zdiv_mono1)
  moreover have "0 \<le> i div 2 ^ 22" and "0 \<le> j div 2 ^ 22"
    using assms by (auto simp: pos_imp_zdiv_nonneg_iff)
  ultimately show ?thesis using assms by (simp add: uint_extract_timestamp_ms)
qed

subsection \<open>Round trip of a field action\<close>

lemma field_action_roundtrip [simp]: "deserialize_field (serialize_field a) = a"
  by (cases a) (simp_all add: serialize_field_def deserialize_field_def is_unchanged_def
      field_action_deserialize_def)

lemma field_action_map_comp [simp]:
  "field_action_map f (field_action_map g a) = field_action_map (f \<circ> g) a"
  by (cases a) simp_all

lemma is_unchanged_map [simp]: "is_unchanged (field_action_map f a) = is_unchanged a"
  by (cases a) (simp_all add: is_unchanged_def)

end
