(* ===== verification/Event_Sourcing.thy ===== *)
theory Event_Sourcing
  imports Kernel_Base
begin

text \<open>
  Rehydration of event-sourced aggregates (\<open>kernel/src/repository/aggregate.rs\<close>) and the
  contract of the \<open>EventApplier\<close> trait (\<open>kernel/src/event.rs\<close>) that it rests on. The
  locale \<open>event_sourced\<close> states what an \<open>apply\<close> function promises: a successful step
  stamps the aggregate with the event's version, never changes its identity, and an empty
  aggregate is only left by creating one. \<open>undeletable\<close> adds that no event removes the
  aggregate. The account, profile and metadata theories interpret them.
\<close>

type_synonym ('a, 'e) applier = "'e event_envelope \<Rightarrow> 'a option \<Rightarrow> 'a option kresult"

record 'a rehydrated =
  rh_aggregate :: 'a
  rh_version :: version

definition from_events ::
  "('a, 'e) applier \<Rightarrow> 'e event_envelope list \<Rightarrow> 'a rehydrated option kresult" where
  "from_events app events =
     (if events = [] then Inr None
      else
        let version = ee_version (last events) in
        res_bind (res_fold app events None) (\<lambda>aggregate.
        res_bind (ok_or Internal aggregate) (\<lambda>a.
        Inr (Some \<lparr> rh_aggregate = a, rh_version = version \<rparr>))))"

definition from_events_allow_deletion ::
  "('a, 'e) applier \<Rightarrow> 'e event_envelope list \<Rightarrow> 'a rehydrated option kresult" where
  "from_events_allow_deletion app events =
     (if events = [] then Inr None
      else
        let version = ee_version (last events) in
        res_bind (res_fold app events None) (\<lambda>aggregate.
        Inr (map_option (\<lambda>a. \<lparr> rh_aggregate = a, rh_version = version \<rparr>) aggregate)))"

text \<open>All the events of a list belong to one stream.\<close>

definition same_stream :: "int \<Rightarrow> 'e event_envelope list \<Rightarrow> bool" where
  "same_stream i events = list_all (\<lambda>ev. ee_id ev = i) events"

lemma same_stream_run [simp]:
  "same_stream i []"
  "same_stream i (ev # evs) \<longleftrightarrow> ee_id ev = i \<and> same_stream i evs"
  "same_stream i (xs @ ys) \<longleftrightarrow> same_stream i xs \<and> same_stream i ys"
  by (simp_all add: same_stream_def)

lemma from_events_Nil [simp]:
  "from_events app [] = Inr None"
  "from_events_allow_deletion app [] = Inr None"
  by (simp_all add: from_events_def from_events_allow_deletion_def)

lemma from_events_snoc:
  "from_events app (evs @ [ev]) =
     res_bind (res_bind (res_fold app evs None) (app ev)) (\<lambda>m.
       res_bind (ok_or Internal m) (\<lambda>a.
         Inr (Some \<lparr> rh_aggregate = a, rh_version = ee_version ev \<rparr>)))"
  by (cases "res_fold app evs None")
    (simp_all add: from_events_def res_fold_append res_bind_assoc Let_def)

lemma from_events_SomeD:
  assumes "from_events app evs = Inr (Some r)"
  shows "res_fold app evs None = Inr (Some (rh_aggregate r))"
    and "evs \<noteq> []" and "rh_version r = ee_version (last evs)"
  using assms by (auto simp: from_events_def Let_def result_iffs split: if_splits)

lemma from_events_SomeI:
  assumes "res_fold app evs None = Inr (Some a)" and "evs \<noteq> []"
  shows "from_events app evs = Inr (Some \<lparr> rh_aggregate = a, rh_version = ee_version (last evs) \<rparr>)"
  using assms by (simp add: from_events_def Let_def)

text \<open>Rehydrating one more event is one more step from the rehydrated aggregate.\<close>

lemma from_events_step:
  assumes "from_events app evs = Inr (Some r)"
    and "app ev (Some (rh_aggregate r)) = Inr (Some a)"
  shows "from_events app (evs @ [ev]) =
           Inr (Some \<lparr> rh_aggregate = a, rh_version = ee_version ev \<rparr>)"
  using from_events_SomeD(1) [OF assms(1)] assms(2) by (simp add: from_events_snoc)

lemma from_events_step_error:
  assumes "from_events app evs = Inr (Some r)"
    and "app ev (Some (rh_aggregate r)) = Inl x"
  shows "from_events app (evs @ ev # rest) = Inl x"
  using from_events_SomeD(1) [OF assms(1)] assms(2)
  by (simp add: from_events_def Let_def res_fold_append)

text \<open>The fold that stands behind a successful rehydration succeeds on every prefix.\<close>

lemma res_fold_prefix:
  "res_fold f (xs @ ys) s = Inr t \<Longrightarrow> \<exists>u. res_fold f xs s = Inr u \<and> res_fold f ys u = Inr t"
  by (auto simp: res_fold_append res_bind_Inr_iff)

lemma allow_deletion_prefix:
  assumes "is_ok (from_events_allow_deletion app (xs @ ys))"
  shows "is_ok (from_events_allow_deletion app xs)"
  using assms res_fold_prefix [of app xs ys None]
  by (auto simp: from_events_allow_deletion_def is_ok_iff result_iffs Let_def split: if_splits)

subsection \<open>The contract of an event applier\<close>

locale event_sourced =
  fixes app :: "('a, 'e) applier"
    and agg_id :: "'a \<Rightarrow> int"
    and agg_version :: "'a \<Rightarrow> version"
  assumes stamps: "app ev m = Inr (Some a) \<Longrightarrow> agg_version a = ee_version ev"
    and keeps_id: "app ev (Some b) = Inr (Some a) \<Longrightarrow> agg_id a = agg_id b"
    and creates_id: "app ev None = Inr (Some a) \<Longrightarrow> agg_id a = ee_id ev"
    and creates: "app ev None \<noteq> Inr None"
begin

lemma fold_id:
  assumes "res_fold app evs m = Inr (Some a)"
    and "same_stream i evs" and "\<And>b. m = Some b \<Longrightarrow> agg_id b = i"
  shows "agg_id a = i"
  using assms
proof (induction evs arbitrary: m)
  case Nil
  then show ?case by simp
next
  case (Cons ev evs)
  from Cons.prems(1) obtain n where n: "app ev m = Inr n" and rest: "res_fold app evs n = Inr (Some a)"
    by (auto simp: res_bind_Inr_iff)
  have "agg_id b = i" if "n = Some b" for b
    using n that Cons.prems keeps_id creates_id by (cases m) auto
  with Cons.IH [OF rest] Cons.prems(2) show ?case by simp
qed

lemma fold_version:
  assumes "res_fold app evs m = Inr (Some a)" and "evs \<noteq> []"
  shows "agg_version a = ee_version (last evs)"
proof -
  from assms(2) obtain xs ev where evs: "evs = xs @ [ev]" by (metis rev_exhaust)
  with assms(1) obtain n where "app ev n = Inr (Some a)"
    by (auto simp: res_fold_append res_bind_Inr_iff)
  with evs show ?thesis by (simp add: stamps)
qed

lemma rehydrated_id:
  "from_events app evs = Inr (Some r) \<Longrightarrow> same_stream i evs \<Longrightarrow> agg_id (rh_aggregate r) = i"
  by (drule from_events_SomeD(1)) (rule fold_id, auto)

text \<open>The version kept beside the aggregate is the version inside it.\<close>

lemma rehydrated_version:
  assumes "from_events app evs = Inr (Some r)"
  shows "agg_version (rh_aggregate r) = rh_version r"
  using fold_version from_events_SomeD [OF assms] by simp

lemma allow_deletion_version:
  assumes "from_events_allow_deletion app evs = Inr (Some r)"
  shows "agg_version (rh_aggregate r) = rh_version r"
  using assms fold_version
  by (fastforce simp: from_events_allow_deletion_def Let_def result_iffs split: if_splits)

lemma allow_deletion_id:
  "from_events_allow_deletion app evs = Inr (Some r) \<Longrightarrow> same_stream i evs \<Longrightarrow>
     agg_id (rh_aggregate r) = i"
  by (auto simp: from_events_allow_deletion_def Let_def result_iffs split: if_splits
      intro: fold_id)

end

locale undeletable = event_sourced app agg_id agg_version
  for app :: "('a, 'e) applier" and agg_id :: "'a \<Rightarrow> int" and agg_version :: "'a \<Rightarrow> version" +
  assumes keeps: "app ev m \<noteq> Inr None"
begin

lemma fold_Some:
  assumes "res_fold app evs m = Inr n" and "m \<noteq> None \<or> evs \<noteq> []"
  shows "n \<noteq> None"
  using assms keeps by (induction evs arbitrary: m) (auto simp: res_bind_Inr_iff, fastforce+)

lemma allow_deletion_eq: "from_events_allow_deletion app evs = from_events app evs"
proof (cases "evs = []")
  case False
  then show ?thesis
    using fold_Some [of evs None]
    by (cases "res_fold app evs None")
      (auto simp: from_events_def from_events_allow_deletion_def Let_def)
qed simp

text \<open>A stream that rehydrates has only prefixes that rehydrate.\<close>

lemma prefix_rehydrates:
  "is_ok (from_events app (xs @ ys)) \<Longrightarrow> is_ok (from_events app xs)"
  using allow_deletion_prefix [of app xs ys] by (simp add: allow_deletion_eq)

end

end
