(* ===== verification/Event_Store.thy ===== *)
theory Event_Store
  imports Event_Sourcing
begin

text \<open>
  An event table (\<open>account_events\<close>, \<open>profile_events\<close> and \<open>metadata_events\<close> have the
  same columns) and the SQL statements that the three event stores of
  \<open>driver/src/database/postgres/*_event_store.rs\<close> run on it: the ordered read of one
  stream, the conditional insert that implements optimistic concurrency, and the tailing
  read by global sequence number. The primary key is the pair of identifier and version;
  the sequence number is a \<open>BIGSERIAL\<close>. The event column holds the event itself: it is
  written and read back by derived serialisation.
\<close>

record 'e event_row =
  er_seq :: int
  er_version :: version
  er_id :: int
  er_data :: 'e

record 'e event_table =
  et_rows :: "'e event_row list"
  et_next_seq :: int

definition event_row_try_from :: "'e event_row \<Rightarrow> 'e event_envelope" where
  "event_row_try_from r = \<lparr> ee_id = er_id r, ee_event = er_data r, ee_version = er_version r \<rparr>"

definition stream_rows :: "int \<Rightarrow> 'e event_table \<Rightarrow> 'e event_row list" where
  "stream_rows i t = filter (\<lambda>r. er_id r = i) (et_rows t)"

text \<open>\<open>SELECT MAX(version) FROM ... WHERE id = i\<close>, which is \<open>NULL\<close> without rows.\<close>

definition max_version :: "int \<Rightarrow> 'e event_table \<Rightarrow> version option" where
  "max_version i t =
     (case map er_version (stream_rows i t) of [] \<Rightarrow> None | v # vs \<Rightarrow> Some (fold max vs v))"

text \<open>\<open>INSERT\<close>, which the primary key may refuse.\<close>

definition insert_event :: "'e event_table \<Rightarrow> version \<Rightarrow> int \<Rightarrow> 'e \<Rightarrow> 'e event_table kresult" where
  "insert_event t version i data =
     (if list_ex (\<lambda>r. er_id r = i \<and> er_version r = version) (et_rows t) then Inl Internal
      else Inr \<lparr> et_rows = et_rows t @ [\<lparr> er_seq = et_next_seq t, er_version = version, er_id = i,
                                          er_data = data \<rparr>],
                 et_next_seq = et_next_seq t + 1 \<rparr>)"

text \<open>\<open>INSERT ... SELECT ... WHERE cond\<close> with the number of rows affected.\<close>

definition insert_event_where ::
  "bool \<Rightarrow> 'e event_table \<Rightarrow> version \<Rightarrow> int \<Rightarrow> 'e \<Rightarrow> ('e event_table \<times> nat) kresult" where
  "insert_event_where cond t version i data =
     (if cond then res_map (\<lambda>t'. (t', 1)) (insert_event t version i data) else Inr (t, 0))"

definition find_by_id :: "'e event_table \<Rightarrow> int \<Rightarrow> version option \<Rightarrow> 'e event_envelope list" where
  "find_by_id t i since =
     (let rows =
        (case since of
           Some version \<Rightarrow>
             sort_key er_version (filter (\<lambda>r. er_id r = i \<and> version < er_version r) (et_rows t))
         | None \<Rightarrow> sort_key er_version (filter (\<lambda>r. er_id r = i) (et_rows t)))
      in map event_row_try_from rows)"

definition persist_internal ::
  "'e event_table \<Rightarrow> 'e command_envelope \<Rightarrow> version \<Rightarrow> 'e event_table kresult" where
  "persist_internal t command version =
     (let i = ce_id command; data = ce_event command; prev_version = ce_prev_version command in
      res_bind
        (case prev_version of
           Some Nothing \<Rightarrow> insert_event_where (\<not> list_ex (\<lambda>r. er_id r = i) (et_rows t)) t version i data
         | Some (At prev) \<Rightarrow> insert_event_where (max_version i t = Some prev) t version i data
         | None \<Rightarrow> insert_event_where True t version i data)
        (\<lambda>(t', rows_affected).
           if prev_version \<noteq> None \<and> rows_affected = 0 then Inl Concurrency else Inr t'))"

definition envelope_of :: "'e command_envelope \<Rightarrow> version \<Rightarrow> 'e event_envelope" where
  "envelope_of command version =
     \<lparr> ee_id = ce_id command, ee_event = ce_event command, ee_version = version \<rparr>"

definition persist_and_transform ::
  "'e event_table \<Rightarrow> 'e command_envelope \<Rightarrow> version \<Rightarrow> ('e event_envelope \<times> 'e event_table) kresult" where
  "persist_and_transform t command version =
     res_map (\<lambda>t'. (envelope_of command version, t')) (persist_internal t command version)"

text \<open>\<open>SELECT ... WHERE seq > from ORDER BY seq LIMIT n\<close>.\<close>

definition find_by_seq_window :: "'e event_table \<Rightarrow> int \<Rightarrow> nat \<Rightarrow> 'e event_row list" where
  "find_by_seq_window t from_exclusive limit =
     take limit (sort_key er_seq (filter (\<lambda>r. from_exclusive < er_seq r) (et_rows t)))"

subsection \<open>Well-formed tables\<close>

definition wf_event_table :: "'e event_table \<Rightarrow> bool" where
  "wf_event_table t \<longleftrightarrow>
     sorted_wrt (<) (map er_seq (et_rows t)) \<and>
     (\<forall>r \<in> set (et_rows t). er_seq r < et_next_seq t) \<and>
     distinct (map (\<lambda>r. (er_id r, er_version r)) (et_rows t))"

text \<open>A version that lies above every version of the table, as a fresh snowflake does.\<close>

definition fresh_version :: "'e event_table \<Rightarrow> version \<Rightarrow> bool" where
  "fresh_version t v = list_all (\<lambda>r. er_version r < v) (et_rows t)"

definition empty_event_table :: "'e event_table" where
  "empty_event_table = \<lparr> et_rows = [], et_next_seq = 1 \<rparr>"

subsection \<open>Lemmas\<close>

lemma wf_empty_event_table [simp]: "wf_event_table empty_event_table"
  by (simp add: wf_event_table_def empty_event_table_def)

lemma fold_max_Max: "fold max vs v = Max (set (v # vs))"
  by (metis Max.set_eq_fold)

lemma max_version_None: "max_version i t = None \<longleftrightarrow> stream_rows i t = []"
  by (auto simp: max_version_def split: list.splits)

lemma max_version_Some:
  "max_version i t = Some v \<longleftrightarrow>
     stream_rows i t \<noteq> [] \<and> v = Max (er_version ` set (stream_rows i t))"
  by (cases "stream_rows i t") (auto simp: max_version_def fold_max_Max)

lemma max_version_in:
  assumes "max_version i t = Some v"
  shows "\<exists>r \<in> set (et_rows t). er_id r = i \<and> er_version r = v"
proof -
  from assms have "v \<in> er_version ` set (stream_rows i t)"
    using Max_in [of "er_version ` set (stream_rows i t)"] by (simp add: max_version_Some)
  then show ?thesis by (auto simp: stream_rows_def)
qed

lemma insert_event_Inr_iff:
  "insert_event t v i d = Inr t' \<longleftrightarrow>
     (\<forall>r \<in> set (et_rows t). er_id r = i \<longrightarrow> er_version r \<noteq> v) \<and>
     t' = \<lparr> et_rows = et_rows t @ [\<lparr> er_seq = et_next_seq t, er_version = v, er_id = i, er_data = d \<rparr>],
            et_next_seq = et_next_seq t + 1 \<rparr>"
  by (auto simp: insert_event_def list_ex_iff)

text \<open>What an expected version asks of the table.\<close>

definition expectation_met :: "'e event_table \<Rightarrow> 'e command_envelope \<Rightarrow> bool" where
  "expectation_met t command =
     (case ce_prev_version command of
        None \<Rightarrow> True
      | Some Nothing \<Rightarrow> max_version (ce_id command) t = None
      | Some (At v) \<Rightarrow> max_version (ce_id command) t = Some v)"

lemma persist_internal_eq:
  "persist_internal t command v =
     (if expectation_met t command
      then insert_event t v (ce_id command) (ce_event command)
      else Inl Concurrency)"
proof -
  have ex: "list_ex (\<lambda>r. er_id r = ce_id command) (et_rows t) \<longleftrightarrow> max_version (ce_id command) t \<noteq> None"
    by (auto simp: max_version_None stream_rows_def list_ex_iff filter_empty_conv)
  show ?thesis
    by (cases "ce_prev_version command";
        cases "insert_event t v (ce_id command) (ce_event command)")
      (auto simp: persist_internal_def expectation_met_def insert_event_where_def Let_def ex
        split: expected_version.splits)
qed

lemma persist_internal_Inr_iff:
  "persist_internal t command v = Inr t' \<longleftrightarrow>
     expectation_met t command \<and> insert_event t v (ce_id command) (ce_event command) = Inr t'"
  by (auto simp: persist_internal_eq)

lemma persist_internal_wf:
  assumes "wf_event_table t" and "persist_internal t command v = Inr t'"
  shows "wf_event_table t'"
  using assms
  by (auto simp: persist_internal_Inr_iff insert_event_Inr_iff wf_event_table_def sorted_wrt_append
      image_iff)

lemma fresh_version_no_clash:
  "fresh_version t v \<Longrightarrow> r \<in> set (et_rows t) \<Longrightarrow> er_version r \<noteq> v"
  by (auto simp: fresh_version_def list_all_iff)

lemma persist_fresh:
  assumes "fresh_version t v" and "expectation_met t command"
  shows "persist_internal t command v =
     Inr \<lparr> et_rows = et_rows t @ [\<lparr> er_seq = et_next_seq t, er_version = v, er_id = ce_id command,
                                    er_data = ce_event command \<rparr>],
           et_next_seq = et_next_seq t + 1 \<rparr>"
  using assms fresh_version_no_clash [OF assms(1)]
  by (auto simp: persist_internal_Inr_iff insert_event_Inr_iff)

lemma find_by_id_all: "find_by_id t i None = map event_row_try_from (sort_key er_version (stream_rows i t))"
  by (simp add: find_by_id_def stream_rows_def)

lemma find_by_id_since:
  "find_by_id t i (Some v) = filter (\<lambda>ev. v < ee_version ev) (find_by_id t i None)"
proof -
  have "filter (\<lambda>r. er_id r = i \<and> v < er_version r) (et_rows t) =
        filter (\<lambda>r. v < er_version r) (stream_rows i t)"
    by (simp add: stream_rows_def conj_commute)
  then show ?thesis
    by (simp add: find_by_id_all) (simp add: find_by_id_def filter_map filter_sort_key o_def
        event_row_try_from_def)
qed

lemma event_row_try_from_run [simp]:
  "ee_version (event_row_try_from r) = er_version r"
  "ee_id (event_row_try_from r) = er_id r"
  "ee_event (event_row_try_from r) = er_data r"
  by (simp_all add: event_row_try_from_def)

lemma find_by_id_sorted: "sorted (map ee_version (find_by_id t i None))"
  by (simp add: find_by_id_all o_def)

lemma find_by_id_same_stream: "same_stream i (find_by_id t i since)"
  by (cases since)
    (auto simp: find_by_id_def same_stream_def list_all_iff event_row_try_from_def)

lemma find_by_id_Nil: "find_by_id t i None = [] \<longleftrightarrow> max_version i t = None"
  by (simp add: find_by_id_all max_version_None)

text \<open>The version of the last event of a stream is the maximum the conditional insert compares.\<close>

lemma last_version_is_max:
  assumes "find_by_id t i None \<noteq> []"
  shows "max_version i t = Some (ee_version (last (find_by_id t i None)))"
proof -
  let ?s = "sort_key er_version (stream_rows i t)"
  have ne: "?s \<noteq> []" using assms by (simp add: find_by_id_all)
  then have "er_version (last ?s) = Max (er_version ` set ?s)"
    using sorted_key_last [of er_version ?s] last_in_set [OF ne]
    by (intro Max_eqI [symmetric]) (auto simp del: sort_key_Nil_iff)
  with ne show ?thesis
    by (simp add: max_version_Some find_by_id_all last_map event_row_try_from_def)
qed

lemma find_after_persist_same:
  assumes "fresh_version t v" and "persist_internal t command v = Inr t'"
  shows "find_by_id t' (ce_id command) None = find_by_id t (ce_id command) None @ [envelope_of command v]"
proof -
  let ?r = "\<lparr> er_seq = et_next_seq t, er_version = v, er_id = ce_id command, er_data = ce_event command \<rparr>"
  have "stream_rows (ce_id command) t' = stream_rows (ce_id command) t @ [?r]"
    using assms(2) by (auto simp: persist_internal_Inr_iff insert_event_Inr_iff stream_rows_def)
  moreover have "sort_key er_version (stream_rows (ce_id command) t @ [?r]) =
      sort_key er_version (stream_rows (ce_id command) t) @ [?r]"
    using assms(1) by (intro sort_key_snoc_max) (auto simp: stream_rows_def fresh_version_def list_all_iff less_imp_le)
  ultimately show ?thesis
    by (simp add: find_by_id_all event_row_try_from_def envelope_of_def)
qed

lemma find_after_persist_other:
  assumes "persist_internal t command v = Inr t'" and "i \<noteq> ce_id command"
  shows "find_by_id t' i s = find_by_id t i s"
  using assms
  by (auto simp: persist_internal_Inr_iff insert_event_Inr_iff find_by_id_def split: option.splits)

text \<open>The versions of one stream are distinct.\<close>

lemma find_by_id_distinct:
  assumes "wf_event_table t"
  shows "distinct (map ee_version (find_by_id t i None))"
proof -
  have "distinct (map (\<lambda>r. (er_id r, er_version r)) (stream_rows i t))"
    using assms by (auto simp: wf_event_table_def stream_rows_def distinct_map_filter)
  then have "inj_on er_version (set (stream_rows i t))" and "distinct (stream_rows i t)"
    by (auto simp: distinct_map inj_on_def stream_rows_def)
  then show ?thesis by (simp add: find_by_id_all o_def distinct_map)
qed

end
