(* ===== verification/Account_Aggregate.thy ===== *)
theory Account_Aggregate
  imports Event_Sourcing
begin

text \<open>
  The account aggregate of \<open>kernel/src/entity/account.rs\<close>: the entity, its events, the
  commands that propose an event and the \<open>apply\<close> function that replays one. Replay is
  compared with an abstract life cycle (active, suspended or banned, and deactivated or not),
  given as a step relation. \<open>DeletedAt::now()\<close> reads the clock of the environment.
\<close>

type_synonym account_id = int
type_synonym auth_account_id = int

datatype account_status =
    Active
  | Suspended string datetime "datetime option"
  | Banned string datetime

record account =
  acc_id :: account_id
  acc_name :: string
  acc_is_bot :: bool
  acc_status :: account_status
  acc_deleted_at :: "datetime option"
  acc_version :: version
  acc_nanoid :: nanoid
  acc_created_at :: datetime

datatype account_event =
    AccountCreated string bool nanoid auth_account_id
  | AccountUpdated bool
  | AccountDeactivated
  | AccountSuspended string datetime "datetime option"
  | AccountUnsuspended
  | AccountBanned string datetime
  | AccountUnbanned
  | AccountReactivated

fun is_active :: "account_status \<Rightarrow> bool" where
  "is_active Active = True"
| "is_active _ = False"

fun is_suspended :: "account_status \<Rightarrow> bool" where
  "is_suspended (Suspended _ _ _) = True"
| "is_suspended _ = False"

fun is_banned :: "account_status \<Rightarrow> bool" where
  "is_banned (Banned _ _) = True"
| "is_banned _ = False"

subsection \<open>Commands\<close>

type_synonym account_command = "account_event command_envelope"

definition account_create ::
  "account_id \<Rightarrow> string \<Rightarrow> bool \<Rightarrow> nanoid \<Rightarrow> auth_account_id \<Rightarrow> account_command" where
  "account_create i name is_bot nanoid auth_account_id =
     \<lparr> ce_id = i, ce_event = AccountCreated name is_bot nanoid auth_account_id,
       ce_prev_version = Some Nothing \<rparr>"

definition account_update :: "account_id \<Rightarrow> bool \<Rightarrow> version \<Rightarrow> account_command" where
  "account_update i is_bot current_version =
     \<lparr> ce_id = i, ce_event = AccountUpdated is_bot, ce_prev_version = Some (At current_version) \<rparr>"

definition account_deactivate :: "account_id \<Rightarrow> version \<Rightarrow> account_command" where
  "account_deactivate i current_version =
     \<lparr> ce_id = i, ce_event = AccountDeactivated, ce_prev_version = Some (At current_version) \<rparr>"

definition account_suspend ::
  "env \<Rightarrow> account_id \<Rightarrow> string \<Rightarrow> datetime option \<Rightarrow> version \<Rightarrow> account_command" where
  "account_suspend e i reason expires_at current_version =
     \<lparr> ce_id = i, ce_event = AccountSuspended reason (now_utc e) expires_at,
       ce_prev_version = Some (At current_version) \<rparr>"

definition account_unsuspend :: "account_id \<Rightarrow> version \<Rightarrow> account_command" where
  "account_unsuspend i current_version =
     \<lparr> ce_id = i, ce_event = AccountUnsuspended, ce_prev_version = Some (At current_version) \<rparr>"

definition account_ban :: "env \<Rightarrow> account_id \<Rightarrow> string \<Rightarrow> version \<Rightarrow> account_command" where
  "account_ban e i reason current_version =
     \<lparr> ce_id = i, ce_event = AccountBanned reason (now_utc e),
       ce_prev_version = Some (At current_version) \<rparr>"

definition account_unban :: "account_id \<Rightarrow> version \<Rightarrow> account_command" where
  "account_unban i current_version =
     \<lparr> ce_id = i, ce_event = AccountUnbanned, ce_prev_version = Some (At current_version) \<rparr>"

definition account_reactivate :: "account_id \<Rightarrow> version \<Rightarrow> account_command" where
  "account_reactivate i current_version =
     \<lparr> ce_id = i, ce_event = AccountReactivated, ce_prev_version = Some (At current_version) \<rparr>"

subsection \<open>Replay\<close>

definition account_apply :: "env \<Rightarrow> (account, account_event) applier" where
  "account_apply e ev entity =
     (case ee_event ev of
        AccountCreated name is_bot nano_id _ \<Rightarrow>
          (case entity of
             Some _ \<Rightarrow> Inl Internal
           | None \<Rightarrow>
               res_bind (from_timestamp_ms e (extract_timestamp_ms (ee_id ev))) (\<lambda>created_at.
               Inr (Some \<lparr> acc_id = ee_id ev, acc_name = name, acc_is_bot = is_bot,
                           acc_status = Active, acc_deleted_at = None,
                           acc_version = ee_version ev, acc_nanoid = nano_id,
                           acc_created_at = created_at \<rparr>)))
      | AccountUpdated is_bot \<Rightarrow>
          (case entity of
             Some a \<Rightarrow> Inr (Some (a \<lparr> acc_is_bot := is_bot, acc_version := ee_version ev \<rparr>))
           | None \<Rightarrow> Inl Internal)
      | AccountDeactivated \<Rightarrow>
          (case entity of
             Some a \<Rightarrow>
               if acc_deleted_at a \<noteq> None then Inl Internal
               else Inr (Some (a \<lparr> acc_deleted_at := Some (now_utc e),
                                   acc_version := ee_version ev \<rparr>))
           | None \<Rightarrow> Inl Internal)
      | AccountSuspended reason suspended_at expires_at \<Rightarrow>
          (case entity of
             Some a \<Rightarrow>
               if \<not> is_active (acc_status a) then Inl Internal
               else if acc_deleted_at a \<noteq> None then Inl Internal
               else Inr (Some (a \<lparr> acc_status := Suspended reason suspended_at expires_at,
                                   acc_version := ee_version ev \<rparr>))
           | None \<Rightarrow> Inl Internal)
      | AccountUnsuspended \<Rightarrow>
          (case entity of
             Some a \<Rightarrow>
               if \<not> is_suspended (acc_status a) then Inl Internal
               else Inr (Some (a \<lparr> acc_status := Active, acc_version := ee_version ev \<rparr>))
           | None \<Rightarrow> Inl Internal)
      | AccountBanned reason banned_at \<Rightarrow>
          (case entity of
             Some a \<Rightarrow>
               if is_banned (acc_status a) then Inl Internal
               else if acc_deleted_at a \<noteq> None then Inl Internal
               else Inr (Some (a \<lparr> acc_status := Banned reason banned_at,
                                   acc_version := ee_version ev \<rparr>))
           | None \<Rightarrow> Inl Internal)
      | AccountUnbanned \<Rightarrow>
          (case entity of
             Some a \<Rightarrow>
               if \<not> is_banned (acc_status a) then Inl Internal
               else Inr (Some (a \<lparr> acc_status := Active, acc_version := ee_version ev \<rparr>))
           | None \<Rightarrow> Inl Internal)
      | AccountReactivated \<Rightarrow>
          (case entity of
             Some a \<Rightarrow>
               if acc_deleted_at a = None then Inl Internal
               else Inr (Some (a \<lparr> acc_deleted_at := None, acc_version := ee_version ev \<rparr>))
           | None \<Rightarrow> Inl Internal))"

subsection \<open>The abstract life cycle\<close>

datatype moderation = M_Active | M_Suspended | M_Banned

record phase =
  ph_moderation :: moderation
  ph_deactivated :: bool

fun moderation_of :: "account_status \<Rightarrow> moderation" where
  "moderation_of Active = M_Active"
| "moderation_of (Suspended _ _ _) = M_Suspended"
| "moderation_of (Banned _ _) = M_Banned"

definition phase_of :: "account \<Rightarrow> phase" where
  "phase_of a =
     \<lparr> ph_moderation = moderation_of (acc_status a), ph_deactivated = acc_deleted_at a \<noteq> None \<rparr>"

inductive lifecycle :: "account_event \<Rightarrow> phase option \<Rightarrow> phase option \<Rightarrow> bool" where
  lc_created: "lifecycle (AccountCreated nm b nid auth) None
     (Some \<lparr> ph_moderation = M_Active, ph_deactivated = False \<rparr>)"
| lc_updated: "lifecycle (AccountUpdated b) (Some p) (Some p)"
| lc_deactivated: "\<not> ph_deactivated p \<Longrightarrow>
     lifecycle AccountDeactivated (Some p) (Some (p \<lparr> ph_deactivated := True \<rparr>))"
| lc_suspended: "ph_moderation p = M_Active \<Longrightarrow> \<not> ph_deactivated p \<Longrightarrow>
     lifecycle (AccountSuspended r t x) (Some p) (Some (p \<lparr> ph_moderation := M_Suspended \<rparr>))"
| lc_unsuspended: "ph_moderation p = M_Suspended \<Longrightarrow>
     lifecycle AccountUnsuspended (Some p) (Some (p \<lparr> ph_moderation := M_Active \<rparr>))"
| lc_banned: "ph_moderation p \<noteq> M_Banned \<Longrightarrow> \<not> ph_deactivated p \<Longrightarrow>
     lifecycle (AccountBanned r t) (Some p) (Some (p \<lparr> ph_moderation := M_Banned \<rparr>))"
| lc_unbanned: "ph_moderation p = M_Banned \<Longrightarrow>
     lifecycle AccountUnbanned (Some p) (Some (p \<lparr> ph_moderation := M_Active \<rparr>))"
| lc_reactivated: "ph_deactivated p \<Longrightarrow>
     lifecycle AccountReactivated (Some p) (Some (p \<lparr> ph_deactivated := False \<rparr>))"

inductive_simps lifecycle_simps:
  "lifecycle (AccountCreated nm b nid auth) p q"
  "lifecycle (AccountUpdated b) p q"
  "lifecycle AccountDeactivated p q"
  "lifecycle (AccountSuspended r t x) p q"
  "lifecycle AccountUnsuspended p q"
  "lifecycle (AccountBanned r t) p q"
  "lifecycle AccountUnbanned p q"
  "lifecycle AccountReactivated p q"

text \<open>What never changes in the life of an account, and all but the deactivation time.\<close>

definition account_identity :: "account \<Rightarrow> account_id \<times> string \<times> nanoid \<times> datetime" where
  "account_identity a = (acc_id a, acc_name a, acc_nanoid a, acc_created_at a)"

definition forget_deleted_at :: "account \<Rightarrow> account" where
  "forget_deleted_at a = a \<lparr> acc_deleted_at := map_option (\<lambda>_. 0) (acc_deleted_at a) \<rparr>"

lemmas account_command_defs =
  account_create_def account_update_def account_deactivate_def account_suspend_def
  account_unsuspend_def account_ban_def account_unban_def account_reactivate_def

lemmas account_apply_splits = account_event.splits option.splits if_splits

lemma phase_of_run [simp]:
  "ph_moderation (phase_of a) = moderation_of (acc_status a)"
  "ph_deactivated (phase_of a) \<longleftrightarrow> acc_deleted_at a \<noteq> None"
  by (simp_all add: phase_of_def)

lemma moderation_of_iff [simp]:
  "moderation_of s = M_Active \<longleftrightarrow> is_active s"
  "moderation_of s = M_Suspended \<longleftrightarrow> is_suspended s"
  "moderation_of s = M_Banned \<longleftrightarrow> is_banned s"
  by (cases s; simp)+

lemma status_exclusive:
  "is_suspended s \<Longrightarrow> \<not> is_banned s" "is_active s \<Longrightarrow> \<not> is_banned s" "is_active s \<Longrightarrow> \<not> is_suspended s"
  by (cases s; simp)+

interpretation acct: undeletable "account_apply e" acc_id acc_version for e
  by unfold_locales
    (auto simp: account_apply_def result_iffs split: account_event.split_asm option.split_asm if_split_asm)

text \<open>The identity of an account is fixed by its first event.\<close>

lemma account_apply_identity:
  "account_apply e ev (Some a) = Inr (Some b) \<Longrightarrow> account_identity b = account_identity a"
  by (auto simp: account_apply_def account_identity_def
      split: account_event.split_asm if_split_asm)

lemma account_fold_identity:
  assumes "res_fold (account_apply e) evs (Some a) = Inr (Some b)"
  shows "account_identity b = account_identity a"
  using assms
proof (induction evs arbitrary: a)
  case Nil
  then show ?case by simp
next
  case (Cons ev evs)
  then obtain m where m: "account_apply e ev (Some a) = Inr m"
    and rest: "res_fold (account_apply e) evs m = Inr (Some b)"
    by (auto simp: res_bind_Inr_iff)
  then obtain c where "m = Some c" using acct.keeps by (cases m) auto
  with m rest Cons.IH show ?case by (metis account_apply_identity)
qed

lemma account_apply_None:
  "account_apply e ev None = Inr m \<longleftrightarrow>
     (\<exists>nm b nid auth t. ee_event ev = AccountCreated nm b nid auth \<and>
        from_timestamp_ms e (extract_timestamp_ms (ee_id ev)) = Inr t \<and>
        m = Some \<lparr> acc_id = ee_id ev, acc_name = nm, acc_is_bot = b, acc_status = Active,
                   acc_deleted_at = None, acc_version = ee_version ev, acc_nanoid = nid,
                   acc_created_at = t \<rparr>)"
  by (auto simp: account_apply_def result_iffs split: account_event.splits)

text \<open>
  A created event is never applied to an existing account, so an account stream that
  rehydrates has exactly one, in front.
\<close>

lemma account_apply_not_created:
  "account_apply e ev (Some a) = Inr m \<Longrightarrow> ee_event ev \<noteq> AccountCreated nm b nid auth"
  by (auto simp: account_apply_def)

lemma account_fold_no_creation:
  assumes "res_fold (account_apply e) evs (Some a) = Inr m" and "ev \<in> set evs"
  shows "ee_event ev \<noteq> AccountCreated nm b nid auth"
  using assms
proof (induction evs arbitrary: a)
  case Nil
  then show ?case by simp
next
  case (Cons x evs)
  from Cons.prems(1) obtain n where n: "account_apply e x (Some a) = Inr n"
    and rest: "res_fold (account_apply e) evs n = Inr m"
    by (auto simp: res_bind_Inr_iff)
  then obtain c where "n = Some c" using acct.keeps by (cases n) auto
  with n rest Cons show ?case by (auto dest: account_apply_not_created)
qed

subsection \<open>Replay refines the life cycle\<close>

lemma account_apply_sound:
  assumes "account_apply e ev m = Inr n"
  shows "lifecycle (ee_event ev) (map_option phase_of m) (map_option phase_of n)"
  using assms
  by (auto simp: account_apply_def lifecycle_simps result_iffs phase_of_def
      split: account_event.split_asm option.split_asm if_split_asm)

lemma account_apply_complete:
  assumes "time_crate e" and "lifecycle (ee_event ev) (map_option phase_of m) p"
  shows "\<exists>n. account_apply e ev m = Inr n \<and> map_option phase_of n = p"
  using assms(2)
  by (cases "ee_event ev")
    (auto simp: lifecycle_simps account_apply_def created_at_of_id [OF assms(1)] phase_of_def
      status_exclusive)

lemma account_apply_error:
  assumes "time_crate e" and "account_apply e ev m = Inl x"
  shows "x = Internal"
  using assms(2)
  by (auto simp: account_apply_def created_at_of_id [OF assms(1)]
      split: account_event.split_asm option.split_asm if_split_asm)

lemma lifecycle_deterministic: "lifecycle x p q \<Longrightarrow> lifecycle x p r \<Longrightarrow> q = r"
  by (cases x) (auto simp: lifecycle_simps)

subsection \<open>Replay at two times\<close>

lemma forget_deleted_at_None [simp]:
  "acc_deleted_at (forget_deleted_at a) = None \<longleftrightarrow> acc_deleted_at a = None"
  by (simp add: forget_deleted_at_def)

lemma forget_deleted_at_fields [simp]:
  "acc_id (forget_deleted_at a) = acc_id a" "acc_name (forget_deleted_at a) = acc_name a"
  "acc_is_bot (forget_deleted_at a) = acc_is_bot a" "acc_status (forget_deleted_at a) = acc_status a"
  "acc_version (forget_deleted_at a) = acc_version a" "acc_nanoid (forget_deleted_at a) = acc_nanoid a"
  "acc_created_at (forget_deleted_at a) = acc_created_at a"
  by (simp_all add: forget_deleted_at_def)

lemma account_apply_two_clocks:
  assumes "time_crate e" and "time_crate e'"
    and "map_option forget_deleted_at m = map_option forget_deleted_at m'"
  shows "res_map (map_option forget_deleted_at) (account_apply e ev m) =
         res_map (map_option forget_deleted_at) (account_apply e' ev m')"
proof (cases m)
  case None
  with assms show ?thesis
    by (cases "ee_event ev") (auto simp: account_apply_def created_at_of_id)
next
  case (Some a)
  with assms(3) obtain b where b: "m' = Some b" and eq: "forget_deleted_at a = forget_deleted_at b"
    by (cases m') auto
  show ?thesis
    using eq by (cases "ee_event ev"; cases a; cases b)
      (auto simp: account_apply_def Some b forget_deleted_at_def eq_commute [of "Some 0"])
qed

lemma account_fold_two_clocks:
  assumes "time_crate e" and "time_crate e'"
    and "map_option forget_deleted_at m = map_option forget_deleted_at m'"
  shows "res_map (map_option forget_deleted_at) (res_fold (account_apply e) evs m) =
         res_map (map_option forget_deleted_at) (res_fold (account_apply e') evs m')"
  using assms(3)
proof (induction evs arbitrary: m m')
  case Nil
  then show ?case by simp
next
  case (Cons ev evs)
  note one = account_apply_two_clocks [OF assms(1,2) Cons.prems, of ev]
  then show ?case
    by (cases "account_apply e ev m"; cases "account_apply e' ev m'") (auto intro: Cons.IH)
qed

subsection \<open>Properties of replay\<close>

text \<open>A stream of two events and the account it stands for, used by the examples.\<close>

definition example_stream :: "account_event event_envelope list" where
  "example_stream =
     [\<lparr> ee_id = 7, ee_event = AccountCreated ''alice'' False ''n1'' 3, ee_version = 9 \<rparr>,
      \<lparr> ee_id = 7, ee_event = AccountUpdated True, ee_version = 10 \<rparr>]"

definition example_rehydrated :: "account rehydrated" where
  "example_rehydrated =
     \<lparr> rh_aggregate = \<lparr> acc_id = 7, acc_name = ''alice'', acc_is_bot = True, acc_status = Active,
         acc_deleted_at = None, acc_version = 10, acc_nanoid = ''n1'',
         acc_created_at = id_created_at 7 \<rparr>, rh_version = 10 \<rparr>"

text \<open>C1. Replay refines the life cycle: an event is accepted exactly when the life cycle allows
  it in the phase of the account, and leads to the phase the life cycle prescribes.\<close>

theorem account_apply_refines_lifecycle:
  assumes "time_crate e"
  shows "(\<exists>n. account_apply e ev m = Inr n \<and> map_option phase_of n = p) \<longleftrightarrow>
         lifecycle (ee_event ev) (map_option phase_of m) p"
  using account_apply_sound account_apply_complete [OF assms] by blast

theorem account_apply_refines_lifecycle_witness:
  "\<exists>n. account_apply (clock_env 0)
          \<lparr> ee_id = 7, ee_event = AccountCreated ''alice'' False ''n1'' 3, ee_version = 9 \<rparr> None = Inr n \<and>
       map_option phase_of n = Some \<lparr> ph_moderation = M_Active, ph_deactivated = False \<rparr>"
  by (subst account_apply_refines_lifecycle) (simp_all add: lifecycle_simps)

text \<open>C16. A stream that rehydrates begins with the only creation event of the stream, which fixes
  the account's identifier, name and nanoid; the version kept beside the aggregate is the
  version in it and the version of the last event.\<close>

theorem account_stream_identity:
  assumes "from_events (account_apply e) evs = Inr (Some r)" and "same_stream i evs"
  shows "\<exists>nm b nid auth.
     ee_event (hd evs) = AccountCreated nm b nid auth \<and>
     (\<forall>ev \<in> set (tl evs). \<forall>nm' b' nid' auth'. ee_event ev \<noteq> AccountCreated nm' b' nid' auth') \<and>
     acc_id (rh_aggregate r) = i \<and> acc_name (rh_aggregate r) = nm \<and>
     acc_nanoid (rh_aggregate r) = nid \<and>
     acc_version (rh_aggregate r) = rh_version r \<and> rh_version r = ee_version (last evs)"
proof -
  from from_events_SomeD [OF assms(1)] obtain ev rest
    where evs: "evs = ev # rest"
      and fold: "res_fold (account_apply e) evs None = Inr (Some (rh_aggregate r))"
      and ver: "rh_version r = ee_version (last evs)"
    by (metis list.exhaust)
  then obtain a where a: "account_apply e ev None = Inr (Some a)"
    and rest: "res_fold (account_apply e) rest (Some a) = Inr (Some (rh_aggregate r))"
    by (auto simp: res_bind_Inr_iff account_apply_None)
  have "account_identity (rh_aggregate r) = account_identity a"
    by (rule account_fold_identity [OF rest])
  moreover from a obtain nm b nid auth where
    "ee_event ev = AccountCreated nm b nid auth" "acc_name a = nm" "acc_nanoid a = nid"
    by (auto simp: account_apply_None)
  moreover note account_fold_no_creation [OF rest]
  moreover note acct.rehydrated_id [OF assms] acct.rehydrated_version [OF assms(1)]
  ultimately show ?thesis using evs ver by (auto simp: account_identity_def)
qed

theorem account_stream_identity_witness:
  "from_events (account_apply (clock_env 0)) example_stream = Inr (Some example_rehydrated) \<and>
   same_stream 7 example_stream \<and>
   (\<exists>nm b nid auth.
     ee_event (hd example_stream) = AccountCreated nm b nid auth \<and>
     acc_id (rh_aggregate example_rehydrated) = 7 \<and>
     acc_name (rh_aggregate example_rehydrated) = nm \<and>
     acc_nanoid (rh_aggregate example_rehydrated) = nid)"
proof -
  have ok: "from_events (account_apply (clock_env 0)) example_stream = Inr (Some example_rehydrated)"
    by (simp add: example_stream_def example_rehydrated_def from_events_def account_apply_def
        created_at_of_id)
  have "same_stream 7 example_stream" by (simp add: example_stream_def)
  with ok account_stream_identity [OF ok this] show ?thesis by blast
qed

text \<open>C17. Replaying a stream at two different times succeeds or fails alike, and the two results
  differ at most in the recorded time of deactivation, which is the time of the replay.\<close>

theorem account_replay_two_clocks:
  assumes "time_crate e" and "time_crate e'"
  shows "res_map (map_option (\<lambda>r. (forget_deleted_at (rh_aggregate r), rh_version r)))
           (from_events (account_apply e) evs) =
         res_map (map_option (\<lambda>r. (forget_deleted_at (rh_aggregate r), rh_version r)))
           (from_events (account_apply e') evs)"
proof (cases "evs = []")
  case False
  have "res_map (map_option forget_deleted_at) (res_fold (account_apply e) evs None) =
        res_map (map_option forget_deleted_at) (res_fold (account_apply e') evs None)"
    by (rule account_fold_two_clocks [OF assms]) simp
  with False show ?thesis
    by (cases "res_fold (account_apply e) evs None"; cases "res_fold (account_apply e') evs None")
      (auto simp: from_events_def Let_def ok_or_def map_option_case split: option.splits)
qed simp

theorem account_replay_two_clocks_witness:
  "time_crate (clock_env 5) \<and> time_crate (clock_env 8) \<and>
   res_map (map_option (\<lambda>r. (forget_deleted_at (rh_aggregate r), rh_version r)))
     (from_events (account_apply (clock_env 5))
       [\<lparr> ee_id = 7, ee_event = AccountCreated ''alice'' False ''n1'' 3, ee_version = 9 \<rparr>,
        \<lparr> ee_id = 7, ee_event = AccountDeactivated, ee_version = 10 \<rparr>]) =
   res_map (map_option (\<lambda>r. (forget_deleted_at (rh_aggregate r), rh_version r)))
     (from_events (account_apply (clock_env 8))
       [\<lparr> ee_id = 7, ee_event = AccountCreated ''alice'' False ''n1'' 3, ee_version = 9 \<rparr>,
        \<lparr> ee_id = 7, ee_event = AccountDeactivated, ee_version = 10 \<rparr>])"
  using account_replay_two_clocks [of "clock_env 5" "clock_env 8"] by simp

end
