(* ===== verification/Profile_Aggregate.thy ===== *)
theory Profile_Aggregate
  imports Event_Sourcing
begin

text \<open>
  The profile aggregate of \<open>kernel/src/entity/profile.rs\<close>. Updates carry no expected
  version (the last write wins) and change exactly the fields whose action is not
  \<open>Unchanged\<close>.
\<close>

type_synonym profile_id = int
type_synonym image_id = int

record profile =
  pr_id :: profile_id
  pr_account_id :: int
  pr_display_name :: "string option"
  pr_summary :: "string option"
  pr_icon :: "image_id option"
  pr_banner :: "image_id option"
  pr_version :: version
  pr_nanoid :: nanoid

datatype profile_event =
    ProfileCreated int "string option" "string option" "image_id option" "image_id option" nanoid
  | ProfileUpdated "string field_action" "string field_action" "image_id field_action"
      "image_id field_action"

type_synonym profile_command = "profile_event command_envelope"

definition profile_create ::
  "profile_id \<Rightarrow> int \<Rightarrow> string option \<Rightarrow> string option \<Rightarrow> image_id option \<Rightarrow> image_id option \<Rightarrow>
   nanoid \<Rightarrow> profile_command" where
  "profile_create i account_id display_name summary icon banner nano_id =
     \<lparr> ce_id = i, ce_event = ProfileCreated account_id display_name summary icon banner nano_id,
       ce_prev_version = Some Nothing \<rparr>"

definition profile_reconstitute ::
  "profile_id \<Rightarrow> int \<Rightarrow> string option \<Rightarrow> string option \<Rightarrow> image_id option \<Rightarrow> image_id option \<Rightarrow>
   version \<Rightarrow> nanoid \<Rightarrow> profile" where
  "profile_reconstitute i account_id display_name summary icon banner version nano_id =
     \<lparr> pr_id = i, pr_account_id = account_id, pr_display_name = display_name,
       pr_summary = summary, pr_icon = icon, pr_banner = banner, pr_version = version,
       pr_nanoid = nano_id \<rparr>"

definition profile_update ::
  "profile_id \<Rightarrow> string field_action \<Rightarrow> string field_action \<Rightarrow> image_id field_action \<Rightarrow>
   image_id field_action \<Rightarrow> profile_command" where
  "profile_update i display_name summary icon banner =
     \<lparr> ce_id = i, ce_event = ProfileUpdated display_name summary icon banner,
       ce_prev_version = None \<rparr>"

text \<open>One of the four \<open>match\<close> blocks of \<open>apply\<close>: what becomes of the old value.\<close>

primrec field_update :: "'a field_action \<Rightarrow> 'a option \<Rightarrow> 'a option" where
  "field_update Unchanged old = old"
| "field_update Clear old = None"
| "field_update (Set v) old = Some v"

definition profile_apply :: "(profile, profile_event) applier" where
  "profile_apply ev entity =
     (case ee_event ev of
        ProfileCreated account_id display_name summary icon banner nano_id \<Rightarrow>
          (case entity of
             Some _ \<Rightarrow> Inl Internal
           | None \<Rightarrow>
               Inr (Some \<lparr> pr_id = ee_id ev, pr_account_id = account_id,
                           pr_display_name = display_name, pr_summary = summary, pr_icon = icon,
                           pr_banner = banner, pr_version = ee_version ev,
                           pr_nanoid = nano_id \<rparr>))
      | ProfileUpdated display_name summary icon banner \<Rightarrow>
          (case entity of
             Some p \<Rightarrow>
               Inr (Some (p \<lparr> pr_display_name := field_update display_name (pr_display_name p),
                              pr_summary := field_update summary (pr_summary p),
                              pr_icon := field_update icon (pr_icon p),
                              pr_banner := field_update banner (pr_banner p),
                              pr_version := ee_version ev \<rparr>))
           | None \<Rightarrow> Inl Internal))"

interpretation prof: undeletable profile_apply pr_id pr_version
  by unfold_locales
    (auto simp: profile_apply_def split: profile_event.split_asm option.split_asm)

text \<open>
  Two successive actions on one field act as the later one, unless that is \<open>Unchanged\<close>: the
  last write wins.
\<close>

definition field_then :: "'a field_action \<Rightarrow> 'a field_action \<Rightarrow> 'a field_action" where
  "field_then first second = (if is_unchanged second then first else second)"

lemma field_update_then: "field_update b (field_update a old) = field_update (field_then a b) old"
  by (cases b) (simp_all add: field_then_def is_unchanged_def)

lemma profile_apply_error: "profile_apply ev m = Inl x \<Longrightarrow> x = Internal"
  by (auto simp: profile_apply_def split: profile_event.split_asm option.split_asm)

lemma profile_apply_account:
  "profile_apply ev (Some p) = Inr (Some q) \<Longrightarrow>
     pr_account_id q = pr_account_id p \<and> pr_nanoid q = pr_nanoid p"
  by (auto simp: profile_apply_def split: profile_event.split_asm)

text \<open>After its creation a profile accepts every update.\<close>

lemma profile_fold_updates:
  assumes "list_all (\<lambda>ev. \<exists>d s i b. ee_event ev = ProfileUpdated d s i b) evs"
  shows "\<exists>q. res_fold profile_apply evs (Some p) = Inr (Some q)"
  using assms by (induction evs arbitrary: p) (auto simp: profile_apply_def)

end
