(* ===== verification/Metadata_Aggregate.thy ===== *)
theory Metadata_Aggregate
  imports Event_Sourcing
begin

text \<open>
  The metadata aggregate of \<open>kernel/src/entity/metadata.rs\<close>, the labelled fields shown on
  an account. Its \<open>Deleted\<close> event empties the aggregate, so it is rehydrated with
  \<open>from_events_allow_deletion\<close>.
\<close>

type_synonym metadata_id = int

record metadata =
  md_id :: metadata_id
  md_account_id :: int
  md_label :: string
  md_content :: string
  md_version :: version
  md_nanoid :: nanoid

datatype metadata_event =
    MetadataCreated int string string nanoid
  | MetadataUpdated string string
  | MetadataDeleted

type_synonym metadata_command = "metadata_event command_envelope"

definition metadata_create ::
  "metadata_id \<Rightarrow> int \<Rightarrow> string \<Rightarrow> string \<Rightarrow> nanoid \<Rightarrow> metadata_command" where
  "metadata_create i account_id label content nano_id =
     \<lparr> ce_id = i, ce_event = MetadataCreated account_id label content nano_id,
       ce_prev_version = Some Nothing \<rparr>"

definition metadata_update :: "metadata_id \<Rightarrow> string \<Rightarrow> string \<Rightarrow> version \<Rightarrow> metadata_command" where
  "metadata_update i label content current_version =
     \<lparr> ce_id = i, ce_event = MetadataUpdated label content,
       ce_prev_version = Some (At current_version) \<rparr>"

definition metadata_delete :: "metadata_id \<Rightarrow> version \<Rightarrow> metadata_command" where
  "metadata_delete i current_version =
     \<lparr> ce_id = i, ce_event = MetadataDeleted, ce_prev_version = Some (At current_version) \<rparr>"

definition metadata_reconstitute ::
  "metadata_id \<Rightarrow> int \<Rightarrow> string \<Rightarrow> string \<Rightarrow> nanoid \<Rightarrow> version \<Rightarrow> metadata" where
  "metadata_reconstitute i account_id label content nano_id version =
     \<lparr> md_id = i, md_account_id = account_id, md_label = label, md_content = content,
       md_version = version, md_nanoid = nano_id \<rparr>"

definition metadata_apply :: "(metadata, metadata_event) applier" where
  "metadata_apply ev entity =
     (case ee_event ev of
        MetadataCreated account_id label content nano_id \<Rightarrow>
          (case entity of
             Some _ \<Rightarrow> Inl Internal
           | None \<Rightarrow>
               Inr (Some \<lparr> md_id = ee_id ev, md_account_id = account_id, md_label = label,
                           md_content = content, md_version = ee_version ev,
                           md_nanoid = nano_id \<rparr>))
      | MetadataUpdated label content \<Rightarrow>
          (case entity of
             Some m \<Rightarrow> Inr (Some (m \<lparr> md_label := label, md_content := content,
                                      md_version := ee_version ev \<rparr>))
           | None \<Rightarrow> Inl Internal)
      | MetadataDeleted \<Rightarrow>
          if entity = None then Inl Internal else Inr None)"

interpretation meta: event_sourced metadata_apply md_id md_version
  by unfold_locales
    (auto simp: metadata_apply_def split: metadata_event.split_asm option.split_asm if_split_asm)

lemma metadata_apply_error: "metadata_apply ev m = Inl x \<Longrightarrow> x = Internal"
  by (auto simp: metadata_apply_def split: metadata_event.split_asm option.split_asm if_split_asm)

lemma metadata_apply_account:
  "metadata_apply ev (Some p) = Inr (Some q) \<Longrightarrow>
     md_account_id q = md_account_id p \<and> md_nanoid q = md_nanoid p"
  by (auto simp: metadata_apply_def split: metadata_event.split_asm)

text \<open>A field is empty after an event exactly when the event deleted it.\<close>

lemma metadata_apply_deleted:
  "metadata_apply ev m = Inr None \<longleftrightarrow> m \<noteq> None \<and> ee_event ev = MetadataDeleted"
  by (auto simp: metadata_apply_def split: metadata_event.split_asm option.split_asm)

end
