(* ===== verification/Crypto.thy ===== *)
theory Crypto
  imports Kernel_Base
begin

text \<open>
  The cryptographic interfaces of \<open>kernel/src/crypto.rs\<close>: signing algorithms, sealed private
  keys, and the traits \<open>PasswordProvider\<close>, \<open>RawKeyGenerator\<close> and \<open>KeyEncryptor\<close> as the
  record \<open>crypto\<close>. Generators draw from a random source, which is the extra number argument.
  Bytes are characters. The generator composed from the two traits is a definition.
\<close>

datatype signing_algorithm = Rsa2048 | Ed25519

fun signing_algorithm_to_string :: "signing_algorithm \<Rightarrow> string" where
  "signing_algorithm_to_string Rsa2048 = ''rsa2048''"
| "signing_algorithm_to_string Ed25519 = ''ed25519''"

text \<open>Deserialisation of the variant name in lower case (\<open>rename_all = "lowercase"\<close>).\<close>

definition signing_algorithm_parse :: "string \<Rightarrow> signing_algorithm kresult" where
  "signing_algorithm_parse s =
     (if s = ''rsa2048'' then Inr Rsa2048
      else if s = ''ed25519'' then Inr Ed25519
      else Inl Internal)"

record encrypted_private_key =
  ep_ciphertext :: string
  ep_nonce :: string
  ep_salt :: string
  ep_algorithm :: signing_algorithm

record generated_key_pair =
  gk_public_key_pem :: string
  gk_encrypted_private_key :: encrypted_private_key

record raw_key_pair =
  rk_public_key_pem :: string
  rk_private_key_pem :: string
  rk_algorithm :: signing_algorithm

record crypto =
  get_password :: "string kresult"
  generate_raw :: "nat \<Rightarrow> raw_key_pair kresult"
  encrypt_key :: "nat \<Rightarrow> string \<Rightarrow> string \<Rightarrow> signing_algorithm \<Rightarrow> encrypted_private_key kresult"
  decrypt_key :: "encrypted_private_key \<Rightarrow> string \<Rightarrow> string kresult"

definition signing_key_generator_generate :: "crypto \<Rightarrow> nat \<Rightarrow> string \<Rightarrow> generated_key_pair kresult" where
  "signing_key_generator_generate c entropy password =
     res_bind (generate_raw c entropy) (\<lambda>raw.
     res_bind (encrypt_key c entropy (rk_private_key_pem raw) password (rk_algorithm raw)) (\<lambda>encrypted.
     Inr \<lparr> gk_public_key_pem = rk_public_key_pem raw, gk_encrypted_private_key = encrypted \<rparr>))"

text \<open>What an encryptor promises: the password that sealed a key opens it.\<close>

definition key_encryptor :: "crypto \<Rightarrow> bool" where
  "key_encryptor c \<longleftrightarrow>
     (\<forall>entropy pem password alg sealed.
        encrypt_key c entropy pem password alg = Inr sealed \<longrightarrow>
        decrypt_key c sealed password = Inr pem)"

text \<open>A concrete instance for examples: the password is part of the sealed text.\<close>

definition plain_crypto :: crypto where
  "plain_crypto =
     \<lparr> get_password = Inr ''secret'',
       generate_raw = (\<lambda>_. Inr \<lparr> rk_public_key_pem = ''PUB'', rk_private_key_pem = ''PRIV'',
                               rk_algorithm = Rsa2048 \<rparr>),
       encrypt_key = (\<lambda>_ pem password alg.
         Inr \<lparr> ep_ciphertext = pem, ep_nonce = [], ep_salt = password, ep_algorithm = alg \<rparr>),
       decrypt_key = (\<lambda>k password.
         if password = ep_salt k then Inr (ep_ciphertext k) else Inl Internal) \<rparr>"

lemma signing_algorithm_roundtrip [simp]:
  "signing_algorithm_parse (signing_algorithm_to_string a) = Inr a"
  by (cases a) (simp_all add: signing_algorithm_parse_def)

lemma key_encryptor_plain [simp]: "key_encryptor plain_crypto"
  by (auto simp: key_encryptor_def plain_crypto_def)

lemma generated_key_opens:
  assumes "key_encryptor c" and "signing_key_generator_generate c n password = Inr pair"
  shows "\<exists>raw. generate_raw c n = Inr raw \<and> gk_public_key_pem pair = rk_public_key_pem raw \<and>
           decrypt_key c (gk_encrypted_private_key pair) password = Inr (rk_private_key_pem raw)"
  using assms by (auto simp: signing_key_generator_generate_def key_encryptor_def result_iffs)

end
