(* ===== verification/Json.thy ===== *)
theory Json
  imports Rust_Strings
begin

text \<open>
  JSON values as \<open>serde_json::Value\<close> has them, the accessors \<open>get\<close>, \<open>as_str\<close> and
  \<open>as_array\<close>, and the pieces from which the derived \<open>Serialize\<close> and \<open>Deserialize\<close>
  instances of the DTOs are put together. An object is the list of its members; its keys are
  distinct in a value that \<open>serde_json\<close> built. A number is kept as its text.
\<close>

datatype json =
    JNull
  | JBool bool
  | JNumber string
  | JString string
  | JArray "json list"
  | JObject "(string \<times> json) list"

fun json_get :: "string \<Rightarrow> json \<Rightarrow> json option" where
  "json_get k (JObject m) = map_of m k"
| "json_get k _ = None"

fun json_as_str :: "json \<Rightarrow> string option" where
  "json_as_str (JString s) = Some s"
| "json_as_str _ = None"

fun json_as_array :: "json \<Rightarrow> json list option" where
  "json_as_array (JArray vs) = Some vs"
| "json_as_array _ = None"

definition json_get_str :: "string \<Rightarrow> json \<Rightarrow> string option" where
  "json_get_str k v = Option.bind (json_get k v) json_as_str"

subsection \<open>Derived deserialisation\<close>

text \<open>
  A \<open>String\<close>, a \<open>Vec\<close> and an \<open>Option\<close>, which reads \<open>null\<close> as \<open>None\<close>.
\<close>

fun those :: "'a option list \<Rightarrow> 'a list option" where
  "those [] = Some []"
| "those (x # xs) = Option.bind x (\<lambda>y. map_option ((#) y) (those xs))"

definition de_vec :: "(json \<Rightarrow> 'a option) \<Rightarrow> json \<Rightarrow> 'a list option" where
  "de_vec f v = Option.bind (json_as_array v) (\<lambda>vs. those (map f vs))"

fun de_option :: "(json \<Rightarrow> 'a option) \<Rightarrow> json \<Rightarrow> 'a option option" where
  "de_option f JNull = Some None"
| "de_option f v = map_option Some (f v)"

text \<open>A member that must be present, and a member of type \<open>Option\<close>, which may be missing.\<close>

definition de_field :: "(json \<Rightarrow> 'a option) \<Rightarrow> string \<Rightarrow> (string \<times> json) list \<Rightarrow> 'a option" where
  "de_field f k m = Option.bind (map_of m k) f"

definition de_opt_field ::
  "(json \<Rightarrow> 'a option) \<Rightarrow> string \<Rightarrow> (string \<times> json) list \<Rightarrow> 'a option option" where
  "de_opt_field f k m = (case map_of m k of None \<Rightarrow> Some None | Some v \<Rightarrow> de_option f v)"

text \<open>Members with \<open>skip_serializing_if = Option::is_none\<close>.\<close>

definition ser_opt :: "string \<Rightarrow> ('a \<Rightarrow> json) \<Rightarrow> 'a option \<Rightarrow> (string \<times> json) list" where
  "ser_opt k f x = (case x of None \<Rightarrow> [] | Some y \<Rightarrow> [(k, f y)])"

definition strings_to_json :: "string list \<Rightarrow> json" where
  "strings_to_json xs = JArray (map JString xs)"

subsection \<open>Lemmas\<close>

named_theorems serde_simps \<open>rewrite rules for derived serialisation\<close>

lemma those_map_Some [simp]: "(\<And>x. x \<in> set xs \<Longrightarrow> f x = Some (g x)) \<Longrightarrow> those (map f xs) = Some (map g xs)"
  by (induction xs) auto

lemma de_vec_strings [serde_simps]: "de_vec json_as_str (strings_to_json xs) = Some xs"
proof -
  have "those (map json_as_str (map JString xs)) = Some xs" by (induction xs) auto
  then show ?thesis by (simp add: de_vec_def strings_to_json_def)
qed

lemma de_option_Some [serde_simps]: "f v = Some x \<Longrightarrow> v \<noteq> JNull \<Longrightarrow> de_option f v = Some (Some x)"
  by (cases v) auto

lemma strings_to_json_not_null [simp]: "strings_to_json xs \<noteq> JNull"
  by (simp add: strings_to_json_def)

lemma ser_opt_run [simp]: "ser_opt k f None = []" "ser_opt k f (Some y) = [(k, f y)]"
  by (simp_all add: ser_opt_def)

lemma map_of_ser_opt [simp]:
  "map_of (ser_opt k f x @ m) k' = (if k' = k \<and> x \<noteq> None then map_option f x else map_of m k')"
  by (cases x) auto

lemma json_get_str_Some: "json_get_str k v = Some s \<longleftrightarrow> json_get k v = Some (JString s)"
proof -
  have "json_as_str u = Some s \<longleftrightarrow> u = JString s" for u by (cases u) auto
  then show ?thesis by (auto simp: json_get_str_def bind_eq_Some_conv)
qed

end
