(* ===== verification/Network.thy ===== *)
theory Network
  imports Kernel_Base Json
begin

text \<open>
  What the HTTP clients of the application and driver crates work with: IP addresses with the
  classification and parsing functions of \<open>std::net\<close>, URLs as the \<open>url\<close> crate presents
  them, requests, responses, and the record \<open>network\<close> of everything outside the program: the
  parsers of the \<open>url\<close>, \<open>serde_json\<close>, \<open>base64\<close> and \<open>httpdate\<close> crates, the digest
  of \<open>sha2\<close>, name resolution, and the peers. What a peer or the name server answers may
  depend on all requests sent before, which the world records.
\<close>

unbundle bit_operations_syntax

subsection \<open>IP addresses\<close>

type_synonym ipv4 = "32 word"
type_synonym ipv6 = "128 word"

datatype ip_addr = V4 ipv4 | V6 ipv6

type_synonym socket_addr = "ip_addr \<times> nat"

definition octet :: "ipv4 \<Rightarrow> nat \<Rightarrow> 8 word" where
  "octet ip i = ucast (drop_bit (8 * (3 - i)) ip)"

definition segment :: "ipv6 \<Rightarrow> nat \<Rightarrow> 16 word" where
  "segment ip i = ucast (drop_bit (16 * (7 - i)) ip)"

definition ipv4_new :: "nat \<Rightarrow> nat \<Rightarrow> nat \<Rightarrow> nat \<Rightarrow> ipv4" where
  "ipv4_new a b c d = of_nat (((a * 256 + b) * 256 + c) * 256 + d)"

definition ipv6_new :: "nat list \<Rightarrow> ipv6" where
  "ipv6_new groups = of_nat (foldl (\<lambda>n g. n * 65536 + g) 0 groups)"

text \<open>The predicates of \<open>Ipv4Addr\<close> and \<open>Ipv6Addr\<close>.\<close>

definition is_private :: "ipv4 \<Rightarrow> bool" where
  "is_private ip \<longleftrightarrow> octet ip 0 = 10 \<or>
     (octet ip 0 = 172 \<and> 16 \<le> octet ip 1 \<and> octet ip 1 \<le> 31) \<or>
     (octet ip 0 = 192 \<and> octet ip 1 = 168)"

definition is_loopback :: "ipv4 \<Rightarrow> bool" where
  "is_loopback ip \<longleftrightarrow> octet ip 0 = 127"

definition is_link_local :: "ipv4 \<Rightarrow> bool" where
  "is_link_local ip \<longleftrightarrow> octet ip 0 = 169 \<and> octet ip 1 = 254"

definition is_broadcast :: "ipv4 \<Rightarrow> bool" where
  "is_broadcast ip \<longleftrightarrow> ip = - 1"

definition is_documentation :: "ipv4 \<Rightarrow> bool" where
  "is_documentation ip \<longleftrightarrow>
     (octet ip 0 = 192 \<and> octet ip 1 = 0 \<and> octet ip 2 = 2) \<or>
     (octet ip 0 = 198 \<and> octet ip 1 = 51 \<and> octet ip 2 = 100) \<or>
     (octet ip 0 = 203 \<and> octet ip 1 = 0 \<and> octet ip 2 = 113)"

definition is_multicast :: "ipv4 \<Rightarrow> bool" where
  "is_multicast ip \<longleftrightarrow> 224 \<le> octet ip 0 \<and> octet ip 0 \<le> 239"

definition is_unspecified :: "ipv4 \<Rightarrow> bool" where
  "is_unspecified ip \<longleftrightarrow> ip = 0"

definition is_loopback6 :: "ipv6 \<Rightarrow> bool" where
  "is_loopback6 ip \<longleftrightarrow> ip = 1"

definition is_unspecified6 :: "ipv6 \<Rightarrow> bool" where
  "is_unspecified6 ip \<longleftrightarrow> ip = 0"

definition is_multicast6 :: "ipv6 \<Rightarrow> bool" where
  "is_multicast6 ip \<longleftrightarrow> segment ip 0 AND 0xff00 = 0xff00"

definition to_ipv4_mapped :: "ipv6 \<Rightarrow> ipv4 option" where
  "to_ipv4_mapped ip =
     (if (\<forall>i < 5. segment ip i = 0) \<and> segment ip 5 = 0xffff then Some (ucast ip) else None)"

subsection \<open>Parsing of addresses\<close>

definition hex_val :: "char \<Rightarrow> nat option" where
  "hex_val c =
     (let n = byte_val c in
      if 48 \<le> n \<and> n \<le> 57 then Some (n - 48)
      else if 97 \<le> n \<and> n \<le> 102 then Some (n - 87)
      else if 65 \<le> n \<and> n \<le> 70 then Some (n - 55)
      else None)"

definition is_digit_of :: "nat \<Rightarrow> char \<Rightarrow> bool" where
  "is_digit_of radix c = (case hex_val c of Some v \<Rightarrow> v < radix | None \<Rightarrow> False)"

definition read_number :: "nat \<Rightarrow> nat \<Rightarrow> bool \<Rightarrow> nat \<Rightarrow> string \<Rightarrow> (nat \<times> string) option" where
  "read_number radix max_digits allow_zero_prefix max_value s =
     (let ds = takeWhile (is_digit_of radix) s;
          v = foldl (\<lambda>n c. n * radix + the (hex_val c)) 0 ds
      in if ds = [] \<or> max_digits < length ds \<or>
            (\<not> allow_zero_prefix \<and> hd ds = CHR ''0'' \<and> 1 < length ds) \<or> max_value < v
         then None
         else Some (v, drop (length ds) s))"

fun read_given_char :: "char \<Rightarrow> string \<Rightarrow> string option" where
  "read_given_char c (d # s) = (if d = c then Some s else None)"
| "read_given_char c [] = None"

definition read_octet :: "string \<Rightarrow> (nat \<times> string) option" where
  "read_octet = read_number 10 3 False 255"

definition read_dot_octet :: "string \<Rightarrow> (nat \<times> string) option" where
  "read_dot_octet s = Option.bind (read_given_char (CHR ''.'') s) read_octet"

definition read_ipv4_addr :: "string \<Rightarrow> (ipv4 \<times> string) option" where
  "read_ipv4_addr s =
     Option.bind (read_octet s) (\<lambda>(a, s). Option.bind (read_dot_octet s) (\<lambda>(b, s).
     Option.bind (read_dot_octet s) (\<lambda>(c, s). Option.bind (read_dot_octet s) (\<lambda>(d, s).
       Some (ipv4_new a b c d, s)))))"

text \<open>
  The groups of an IPv6 address: at most \<open>n\<close>, separated by colons; when two are left, they
  may be written as an IPv4 address, which ends them.
\<close>

fun read_groups :: "bool \<Rightarrow> nat \<Rightarrow> string \<Rightarrow> nat list \<times> bool \<times> string" where
  "read_groups first 0 s = ([], False, s)"
| "read_groups first (Suc n) s =
     (let body = (if first then Some s else read_given_char (CHR '':'') s) in
      case (if 0 < n then Option.bind body read_ipv4_addr else None) of
        Some (v4, r) \<Rightarrow> ([unat v4 div 65536, unat v4 mod 65536], True, r)
      | None \<Rightarrow>
          (case Option.bind body (read_number 16 4 True 65535) of
             Some (g, r) \<Rightarrow>
               (case read_groups False n r of (gs, ends_v4, r') \<Rightarrow> (g # gs, ends_v4, r'))
           | None \<Rightarrow> ([], False, s)))"

definition read_ipv6_addr :: "string \<Rightarrow> (ipv6 \<times> string) option" where
  "read_ipv6_addr s =
     (case read_groups True 8 s of (head, head_ipv4, r) \<Rightarrow>
        if length head = 8 then Some (ipv6_new head, r)
        else if head_ipv4 then None
        else Option.bind (read_given_char (CHR '':'') r) (\<lambda>r.
             Option.bind (read_given_char (CHR '':'') r) (\<lambda>r.
             case read_groups True (8 - (length head + 1)) r of (tail, _, r) \<Rightarrow>
               Some (ipv6_new (head @ replicate (8 - length head - length tail) 0 @ tail), r))))"

definition parse_ip_addr :: "string \<Rightarrow> ip_addr option" where
  "parse_ip_addr s =
     (case read_ipv4_addr s of
        Some (ip, r) \<Rightarrow> if r = [] then Some (V4 ip) else None
      | None \<Rightarrow>
          (case read_ipv6_addr s of
             Some (ip, r) \<Rightarrow> if r = [] then Some (V6 ip) else None
           | None \<Rightarrow> None))"

subsection \<open>URLs, requests and responses\<close>

text \<open>A parsed URL, by the accessors of the \<open>url\<close> crate that the sources call.\<close>

record url =
  u_as_str :: string
  u_scheme :: string
  u_username :: string
  u_password :: "string option"
  u_host_str :: "string option"
  u_port :: "nat option"
  u_port_or_known_default :: "nat option"
  u_path :: string
  u_query :: "string option"

text \<open>
  The addresses a client was pinned to, \<open>None\<close> for a client that connects to the address
  written in the URL.
\<close>

record http_request =
  rq_method :: string
  rq_url :: url
  rq_pinned :: "socket_addr list option"
  rq_headers :: "(string \<times> string) list"
  rq_body :: string

text \<open>A response body arrives in chunks; \<open>rs_complete\<close> is whether reading them all succeeds.\<close>

record http_response =
  rs_status :: http_status
  rs_location :: "string option"
  rs_chunks :: "string list"
  rs_complete :: bool

record network =
  url_parse :: "string \<Rightarrow> url option"
  url_join :: "url \<Rightarrow> string \<Rightarrow> url option"
  url_without_fragment :: "url \<Rightarrow> url"
  lookup_host :: "http_request list \<Rightarrow> string \<Rightarrow> nat \<Rightarrow> socket_addr list option"
  http_send :: "http_request list \<Rightarrow> http_request \<Rightarrow> http_response option"
  client_builds :: bool
  json_parse :: "string \<Rightarrow> json option"
  json_print :: "json \<Rightarrow> string"
  sha256 :: "string \<Rightarrow> string"
  base64_encode :: "string \<Rightarrow> string"
  base64_decode :: "string \<Rightarrow> string option"
  fmt_http_date :: "datetime \<Rightarrow> string"
  parse_http_date :: "string \<Rightarrow> datetime option"
  unicode_alphanumeric :: "scalar \<Rightarrow> bool"

definition is_redirection :: "http_status \<Rightarrow> bool" where
  "is_redirection s \<longleftrightarrow> 300 \<le> s \<and> s < 400"

text \<open>What the \<open>base64\<close> and \<open>httpdate\<close> crates promise.\<close>

definition base64_char :: "char \<Rightarrow> bool" where
  "base64_char c \<longleftrightarrow>
     (let n = byte_val c in
      65 \<le> n \<and> n \<le> 90 \<or> 97 \<le> n \<and> n \<le> 122 \<or> 48 \<le> n \<and> n \<le> 57 \<or>
      c = CHR ''+'' \<or> c = CHR ''/'' \<or> c = CHR ''='')"

definition base64_crate :: "network \<Rightarrow> bool" where
  "base64_crate n \<longleftrightarrow>
     (\<forall>s. base64_decode n (base64_encode n s) = Some s \<and> list_all base64_char (base64_encode n s))"

text \<open>A date from 1970 until the end of the year 9999 is printed with the precision of a second.\<close>

definition httpdate_crate :: "network \<Rightarrow> bool" where
  "httpdate_crate n \<longleftrightarrow>
     (\<forall>t. 0 \<le> t \<and> t < 253402300800 * 1000000000 \<longrightarrow>
        parse_http_date n (fmt_http_date n t) = Some (t - t mod 1000000000))"

subsection \<open>A network for examples\<close>

text \<open>
  Peers that answer from a table of pages, by URL, and a parser that knows a table of documents.
  URLs have the scheme \<open>https\<close> and neither port nor credentials.
\<close>

definition simple_url :: "string \<Rightarrow> url option" where
  "simple_url s =
     map_option (\<lambda>rest.
       \<lparr> u_as_str = s, u_scheme = ''https'', u_username = [], u_password = None,
         u_host_str = Some (takeWhile (\<lambda>c. c \<noteq> CHR ''/'') rest), u_port = None,
         u_port_or_known_default = Some 443, u_path = dropWhile (\<lambda>c. c \<noteq> CHR ''/'') rest,
         u_query = None \<rparr>)
       (strip_prefix ''https://'' s)"

definition cut_fragment :: "url \<Rightarrow> url" where
  "cut_fragment u =
     u \<lparr> u_as_str := takeWhile (\<lambda>c. c \<noteq> CHR ''#'') (u_as_str u),
         u_path := takeWhile (\<lambda>c. c \<noteq> CHR ''#'') (u_path u) \<rparr>"

definition hex_text :: "string \<Rightarrow> string" where
  "hex_text s = concat (map (\<lambda>c. [char_of (97 + byte_val c div 16), char_of (97 + byte_val c mod 16)]) s)"

fun hex_bytes :: "string \<Rightarrow> string option" where
  "hex_bytes [] = Some []"
| "hex_bytes [c] = None"
| "hex_bytes (c # d # s) =
     map_option ((#) (char_of (16 * (byte_val c - 97) + (byte_val d - 97)))) (hex_bytes s)"

definition table_net :: "(string \<times> http_response) list \<Rightarrow> (string \<times> json) list \<Rightarrow> network" where
  "table_net pages docs =
     \<lparr> url_parse = simple_url, url_join = (\<lambda>_ s. simple_url s), url_without_fragment = cut_fragment,
       lookup_host = (\<lambda>_ _ port. Some [(V4 (ipv4_new 93 184 216 34), port)]),
       http_send = (\<lambda>_ rq. map_of pages (u_as_str (rq_url rq))), client_builds = True,
       json_parse = map_of docs, json_print = (\<lambda>_. ''{}''), sha256 = (\<lambda>s. s),
       base64_encode = hex_text, base64_decode = hex_bytes,
       fmt_http_date = (\<lambda>t. int_to_string (t div 1000000000)),
       parse_http_date = (\<lambda>s. Some (int (string_to_nat s) * 1000000000)), unicode_alphanumeric = (\<lambda>_. False) \<rparr>"

definition ok_page :: "string \<Rightarrow> http_response" where
  "ok_page body = \<lparr> rs_status = 200, rs_location = None, rs_chunks = [body], rs_complete = True \<rparr>"

lemma hex_bytes_text [simp]: "hex_bytes (hex_text s) = Some s"
proof (induction s)
  case (Cons c s)
  have "byte_val c div 16 < 16" by (rule less_mult_imp_div_less) simp
  then have "byte_val (char_of (97 + byte_val c div 16)) = 97 + byte_val c div 16"
    "byte_val (char_of (97 + byte_val c mod 16)) = 97 + byte_val c mod 16" by simp_all
  then have "16 * (byte_val (char_of (97 + byte_val c div 16)) - 97) +
      (byte_val (char_of (97 + byte_val c mod 16)) - 97) = byte_val c" by simp
  with Cons show ?case by (simp only: hex_text_def list.map concat.simps append.simps hex_bytes.simps) simp
qed (simp add: hex_text_def)

lemma hex_text_chars: "list_all base64_char (hex_text s)"
proof (induction s)
  case (Cons c s)
  have "byte_val c div 16 < 16" by (rule less_mult_imp_div_less) simp
  moreover have "byte_val c mod 16 < 16" by simp
  then have "byte_val c mod 16 \<le> 25" by linarith
  ultimately show ?case using Cons by (simp add: hex_text_def base64_char_def Let_def)
qed (simp add: hex_text_def)

lemma base64_crate_table_net [simp]: "base64_crate (table_net pages docs)"
  by (simp add: base64_crate_def table_net_def hex_text_chars)

lemma httpdate_crate_table_net [simp]: "httpdate_crate (table_net pages docs)"
proof -
  have "(t - t mod 1000000000) = t div 1000000000 * 1000000000" for t :: int
    by (simp add: minus_mod_eq_div_mult)
  then show ?thesis
    by (simp add: httpdate_crate_def table_net_def int_to_string_def pos_imp_zdiv_neg_iff)
qed

lemma base64_char_graphic: "base64_char c \<Longrightarrow> ascii_graphic c \<and> c \<noteq> CHR '','' \<and> byte_val c \<noteq> 34 \<and> byte_val c \<noteq> 92"
  by (auto simp: base64_char_def ascii_graphic_def Let_def)

end
