(* ===== verification/Database.thy ===== *)
theory Database
  imports Event_Store Account_Aggregate Profile_Aggregate Metadata_Aggregate Crypto Network
begin

text \<open>
  The PostgreSQL schema of \<open>migrations/\<close> as a record of tables, the SQL statement forms that
  the repositories use, and the monad in which the services run. A table is the list of its
  rows in insertion order; a statement that a primary key, a unique index or a foreign key
  refuses returns \<open>Internal\<close>, which is what \<open>convert_error\<close> of
  \<open>driver/src/database/postgres.rs\<close> makes of it. Losing the connection is not modelled.

  The \<open>world\<close> is the database together with the state of the identifier and nanoid
  generators, the relation tuples stored by Ory Keto and the HTTP requests sent to other servers.
  A transaction restores the database, and nothing else, when its body fails.
\<close>

record account_row =
  ar_id :: int
  ar_name :: string
  ar_is_bot :: bool
  ar_deleted_at :: "datetime option"
  ar_suspended_at :: "datetime option"
  ar_suspend_expires_at :: "datetime option"
  ar_suspend_reason :: "string option"
  ar_banned_at :: "datetime option"
  ar_ban_reason :: "string option"
  ar_version :: version
  ar_nanoid :: nanoid
  ar_created_at :: datetime

record profile_row =
  pw_id :: int
  pw_account_id :: int
  pw_display :: "string option"
  pw_summary :: "string option"
  pw_icon_id :: "int option"
  pw_banner_id :: "int option"
  pw_version :: version
  pw_nanoid :: nanoid

record metadata_row =
  mw_id :: int
  mw_account_id :: int
  mw_label :: string
  mw_content :: string
  mw_version :: version
  mw_nanoid :: nanoid

record image_row =
  iw_id :: int
  iw_url :: string
  iw_hash :: string
  iw_blurhash :: string

record remote_account_row =
  rw_id :: int
  rw_acct :: string
  rw_url :: string
  rw_icon_id :: "int option"
  rw_inbox_url :: "string option"
  rw_public_key_pem :: "string option"

record auth_host_row =
  hw_id :: int
  hw_url :: string

record auth_account_row =
  aw_id :: int
  aw_host_id :: int
  aw_client_id :: string

text \<open>\<open>follows\<close>, \<open>blocks\<close> and \<open>mutes\<close>: exactly one of the two columns of each side is set.\<close>

record follow_row =
  fw_id :: int
  fw_follower_local_id :: "int option"
  fw_follower_remote_id :: "int option"
  fw_followee_local_id :: "int option"
  fw_followee_remote_id :: "int option"
  fw_approved_at :: "datetime option"

record block_row =
  bw_id :: int
  bw_blocker_local_id :: "int option"
  bw_blocker_remote_id :: "int option"
  bw_blocked_local_id :: "int option"
  bw_blocked_remote_id :: "int option"

record mute_row =
  uw_id :: int
  uw_muter_local_id :: "int option"
  uw_muter_remote_id :: "int option"
  uw_muted_local_id :: "int option"
  uw_muted_remote_id :: "int option"

text \<open>The \<open>JSONB\<close> column with the sealed private key holds the fields of the structure.\<close>

record signing_key_row =
  kw_id :: int
  kw_account_id :: int
  kw_algorithm :: string
  kw_encrypted_private_key :: encrypted_private_key
  kw_public_key_pem :: string
  kw_key_id_uri :: string
  kw_created_at :: datetime
  kw_revoked_at :: "datetime option"

record outbox_row =
  ow_id :: int
  ow_account_id :: int
  ow_activity_id :: string
  ow_activity_type :: string
  ow_object_json :: string
  ow_created_at :: datetime
  ow_delivered_at :: "datetime option"
  ow_attempted_at :: "datetime option"
  ow_error :: "string option"

record checkpoint_row =
  cw_projector_name :: string
  cw_last_seq :: int

record db =
  t_account_events :: "account_event event_table"
  t_profile_events :: "profile_event event_table"
  t_metadata_events :: "metadata_event event_table"
  t_accounts :: "account_row list"
  t_auth_emumet_accounts :: "(int \<times> int) list"
  t_profiles :: "profile_row list"
  t_metadatas :: "metadata_row list"
  t_images :: "image_row list"
  t_remote_accounts :: "remote_account_row list"
  t_auth_hosts :: "auth_host_row list"
  t_auth_accounts :: "auth_account_row list"
  t_follows :: "follow_row list"
  t_blocks :: "block_row list"
  t_mutes :: "mute_row list"
  t_signing_keys :: "signing_key_row list"
  t_outbox_activities :: "outbox_row list"
  t_outbox_next_id :: int
  t_projection_checkpoints :: "checkpoint_row list"

definition empty_db :: db where
  "empty_db =
     \<lparr> t_account_events = empty_event_table, t_profile_events = empty_event_table,
       t_metadata_events = empty_event_table, t_accounts = [], t_auth_emumet_accounts = [],
       t_profiles = [], t_metadatas = [], t_images = [], t_remote_accounts = [],
       t_auth_hosts = [], t_auth_accounts = [], t_follows = [], t_blocks = [], t_mutes = [],
       t_signing_keys = [], t_outbox_activities = [], t_outbox_next_id = 1,
       t_projection_checkpoints = [] \<rparr>"

subsection \<open>Statement forms\<close>

text \<open>\<open>INSERT\<close>: \<open>clash\<close> is a row that shares a unique key, \<open>refs\<close> the foreign keys.\<close>

definition insert_row :: "('r \<Rightarrow> bool) \<Rightarrow> bool \<Rightarrow> 'r \<Rightarrow> 'r list \<Rightarrow> 'r list kresult" where
  "insert_row clash refs r rows =
     (if list_ex clash rows \<or> \<not> refs then Inl Internal else Inr (rows @ [r]))"

text \<open>\<open>UPDATE ... WHERE\<close> and \<open>DELETE ... WHERE\<close>, with the number of rows affected.\<close>

definition update_rows :: "('r \<Rightarrow> bool) \<Rightarrow> ('r \<Rightarrow> 'r) \<Rightarrow> 'r list \<Rightarrow> 'r list \<times> nat" where
  "update_rows P f rows =
     (map (\<lambda>r. if P r then f r else r) rows, length (filter P rows))"

definition delete_rows :: "('r \<Rightarrow> bool) \<Rightarrow> 'r list \<Rightarrow> 'r list \<times> nat" where
  "delete_rows P rows = (filter (\<lambda>r. \<not> P r) rows, length (filter P rows))"

text \<open>A nullable foreign key.\<close>

definition nullable_ref :: "int option \<Rightarrow> int list \<Rightarrow> bool" where
  "nullable_ref k ids = (case k of None \<Rightarrow> True | Some i \<Rightarrow> i \<in> set ids)"

subsection \<open>The world and its operations\<close>

record world =
  w_db :: db
  w_last_id :: int
  w_nano_seed :: nat
  w_keto :: "relation_tuple list"
  w_requests :: "http_request list"

type_synonym 'a op = "world \<Rightarrow> 'a kresult \<times> world"

definition op_return :: "'a \<Rightarrow> 'a op" where
  "op_return x w = (Inr x, w)"

definition op_fail :: "kernel_error \<Rightarrow> 'a op" where
  "op_fail e w = (Inl e, w)"

definition op_bind :: "'a op \<Rightarrow> ('a \<Rightarrow> 'b op) \<Rightarrow> 'b op" where
  "op_bind m f w = (case m w of (Inl e, w') \<Rightarrow> (Inl e, w') | (Inr x, w') \<Rightarrow> f x w')"

text \<open>A value computed without touching the world, a query, and a statement.\<close>

definition op_lift :: "'a kresult \<Rightarrow> 'a op" where
  "op_lift r w = (r, w)"

definition query :: "(db \<Rightarrow> 'a) \<Rightarrow> 'a op" where
  "query f w = (Inr (f (w_db w)), w)"

definition try_query :: "(db \<Rightarrow> 'a kresult) \<Rightarrow> 'a op" where
  "try_query f w = (f (w_db w), w)"

definition exec :: "(db \<Rightarrow> ('a \<times> db) kresult) \<Rightarrow> 'a op" where
  "exec f w = (case f (w_db w) of Inl e \<Rightarrow> (Inl e, w) | Inr (x, d) \<Rightarrow> (Inr x, w \<lparr> w_db := d \<rparr>))"

definition generate_id :: "env \<Rightarrow> int op" where
  "generate_id e w = (let i = next_snowflake e (w_last_id w) in (Inr i, w \<lparr> w_last_id := i \<rparr>))"

definition nanoid_default :: "env \<Rightarrow> nanoid op" where
  "nanoid_default e w =
     (Inr (random_nanoid e (w_nano_seed w)), w \<lparr> w_nano_seed := w_nano_seed w + 1 \<rparr>)"

fun op_mapM :: "('x \<Rightarrow> 'a op) \<Rightarrow> 'x list \<Rightarrow> 'a list op" where
  "op_mapM f [] = op_return []"
| "op_mapM f (x # xs) = op_bind (f x) (\<lambda>y. op_bind (op_mapM f xs) (\<lambda>ys. op_return (y # ys)))"

fun op_iter :: "('x \<Rightarrow> unit op) \<Rightarrow> 'x list \<Rightarrow> unit op" where
  "op_iter f [] = op_return ()"
| "op_iter f (x # xs) = op_bind (f x) (\<lambda>_. op_iter f xs)"

text \<open>\<open>TransactionManager::transaction\<close>: commit on \<open>Ok\<close>, roll back on \<open>Err\<close>.\<close>

definition transaction :: "'a op \<Rightarrow> 'a op" where
  "transaction body w =
     (case body w of
        (Inr x, w') \<Rightarrow> (Inr x, w')
      | (Inl e, w') \<Rightarrow> (Inl e, w' \<lparr> w_db := w_db w \<rparr>))"

definition empty_world :: world where
  "empty_world = \<lparr> w_db = empty_db, w_last_id = 0, w_nano_seed = 0, w_keto = [],
       w_requests = [] \<rparr>"

subsection \<open>Lemmas\<close>

lemma op_run [simp]:
  "op_return x w = (Inr x, w)"
  "op_fail e w = (Inl e, w)"
  "op_lift r w = (r, w)"
  "query q w = (Inr (q (w_db w)), w)"
  "try_query tq w = (tq (w_db w), w)"
  by (simp_all add: op_return_def op_fail_def op_lift_def query_def try_query_def)

lemma op_bind_run [simp]:
  "m w = (Inr x, w') \<Longrightarrow> op_bind m f w = f x w'"
  "m w = (Inl e, w') \<Longrightarrow> op_bind m f w = (Inl e, w')"
  by (simp_all add: op_bind_def)

lemma op_bind_Inr_iff:
  "op_bind m f w = (Inr y, w'') \<longleftrightarrow> (\<exists>x w'. m w = (Inr x, w') \<and> f x w' = (Inr y, w''))"
  by (auto simp: op_bind_def split: prod.splits sum.splits)

lemma op_bind_Inl_iff:
  "op_bind m f w = (Inl e, w'') \<longleftrightarrow>
     m w = (Inl e, w'') \<or> (\<exists>x w'. m w = (Inr x, w') \<and> f x w' = (Inl e, w''))"
  by (auto simp: op_bind_def split: prod.splits sum.splits)

lemma exec_Inr_iff:
  "exec f w = (Inr x, w') \<longleftrightarrow> (\<exists>d. f (w_db w) = Inr (x, d) \<and> w' = w \<lparr> w_db := d \<rparr>)"
  by (auto simp: exec_def split: sum.splits)

lemma exec_Inl_iff: "exec f w = (Inl e, w') \<longleftrightarrow> f (w_db w) = Inl e \<and> w' = w"
  by (auto simp: exec_def split: sum.splits)

lemma transaction_Inr_iff: "transaction m w = (Inr x, w') \<longleftrightarrow> m w = (Inr x, w')"
  by (auto simp: transaction_def split: prod.splits sum.splits)

lemma transaction_Inl_iff:
  "transaction m w = (Inl e, w') \<longleftrightarrow> (\<exists>u. m w = (Inl e, u) \<and> w' = u \<lparr> w_db := w_db w \<rparr>)"
  by (auto simp: transaction_def split: prod.splits sum.splits)

lemmas op_iffs =
  op_bind_Inr_iff op_bind_Inl_iff exec_Inr_iff exec_Inl_iff transaction_Inr_iff transaction_Inl_iff

text \<open>A failed transaction leaves the database as it was.\<close>

lemma transaction_rollback: "transaction m w = (Inl e, w') \<Longrightarrow> w_db w' = w_db w"
  by (auto simp: transaction_Inl_iff)

lemma insert_row_Inr_iff [table_simps]:
  "insert_row clash refs r rows = Inr rows' \<longleftrightarrow>
     (\<forall>x \<in> set rows. \<not> clash x) \<and> refs \<and> rows' = rows @ [r]"
  by (auto simp: insert_row_def list_ex_iff)

lemma insert_row_error [table_simps]:
  "insert_row clash refs r rows = Inl e \<longleftrightarrow> e = Internal \<and> (\<not> refs \<or> (\<exists>x \<in> set rows. clash x))"
  by (auto simp: insert_row_def list_ex_iff)

lemma update_rows_run [simp, table_simps]:
  "fst (update_rows P f rows) = map (\<lambda>r. if P r then f r else r) rows"
  "snd (update_rows P f rows) = 0 \<longleftrightarrow> (\<forall>r \<in> set rows. \<not> P r)"
  by (auto simp: update_rows_def filter_empty_conv)

lemma delete_rows_run [simp, table_simps]:
  "fst (delete_rows P rows) = filter (\<lambda>r. \<not> P r) rows"
  "snd (delete_rows P rows) = 0 \<longleftrightarrow> (\<forall>r \<in> set rows. \<not> P r)"
  by (auto simp: delete_rows_def filter_empty_conv)

subsection \<open>Preservation\<close>

text \<open>\<open>keeps P m\<close>: the operation keeps an invariant of the world, also when it fails.\<close>

definition keeps :: "(world \<Rightarrow> bool) \<Rightarrow> 'a op \<Rightarrow> bool" where
  "keeps P m \<longleftrightarrow> (\<forall>w. P w \<longrightarrow> P (snd (m w)))"

named_theorems keeps_intros \<open>introduction rules for preservation by an operation\<close>

lemma keepsD: "keeps P m \<Longrightarrow> P w \<Longrightarrow> m w = (r, w') \<Longrightarrow> P w'"
  by (metis keeps_def snd_conv)

lemma keeps_pure [keeps_intros]:
  "keeps P (op_return x)" "keeps P (op_fail e)" "keeps P (op_lift r)" "keeps P (query q)"
  "keeps P (try_query tq)"
  by (simp_all add: keeps_def)

lemma keeps_bind [keeps_intros]:
  "keeps P m \<Longrightarrow> (\<And>x. keeps P (f x)) \<Longrightarrow> keeps P (op_bind m f)"
  by (auto simp: keeps_def op_bind_def split: prod.splits sum.splits; metis snd_conv)

lemma keeps_iter [keeps_intros]: "(\<And>x. keeps P (f x)) \<Longrightarrow> keeps P (op_iter f xs)"
  by (induction xs) (auto intro: keeps_intros)

lemma keeps_mapM [keeps_intros]: "(\<And>x. keeps P (f x)) \<Longrightarrow> keeps P (op_mapM f xs)"
  by (induction xs) (auto intro: keeps_intros)

lemma keeps_if [keeps_intros]: "keeps P m \<Longrightarrow> keeps P n \<Longrightarrow> keeps P (if b then m else n)"
  by simp

lemma keeps_case_option [keeps_intros]:
  "keeps P m \<Longrightarrow> (\<And>x. keeps P (f x)) \<Longrightarrow> keeps P (case c of None \<Rightarrow> m | Some x \<Rightarrow> f x)"
  by (cases c) auto

lemma keeps_exec:
  "(\<And>w x d. P w \<Longrightarrow> f (w_db w) = Inr (x, d) \<Longrightarrow> P (w \<lparr> w_db := d \<rparr>)) \<Longrightarrow> keeps P (exec f)"
  by (auto simp: keeps_def exec_def split: sum.splits)

end
