(* ===== verification/Event_Repositories.thy ===== *)
theory Event_Repositories
  imports Database
begin

text \<open>
  The event stores of the three aggregates
  (\<open>driver/src/database/postgres/{account,profile,metadata}_event_store.rs\<close>) on their
  tables and the aggregate repositories built on them
  (\<open>{account,profile,metadata}_repository.rs\<close>): \<open>load\<close> replays a stream, \<open>save\<close> appends
  the event a command proposes under a freshly generated version. The locale
  \<open>event_port\<close> states what a repository relies on of its store and proves the optimistic
  concurrency contract once for the three of them.
\<close>

subsection \<open>Event stores\<close>

definition account_events_find_by_id ::
  "int \<Rightarrow> version option \<Rightarrow> db \<Rightarrow> account_event event_envelope list" where
  "account_events_find_by_id i since d = find_by_id (t_account_events d) i since"

definition account_events_persist_internal ::
  "account_command \<Rightarrow> version \<Rightarrow> db \<Rightarrow> (unit \<times> db) kresult" where
  "account_events_persist_internal command version d =
     res_map (\<lambda>t. ((), d \<lparr> t_account_events := t \<rparr>))
       (persist_internal (t_account_events d) command version)"

definition account_events_persist :: "env \<Rightarrow> account_command \<Rightarrow> unit op" where
  "account_events_persist e command =
     op_bind (generate_id e) (\<lambda>version. exec (account_events_persist_internal command version))"

definition account_events_persist_and_transform ::
  "env \<Rightarrow> account_command \<Rightarrow> account_event event_envelope op" where
  "account_events_persist_and_transform e command =
     op_bind (generate_id e) (\<lambda>version.
     op_bind (exec (account_events_persist_internal command version)) (\<lambda>_.
     op_return (envelope_of command version)))"

definition profile_events_find_by_id ::
  "int \<Rightarrow> version option \<Rightarrow> db \<Rightarrow> profile_event event_envelope list" where
  "profile_events_find_by_id i since d = find_by_id (t_profile_events d) i since"

definition profile_events_persist_internal ::
  "profile_command \<Rightarrow> version \<Rightarrow> db \<Rightarrow> (unit \<times> db) kresult" where
  "profile_events_persist_internal command version d =
     res_map (\<lambda>t. ((), d \<lparr> t_profile_events := t \<rparr>))
       (persist_internal (t_profile_events d) command version)"

definition profile_events_persist :: "env \<Rightarrow> profile_command \<Rightarrow> unit op" where
  "profile_events_persist e command =
     op_bind (generate_id e) (\<lambda>version. exec (profile_events_persist_internal command version))"

definition profile_events_persist_and_transform ::
  "env \<Rightarrow> profile_command \<Rightarrow> profile_event event_envelope op" where
  "profile_events_persist_and_transform e command =
     op_bind (generate_id e) (\<lambda>version.
     op_bind (exec (profile_events_persist_internal command version)) (\<lambda>_.
     op_return (envelope_of command version)))"

definition metadata_events_find_by_id ::
  "int \<Rightarrow> version option \<Rightarrow> db \<Rightarrow> metadata_event event_envelope list" where
  "metadata_events_find_by_id i since d = find_by_id (t_metadata_events d) i since"

definition metadata_events_persist_internal ::
  "metadata_command \<Rightarrow> version \<Rightarrow> db \<Rightarrow> (unit \<times> db) kresult" where
  "metadata_events_persist_internal command version d =
     res_map (\<lambda>t. ((), d \<lparr> t_metadata_events := t \<rparr>))
       (persist_internal (t_metadata_events d) command version)"

definition metadata_events_persist :: "env \<Rightarrow> metadata_command \<Rightarrow> unit op" where
  "metadata_events_persist e command =
     op_bind (generate_id e) (\<lambda>version. exec (metadata_events_persist_internal command version))"

definition metadata_events_persist_and_transform ::
  "env \<Rightarrow> metadata_command \<Rightarrow> metadata_event event_envelope op" where
  "metadata_events_persist_and_transform e command =
     op_bind (generate_id e) (\<lambda>version.
     op_bind (exec (metadata_events_persist_internal command version)) (\<lambda>_.
     op_return (envelope_of command version)))"

subsection \<open>Repositories\<close>

definition account_repository_load :: "env \<Rightarrow> account_id \<Rightarrow> db \<Rightarrow> account rehydrated kresult" where
  "account_repository_load e i d =
     res_bind (from_events (account_apply e) (account_events_find_by_id i None d)) (ok_or NotFound)"

definition account_repository_save :: "env \<Rightarrow> account_command \<Rightarrow> account_event event_envelope op" where
  "account_repository_save e command = account_events_persist_and_transform e command"

definition profile_repository_load :: "profile_id \<Rightarrow> db \<Rightarrow> profile rehydrated kresult" where
  "profile_repository_load i d =
     res_bind (from_events profile_apply (profile_events_find_by_id i None d)) (ok_or NotFound)"

definition profile_repository_save :: "env \<Rightarrow> profile_command \<Rightarrow> profile_event event_envelope op" where
  "profile_repository_save e command = profile_events_persist_and_transform e command"

definition metadata_repository_load :: "metadata_id \<Rightarrow> db \<Rightarrow> metadata rehydrated kresult" where
  "metadata_repository_load i d =
     res_bind (from_events_allow_deletion metadata_apply (metadata_events_find_by_id i None d))
       (ok_or NotFound)"

definition metadata_repository_save :: "env \<Rightarrow> metadata_command \<Rightarrow> metadata_event event_envelope op" where
  "metadata_repository_save e command = metadata_events_persist_and_transform e command"

subsection \<open>The generator runs ahead of the event tables\<close>

definition versions_below :: "int \<Rightarrow> 'e event_table \<Rightarrow> bool" where
  "versions_below n t = list_all (\<lambda>r. er_version r \<le> n) (et_rows t)"

text \<open>
  Every stored version was generated before: the invariant that makes a fresh version the
  largest of its stream, and the tables well formed.
\<close>

definition ids_ahead :: "world \<Rightarrow> bool" where
  "ids_ahead w \<longleftrightarrow>
     versions_below (w_last_id w) (t_account_events (w_db w)) \<and>
     versions_below (w_last_id w) (t_profile_events (w_db w)) \<and>
     versions_below (w_last_id w) (t_metadata_events (w_db w)) \<and>
     wf_event_table (t_account_events (w_db w)) \<and>
     wf_event_table (t_profile_events (w_db w)) \<and>
     wf_event_table (t_metadata_events (w_db w))"

lemma ids_ahead_empty [simp]: "ids_ahead empty_world"
  by (simp add: ids_ahead_def empty_world_def empty_db_def versions_below_def)
    (simp add: empty_event_table_def)

lemma versions_below_mono: "versions_below m t \<Longrightarrow> m \<le> n \<Longrightarrow> versions_below n t"
  by (auto simp: versions_below_def list_all_iff)

lemma versions_below_fresh: "versions_below m t \<Longrightarrow> m < n \<Longrightarrow> fresh_version t n"
  by (auto simp: versions_below_def fresh_version_def list_all_iff)

lemma versions_below_persist:
  "versions_below m t \<Longrightarrow> m \<le> n \<Longrightarrow> persist_internal t c n = Inr t' \<Longrightarrow> versions_below n t'"
  by (auto simp: versions_below_def list_all_iff persist_internal_Inr_iff insert_event_Inr_iff)

subsection \<open>What a repository relies on\<close>

locale event_port =
  fixes tab :: "db \<Rightarrow> 'e event_table"
    and put :: "'e event_table \<Rightarrow> db \<Rightarrow> db"
    and save :: "env \<Rightarrow> 'e command_envelope \<Rightarrow> 'e event_envelope op"
  assumes get_put [simp]: "tab (put t d) = t"
    and save_eq: "save e c w =
      (let v = next_snowflake e (w_last_id w); w1 = w \<lparr> w_last_id := v \<rparr> in
       case persist_internal (tab (w_db w)) c v of
         Inl x \<Rightarrow> (Inl x, w1)
       | Inr t \<Rightarrow> (Inr (envelope_of c v), w1 \<lparr> w_db := put t (w_db w) \<rparr>))"
    and ahead_tab: "ids_ahead w \<Longrightarrow> versions_below (w_last_id w) (tab (w_db w))"
    and ahead_put: "ids_ahead w \<Longrightarrow> w_last_id w \<le> n \<Longrightarrow> versions_below n t \<Longrightarrow> wf_event_table t \<Longrightarrow>
      ids_ahead (w \<lparr> w_last_id := n, w_db := put t (w_db w) \<rparr>)"
    and ahead_wf: "ids_ahead w \<Longrightarrow> wf_event_table (tab (w_db w))"
begin

lemma save_fresh:
  "ids_ahead w \<Longrightarrow> snowflake_crate e \<Longrightarrow> fresh_version (tab (w_db w)) (next_snowflake e (w_last_id w))"
  by (rule versions_below_fresh [OF ahead_tab]) (auto simp: snowflake_crate_def)

lemma save_Inr:
  assumes "save e c w = (Inr ev, w')"
  shows "ev = envelope_of c (next_snowflake e (w_last_id w))"
    and "w_last_id w' = next_snowflake e (w_last_id w)"
    and "persist_internal (tab (w_db w)) c (next_snowflake e (w_last_id w)) = Inr (tab (w_db w'))"
    and "w_db w' = put (tab (w_db w')) (w_db w)"
    and "w_keto w' = w_keto w"
  using assms by (auto simp: save_eq Let_def split: sum.splits)

text \<open>Under the invariant a save succeeds exactly when its expectation is met.\<close>

lemma save_ok_iff:
  assumes "ids_ahead w" and "snowflake_crate e"
  shows "is_ok (fst (save e c w)) \<longleftrightarrow> expectation_met (tab (w_db w)) c"
  using persist_fresh [OF save_fresh [OF assms], of c]
  by (cases "expectation_met (tab (w_db w)) c") (auto simp: save_eq persist_internal_eq Let_def)

lemma save_error:
  assumes "ids_ahead w" and "snowflake_crate e" and "save e c w = (Inl x, w')"
  shows "x = Concurrency" and "w_db w' = w_db w" and "\<not> expectation_met (tab (w_db w)) c"
  using assms(3) persist_fresh [OF save_fresh [OF assms(1,2)], of c]
  by (auto simp: save_eq persist_internal_eq Let_def split: sum.splits if_splits)

lemma save_unmet:
  "\<not> expectation_met (tab (w_db w)) c \<Longrightarrow>
     save e c w = (Inl Concurrency, w \<lparr> w_last_id := next_snowflake e (w_last_id w) \<rparr>)"
  by (simp add: save_eq persist_internal_eq Let_def)

lemma save_appends:
  assumes "ids_ahead w" and "snowflake_crate e" and "save e c w = (Inr ev, w')"
  shows "find_by_id (tab (w_db w')) (ce_id c) None = find_by_id (tab (w_db w)) (ce_id c) None @ [ev]"
  using find_after_persist_same [OF save_fresh [OF assms(1,2)]] save_Inr [OF assms(3)] by simp

lemma save_other_stream:
  assumes "save e c w = (Inr ev, w')" and "i \<noteq> ce_id c"
  shows "find_by_id (tab (w_db w')) i s = find_by_id (tab (w_db w)) i s"
  using find_after_persist_other assms save_Inr(3) by blast

lemma save_keeps_ahead: "snowflake_crate e \<Longrightarrow> keeps ids_ahead (save e c)"
  unfolding keeps_def
proof (intro allI impI)
  fix w
  assume e: "snowflake_crate e" and w: "ids_ahead w"
  let ?v = "next_snowflake e (w_last_id w)"
  have le: "w_last_id w \<le> ?v" using e by (simp add: snowflake_crate_def less_imp_le)
  show "ids_ahead (snd (save e c w))"
  proof (cases "persist_internal (tab (w_db w)) c ?v")
    case (Inl x)
    have "ids_ahead (w \<lparr> w_last_id := ?v \<rparr>)"
      using w le by (auto simp: ids_ahead_def intro: versions_below_mono)
    with Inl show ?thesis by (simp add: save_eq Let_def)
  next
    case (Inr t)
    then have "versions_below ?v t" and "wf_event_table t"
      using versions_below_persist [OF ahead_tab [OF w] le] persist_internal_wf [OF ahead_wf [OF w]]
      by auto
    then have "ids_ahead (w \<lparr> w_last_id := ?v, w_db := put t (w_db w) \<rparr>)"
      by (rule ahead_put [OF w le])
    with Inr show ?thesis by (simp add: save_eq Let_def)
  qed
qed

text \<open>The version that the loaded stream ends in is the one the next save must expect.\<close>

lemma expectation_at_iff:
  assumes "ce_prev_version c = Some (At v)"
  shows "expectation_met (tab d) c \<longleftrightarrow>
     find_by_id (tab d) (ce_id c) None \<noteq> [] \<and> ee_version (last (find_by_id (tab d) (ce_id c) None)) = v"
  using assms last_version_is_max [of "tab d" "ce_id c"] find_by_id_Nil [of "tab d" "ce_id c"]
  by (cases "find_by_id (tab d) (ce_id c) None = []") (auto simp: expectation_met_def)

text \<open>Of two writers that loaded the same version only one gets through.\<close>

lemma second_writer_loses:
  assumes "ids_ahead w" and "snowflake_crate e" and "save e c w = (Inr ev, w')"
    and "ce_prev_version c = Some (At v)"
    and "ce_prev_version c' = Some (At v)" and "ce_id c' = ce_id c"
  shows "save e c' w' = (Inl Concurrency, w' \<lparr> w_last_id := next_snowflake e (w_last_id w') \<rparr>)"
proof (rule save_unmet)
  have met: "expectation_met (tab (w_db w)) c"
    using assms(3) save_ok_iff [OF assms(1,2), of c] by simp
  then have "max_version (ce_id c) (tab (w_db w)) = Some v"
    using assms(4) by (simp add: expectation_met_def)
  moreover have "find_by_id (tab (w_db w')) (ce_id c) None \<noteq> []"
    and "ee_version (last (find_by_id (tab (w_db w')) (ce_id c) None)) = next_snowflake e (w_last_id w)"
    using save_appends [OF assms(1-3)] save_Inr(1) [OF assms(3)] by (auto simp: envelope_of_def)
  moreover have "v \<noteq> next_snowflake e (w_last_id w)"
  proof
    assume v: "v = next_snowflake e (w_last_id w)"
    with \<open>max_version (ce_id c) (tab (w_db w)) = Some v\<close>
    obtain r where "r \<in> set (et_rows (tab (w_db w)))" and "er_version r = v"
      using max_version_in by blast
    with v fresh_version_no_clash [OF save_fresh [OF assms(1,2)]] show False by auto
  qed
  ultimately show "\<not> expectation_met (tab (w_db w')) c'"
    using expectation_at_iff [OF assms(5)] assms(6) by simp
qed

end

lemmas event_store_defs =
  account_events_persist_and_transform_def account_events_persist_internal_def
  profile_events_persist_and_transform_def profile_events_persist_internal_def
  metadata_events_persist_and_transform_def metadata_events_persist_internal_def

lemma save_pattern:
  assumes "\<And>v. f v = (\<lambda>d. res_map (\<lambda>t. ((), put t d)) (persist_internal (tab d) c v))"
  shows "op_bind (generate_id e) (\<lambda>v. op_bind (exec (f v)) (\<lambda>_. op_return (envelope_of c v))) w =
      (let v = next_snowflake e (w_last_id w); w1 = w \<lparr> w_last_id := v \<rparr> in
       case persist_internal (tab (w_db w)) c v of
         Inl x \<Rightarrow> (Inl x, w1)
       | Inr t \<Rightarrow> (Inr (envelope_of c v), w1 \<lparr> w_db := put t (w_db w) \<rparr>))"
  by (simp add: op_bind_def generate_id_def exec_def assms Let_def split: sum.splits)

interpretation acc_port: event_port t_account_events "\<lambda>t d. d \<lparr> t_account_events := t \<rparr>"
    account_repository_save
proof unfold_locales
  fix e c w
  show "account_repository_save e c w =
      (let v = next_snowflake e (w_last_id w); w1 = w \<lparr> w_last_id := v \<rparr> in
       case persist_internal (t_account_events (w_db w)) c v of
         Inl x \<Rightarrow> (Inl x, w1)
       | Inr t \<Rightarrow> (Inr (envelope_of c v), w1 \<lparr> w_db := w_db w \<lparr> t_account_events := t \<rparr> \<rparr>))"
    unfolding account_repository_save_def account_events_persist_and_transform_def
    by (rule save_pattern) (simp add: account_events_persist_internal_def fun_eq_iff)
qed (auto simp: ids_ahead_def intro: versions_below_mono)

interpretation prof_port: event_port t_profile_events "\<lambda>t d. d \<lparr> t_profile_events := t \<rparr>"
    profile_repository_save
proof unfold_locales
  fix e c w
  show "profile_repository_save e c w =
      (let v = next_snowflake e (w_last_id w); w1 = w \<lparr> w_last_id := v \<rparr> in
       case persist_internal (t_profile_events (w_db w)) c v of
         Inl x \<Rightarrow> (Inl x, w1)
       | Inr t \<Rightarrow> (Inr (envelope_of c v), w1 \<lparr> w_db := w_db w \<lparr> t_profile_events := t \<rparr> \<rparr>))"
    unfolding profile_repository_save_def profile_events_persist_and_transform_def
    by (rule save_pattern) (simp add: profile_events_persist_internal_def fun_eq_iff)
qed (auto simp: ids_ahead_def intro: versions_below_mono)

interpretation meta_port: event_port t_metadata_events "\<lambda>t d. d \<lparr> t_metadata_events := t \<rparr>"
    metadata_repository_save
proof unfold_locales
  fix e c w
  show "metadata_repository_save e c w =
      (let v = next_snowflake e (w_last_id w); w1 = w \<lparr> w_last_id := v \<rparr> in
       case persist_internal (t_metadata_events (w_db w)) c v of
         Inl x \<Rightarrow> (Inl x, w1)
       | Inr t \<Rightarrow> (Inr (envelope_of c v), w1 \<lparr> w_db := w_db w \<lparr> t_metadata_events := t \<rparr> \<rparr>))"
    unfolding metadata_repository_save_def metadata_events_persist_and_transform_def
    by (rule save_pattern) (simp add: metadata_events_persist_internal_def fun_eq_iff)
qed (auto simp: ids_ahead_def intro: versions_below_mono)

subsection \<open>Loading what was saved\<close>

text \<open>
  A repository for an aggregate that no event deletes: an event port together with the replay
  of the aggregate.
\<close>

locale aggregate_repository =
  undeletable app agg_id agg_version + event_port tab put save
  for app :: "('a, 'e) applier" and agg_id :: "'a \<Rightarrow> int" and agg_version :: "'a \<Rightarrow> version"
    and tab :: "db \<Rightarrow> 'e event_table" and put :: "'e event_table \<Rightarrow> db \<Rightarrow> db"
    and save :: "env \<Rightarrow> 'e command_envelope \<Rightarrow> 'e event_envelope op" +
  fixes load :: "int \<Rightarrow> db \<Rightarrow> 'a rehydrated kresult"
  assumes load_eq: "load i d = res_bind (from_events app (find_by_id (tab d) i None)) (ok_or NotFound)"
begin

lemma load_Inr_iff: "load i d = Inr r \<longleftrightarrow> from_events app (find_by_id (tab d) i None) = Inr (Some r)"
  by (auto simp: load_eq result_iffs)

lemma load_identity: "load i d = Inr r \<Longrightarrow> agg_id (rh_aggregate r) = i"
  unfolding load_Inr_iff by (erule rehydrated_id) (rule find_by_id_same_stream)

lemma load_version: "load i d = Inr r \<Longrightarrow> agg_version (rh_aggregate r) = rh_version r"
  unfolding load_Inr_iff by (rule rehydrated_version)

text \<open>The loaded version is the one a save has to expect, so an unchanged stream accepts it.\<close>

lemma load_then_expect:
  assumes "load i d = Inr r" and "ce_id c = i" and "ce_prev_version c = Some (At v)"
  shows "expectation_met (tab d) c \<longleftrightarrow> v = rh_version r"
  using expectation_at_iff [OF assms(3), of d] assms(1,2)
  by (auto simp: load_Inr_iff dest: from_events_SomeD)

lemma load_after_save:
  assumes "ids_ahead w" and "snowflake_crate e" and "load i (w_db w) = Inr r"
    and "save e c w = (Inr ev, w')" and "ce_id c = i"
  shows "load i (w_db w') =
     res_map (\<lambda>m. \<lparr> rh_aggregate = the m, rh_version = ee_version ev \<rparr>)
       (app ev (Some (rh_aggregate r)))"
proof -
  have evs: "find_by_id (tab (w_db w')) i None = find_by_id (tab (w_db w)) i None @ [ev]"
    using save_appends [OF assms(1,2,4)] assms(5) by simp
  have fold: "res_fold app (find_by_id (tab (w_db w)) i None) None = Inr (Some (rh_aggregate r))"
    using assms(3) by (auto simp: load_Inr_iff dest: from_events_SomeD)
  show ?thesis
  proof (cases "app ev (Some (rh_aggregate r))")
    case (Inl x)
    with evs fold show ?thesis by (simp add: load_eq from_events_snoc)
  next
    case (Inr m)
    then obtain a where "m = Some a" using keeps by (cases m) auto
    with Inr evs fold show ?thesis by (simp add: load_eq from_events_snoc)
  qed
qed

lemma load_other_after_save:
  "save e c w = (Inr ev, w') \<Longrightarrow> i \<noteq> ce_id c \<Longrightarrow> load i (w_db w') = load i (w_db w)"
  by (simp add: load_eq save_other_stream)

lemma load_after_first_save:
  assumes "ids_ahead w" and "snowflake_crate e" and "save e c w = (Inr ev, w')"
    and "ce_prev_version c = Some Nothing" and "app ev None = Inr (Some a)"
  shows "load (ce_id c) (w_db w') = Inr \<lparr> rh_aggregate = a, rh_version = ee_version ev \<rparr>"
proof -
  have "expectation_met (tab (w_db w)) c"
    using save_ok_iff [OF assms(1,2), of c] assms(3) by simp
  then have "find_by_id (tab (w_db w)) (ce_id c) None = []"
    using assms(4) by (simp add: expectation_met_def find_by_id_Nil)
  then have "find_by_id (tab (w_db w')) (ce_id c) None = [ev]"
    using save_appends [OF assms(1-3)] by simp
  with assms(5) show ?thesis by (simp add: load_eq from_events_def)
qed

end

interpretation acc_repo: aggregate_repository "account_apply e" acc_id acc_version
    t_account_events "\<lambda>t d. d \<lparr> t_account_events := t \<rparr>" account_repository_save
    "account_repository_load e" for e
  by unfold_locales (simp add: account_repository_load_def account_events_find_by_id_def)

interpretation prof_repo: aggregate_repository profile_apply pr_id pr_version
    t_profile_events "\<lambda>t d. d \<lparr> t_profile_events := t \<rparr>" profile_repository_save
    profile_repository_load
  by unfold_locales (simp add: profile_repository_load_def profile_events_find_by_id_def)

subsection \<open>Properties\<close>

text \<open>A world with one account, number 7, at version 9, used by the examples.\<close>

definition example_world :: world where
  "example_world = empty_world \<lparr>
     w_last_id := 9,
     w_db := empty_db \<lparr> t_account_events :=
       \<lparr> et_rows = [\<lparr> er_seq = 1, er_version = 9, er_id = 7,
                     er_data = AccountCreated ''alice'' False ''n1'' 3 \<rparr>],
         et_next_seq = 2 \<rparr> \<rparr> \<rparr>"

lemma example_world_ahead [simp]: "ids_ahead example_world"
  by (simp add: ids_ahead_def example_world_def empty_world_def empty_db_def versions_below_def
      wf_event_table_def empty_event_table_def)

text \<open>C2. Optimistic concurrency: saving a command that expects version \<open>v\<close> succeeds exactly
  when \<open>v\<close> is the version of the last event of the account's stream; otherwise the answer is
  \<open>Concurrency\<close> and the database is unchanged.\<close>

theorem account_save_optimistic:
  assumes "ids_ahead w" and "snowflake_crate e" and "ce_prev_version c = Some (At v)"
  shows "if find_by_id (t_account_events (w_db w)) (ce_id c) None \<noteq> [] \<and>
            ee_version (last (find_by_id (t_account_events (w_db w)) (ce_id c) None)) = v
         then \<exists>ev. fst (account_repository_save e c w) = Inr ev \<and>
                find_by_id (t_account_events (w_db (snd (account_repository_save e c w)))) (ce_id c) None =
                find_by_id (t_account_events (w_db w)) (ce_id c) None @ [ev]
         else fst (account_repository_save e c w) = Inl Concurrency \<and>
              w_db (snd (account_repository_save e c w)) = w_db w"
proof (cases "expectation_met (t_account_events (w_db w)) c")
  case True
  then obtain ev w' where "account_repository_save e c w = (Inr ev, w')"
    using acc_port.save_ok_iff [OF assms(1,2)] by (metis is_ok_iff prod.collapse)
  with True acc_port.save_appends [OF assms(1,2)] show ?thesis
    using acc_port.expectation_at_iff [OF assms(3)] by simp
next
  case False
  from acc_port.save_unmet [OF this]
  have "fst (account_repository_save e c w) = Inl Concurrency"
    and "w_db (snd (account_repository_save e c w)) = w_db w" by simp_all
  then show ?thesis using False acc_port.expectation_at_iff [OF assms(3)] by auto
qed

theorem account_save_optimistic_witness:
  "fst (account_repository_save (clock_env 0) (account_update 7 True 9) example_world) \<noteq> Inl Concurrency \<and>
   fst (account_repository_save (clock_env 0) (account_update 7 True 8) example_world) = Inl Concurrency"
proof -
  have stream: "find_by_id (t_account_events (w_db example_world)) 7 None =
      [\<lparr> ee_id = 7, ee_event = AccountCreated ''alice'' False ''n1'' 3, ee_version = 9 \<rparr>]"
    by (simp add: example_world_def find_by_id_def event_row_try_from_def)
  show ?thesis
    using account_save_optimistic [of example_world "clock_env 0" "account_update 7 True 9" 9]
      account_save_optimistic [of example_world "clock_env 0" "account_update 7 True 8" 8] stream
    by (auto simp: account_update_def)
qed



text \<open>C19. Loading an account after a successful save gives exactly what replaying the saved event
  on the previously loaded account gives: the updated account at the new version, or the error
  of the replay, and every other account loads as before.\<close>

theorem account_load_after_save:
  assumes "ids_ahead w" and "snowflake_crate e"
    and "account_repository_load e (ce_id c) (w_db w) = Inr r"
    and "account_repository_save e c w = (Inr ev, w')"
  shows "account_repository_load e (ce_id c) (w_db w') =
           res_map (\<lambda>m. \<lparr> rh_aggregate = the m, rh_version = ee_version ev \<rparr>)
             (account_apply e ev (Some (rh_aggregate r))) \<and>
         (\<forall>i. i \<noteq> ce_id c \<longrightarrow>
           account_repository_load e i (w_db w') = account_repository_load e i (w_db w))"
  using acc_repo.load_after_save [OF assms(1-4)] acc_repo.load_other_after_save [OF assms(4)] by simp

theorem account_load_after_save_witness:
  "\<exists>w'. account_repository_save (clock_env 0) (account_update 7 True 9) example_world =
          (Inr \<lparr> ee_id = 7, ee_event = AccountUpdated True, ee_version = 10 \<rparr>, w') \<and>
     account_repository_load (clock_env 0) 7 (w_db w') =
       Inr \<lparr> rh_aggregate = \<lparr> acc_id = 7, acc_name = ''alice'', acc_is_bot = True, acc_status = Active,
               acc_deleted_at = None, acc_version = 10, acc_nanoid = ''n1'',
               acc_created_at = id_created_at 7 \<rparr>, rh_version = 10 \<rparr>"
proof -
  let ?ev = "\<lparr> ee_id = 7, ee_event = AccountUpdated True, ee_version = 10 \<rparr>"
  have load: "account_repository_load (clock_env 0) 7 (w_db example_world) =
      Inr \<lparr> rh_aggregate = \<lparr> acc_id = 7, acc_name = ''alice'', acc_is_bot = False, acc_status = Active,
              acc_deleted_at = None, acc_version = 9, acc_nanoid = ''n1'',
              acc_created_at = id_created_at 7 \<rparr>, rh_version = 9 \<rparr>"
    by (simp add: account_repository_load_def account_events_find_by_id_def example_world_def
        find_by_id_def event_row_try_from_def from_events_def account_apply_def created_at_of_id)
  obtain w' where ok: "account_repository_save (clock_env 0) (account_update 7 True 9) example_world = (Inr ?ev, w')"
    by (simp add: acc_port.save_eq persist_internal_def account_update_def example_world_def Let_def
        insert_event_where_def insert_event_def max_version_def stream_rows_def clock_env_def
        envelope_of_def)
  have "account_repository_load (clock_env 0) 7 (w_db w') =
      Inr \<lparr> rh_aggregate = \<lparr> acc_id = 7, acc_name = ''alice'', acc_is_bot = True, acc_status = Active,
              acc_deleted_at = None, acc_version = 10, acc_nanoid = ''n1'',
              acc_created_at = id_created_at 7 \<rparr>, rh_version = 10 \<rparr>"
    using account_load_after_save [of example_world "clock_env 0" "account_update 7 True 9" _ ?ev w']
      load ok by (simp add: account_update_def account_apply_def)
  with ok show ?thesis by blast
qed

end
