(* ===== verification/Account_Read_Model.thy ===== *)
theory Account_Read_Model
  imports Database
begin

text \<open>
  The account read model: the \<open>accounts\<close> table and the link table to auth accounts, with the
  queries and statements of \<open>driver/src/database/postgres/account/mod.rs\<close> and the conversion
  of rows to entities in \<open>account/row.rs\<close>. The functions take the environment because
  SQL's \<open>now()\<close> and the conversion read the clock.
\<close>

subsection \<open>Rows and entities\<close>

definition account_from_row :: "env \<Rightarrow> account_row \<Rightarrow> bool \<Rightarrow> account" where
  "account_from_row e r check_suspend_expiry =
     (let status =
        (case (ar_banned_at r, ar_ban_reason r) of
           (Some banned_at, Some reason) \<Rightarrow> Banned reason banned_at
         | _ \<Rightarrow>
           (case (ar_suspended_at r, ar_suspend_reason r) of
              (Some suspended_at, Some reason) \<Rightarrow>
                if check_suspend_expiry then
                  (case ar_suspend_expires_at r of
                     Some expires_at \<Rightarrow>
                       if expires_at \<le> now_utc e then Active
                       else Suspended reason suspended_at (Some expires_at)
                   | None \<Rightarrow> Suspended reason suspended_at None)
                else Suspended reason suspended_at (ar_suspend_expires_at r)
            | _ \<Rightarrow> Active))
      in \<lparr> acc_id = ar_id r, acc_name = ar_name r, acc_is_bot = ar_is_bot r, acc_status = status,
           acc_deleted_at = ar_deleted_at r, acc_version = ar_version r, acc_nanoid = ar_nanoid r,
           acc_created_at = ar_created_at r \<rparr>)"

definition account_from :: "env \<Rightarrow> account_row \<Rightarrow> account" where
  "account_from e r = account_from_row e r False"

text \<open>The five moderation columns that a status is written to.\<close>

fun status_columns :: "account_status \<Rightarrow>
    datetime option \<times> datetime option \<times> string option \<times> datetime option \<times> string option" where
  "status_columns Active = (None, None, None, None, None)"
| "status_columns (Suspended reason suspended_at expires_at) =
     (Some suspended_at, expires_at, Some reason, None, None)"
| "status_columns (Banned reason banned_at) = (None, None, None, Some banned_at, Some reason)"

text \<open>The \<open>CHECK\<close> constraints of the table.\<close>

definition account_row_checks :: "account_row \<Rightarrow> bool" where
  "account_row_checks r \<longleftrightarrow>
     ((ar_suspended_at r = None \<and> ar_suspend_reason r = None \<and> ar_suspend_expires_at r = None) \<or>
      (ar_suspended_at r \<noteq> None \<and> ar_suspend_reason r \<noteq> None)) \<and>
     ((ar_banned_at r = None \<and> ar_ban_reason r = None) \<or>
      (ar_banned_at r \<noteq> None \<and> ar_ban_reason r \<noteq> None)) \<and>
     \<not> (ar_suspended_at r \<noteq> None \<and> ar_banned_at r \<noteq> None)"

subsection \<open>Queries\<close>

text \<open>The visibility condition that the filtered queries share.\<close>

definition visible :: "env \<Rightarrow> account_row \<Rightarrow> bool" where
  "visible e r \<longleftrightarrow>
     ar_deleted_at r = None \<and> ar_banned_at r = None \<and>
     (ar_suspended_at r = None \<or>
      (case ar_suspend_expires_at r of None \<Rightarrow> False | Some t \<Rightarrow> t \<le> now_utc e))"

definition account_find_by_id :: "env \<Rightarrow> account_id \<Rightarrow> db \<Rightarrow> account option" where
  "account_find_by_id e i d =
     map_option (account_from e) (List.find (\<lambda>r. ar_id r = i \<and> visible e r) (t_accounts d))"

definition account_find_by_auth_id :: "env \<Rightarrow> auth_account_id \<Rightarrow> db \<Rightarrow> account list" where
  "account_find_by_auth_id e auth_id d =
     map (\<lambda>r. account_from_row e r True)
       (filter (\<lambda>r. (ar_id r, auth_id) \<in> set (t_auth_emumet_accounts d) \<and> ar_deleted_at r = None)
         (t_accounts d))"

definition find_auth_account_id_by_account_id :: "account_id \<Rightarrow> db \<Rightarrow> auth_account_id option" where
  "find_auth_account_id_by_account_id account_id d =
     map_option snd (List.find (\<lambda>l. fst l = account_id) (t_auth_emumet_accounts d))"

definition account_find_by_name :: "env \<Rightarrow> string \<Rightarrow> db \<Rightarrow> account option" where
  "account_find_by_name e name d =
     map_option (account_from e) (List.find (\<lambda>r. ar_name r = name \<and> visible e r) (t_accounts d))"

definition account_find_by_nanoid :: "env \<Rightarrow> nanoid \<Rightarrow> db \<Rightarrow> account option" where
  "account_find_by_nanoid e nid d =
     map_option (account_from e) (List.find (\<lambda>r. ar_nanoid r = nid \<and> visible e r) (t_accounts d))"

definition account_find_by_nanoids :: "env \<Rightarrow> nanoid list \<Rightarrow> db \<Rightarrow> account list" where
  "account_find_by_nanoids e nids d =
     map (account_from e) (filter (\<lambda>r. ar_nanoid r \<in> set nids \<and> visible e r) (t_accounts d))"

definition account_find_by_id_unfiltered :: "env \<Rightarrow> account_id \<Rightarrow> db \<Rightarrow> account option" where
  "account_find_by_id_unfiltered e i d =
     map_option (\<lambda>r. account_from_row e r True)
       (List.find (\<lambda>r. ar_id r = i \<and> ar_deleted_at r = None) (t_accounts d))"

definition account_find_by_nanoid_unfiltered :: "env \<Rightarrow> nanoid \<Rightarrow> db \<Rightarrow> account option" where
  "account_find_by_nanoid_unfiltered e nid d =
     map_option (\<lambda>r. account_from_row e r True)
       (List.find (\<lambda>r. ar_nanoid r = nid \<and> ar_deleted_at r = None) (t_accounts d))"

definition account_find_by_nanoids_unfiltered :: "env \<Rightarrow> nanoid list \<Rightarrow> db \<Rightarrow> account list" where
  "account_find_by_nanoids_unfiltered e nids d =
     map (\<lambda>r. account_from_row e r True)
       (filter (\<lambda>r. ar_nanoid r \<in> set nids \<and> ar_deleted_at r = None) (t_accounts d))"

definition account_find_by_id_including_deleted :: "env \<Rightarrow> account_id \<Rightarrow> db \<Rightarrow> account option" where
  "account_find_by_id_including_deleted e i d =
     map_option (\<lambda>r. account_from_row e r True) (List.find (\<lambda>r. ar_id r = i) (t_accounts d))"

definition account_find_by_nanoid_including_deleted :: "env \<Rightarrow> nanoid \<Rightarrow> db \<Rightarrow> account option" where
  "account_find_by_nanoid_including_deleted e nid d =
     map_option (\<lambda>r. account_from_row e r True) (List.find (\<lambda>r. ar_nanoid r = nid) (t_accounts d))"

definition is_linked_including_deleted :: "auth_account_id \<Rightarrow> account_id \<Rightarrow> db \<Rightarrow> bool" where
  "is_linked_including_deleted auth_id account_id d =
     ((account_id, auth_id) \<in> set (t_auth_emumet_accounts d))"

subsection \<open>Statements\<close>

text \<open>Unique keys of the table: identifier, nanoid and name.\<close>

definition account_clash :: "account_row \<Rightarrow> account_row \<Rightarrow> bool" where
  "account_clash r r' \<longleftrightarrow> ar_id r' = ar_id r \<or> ar_nanoid r' = ar_nanoid r \<or> ar_name r' = ar_name r"

definition account_read_model_create :: "account \<Rightarrow> db \<Rightarrow> (unit \<times> db) kresult" where
  "account_read_model_create a d =
     (let r = \<lparr> ar_id = acc_id a, ar_name = acc_name a, ar_is_bot = acc_is_bot a,
                ar_deleted_at = None, ar_suspended_at = None, ar_suspend_expires_at = None,
                ar_suspend_reason = None, ar_banned_at = None, ar_ban_reason = None,
                ar_version = acc_version a, ar_nanoid = acc_nanoid a,
                ar_created_at = acc_created_at a \<rparr>
      in res_map (\<lambda>rows. ((), d \<lparr> t_accounts := rows \<rparr>))
           (insert_row (account_clash r) True r (t_accounts d)))"

text \<open>
  \<open>UPDATE accounts SET ... WHERE id = i\<close>: refused when a changed row violates a check or takes
  the name or nanoid of another row.
\<close>

definition update_account_rows ::
  "account_id \<Rightarrow> (account_row \<Rightarrow> account_row) \<Rightarrow> db \<Rightarrow> (nat \<times> db) kresult" where
  "update_account_rows i f d =
     (let (rows, n) = update_rows (\<lambda>r. ar_id r = i) f (t_accounts d) in
      if list_all account_row_checks rows \<and> distinct (map ar_name rows) \<and>
         distinct (map ar_nanoid rows)
      then Inr (n, d \<lparr> t_accounts := rows \<rparr>) else Inl Internal)"

definition account_read_model_update :: "account \<Rightarrow> db \<Rightarrow> (unit \<times> db) kresult" where
  "account_read_model_update a d =
     (case status_columns (acc_status a) of
        (suspended_at, suspend_expires_at, suspend_reason, banned_at, ban_reason) \<Rightarrow>
          res_bind
            (update_account_rows (acc_id a)
               (\<lambda>r. r \<lparr> ar_name := acc_name a, ar_is_bot := acc_is_bot a, ar_version := acc_version a,
                        ar_deleted_at := acc_deleted_at a, ar_suspended_at := suspended_at,
                        ar_suspend_expires_at := suspend_expires_at,
                        ar_suspend_reason := suspend_reason, ar_banned_at := banned_at,
                        ar_ban_reason := ban_reason \<rparr>) d)
            (\<lambda>(n, d'). if n = 0 then Inl NotFound else Inr ((), d')))"

definition account_read_model_deactivate :: "env \<Rightarrow> account_id \<Rightarrow> db \<Rightarrow> (unit \<times> db) kresult" where
  "account_read_model_deactivate e i d =
     res_bind
       (update_account_rows i
          (\<lambda>r. r \<lparr> ar_deleted_at :=
                 (case ar_deleted_at r of None \<Rightarrow> Some (now_utc e) | Some t \<Rightarrow> Some t) \<rparr>) d)
       (\<lambda>(n, d'). if n = 0 then Inl NotFound else Inr ((), d'))"

definition unlink_all_auth_accounts :: "account_id \<Rightarrow> db \<Rightarrow> (unit \<times> db) kresult" where
  "unlink_all_auth_accounts account_id d =
     Inr ((), d \<lparr> t_auth_emumet_accounts :=
                  fst (delete_rows (\<lambda>l. fst l = account_id) (t_auth_emumet_accounts d)) \<rparr>)"

text \<open>\<open>ON CONFLICT DO NOTHING\<close>; both columns are foreign keys.\<close>

definition link_auth_account :: "account_id \<Rightarrow> auth_account_id \<Rightarrow> db \<Rightarrow> (unit \<times> db) kresult" where
  "link_auth_account account_id auth_account_id d =
     (if (account_id, auth_account_id) \<in> set (t_auth_emumet_accounts d) then Inr ((), d)
      else if account_id \<notin> set (map ar_id (t_accounts d)) \<or>
              auth_account_id \<notin> set (map aw_id (t_auth_accounts d)) then Inl Internal
      else Inr ((), d \<lparr> t_auth_emumet_accounts :=
                         t_auth_emumet_accounts d @ [(account_id, auth_account_id)] \<rparr>))"

definition account_read_model_suspend ::
  "env \<Rightarrow> account_id \<Rightarrow> string \<Rightarrow> datetime option \<Rightarrow> db \<Rightarrow> (unit \<times> db) kresult" where
  "account_read_model_suspend e i reason expires_at d =
     res_map (\<lambda>(_, d'). ((), d'))
       (update_account_rows i
          (\<lambda>r. r \<lparr> ar_suspended_at := Some (now_utc e), ar_suspend_expires_at := expires_at,
                   ar_suspend_reason := Some reason \<rparr>) d)"

definition account_read_model_unsuspend :: "account_id \<Rightarrow> db \<Rightarrow> (unit \<times> db) kresult" where
  "account_read_model_unsuspend i d =
     res_map (\<lambda>(_, d'). ((), d'))
       (update_account_rows i
          (\<lambda>r. r \<lparr> ar_suspended_at := None, ar_suspend_expires_at := None,
                   ar_suspend_reason := None \<rparr>) d)"

definition account_read_model_ban :: "env \<Rightarrow> account_id \<Rightarrow> string \<Rightarrow> db \<Rightarrow> (unit \<times> db) kresult" where
  "account_read_model_ban e i reason d =
     res_map (\<lambda>(_, d'). ((), d'))
       (update_account_rows i
          (\<lambda>r. r \<lparr> ar_banned_at := Some (now_utc e), ar_ban_reason := Some reason,
                   ar_suspended_at := None, ar_suspend_expires_at := None,
                   ar_suspend_reason := None \<rparr>) d)"

subsection \<open>Lemmas\<close>

text \<open>The row that stores an account, as the projection writer and \<open>update\<close> fill it.\<close>

definition row_of_account :: "account \<Rightarrow> account_row" where
  "row_of_account a =
     (case status_columns (acc_status a) of
        (suspended_at, suspend_expires_at, suspend_reason, banned_at, ban_reason) \<Rightarrow>
          \<lparr> ar_id = acc_id a, ar_name = acc_name a, ar_is_bot = acc_is_bot a,
            ar_deleted_at = acc_deleted_at a, ar_suspended_at = suspended_at,
            ar_suspend_expires_at = suspend_expires_at, ar_suspend_reason = suspend_reason,
            ar_banned_at = banned_at, ar_ban_reason = ban_reason, ar_version = acc_version a,
            ar_nanoid = acc_nanoid a, ar_created_at = acc_created_at a \<rparr>)"

text \<open>A suspension that has run out at the given time.\<close>

fun suspension_over :: "datetime \<Rightarrow> account_status \<Rightarrow> bool" where
  "suspension_over now (Suspended _ _ (Some t)) = (t \<le> now)"
| "suspension_over now _ = False"

definition expire :: "datetime \<Rightarrow> account \<Rightarrow> account" where
  "expire now a = (if suspension_over now (acc_status a) then a \<lparr> acc_status := Active \<rparr> else a)"

lemma row_of_account_checks: "account_row_checks (row_of_account a)"
  by (cases "acc_status a") (simp_all add: row_of_account_def account_row_checks_def)

lemma row_of_account_fields [simp]:
  "ar_id (row_of_account a) = acc_id a" "ar_name (row_of_account a) = acc_name a"
  "ar_is_bot (row_of_account a) = acc_is_bot a" "ar_deleted_at (row_of_account a) = acc_deleted_at a"
  "ar_version (row_of_account a) = acc_version a" "ar_nanoid (row_of_account a) = acc_nanoid a"
  "ar_created_at (row_of_account a) = acc_created_at a"
  by (cases "acc_status a"; simp add: row_of_account_def)+

text \<open>Reading back a stored account without the expiry check is exact; with it, an expired
  suspension reads as active.\<close>

lemma account_row_roundtrip: "account_from e (row_of_account a) = a"
  by (cases "acc_status a")
    (simp_all add: account_from_def account_from_row_def row_of_account_def Let_def)

lemma account_row_roundtrip_expiry: "account_from_row e (row_of_account a) True = expire (now_utc e) a"
proof (cases "acc_status a")
  case (Suspended reason at expires)
  then show ?thesis
    by (cases expires)
      (auto simp: account_from_row_def row_of_account_def expire_def Let_def)
qed (auto simp: account_from_row_def row_of_account_def expire_def Let_def)

lemma visible_row_of_account:
  "visible e (row_of_account a) \<longleftrightarrow>
     acc_deleted_at a = None \<and>
     (is_active (acc_status a) \<or> suspension_over (now_utc e) (acc_status a))"
proof (cases "acc_status a")
  case (Suspended reason at expires)
  then show ?thesis by (cases expires) (auto simp: visible_def row_of_account_def)
qed (auto simp: visible_def row_of_account_def)

subsection \<open>Properties\<close>

text \<open>C32. A filtered lookup never serves a hidden account: what it finds has the identifier asked
  for, is not deactivated, not banned, and if it is suspended the suspension has run out.\<close>

theorem account_lookup_visible:
  assumes "account_find_by_id e i d = Some a"
  shows "acc_id a = i \<and> acc_deleted_at a = None \<and> \<not> is_banned (acc_status a) \<and>
         (is_suspended (acc_status a) \<longrightarrow> suspension_over (now_utc e) (acc_status a))"
proof -
  from assms obtain r where r: "a = account_from e r" "ar_id r = i" "visible e r"
    by (auto simp: account_find_by_id_def dest: find_SomeD)
  then show ?thesis
    by (auto simp: account_from_def account_from_row_def visible_def Let_def split: option.splits)
qed

definition suspended_account :: account where
  "suspended_account =
     \<lparr> acc_id = 7, acc_name = ''alice'', acc_is_bot = False,
       acc_status = Suspended ''spam'' 10 (Some 50), acc_deleted_at = None, acc_version = 9,
       acc_nanoid = ''n7'', acc_created_at = 1 \<rparr>"

definition suspended_db :: db where
  "suspended_db = empty_db \<lparr> t_accounts := [row_of_account suspended_account] \<rparr>"

lemma suspended_lookup: "account_find_by_id (clock_env 60) 7 suspended_db = Some suspended_account"
  by (simp add: account_find_by_id_def suspended_db_def account_row_roundtrip visible_row_of_account
      suspended_account_def)

theorem account_lookup_visible_witness:
  "account_find_by_id (clock_env 60) 7 suspended_db = Some suspended_account \<and>
   acc_id suspended_account = 7 \<and> suspension_over 60 (acc_status suspended_account)"
  using account_lookup_visible [OF suspended_lookup] suspended_lookup
  by (simp add: suspended_account_def)

text \<open>C36. An expired suspension reads differently through the two kinds of lookup: the filtered one
  serves the account with its suspension still in the status, the unfiltered one as active.\<close>

theorem expired_suspension_two_readings:
  assumes "List.find (\<lambda>r. ar_id r = i) (t_accounts d) = Some (row_of_account a)"
    and "acc_deleted_at a = None" and "suspension_over (now_utc e) (acc_status a)"
  shows "account_find_by_id e i d = Some a \<and>
         account_find_by_id_unfiltered e i d = Some (a \<lparr> acc_status := Active \<rparr>)"
proof -
  have v: "visible e (row_of_account a)" using assms(2,3) by (simp add: visible_row_of_account)
  have "List.find (\<lambda>r. ar_id r = i \<and> visible e r) (t_accounts d) = Some (row_of_account a)"
    using assms(1) v by (rule find_conj)
  moreover have "List.find (\<lambda>r. ar_id r = i \<and> ar_deleted_at r = None) (t_accounts d) = Some (row_of_account a)"
    using assms(1) by (rule find_conj) (simp add: assms(2))
  ultimately show ?thesis using assms(3)
    by (simp add: account_find_by_id_def account_find_by_id_unfiltered_def account_row_roundtrip
        account_row_roundtrip_expiry expire_def)
qed

theorem expired_suspension_two_readings_witness:
  "is_suspended (acc_status suspended_account) \<and>
   account_find_by_id (clock_env 60) 7 suspended_db = Some suspended_account \<and>
   account_find_by_id_unfiltered (clock_env 60) 7 suspended_db =
     Some (suspended_account \<lparr> acc_status := Active \<rparr>)"
  using expired_suspension_two_readings [of 7 suspended_db suspended_account "clock_env 60"]
  by (simp add: suspended_db_def suspended_account_def)

end
