(* ===== verification/Read_Models.thy ===== *)
theory Read_Models
  imports Account_Read_Model
begin

text \<open>
  The read models of profiles and metadata (\<open>driver/src/database/postgres/profile.rs\<close> and
  \<open>metadata.rs\<close>), and the version-gated projection writers and the checkpoint store of
  \<open>driver/src/database/postgres/projection.rs\<close>. The projection types
  \<open>ProfileProjection\<close> and \<open>MetadataProjection\<close> have the fields of the entities and share
  their records.
\<close>

type_synonym profile_projection = profile
type_synonym metadata_projection = metadata

subsection \<open>Profiles\<close>

definition profile_projection_from :: "profile_row \<Rightarrow> profile_projection" where
  "profile_projection_from r =
     \<lparr> pr_id = pw_id r, pr_account_id = pw_account_id r, pr_display_name = pw_display r,
       pr_summary = pw_summary r, pr_icon = pw_icon_id r, pr_banner = pw_banner_id r,
       pr_version = pw_version r, pr_nanoid = pw_nanoid r \<rparr>"

definition profile_of_projection :: "profile_projection \<Rightarrow> profile" where
  "profile_of_projection p =
     profile_reconstitute (pr_id p) (pr_account_id p) (pr_display_name p) (pr_summary p) (pr_icon p)
       (pr_banner p) (pr_version p) (pr_nanoid p)"

definition row_of_profile :: "profile \<Rightarrow> profile_row" where
  "row_of_profile p =
     \<lparr> pw_id = pr_id p, pw_account_id = pr_account_id p, pw_display = pr_display_name p,
       pw_summary = pr_summary p, pw_icon_id = pr_icon p, pw_banner_id = pr_banner p,
       pw_version = pr_version p, pw_nanoid = pr_nanoid p \<rparr>"

definition profile_find_by_id :: "profile_id \<Rightarrow> db \<Rightarrow> profile_projection option" where
  "profile_find_by_id i d =
     map_option profile_projection_from (List.find (\<lambda>r. pw_id r = i) (t_profiles d))"

definition profile_find_by_id_unfiltered :: "profile_id \<Rightarrow> db \<Rightarrow> profile_projection option" where
  "profile_find_by_id_unfiltered i d = profile_find_by_id i d"

definition profile_find_by_account_id :: "account_id \<Rightarrow> db \<Rightarrow> profile_projection option" where
  "profile_find_by_account_id account_id d =
     map_option profile_projection_from (List.find (\<lambda>r. pw_account_id r = account_id) (t_profiles d))"

definition profile_find_by_account_ids :: "account_id list \<Rightarrow> db \<Rightarrow> profile_projection list" where
  "profile_find_by_account_ids account_ids d =
     map profile_projection_from (filter (\<lambda>r. pw_account_id r \<in> set account_ids) (t_profiles d))"

text \<open>Unique keys other than the identifier, and foreign keys.\<close>

definition profile_key_clash :: "profile_row \<Rightarrow> profile_row \<Rightarrow> bool" where
  "profile_key_clash r r' \<longleftrightarrow> pw_account_id r' = pw_account_id r \<or> pw_nanoid r' = pw_nanoid r"

definition profile_refs :: "db \<Rightarrow> profile_row \<Rightarrow> bool" where
  "profile_refs d r \<longleftrightarrow>
     pw_account_id r \<in> set (map ar_id (t_accounts d)) \<and>
     nullable_ref (pw_icon_id r) (map iw_id (t_images d)) \<and>
     nullable_ref (pw_banner_id r) (map iw_id (t_images d))"

definition profile_read_model_create :: "profile \<Rightarrow> db \<Rightarrow> (unit \<times> db) kresult" where
  "profile_read_model_create p d =
     (let r = row_of_profile p in
      res_map (\<lambda>rows. ((), d \<lparr> t_profiles := rows \<rparr>))
        (insert_row (\<lambda>r'. pw_id r' = pw_id r \<or> profile_key_clash r r') (profile_refs d r) r
          (t_profiles d)))"

definition profile_read_model_update :: "profile \<Rightarrow> db \<Rightarrow> (unit \<times> db) kresult" where
  "profile_read_model_update p d =
     (let (rows, n) =
        update_rows (\<lambda>r. pw_id r = pr_id p)
          (\<lambda>r. r \<lparr> pw_display := pr_display_name p, pw_summary := pr_summary p,
                   pw_icon_id := pr_icon p, pw_banner_id := pr_banner p,
                   pw_version := pr_version p \<rparr>) (t_profiles d)
      in if n = 0 then Inl NotFound
         else if \<not> nullable_ref (pr_icon p) (map iw_id (t_images d)) \<or>
                 \<not> nullable_ref (pr_banner p) (map iw_id (t_images d)) then Inl Internal
         else Inr ((), d \<lparr> t_profiles := rows \<rparr>))"

definition profile_read_model_delete :: "profile_id \<Rightarrow> db \<Rightarrow> (unit \<times> db) kresult" where
  "profile_read_model_delete i d =
     (let (rows, n) = delete_rows (\<lambda>r. pw_id r = i) (t_profiles d)
      in if n = 0 then Inl NotFound else Inr ((), d \<lparr> t_profiles := rows \<rparr>))"

subsection \<open>Metadata\<close>

definition metadata_projection_from :: "metadata_row \<Rightarrow> metadata_projection" where
  "metadata_projection_from r =
     \<lparr> md_id = mw_id r, md_account_id = mw_account_id r, md_label = mw_label r,
       md_content = mw_content r, md_version = mw_version r, md_nanoid = mw_nanoid r \<rparr>"

definition metadata_of_projection :: "metadata_projection \<Rightarrow> metadata" where
  "metadata_of_projection m =
     metadata_reconstitute (md_id m) (md_account_id m) (md_label m) (md_content m) (md_nanoid m)
       (md_version m)"

definition row_of_metadata :: "metadata \<Rightarrow> metadata_row" where
  "row_of_metadata m =
     \<lparr> mw_id = md_id m, mw_account_id = md_account_id m, mw_label = md_label m,
       mw_content = md_content m, mw_version = md_version m, mw_nanoid = md_nanoid m \<rparr>"

definition metadata_find_by_id :: "metadata_id \<Rightarrow> db \<Rightarrow> metadata_projection option" where
  "metadata_find_by_id i d =
     map_option metadata_projection_from (List.find (\<lambda>r. mw_id r = i) (t_metadatas d))"

definition metadata_find_by_id_unfiltered :: "metadata_id \<Rightarrow> db \<Rightarrow> metadata_projection option" where
  "metadata_find_by_id_unfiltered i d = metadata_find_by_id i d"

definition metadata_find_by_account_id :: "account_id \<Rightarrow> db \<Rightarrow> metadata_projection list" where
  "metadata_find_by_account_id account_id d =
     map metadata_projection_from (filter (\<lambda>r. mw_account_id r = account_id) (t_metadatas d))"

definition metadata_find_by_account_ids :: "account_id list \<Rightarrow> db \<Rightarrow> metadata_projection list" where
  "metadata_find_by_account_ids account_ids d =
     map metadata_projection_from (filter (\<lambda>r. mw_account_id r \<in> set account_ids) (t_metadatas d))"

definition metadata_refs :: "db \<Rightarrow> metadata_row \<Rightarrow> bool" where
  "metadata_refs d r \<longleftrightarrow> mw_account_id r \<in> set (map ar_id (t_accounts d))"

definition metadata_read_model_create :: "metadata \<Rightarrow> db \<Rightarrow> (unit \<times> db) kresult" where
  "metadata_read_model_create m d =
     (let r = row_of_metadata m in
      res_map (\<lambda>rows. ((), d \<lparr> t_metadatas := rows \<rparr>))
        (insert_row (\<lambda>r'. mw_id r' = mw_id r \<or> mw_nanoid r' = mw_nanoid r) (metadata_refs d r) r
          (t_metadatas d)))"

definition metadata_read_model_update :: "metadata \<Rightarrow> db \<Rightarrow> (unit \<times> db) kresult" where
  "metadata_read_model_update m d =
     (let (rows, n) =
        update_rows (\<lambda>r. mw_id r = md_id m)
          (\<lambda>r. r \<lparr> mw_label := md_label m, mw_content := md_content m, mw_version := md_version m \<rparr>)
          (t_metadatas d)
      in if n = 0 then Inl NotFound else Inr ((), d \<lparr> t_metadatas := rows \<rparr>))"

definition metadata_read_model_delete :: "metadata_id \<Rightarrow> db \<Rightarrow> (unit \<times> db) kresult" where
  "metadata_read_model_delete i d =
     (let (rows, n) = delete_rows (\<lambda>r. mw_id r = i) (t_metadatas d)
      in if n = 0 then Inl NotFound else Inr ((), d \<lparr> t_metadatas := rows \<rparr>))"

subsection \<open>Version-gated upserts\<close>

text \<open>
  \<open>INSERT ... ON CONFLICT (id) DO UPDATE SET ... WHERE old.version < new.version\<close>: with a row
  of the same identifier the newer version replaces it and an older or equal one is ignored;
  another unique key may refuse either. Every column is overwritten.
\<close>

definition upsert_row ::
  "('r \<Rightarrow> int) \<Rightarrow> ('r \<Rightarrow> version) \<Rightarrow> ('r \<Rightarrow> 'r \<Rightarrow> bool) \<Rightarrow> bool \<Rightarrow> 'r \<Rightarrow> 'r list \<Rightarrow> 'r list kresult" where
  "upsert_row ident ver key_clash refs r rows =
     (case List.find (\<lambda>x. ident x = ident r) rows of
        Some old \<Rightarrow>
          if ver old < ver r then
            (if list_ex (\<lambda>x. ident x \<noteq> ident r \<and> key_clash r x) rows \<or> \<not> refs then Inl Internal
             else Inr (map (\<lambda>x. if ident x = ident r then r else x) rows))
          else Inr rows
      | None \<Rightarrow>
          if list_ex (key_clash r) rows \<or> \<not> refs then Inl Internal else Inr (rows @ [r]))"

definition account_upsert :: "account \<Rightarrow> db \<Rightarrow> (unit \<times> db) kresult" where
  "account_upsert a d =
     res_map (\<lambda>rows. ((), d \<lparr> t_accounts := rows \<rparr>))
       (upsert_row ar_id ar_version (\<lambda>r r'. ar_nanoid r' = ar_nanoid r \<or> ar_name r' = ar_name r) True
         (row_of_account a) (t_accounts d))"

definition profile_upsert :: "profile \<Rightarrow> db \<Rightarrow> (unit \<times> db) kresult" where
  "profile_upsert p d =
     res_map (\<lambda>rows. ((), d \<lparr> t_profiles := rows \<rparr>))
       (upsert_row pw_id pw_version profile_key_clash (profile_refs d (row_of_profile p))
         (row_of_profile p) (t_profiles d))"

definition profile_projection_delete :: "profile_id \<Rightarrow> db \<Rightarrow> (unit \<times> db) kresult" where
  "profile_projection_delete i d =
     Inr ((), d \<lparr> t_profiles := fst (delete_rows (\<lambda>r. pw_id r = i) (t_profiles d)) \<rparr>)"

definition metadata_upsert :: "metadata \<Rightarrow> db \<Rightarrow> (unit \<times> db) kresult" where
  "metadata_upsert m d =
     res_map (\<lambda>rows. ((), d \<lparr> t_metadatas := rows \<rparr>))
       (upsert_row mw_id mw_version (\<lambda>r r'. mw_nanoid r' = mw_nanoid r)
         (metadata_refs d (row_of_metadata m)) (row_of_metadata m) (t_metadatas d))"

definition metadata_projection_delete :: "metadata_id \<Rightarrow> db \<Rightarrow> (unit \<times> db) kresult" where
  "metadata_projection_delete i d =
     Inr ((), d \<lparr> t_metadatas := fst (delete_rows (\<lambda>r. mw_id r = i) (t_metadatas d)) \<rparr>)"

subsection \<open>Checkpoints\<close>

definition checkpoint_get :: "string \<Rightarrow> db \<Rightarrow> int option" where
  "checkpoint_get projector_name d =
     map_option cw_last_seq
       (List.find (\<lambda>r. cw_projector_name r = projector_name) (t_projection_checkpoints d))"

definition checkpoint_set :: "string \<Rightarrow> int \<Rightarrow> db \<Rightarrow> (unit \<times> db) kresult" where
  "checkpoint_set projector_name seq d =
     (let rows = t_projection_checkpoints d in
      if list_ex (\<lambda>r. cw_projector_name r = projector_name) rows
      then Inr ((), d \<lparr> t_projection_checkpoints :=
             fst (update_rows (\<lambda>r. cw_projector_name r = projector_name)
               (\<lambda>r. r \<lparr> cw_last_seq := max (cw_last_seq r) seq \<rparr>) rows) \<rparr>)
      else Inr ((), d \<lparr> t_projection_checkpoints :=
             rows @ [\<lparr> cw_projector_name = projector_name, cw_last_seq = seq \<rparr>] \<rparr>))"

subsection \<open>Lemmas\<close>

lemma profile_row_roundtrip [simp]:
  "profile_projection_from (row_of_profile p) = p" "profile_of_projection p = p"
  by (simp_all add: profile_projection_from_def row_of_profile_def profile_of_projection_def
      profile_reconstitute_def)

lemma metadata_row_roundtrip [simp]:
  "metadata_projection_from (row_of_metadata m) = m" "metadata_of_projection m = m"
  by (simp_all add: metadata_projection_from_def row_of_metadata_def metadata_of_projection_def
      metadata_reconstitute_def)

lemma checkpoint_set_get:
  assumes "checkpoint_set name seq d = Inr ((), d')"
  shows "checkpoint_get name d' =
     Some (case checkpoint_get name d of None \<Rightarrow> seq | Some old \<Rightarrow> max old seq)"
proof (cases "List.find (\<lambda>r. cw_projector_name r = name) (t_projection_checkpoints d)")
  case None
  then have "\<not> list_ex (\<lambda>r. cw_projector_name r = name) (t_projection_checkpoints d)"
    by (auto simp: find_None_iff list_ex_iff)
  with assms None show ?thesis
    by (auto simp: checkpoint_set_def checkpoint_get_def Let_def find_append)
next
  case (Some r)
  then have "list_ex (\<lambda>r. cw_projector_name r = name) (t_projection_checkpoints d)"
    by (auto simp: find_Some_iff list_ex_iff)
  with assms Some show ?thesis
    by (auto simp: checkpoint_set_def checkpoint_get_def Let_def find_map_same)
qed

lemma checkpoint_set_ok: "\<exists>d'. checkpoint_set name seq d = Inr ((), d')"
  by (simp add: checkpoint_set_def Let_def)

text \<open>What a successful upsert leaves in the table.\<close>

lemma upsert_row_find:
  assumes "upsert_row ident ver clash refs r rows = Inr rows'"
  shows "List.find (\<lambda>x. ident x = ident r) rows' =
     Some (case List.find (\<lambda>x. ident x = ident r) rows of
             None \<Rightarrow> r | Some old \<Rightarrow> if ver old < ver r then r else old)"
  using assms find_map_same [of "\<lambda>x. ident x = ident r" "\<lambda>_. r" rows]
  by (auto simp: upsert_row_def find_append split: option.splits if_splits)

lemma upsert_row_find_other:
  assumes "upsert_row ident ver clash refs r rows = Inr rows'" and "i \<noteq> ident r"
  shows "List.find (\<lambda>x. ident x = i) rows' = List.find (\<lambda>x. ident x = i) rows"
  using assms find_map_other [of "\<lambda>x. ident x = ident r" "\<lambda>x. ident x = i" "\<lambda>_. r" rows]
  by (auto simp: upsert_row_def find_append split: option.splits if_splits)

text \<open>Upserting the same row again changes nothing.\<close>

lemma upsert_row_idempotent:
  assumes "upsert_row ident ver clash refs r rows = Inr rows'"
  shows "upsert_row ident ver clash refs' r rows' = Inr rows'"
  using upsert_row_find [OF assms]
  by (cases "List.find (\<lambda>x. ident x = ident r) rows") (simp_all add: upsert_row_def)

text \<open>The version of a row never decreases.\<close>

lemma upsert_row_version_mono:
  assumes "upsert_row ident ver clash refs r rows = Inr rows'"
    and "List.find (\<lambda>x. ident x = i) rows = Some old"
  shows "\<exists>new. List.find (\<lambda>x. ident x = i) rows' = Some new \<and> ver old \<le> ver new"
  using upsert_row_find [OF assms(1)] upsert_row_find_other [OF assms(1), of i] assms(2)
  by (cases "i = ident r") (auto split: if_splits)

lemma upsert_row_idents:
  assumes "upsert_row ident ver clash refs r rows = Inr rows'"
  shows "map ident rows' =
     (if ident r \<in> set (map ident rows) then map ident rows else map ident rows @ [ident r])"
proof (cases "List.find (\<lambda>x. ident x = ident r) rows")
  case None
  then have "ident r \<notin> set (map ident rows)" by (auto simp: find_None_iff)
  with assms None show ?thesis by (auto simp: upsert_row_def split: if_splits)
next
  case (Some old)
  from find_SomeD [OF this] have "ident old \<in> ident ` set rows" and "ident old = ident r"
    by blast+
  then have "ident r \<in> set (map ident rows)" by simp
  moreover have "map ident (map (\<lambda>x. if ident x = ident r then r else x) rows) = map ident rows"
    by auto
  ultimately show ?thesis
    using assms Some by (auto simp: upsert_row_def split: if_splits simp del: map_map)
qed

lemma upsert_row_distinct:
  "upsert_row ident ver clash refs r rows = Inr rows' \<Longrightarrow> distinct (map ident rows) \<Longrightarrow>
     distinct (map ident rows')"
  by (simp add: upsert_row_idents)

subsection \<open>Properties\<close>

text \<open>C26. The projection writer converges: two versions of the same account written in either
  order leave the same row for that account, the one of the larger version.\<close>

theorem account_upsert_converges:
  assumes "acc_id a = acc_id b" and "acc_version a < acc_version b"
    and "account_upsert a d = Inr ((), d1)" and "account_upsert b d1 = Inr ((), d2)"
    and "account_upsert b d = Inr ((), d3)" and "account_upsert a d3 = Inr ((), d4)"
  shows "List.find (\<lambda>r. ar_id r = acc_id a) (t_accounts d2) =
         List.find (\<lambda>r. ar_id r = acc_id a) (t_accounts d4)"
proof -
  let ?find = "\<lambda>d. List.find (\<lambda>r. ar_id r = acc_id a) (t_accounts d)"
  have step: "?find d' = Some (case ?find d of None \<Rightarrow> row_of_account x
      | Some old \<Rightarrow> if ar_version old < ar_version (row_of_account x) then row_of_account x else old)"
    if up: "account_upsert x d = Inr ((), d')" and i: "acc_id x = acc_id a" for x d d'
  proof -
    from up obtain rows where "upsert_row ar_id ar_version
        (\<lambda>r r'. ar_nanoid r' = ar_nanoid r \<or> ar_name r' = ar_name r) True (row_of_account x)
        (t_accounts d) = Inr rows" and "t_accounts d' = rows"
      by (auto simp: account_upsert_def res_map_Inr_iff)
    with upsert_row_find [OF this(1)] i show ?thesis by simp
  qed
  note steps = step [OF assms(3) refl] step [OF assms(4) assms(1) [symmetric]]
    step [OF assms(5) assms(1) [symmetric]] step [OF assms(6) refl]
  show ?thesis
  proof (cases "?find d")
    case None
    with steps assms(2) show ?thesis by simp
  next
    case (Some old)
    with steps assms(2) show ?thesis
      by (cases "ar_version old < acc_version a"; cases "ar_version old < acc_version b") simp_all
  qed
qed

definition example_account :: "version \<Rightarrow> bool \<Rightarrow> account" where
  "example_account v is_bot =
     \<lparr> acc_id = 7, acc_name = ''alice'', acc_is_bot = is_bot, acc_status = Active,
       acc_deleted_at = None, acc_version = v, acc_nanoid = ''n1'', acc_created_at = 0 \<rparr>"

theorem account_upsert_converges_witness:
  "\<exists>d1 d2 d3 d4. account_upsert (example_account 1 False) empty_db = Inr ((), d1) \<and>
     account_upsert (example_account 2 True) d1 = Inr ((), d2) \<and>
     account_upsert (example_account 2 True) empty_db = Inr ((), d3) \<and>
     account_upsert (example_account 1 False) d3 = Inr ((), d4) \<and>
     List.find (\<lambda>r. ar_id r = 7) (t_accounts d2) = List.find (\<lambda>r. ar_id r = 7) (t_accounts d4)"
proof -
  let ?a = "example_account 1 False" and ?b = "example_account 2 True"
  let ?db = "\<lambda>x. empty_db \<lparr> t_accounts := [row_of_account x] \<rparr>"
  have fields: "acc_id ?a = 7" "acc_id ?b = 7" "acc_version ?a = 1" "acc_version ?b = 2"
    by (simp_all add: example_account_def)
  have "account_upsert ?a empty_db = Inr ((), ?db ?a)" "account_upsert ?b empty_db = Inr ((), ?db ?b)"
    by (simp_all add: account_upsert_def upsert_row_def empty_db_def)
  moreover have "account_upsert ?b (?db ?a) = Inr ((), ?db ?b)" "account_upsert ?a (?db ?b) = Inr ((), ?db ?b)"
    by (simp_all add: account_upsert_def upsert_row_def fields)
  ultimately show ?thesis
    using account_upsert_converges [of ?a ?b empty_db "?db ?a" "?db ?b" "?db ?b" "?db ?b"] fields
    by (intro exI [of _ "?db ?a"] exI [of _ "?db ?b"]) simp
qed

text \<open>The stored checkpoint never regresses and afterwards covers the sequence number set.\<close>

lemma checkpoint_monotone:
  assumes "checkpoint_set name seq d = Inr ((), d')"
  shows "\<exists>new. checkpoint_get name d' = Some new \<and> seq \<le> new \<and>
           (\<forall>old. checkpoint_get name d = Some old \<longrightarrow> old \<le> new)"
  using checkpoint_set_get [OF assms] by (auto split: option.splits)

end
