(* ===== verification/Permission.thy ===== *)
theory Permission
  imports Database
begin

text \<open>
  Permissions: the requirement and relation types of \<open>kernel/src/permission.rs\<close>, the Keto
  client of \<open>driver/src/keto.rs\<close>, the permissions the services ask for
  (\<open>application/src/permission.rs\<close>) and the permission rules of
  \<open>ory/keto/namespaces.ts\<close>, which Keto evaluates. Keto itself is external: \<open>keto_service\<close>
  states that it answers checks by those rules and stores and deletes tuples.
\<close>

datatype account_relation = Owner | Editor | Signer

primrec account_relation_as_str :: "account_relation \<Rightarrow> string" where
  "account_relation_as_str Owner = ''owners''"
| "account_relation_as_str Editor = ''editors''"
| "account_relation_as_str Signer = ''signers''"

datatype instance_role = Admin | Moderator

primrec instance_role_as_str :: "instance_role \<Rightarrow> string" where
  "instance_role_as_str Admin = ''admins''"
| "instance_role_as_str Moderator = ''moderators''"

definition ACCOUNT_NAMESPACE :: string where "ACCOUNT_NAMESPACE = ''Account''"
definition INSTANCE_NAMESPACE :: string where "INSTANCE_NAMESPACE = ''Instance''"
definition INSTANCE_OBJECT_ID :: string where "INSTANCE_OBJECT_ID = ''singleton''"

datatype permission_req =
    ReqAccount account_id string
  | ReqInstance string

primrec req_namespace :: "permission_req \<Rightarrow> string" where
  "req_namespace (ReqAccount _ _) = ACCOUNT_NAMESPACE"
| "req_namespace (ReqInstance _) = INSTANCE_NAMESPACE"

primrec req_object_id :: "permission_req \<Rightarrow> string" where
  "req_object_id (ReqAccount account_id _) = int_to_string account_id"
| "req_object_id (ReqInstance _) = INSTANCE_OBJECT_ID"

primrec permission_name :: "permission_req \<Rightarrow> string" where
  "permission_name (ReqAccount _ permission) = permission"
| "permission_name (ReqInstance permission) = permission"

type_synonym permission = "permission_req list"

definition permission_add :: "permission \<Rightarrow> permission \<Rightarrow> permission" where
  "permission_add lhs rhs = lhs @ rhs"

datatype relation_target =
    TargetAccount account_id account_relation
  | TargetInstance instance_role

primrec target_namespace :: "relation_target \<Rightarrow> string" where
  "target_namespace (TargetAccount _ _) = ACCOUNT_NAMESPACE"
| "target_namespace (TargetInstance _) = INSTANCE_NAMESPACE"

primrec target_object_id :: "relation_target \<Rightarrow> string" where
  "target_object_id (TargetAccount account_id _) = int_to_string account_id"
| "target_object_id (TargetInstance _) = INSTANCE_OBJECT_ID"

primrec target_relation_str :: "relation_target \<Rightarrow> string" where
  "target_relation_str (TargetAccount _ relation) = account_relation_as_str relation"
| "target_relation_str (TargetInstance role) = instance_role_as_str role"

subsection \<open>The Keto client\<close>

definition is_success :: "http_status \<Rightarrow> bool" where
  "is_success s \<longleftrightarrow> 200 \<le> s \<and> s < 300"

text \<open>\<open>error_for_status\<close> fails on client and server errors only.\<close>

definition is_http_error :: "http_status \<Rightarrow> bool" where
  "is_http_error s \<longleftrightarrow> 400 \<le> s \<and> s < 600"

definition check_tuple :: "auth_account_id \<Rightarrow> permission_req \<Rightarrow> relation_tuple" where
  "check_tuple subject req =
     \<lparr> rt_namespace = req_namespace req, rt_object = req_object_id req,
       rt_relation = permission_name req, rt_subject_id = int_to_string subject \<rparr>"

definition keto_client_check :: "env \<Rightarrow> auth_account_id \<Rightarrow> permission_req \<Rightarrow> bool op" where
  "keto_client_check e subject req w =
     (case keto_check e (w_keto w) (check_tuple subject req) of
        None \<Rightarrow> (Inl Internal, w)
      | Some (status, body) \<Rightarrow>
          if status = 403 then (Inr False, w)
          else if \<not> is_success status then (Inl Internal, w)
          else (case body of None \<Rightarrow> (Inl Internal, w) | Some allowed \<Rightarrow> (Inr allowed, w)))"

text \<open>
  The paging loop of \<open>list_instance_roles\<close>: \<open>None\<close> means that it never ends, which a server
  that always returns another page token can bring about.
\<close>

partial_function (option) list_relations ::
  "(string \<Rightarrow> (http_status \<times> (relation_tuple list \<times> string) option) option) \<Rightarrow> string \<Rightarrow> string list \<Rightarrow>
   string list kresult option" where
  "list_relations get page_token relations =
     (case get page_token of
        None \<Rightarrow> Some (Inl Internal)
      | Some (status, body) \<Rightarrow>
          if \<not> is_success status then Some (Inl Internal)
          else (case body of
              None \<Rightarrow> Some (Inl Internal)
            | Some (tuples, next_page_token) \<Rightarrow>
                let relations' = relations @ map rt_relation (filter (\<lambda>t.
                      rt_namespace t = INSTANCE_NAMESPACE \<and> rt_object t = INSTANCE_OBJECT_ID) tuples)
                in if next_page_token = [] then Some (Inr relations')
                   else list_relations get next_page_token relations'))"

definition list_instance_roles ::
  "env \<Rightarrow> auth_account_id \<Rightarrow> world \<Rightarrow> instance_role list kresult option" where
  "list_instance_roles e subject w =
     map_option
       (res_map (\<lambda>relations.
          filter (\<lambda>role. list_ex (\<lambda>relation. relation = instance_role_as_str role) relations)
            [Admin, Moderator]))
       (list_relations (keto_list e (w_keto w) (int_to_string subject)) [] [])"

definition relation_tuple_of :: "relation_target \<Rightarrow> auth_account_id \<Rightarrow> relation_tuple" where
  "relation_tuple_of target subject =
     \<lparr> rt_namespace = target_namespace target, rt_object = target_object_id target,
       rt_relation = target_relation_str target, rt_subject_id = int_to_string subject \<rparr>"

definition create_relation :: "env \<Rightarrow> relation_target \<Rightarrow> auth_account_id \<Rightarrow> unit op" where
  "create_relation e target subject w =
     (case keto_put e (w_keto w) (relation_tuple_of target subject) of
        (answer, store) \<Rightarrow>
          let w' = w \<lparr> w_keto := store \<rparr> in
          (case answer of
             None \<Rightarrow> (Inl Internal, w')
           | Some status \<Rightarrow>
               if status = 409 then (Inr (), w')
               else if is_http_error status then (Inl Internal, w')
               else (Inr (), w')))"

definition delete_relation :: "env \<Rightarrow> relation_target \<Rightarrow> auth_account_id \<Rightarrow> unit op" where
  "delete_relation e target subject w =
     (case keto_delete e (w_keto w) (relation_tuple_of target subject) of
        (answer, store) \<Rightarrow>
          let w' = w \<lparr> w_keto := store \<rparr> in
          (case answer of
             None \<Rightarrow> (Inl Internal, w')
           | Some status \<Rightarrow>
               if status = 404 then (Inr (), w')
               else if is_http_error status then (Inl Internal, w')
               else (Inr (), w')))"

subsection \<open>Checking a permission\<close>

fun satisfies :: "env \<Rightarrow> auth_account_id \<Rightarrow> permission \<Rightarrow> bool op" where
  "satisfies e subject [] = op_return True"
| "satisfies e subject (req # reqs) =
     op_bind (keto_client_check e subject req) (\<lambda>ok.
       if \<not> ok then op_return False else satisfies e subject reqs)"

definition account_view :: "account_id \<Rightarrow> permission" where
  "account_view i = [ReqAccount i ''view'']"

definition account_edit :: "account_id \<Rightarrow> permission" where
  "account_edit i = [ReqAccount i ''edit'']"

definition account_deactivate_permission :: "account_id \<Rightarrow> permission" where
  "account_deactivate_permission i = [ReqAccount i ''deactivate'']"

definition account_sign :: "account_id \<Rightarrow> permission" where
  "account_sign i = [ReqAccount i ''sign'']"

definition instance_moderate :: permission where
  "instance_moderate = [ReqInstance ''moderate'']"

definition instance_administrate :: permission where
  "instance_administrate = [ReqInstance ''administrate'']"

definition check_permission :: "env \<Rightarrow> auth_account_id \<Rightarrow> permission \<Rightarrow> unit op" where
  "check_permission e subject permission =
     op_bind (satisfies e subject permission) (\<lambda>ok.
       if \<not> ok then op_fail PermissionDenied else op_return ())"

subsection \<open>The permission rules\<close>

text \<open>\<open>related.r.includes(ctx.subject)\<close> for an object of a namespace.\<close>

definition related :: "relation_tuple list \<Rightarrow> string \<Rightarrow> string \<Rightarrow> string \<Rightarrow> string \<Rightarrow> bool" where
  "related store ns obj rel subj =
     (\<lparr> rt_namespace = ns, rt_object = obj, rt_relation = rel, rt_subject_id = subj \<rparr> \<in> set store)"

definition account_permits :: "relation_tuple list \<Rightarrow> string \<Rightarrow> string \<Rightarrow> string \<Rightarrow> bool" where
  "account_permits store obj permission subj =
     (let owners = related store ''Account'' obj ''owners'' subj;
          editors = related store ''Account'' obj ''editors'' subj;
          signers = related store ''Account'' obj ''signers'' subj
      in if permission = ''view'' then owners \<or> editors \<or> signers
         else if permission = ''edit'' then owners \<or> editors
         else if permission = ''sign'' then owners \<or> signers
         else if permission = ''deactivate'' then owners
         else related store ''Account'' obj permission subj)"

definition instance_permits :: "relation_tuple list \<Rightarrow> string \<Rightarrow> string \<Rightarrow> string \<Rightarrow> bool" where
  "instance_permits store obj permission subj =
     (let admins = related store ''Instance'' obj ''admins'' subj;
          moderators = related store ''Instance'' obj ''moderators'' subj
      in if permission = ''moderate'' then admins \<or> moderators
         else if permission = ''administrate'' then admins
         else related store ''Instance'' obj permission subj)"

definition permits :: "relation_tuple list \<Rightarrow> relation_tuple \<Rightarrow> bool" where
  "permits store t =
     (if rt_namespace t = ''Account''
      then account_permits store (rt_object t) (rt_relation t) (rt_subject_id t)
      else if rt_namespace t = ''Instance''
      then instance_permits store (rt_object t) (rt_relation t) (rt_subject_id t)
      else t \<in> set store)"

text \<open>The documented behaviour of the service: 403 means not allowed.\<close>

definition keto_service :: "env \<Rightarrow> bool" where
  "keto_service e \<longleftrightarrow>
     (\<forall>s t. keto_check e s t = (if permits s t then Some (200, Some True) else Some (403, Some False))) \<and>
     (\<forall>s t. keto_put e s t = (Some 201, if t \<in> set s then s else s @ [t])) \<and>
     (\<forall>s t. keto_delete e s t = (Some 204, filter (\<lambda>x. x \<noteq> t) s))"

definition keto_env :: "datetime \<Rightarrow> env" where
  "keto_env now = clock_env now \<lparr> keto_check :=
     (\<lambda>s t. if permits s t then Some (200, Some True) else Some (403, Some False)) \<rparr>"

text \<open>What a requirement asks of the stored tuples.\<close>

definition req_holds :: "relation_tuple list \<Rightarrow> auth_account_id \<Rightarrow> permission_req \<Rightarrow> bool" where
  "req_holds store subject req = permits store (check_tuple subject req)"

text \<open>Which of the permissions the services ask for a relation grants.\<close>

fun known_req :: "permission_req \<Rightarrow> bool" where
  "known_req (ReqAccount _ p) \<longleftrightarrow> p \<in> {''view'', ''edit'', ''sign'', ''deactivate''}"
| "known_req (ReqInstance p) \<longleftrightarrow> p \<in> {''moderate'', ''administrate''}"

fun grants :: "relation_target \<Rightarrow> permission_req \<Rightarrow> bool" where
  "grants (TargetAccount i Owner) (ReqAccount j p) \<longleftrightarrow> i = j"
| "grants (TargetAccount i Editor) (ReqAccount j p) \<longleftrightarrow> i = j \<and> p \<in> {''view'', ''edit''}"
| "grants (TargetAccount i Signer) (ReqAccount j p) \<longleftrightarrow> i = j \<and> p \<in> {''view'', ''sign''}"
| "grants (TargetInstance Admin) (ReqInstance p) \<longleftrightarrow> True"
| "grants (TargetInstance Moderator) (ReqInstance p) \<longleftrightarrow> p = ''moderate''"
| "grants _ _ \<longleftrightarrow> False"

subsection \<open>Lemmas\<close>

lemma keto_serviceD:
  assumes "keto_service e"
  shows "keto_check e s t = (if permits s t then Some (200, Some True) else Some (403, Some False))"
    and "keto_put e s t = (Some 201, if t \<in> set s then s else s @ [t])"
    and "keto_delete e s t = (Some 204, filter (\<lambda>x. x \<noteq> t) s)"
  using assms unfolding keto_service_def by blast+

lemma keto_service_keto_env [simp]: "keto_service (keto_env now)"
  by (simp add: keto_service_def keto_env_def clock_env_def)

lemma keto_env_crates [simp]:
  "time_crate (keto_env now)" "snowflake_crate (keto_env now)" "hash_map (keto_env now)"
  "now_utc (keto_env now) = now"
  by (simp_all add: keto_env_def time_crate_def snowflake_crate_def hash_map_def clock_env_def)

lemma keto_client_check_eq:
  "keto_service e \<Longrightarrow> keto_client_check e subject req w = (Inr (req_holds (w_keto w) subject req), w)"
  by (simp add: keto_client_check_def keto_serviceD req_holds_def is_success_def)

lemma satisfies_eq:
  "keto_service e \<Longrightarrow> satisfies e subject p w = (Inr (list_all (req_holds (w_keto w) subject) p), w)"
  by (induction p) (simp_all add: op_bind_def keto_client_check_eq)

lemma check_permission_eq:
  "keto_service e \<Longrightarrow> check_permission e subject p w =
     (if list_all (req_holds (w_keto w) subject) p then Inr () else Inl PermissionDenied, w)"
  by (simp add: check_permission_def op_bind_def satisfies_eq)

text \<open>Without any assumption on Keto, a check never changes the world.\<close>

lemma keto_client_check_world: "snd (keto_client_check e subject req w) = w"
  by (auto simp: keto_client_check_def split: option.splits prod.splits)

lemma satisfies_world: "snd (satisfies e subject p w) = w"
proof (induction p arbitrary: w)
  case (Cons req p)
  then show ?case
    using keto_client_check_world [of e subject req w]
    by (auto simp: op_bind_def split: prod.splits sum.splits)
qed simp

lemma check_permission_world: "snd (check_permission e subject p w) = w"
  using satisfies_world [of e subject p w]
  by (auto simp: check_permission_def op_bind_def split: prod.splits sum.splits)

lemma check_permission_Inr_world: "check_permission e subject p w = (r, w') \<Longrightarrow> w' = w"
  by (metis check_permission_world snd_conv)

lemma create_relation_db: "w_db (snd (create_relation e target subject w)) = w_db w"
  by (auto simp: create_relation_def Let_def split: prod.splits option.splits)

lemma create_relation_fields:
  "w_last_id (snd (create_relation e target subject w)) = w_last_id w"
  "w_nano_seed (snd (create_relation e target subject w)) = w_nano_seed w"
  by (auto simp: create_relation_def Let_def split: prod.splits option.splits)

lemma create_relation_eq:
  "keto_service e \<Longrightarrow> create_relation e target subject w =
     (let t = relation_tuple_of target subject in
      (Inr (), w \<lparr> w_keto := (if t \<in> set (w_keto w) then w_keto w else w_keto w @ [t]) \<rparr>))"
  by (simp add: create_relation_def keto_serviceD is_http_error_def Let_def)

lemma delete_relation_eq:
  "keto_service e \<Longrightarrow> delete_relation e target subject w =
     (Inr (), w \<lparr> w_keto := filter (\<lambda>x. x \<noteq> relation_tuple_of target subject) (w_keto w) \<rparr>)"
  by (simp add: delete_relation_def keto_serviceD is_http_error_def Let_def)

lemma relation_tuple_of_inject [simp]:
  "relation_tuple_of t s = relation_tuple_of t' s' \<longleftrightarrow> t = t' \<and> s = s'"
proof -
  have "account_relation_as_str r = account_relation_as_str r' \<longleftrightarrow> r = r'" for r r'
    by (cases r; cases r') simp_all
  moreover have "instance_role_as_str r = instance_role_as_str r' \<longleftrightarrow> r = r'" for r r'
    by (cases r; cases r') simp_all
  ultimately show ?thesis
    by (cases t; cases t')
      (auto simp: relation_tuple_of_def ACCOUNT_NAMESPACE_def INSTANCE_NAMESPACE_def)
qed

text \<open>A known requirement holds exactly when a stored relation grants it.\<close>

lemma related_relation_tuple:
  "related store ''Account'' (int_to_string i) (account_relation_as_str r) (int_to_string subject) \<longleftrightarrow>
     relation_tuple_of (TargetAccount i r) subject \<in> set store"
  "related store ''Instance'' INSTANCE_OBJECT_ID (instance_role_as_str q) (int_to_string subject) \<longleftrightarrow>
     relation_tuple_of (TargetInstance q) subject \<in> set store"
  by (simp_all add: related_def relation_tuple_of_def ACCOUNT_NAMESPACE_def INSTANCE_NAMESPACE_def)

lemma grants_ReqAccount:
  "grants t (ReqAccount i p) \<longleftrightarrow>
     t = TargetAccount i Owner \<or>
     t = TargetAccount i Editor \<and> p \<in> {''view'', ''edit''} \<or>
     t = TargetAccount i Signer \<and> p \<in> {''view'', ''sign''}"
proof (cases t)
  case (TargetAccount j r)
  then show ?thesis by (cases r) auto
next
  case (TargetInstance q)
  then show ?thesis by (cases q) auto
qed

lemma grants_ReqInstance:
  "grants t (ReqInstance p) \<longleftrightarrow>
     t = TargetInstance Admin \<or> t = TargetInstance Moderator \<and> p = ''moderate''"
proof (cases t)
  case (TargetAccount j r)
  then show ?thesis by (cases r) auto
next
  case (TargetInstance q)
  then show ?thesis by (cases q) auto
qed

lemma ex_grants:
  "(\<exists>t. grants t (ReqAccount i p) \<and> P t) \<longleftrightarrow>
     P (TargetAccount i Owner) \<or> p \<in> {''view'', ''edit''} \<and> P (TargetAccount i Editor) \<or>
     p \<in> {''view'', ''sign''} \<and> P (TargetAccount i Signer)"
  "(\<exists>t. grants t (ReqInstance p) \<and> P t) \<longleftrightarrow>
     P (TargetInstance Admin) \<or> p = ''moderate'' \<and> P (TargetInstance Moderator)"
  unfolding grants_ReqAccount grants_ReqInstance by blast+

lemma req_holds_iff:
  assumes "known_req req"
  shows "req_holds store subject req \<longleftrightarrow>
           (\<exists>target. grants target req \<and> relation_tuple_of target subject \<in> set store)"
proof (cases req)
  case (ReqAccount i p)
  note rel = related_relation_tuple(1) [of store i Owner subject]
    related_relation_tuple(1) [of store i Editor subject]
    related_relation_tuple(1) [of store i Signer subject]
  from assms ReqAccount have "p = ''view'' \<or> p = ''edit'' \<or> p = ''sign'' \<or> p = ''deactivate''" by simp
  then show ?thesis
    unfolding ReqAccount ex_grants using rel
    by (elim disjE)
      (simp_all add: req_holds_def check_tuple_def permits_def account_permits_def
        ACCOUNT_NAMESPACE_def Let_def)
next
  case (ReqInstance p)
  note rel = related_relation_tuple(2) [of store Admin subject]
    related_relation_tuple(2) [of store Moderator subject]
  from assms ReqInstance have "p = ''moderate'' \<or> p = ''administrate''" by simp
  then show ?thesis
    unfolding ReqInstance ex_grants using rel
    by (elim disjE)
      (simp_all add: req_holds_def check_tuple_def permits_def instance_permits_def
        INSTANCE_NAMESPACE_def Let_def)
qed

text \<open>
  A server that answers the page tokens one after the other and ends with the empty token;
  \<open>pages\<close> lists the tokens with the tuples of their page.
\<close>

fun pages_answer ::
  "(string \<Rightarrow> (http_status \<times> (relation_tuple list \<times> string) option) option) \<Rightarrow>
   (string \<times> relation_tuple list) list \<Rightarrow> bool" where
  "pages_answer get [] \<longleftrightarrow> False"
| "pages_answer get [(token, tuples)] \<longleftrightarrow> get token = Some (200, Some (tuples, []))"
| "pages_answer get ((token, tuples) # (token', tuples') # pages) \<longleftrightarrow>
     token' \<noteq> [] \<and> get token = Some (200, Some (tuples, token')) \<and>
     pages_answer get ((token', tuples') # pages)"

lemma list_relations_step:
  assumes "get token = Some (200, Some (tuples, next))"
  shows "list_relations get token acc =
     (let acc' = acc @ map rt_relation (filter (\<lambda>t. rt_namespace t = INSTANCE_NAMESPACE \<and>
        rt_object t = INSTANCE_OBJECT_ID) tuples)
      in if next = [] then Some (Inr acc') else list_relations get next acc')"
  by (simp only: list_relations.simps [of get token acc] assms option.case prod.case is_success_def)
    simp

lemma list_relations_pages:
  assumes "pages_answer get ((token, tuples) # pages)"
  shows "list_relations get token acc =
     Some (Inr (acc @ map rt_relation (filter (\<lambda>t. rt_namespace t = INSTANCE_NAMESPACE \<and>
        rt_object t = INSTANCE_OBJECT_ID) (tuples @ concat (map snd pages)))))"
  using assms
proof (induction pages arbitrary: token tuples acc)
  case Nil
  then have "get token = Some (200, Some (tuples, []))" by simp
  from list_relations_step [of get token tuples "[]", OF this] show ?case by simp
next
  case (Cons page pages)
  obtain token' tuples' where page: "page = (token', tuples')" by (cases page)
  with Cons.prems have get: "get token = Some (200, Some (tuples, token'))" and ne: "token' \<noteq> []"
    and rest: "pages_answer get ((token', tuples') # pages)" by simp_all
  from ne show ?case
    by (simp add: list_relations_step [of get token tuples token', OF get] Let_def Cons.IH [OF rest] page)
qed

subsection \<open>The permissions the services ask for\<close>

definition has_relation :: "world \<Rightarrow> relation_target \<Rightarrow> auth_account_id \<Rightarrow> bool" where
  "has_relation w target subject \<longleftrightarrow> relation_tuple_of target subject \<in> set (w_keto w)"

lemma check_single:
  assumes "keto_service e" and "known_req req"
  shows "check_permission e subject [req] w =
     (if \<exists>target. grants target req \<and> has_relation w target subject then Inr () else Inl PermissionDenied, w)"
  by (simp add: check_permission_eq [OF assms(1)] req_holds_iff [OF assms(2)] has_relation_def)

lemma check_permissions:
  assumes "keto_service e"
  shows "check_permission e subject (account_view i) w =
      (if has_relation w (TargetAccount i Owner) subject \<or> has_relation w (TargetAccount i Editor) subject \<or>
          has_relation w (TargetAccount i Signer) subject then Inr () else Inl PermissionDenied, w)"
    and "check_permission e subject (account_edit i) w =
      (if has_relation w (TargetAccount i Owner) subject \<or> has_relation w (TargetAccount i Editor) subject
       then Inr () else Inl PermissionDenied, w)"
    and "check_permission e subject (account_sign i) w =
      (if has_relation w (TargetAccount i Owner) subject \<or> has_relation w (TargetAccount i Signer) subject
       then Inr () else Inl PermissionDenied, w)"
    and "check_permission e subject (account_deactivate_permission i) w =
      (if has_relation w (TargetAccount i Owner) subject then Inr () else Inl PermissionDenied, w)"
    and "check_permission e subject instance_moderate w =
      (if has_relation w (TargetInstance Admin) subject \<or> has_relation w (TargetInstance Moderator) subject
       then Inr () else Inl PermissionDenied, w)"
    and "check_permission e subject instance_administrate w =
      (if has_relation w (TargetInstance Admin) subject then Inr () else Inl PermissionDenied, w)"
  by (simp_all add: account_view_def account_edit_def account_sign_def account_deactivate_permission_def
      instance_moderate_def instance_administrate_def check_single [OF assms] ex_grants)

lemma has_relation_world [simp]:
  "has_relation (w \<lparr> w_db := d \<rparr>) target subject = has_relation w target subject"
  "has_relation (w \<lparr> w_last_id := n \<rparr>) target subject = has_relation w target subject"
  "has_relation (w \<lparr> w_nano_seed := k \<rparr>) target subject = has_relation w target subject"
  by (simp_all add: has_relation_def)

lemma create_relation_has:
  "keto_service e \<Longrightarrow> create_relation e target subject w = (r, w') \<Longrightarrow>
     r = Inr () \<and> w_db w' = w_db w \<and> w_last_id w' = w_last_id w \<and>
     (\<forall>t s. has_relation w' t s \<longleftrightarrow> has_relation w t s \<or> t = target \<and> s = subject)"
  by (auto simp: create_relation_eq has_relation_def Let_def split: if_splits)

lemma delete_relation_has:
  "keto_service e \<Longrightarrow> delete_relation e target subject w = (r, w') \<Longrightarrow>
     r = Inr () \<and> w_db w' = w_db w \<and> w_last_id w' = w_last_id w \<and>
     (\<forall>t s. has_relation w' t s \<longleftrightarrow> has_relation w t s \<and> \<not> (t = target \<and> s = subject))"
  by (auto simp: delete_relation_eq has_relation_def)

subsection \<open>Properties\<close>

text \<open>C20. A permission check passes exactly when every requirement of the permission holds of the
  stored relation tuples under the rules of \<open>namespaces.ts\<close>; otherwise the answer is
  \<open>PermissionDenied\<close>. The check changes nothing.\<close>

theorem check_permission_exact:
  assumes "keto_service e"
  shows "check_permission e subject p w =
     (if list_all (\<lambda>req. permits (w_keto w) (check_tuple subject req)) p
      then Inr () else Inl PermissionDenied, w)"
  using check_permission_eq [OF assms] unfolding req_holds_def .

theorem check_permission_exact_witness:
  "fst (check_permission (keto_env 0) 3 (account_edit 7) empty_world) = Inl PermissionDenied \<and>
   fst (check_permission (keto_env 0) 3 (account_edit 7)
     (empty_world \<lparr> w_keto := [relation_tuple_of (TargetAccount 7 Editor) 3] \<rparr>)) = Inr ()"
  using check_permission_exact [of "keto_env 0" 3 "account_edit 7" empty_world]
    check_permission_exact [of "keto_env 0" 3 "account_edit 7"
      "empty_world \<lparr> w_keto := [relation_tuple_of (TargetAccount 7 Editor) 3] \<rparr>"]
  by (simp add: account_edit_def permits_def check_tuple_def account_permits_def related_def
      relation_tuple_of_def ACCOUNT_NAMESPACE_def empty_world_def)

text \<open>C21. Granting a relation gives its subject exactly the permissions of that relation and
  changes no other answer: a requirement the services use holds afterwards if it held before, or
  if it is asked for the same subject and the relation grants it.\<close>

theorem create_relation_grants:
  assumes "keto_service e" and "known_req req"
    and "create_relation e target subject w = (Inr (), w')"
  shows "req_holds (w_keto w') subject' req \<longleftrightarrow>
           req_holds (w_keto w) subject' req \<or> (subject' = subject \<and> grants target req)"
proof -
  from assms(3) create_relation_eq [OF assms(1), of target subject w]
  have "set (w_keto w') = insert (relation_tuple_of target subject) (set (w_keto w))"
    by (auto simp: Let_def split: if_splits)
  then show ?thesis
    by (auto simp: req_holds_iff [OF assms(2)])
qed

theorem create_relation_grants_witness:
  "\<exists>w'. create_relation (keto_env 0) (TargetAccount 7 Owner) 3 empty_world = (Inr (), w') \<and>
     req_holds (w_keto w') 3 (ReqAccount 7 ''deactivate'') \<and>
     \<not> req_holds (w_keto w') 4 (ReqAccount 7 ''deactivate'')"
proof -
  obtain w' where w': "create_relation (keto_env 0) (TargetAccount 7 Owner) 3 empty_world = (Inr (), w')"
    by (simp add: create_relation_eq Let_def)
  let ?req = "ReqAccount 7 ''deactivate''"
  have none: "\<not> req_holds (w_keto empty_world) s ?req" for s
    by (simp add: req_holds_iff empty_world_def)
  have "req_holds (w_keto w') s ?req \<longleftrightarrow> s = 3" for s
    using create_relation_grants [of "keto_env 0" ?req, OF _ _ w', of s] none [of s] by simp
  with w' show ?thesis by (intro exI [of _ w']) simp
qed

text \<open>C22. When Keto answers the page tokens one after the other and ends with the empty token,
  listing the instance roles terminates and returns, in the order admin, moderator, exactly the
  roles for which some page holds a tuple of the instance object.\<close>

theorem list_instance_roles_pages:
  assumes "pages_answer (keto_list e (w_keto w) (int_to_string subject)) (([], tuples) # pages)"
  shows "list_instance_roles e subject w =
     Some (Inr (filter (\<lambda>role. \<exists>t \<in> set (tuples @ concat (map snd pages)).
        rt_namespace t = INSTANCE_NAMESPACE \<and> rt_object t = INSTANCE_OBJECT_ID \<and>
        rt_relation t = instance_role_as_str role) [Admin, Moderator]))"
proof -
  have "list_ex (\<lambda>r. r = x) (map rt_relation (filter P ts)) \<longleftrightarrow> (\<exists>t \<in> set ts. P t \<and> rt_relation t = x)"
    for x P and ts :: "relation_tuple list" by (auto simp: list_ex_iff)
  then show ?thesis
    by (simp only: list_instance_roles_def list_relations_pages [OF assms] append_Nil
        option.map res_map_run conj_assoc)
qed

theorem list_instance_roles_pages_witness:
  "list_instance_roles (keto_env 0) 3
     (empty_world \<lparr> w_keto := [relation_tuple_of (TargetInstance Moderator) 3] \<rparr>) = Some (Inr [Moderator])"
  using list_instance_roles_pages [of "keto_env 0"
      "empty_world \<lparr> w_keto := [relation_tuple_of (TargetInstance Moderator) 3] \<rparr>" 3
      "[relation_tuple_of (TargetInstance Moderator) 3]" "[]"]
  by (simp add: keto_env_def clock_env_def relation_tuple_of_def)

end
