(* ===== verification/Actor_Url.thy ===== *)
theory Actor_Url
  imports Rust_Strings
begin

text \<open>
  The addresses of local actors: \<open>ActorUrlBuilder\<close> of \<open>kernel/src/activitypub.rs\<close>.
\<close>

definition ACTORS_PATH :: string where
  "ACTORS_PATH = ''ap/accounts''"

record actor_url_builder =
  ab_base_url :: string
  ab_account_nanoid :: string

definition actor_url_builder_new :: "string \<Rightarrow> string \<Rightarrow> actor_url_builder" where
  "actor_url_builder_new base_url account_nanoid =
     \<lparr> ab_base_url = trim_end_matches (CHR ''/'') base_url, ab_account_nanoid = account_nanoid \<rparr>"

definition actor_id :: "actor_url_builder \<Rightarrow> string" where
  "actor_id b = ab_base_url b @ ''/'' @ ACTORS_PATH @ ''/'' @ ab_account_nanoid b"

definition actor_inbox :: "actor_url_builder \<Rightarrow> string" where
  "actor_inbox b = actor_id b @ ''/inbox''"

definition actor_outbox :: "actor_url_builder \<Rightarrow> string" where
  "actor_outbox b = actor_id b @ ''/outbox''"

definition actor_followers :: "actor_url_builder \<Rightarrow> string" where
  "actor_followers b = actor_id b @ ''/followers''"

definition actor_following :: "actor_url_builder \<Rightarrow> string" where
  "actor_following b = actor_id b @ ''/following''"

definition actor_key_id :: "actor_url_builder \<Rightarrow> string" where
  "actor_key_id b = actor_id b @ ''#main-key''"

lemma actor_id_inject:
  "actor_id (actor_url_builder_new base n) = actor_id (actor_url_builder_new base m) \<longleftrightarrow> n = m"
  by (simp add: actor_id_def actor_url_builder_new_def)

lemma actor_key_id_inject:
  "actor_key_id (actor_url_builder_new base n) = actor_key_id (actor_url_builder_new base m) \<longleftrightarrow> n = m"
  by (simp add: actor_key_id_def actor_id_inject)

end
