(* ===== verification/Signing_Keys.thy ===== *)
theory Signing_Keys
  imports Database Actor_Url
begin

text \<open>
  Signing keys: the entity (\<open>kernel/src/entity/signing_key.rs\<close>), its repository
  (\<open>driver/src/database/postgres/signing_key.rs\<close>) and the use cases of
  \<open>application/src/signing_key.rs\<close> that create a key and look up the public one. \<open>app\<close>
  collects what the services are configured with.
\<close>

record app =
  ap_env :: env
  ap_crypto :: crypto
  ap_base_url :: string

record signing_key =
  sk_id :: int
  sk_account_id :: int
  sk_algorithm :: signing_algorithm
  sk_encrypted_private_key :: encrypted_private_key
  sk_public_key_pem :: string
  sk_key_id_uri :: string
  sk_created_at :: datetime
  sk_revoked_at :: "datetime option"

definition signing_key_try_from :: "signing_key_row \<Rightarrow> signing_key kresult" where
  "signing_key_try_from r =
     res_bind (signing_algorithm_parse (kw_algorithm r)) (\<lambda>algorithm.
     Inr \<lparr> sk_id = kw_id r, sk_account_id = kw_account_id r, sk_algorithm = algorithm,
           sk_encrypted_private_key = kw_encrypted_private_key r,
           sk_public_key_pem = kw_public_key_pem r, sk_key_id_uri = kw_key_id_uri r,
           sk_created_at = kw_created_at r, sk_revoked_at = kw_revoked_at r \<rparr>)"

definition signing_key_find_by_id :: "int \<Rightarrow> db \<Rightarrow> signing_key kresult" where
  "signing_key_find_by_id i d =
     res_bind (ok_or NotFound (List.find (\<lambda>r. kw_id r = i) (t_signing_keys d))) signing_key_try_from"

definition signing_key_find_by_account_id :: "int \<Rightarrow> db \<Rightarrow> signing_key list kresult" where
  "signing_key_find_by_account_id account_id d =
     res_collect (map signing_key_try_from (filter (\<lambda>r. kw_account_id r = account_id) (t_signing_keys d)))"

definition signing_key_find_active_by_account_id :: "int \<Rightarrow> db \<Rightarrow> signing_key list kresult" where
  "signing_key_find_active_by_account_id account_id d =
     res_collect (map signing_key_try_from
       (filter (\<lambda>r. kw_account_id r = account_id \<and> kw_revoked_at r = None) (t_signing_keys d)))"

definition row_of_signing_key :: "signing_key \<Rightarrow> signing_key_row" where
  "row_of_signing_key k =
     \<lparr> kw_id = sk_id k, kw_account_id = sk_account_id k,
       kw_algorithm = signing_algorithm_to_string (sk_algorithm k),
       kw_encrypted_private_key = sk_encrypted_private_key k,
       kw_public_key_pem = sk_public_key_pem k, kw_key_id_uri = sk_key_id_uri k,
       kw_created_at = sk_created_at k, kw_revoked_at = sk_revoked_at k \<rparr>"

definition signing_key_create :: "signing_key \<Rightarrow> db \<Rightarrow> (unit \<times> db) kresult" where
  "signing_key_create k d =
     res_map (\<lambda>rows. ((), d \<lparr> t_signing_keys := rows \<rparr>))
       (insert_row (\<lambda>x. kw_id x = sk_id k) (sk_account_id k \<in> set (map ar_id (t_accounts d)))
         (row_of_signing_key k) (t_signing_keys d))"

definition signing_key_revoke :: "env \<Rightarrow> int \<Rightarrow> db \<Rightarrow> (unit \<times> db) kresult" where
  "signing_key_revoke e i d =
     (let (rows, n) = update_rows (\<lambda>r. kw_id r = i \<and> kw_revoked_at r = None)
            (\<lambda>r. r \<lparr> kw_revoked_at := Some (now_utc e) \<rparr>) (t_signing_keys d)
      in if n = 0 then Inl NotFound else Inr ((), d \<lparr> t_signing_keys := rows \<rparr>))"

subsection \<open>Use cases\<close>

text \<open>A draw from the random source.\<close>

definition draw_entropy :: "nat op" where
  "draw_entropy w = (Inr (w_nano_seed w), w \<lparr> w_nano_seed := w_nano_seed w + 1 \<rparr>)"

definition create_signing_key :: "app \<Rightarrow> int \<Rightarrow> nanoid \<Rightarrow> signing_algorithm \<Rightarrow> signing_key op" where
  "create_signing_key a account_id nano algorithm =
     op_bind (op_lift (get_password (ap_crypto a))) (\<lambda>password.
     op_bind draw_entropy (\<lambda>entropy.
     op_bind (op_lift (signing_key_generator_generate (ap_crypto a) entropy password)) (\<lambda>key_pair.
     op_bind (generate_id (ap_env a)) (\<lambda>i.
     let k = \<lparr> sk_id = i, sk_account_id = account_id, sk_algorithm = algorithm,
               sk_encrypted_private_key = gk_encrypted_private_key key_pair,
               sk_public_key_pem = gk_public_key_pem key_pair,
               sk_key_id_uri = actor_key_id (actor_url_builder_new (ap_base_url a) nano),
               sk_created_at = now_utc (ap_env a), sk_revoked_at = None \<rparr>
     in op_bind (exec (signing_key_create k)) (\<lambda>_. op_return k)))))"

record public_key_info =
  pk_id :: string
  pk_owner :: string
  pk_public_key_pem :: string

definition get_public_key_info :: "app \<Rightarrow> int \<Rightarrow> nanoid \<Rightarrow> db \<Rightarrow> public_key_info kresult" where
  "get_public_key_info a account_id nano d =
     res_bind (signing_key_find_active_by_account_id account_id d) (\<lambda>keys.
     case keys of
       [] \<Rightarrow> Inl NotFound
     | k # _ \<Rightarrow> Inr \<lparr> pk_id = sk_key_id_uri k,
                     pk_owner = actor_id (actor_url_builder_new (ap_base_url a) nano),
                     pk_public_key_pem = sk_public_key_pem k \<rparr>)"

subsection \<open>Lemmas\<close>

lemma signing_key_row_roundtrip [simp]: "signing_key_try_from (row_of_signing_key k) = Inr k"
  by (simp add: signing_key_try_from_def row_of_signing_key_def)

lemma row_of_signing_key_fields [simp]:
  "kw_id (row_of_signing_key k) = sk_id k" "kw_account_id (row_of_signing_key k) = sk_account_id k"
  "kw_revoked_at (row_of_signing_key k) = sk_revoked_at k"
  by (simp_all add: row_of_signing_key_def)

text \<open>A created key is the account's last one and, with a faithful encryptor, opens.\<close>

lemma create_signing_key_ok:
  assumes "create_signing_key a account_id nano alg w = (Inr k, w')"
  shows "t_signing_keys (w_db w') = t_signing_keys (w_db w) @ [row_of_signing_key k]"
    and "w_db w' = w_db w \<lparr> t_signing_keys := t_signing_keys (w_db w) @ [row_of_signing_key k] \<rparr>"
    and "sk_account_id k = account_id" and "sk_revoked_at k = None"
    and "sk_key_id_uri k = actor_key_id (actor_url_builder_new (ap_base_url a) nano)"
    and "account_id \<in> set (map ar_id (t_accounts (w_db w)))"
  using assms
  by (auto simp: create_signing_key_def draw_entropy_def generate_id_def op_iffs Let_def
      signing_key_create_def result_iffs insert_row_Inr_iff)

lemma create_signing_key_sealed:
  assumes "create_signing_key a account_id nano alg w = (Inr k, w')" and "key_encryptor (ap_crypto a)"
  shows "\<exists>password raw. get_password (ap_crypto a) = Inr password \<and>
           generate_raw (ap_crypto a) (w_nano_seed w) = Inr raw \<and>
           sk_public_key_pem k = rk_public_key_pem raw \<and>
           decrypt_key (ap_crypto a) (sk_encrypted_private_key k) password = Inr (rk_private_key_pem raw)"
proof -
  from assms(1) obtain password pair where pw: "get_password (ap_crypto a) = Inr password"
    and pair: "signing_key_generator_generate (ap_crypto a) (w_nano_seed w) password = Inr pair"
    and k: "sk_encrypted_private_key k = gk_encrypted_private_key pair"
      "sk_public_key_pem k = gk_public_key_pem pair"
    by (auto simp: create_signing_key_def draw_entropy_def generate_id_def op_iffs Let_def)
  from generated_key_opens [OF assms(2) pair] pw k show ?thesis by auto
qed

end
