(* ===== verification/Pagination.thy ===== *)
theory Pagination
  imports Kernel_Base
begin

text \<open>
  Cursor pagination (\<open>application/src/dto/pagination.rs\<close>). The element order of Rust's
  \<open>Ord\<close> is given by an integer key.
\<close>

datatype direction = NEXT | PREV

definition direction_try_from :: "string \<Rightarrow> string + direction" where
  "direction_try_from value =
     (if value = ''next'' then Inr NEXT
      else if value = ''prev'' then Inr PREV
      else Inl (''Invalid direction: '' @ value))"

record pagination =
  pg_limit :: nat
  pg_cursor :: "string option"
  pg_direction :: direction

definition pagination_new :: "nat option \<Rightarrow> string option \<Rightarrow> direction \<Rightarrow> pagination" where
  "pagination_new limit cursor direction =
     \<lparr> pg_limit = (case limit of None \<Rightarrow> 5 | Some l \<Rightarrow> l), pg_cursor = cursor,
       pg_direction = direction \<rparr>"

definition apply_pagination ::
  "('x \<Rightarrow> int) \<Rightarrow> 'x list \<Rightarrow> nat \<Rightarrow> 'x option \<Rightarrow> direction \<Rightarrow> 'x list" where
  "apply_pagination k xs limit cursor_data direction =
     (case direction of
        NEXT \<Rightarrow>
          take limit (filter (\<lambda>x. case cursor_data of None \<Rightarrow> True | Some c \<Rightarrow> k c < k x)
            (sort_key k xs))
      | PREV \<Rightarrow>
          rev (take limit (filter (\<lambda>x. case cursor_data of None \<Rightarrow> True | Some c \<Rightarrow> k x < k c)
            (sort_key (\<lambda>x. - k x) xs))))"

subsection \<open>Lemmas\<close>

lemma sort_key_distinct:
  fixes k :: "'x \<Rightarrow> int"
  assumes "distinct (map k xs)"
  shows "distinct (map k (sort_key k xs))"
  using assms by (simp add: distinct_map)

lemma sort_key_reversed:
  fixes k :: "'x \<Rightarrow> int"
  assumes "distinct (map k xs)"
  shows "sort_key (\<lambda>x. - k x) xs = rev (sort_key k xs)"
proof (rule sort_key_inj_key_eq)
  show "inj_on (\<lambda>x. - k x) (set xs)" using assms by (auto simp: distinct_map inj_on_def)
  have "sorted (map k (sort_key k xs))" by simp
  then show "sorted (map (\<lambda>x. - k x) (rev (sort_key k xs)))"
    by (simp add: rev_map [symmetric] sorted_wrt_rev sorted_wrt_map)
qed simp

lemma take_rev_window: "rev (take l (rev (take n s))) = drop (min n (length s) - l) (take n s)"
  by (simp add: take_rev min.commute)

lemma pagination_window_next:
  assumes "distinct (map k xs)" and "n < length xs"
  shows "apply_pagination k xs limit (Some (sort_key k xs ! n)) NEXT =
           take limit (drop (Suc n) (sort_key k xs))"
  using filter_above_key [of k "sort_key k xs" n] assms sort_key_distinct [OF assms(1)]
  by (simp add: apply_pagination_def)

lemma pagination_window_prev:
  assumes "distinct (map k xs)" and "n < length xs"
  shows "apply_pagination k xs limit (Some (sort_key k xs ! n)) PREV =
           drop (n - limit) (take n (sort_key k xs))"
proof -
  let ?s = "sort_key k xs"
  have "filter (\<lambda>x. k x < k (?s ! n)) ?s = take n ?s"
    using filter_until_key [of k ?s n] assms sort_key_distinct [OF assms(1)] by simp
  then have "filter (\<lambda>x. k x < k (?s ! n)) (rev ?s) = rev (take n ?s)"
    by (simp add: rev_filter [symmetric])
  then show ?thesis
    using assms(2) take_rev_window [of limit n ?s]
    by (simp add: apply_pagination_def sort_key_reversed [OF assms(1)])
qed

subsection \<open>Properties\<close>

text \<open>C35. A cursor splits the ordered list where it stands: the next page is the stretch right after
  the cursor, the previous page the stretch right before it, both in ascending order, so walking
  in either direction misses and repeats nothing.\<close>

theorem pagination_window:
  assumes "distinct (map k xs)" and "n < length xs"
  shows "apply_pagination k xs limit (Some (sort_key k xs ! n)) NEXT =
           take limit (drop (n + 1) (sort_key k xs)) \<and>
         apply_pagination k xs limit (Some (sort_key k xs ! n)) PREV =
           drop (n - limit) (take n (sort_key k xs))"
  using pagination_window_next [OF assms, of limit] pagination_window_prev [OF assms, of limit] by simp

theorem pagination_window_witness:
  "apply_pagination (\<lambda>x. x) [4, 1, 3, 2 :: int] 2 (Some 2) NEXT = [3, 4] \<and>
   apply_pagination (\<lambda>x. x) [4, 1, 3, 2 :: int] 2 (Some 2) PREV = [1]"
  using pagination_window [of "\<lambda>x. x" "[4, 1, 3, 2 :: int]" 1 2] by simp

text \<open>Following the cursor of the last element from the first page on enumerates the list.\<close>

theorem pagination_first_then_next:
  assumes "distinct (map k xs)" and "page = apply_pagination k xs limit None NEXT" and "page \<noteq> []"
  shows "page @ apply_pagination k xs limit' (Some (last page)) NEXT =
         take (length page + limit') (sort_key k xs)"
proof -
  let ?s = "sort_key k xs"
  let ?n = "length page - 1"
  have page: "page = take limit ?s" using assms(2) by (simp add: apply_pagination_def)
  from assms(3) have "0 < length page" by simp
  moreover have "length page \<le> length xs" using page by simp
  ultimately have n: "?n < length xs" "Suc ?n = length page" by linarith+
  have "last page = page ! ?n" using assms(3) by (rule last_conv_nth)
  also have "page ! ?n = ?s ! ?n" using n by (subst page) (metis page lessI nth_take length_take min_less_iff_conj)
  finally have "apply_pagination k xs limit' (Some (last page)) NEXT = take limit' (drop (length page) ?s)"
    using pagination_window_next [OF assms(1) n(1), of limit'] n(2) by simp
  moreover have "page = take (length page) ?s" using page by (simp add: min_def)
  ultimately show ?thesis by (metis take_add)
qed

theorem pagination_first_then_next_witness:
  "let page = apply_pagination (\<lambda>x. x) [4, 1, 3, 2 :: int] 3 None NEXT in
   page = [1, 2, 3] \<and> page @ apply_pagination (\<lambda>x. x) [4, 1, 3, 2 :: int] 3 (Some (last page)) NEXT = [1, 2, 3, 4]"
  using pagination_first_then_next [of "\<lambda>x. x" "[4, 1, 3, 2 :: int]" "[1, 2, 3]" 3 3]
  by (simp add: apply_pagination_def)

end
