(* ===== verification/Value_Objects.thy ===== *)
theory Value_Objects
  imports Kernel_Base
begin

text \<open>
  The validators of the value objects under \<open>kernel/src/entity/\<close>: account names, moderation
  reasons, profile and metadata texts, image, remote account and auth host addresses. Each
  takes the wrapped string.
\<close>

definition account_name_validate :: "string \<Rightarrow> unit kresult" where
  "account_name_validate s =
     (if str_trim (str_chars s) = [] then Inl Rejected
      else if list_ex is_whitespace (str_chars s) then Inl Rejected
      else Inr ())"

definition moderation_reason_validate :: "string \<Rightarrow> unit kresult" where
  "moderation_reason_validate s =
     (if str_trim (str_chars s) = [] then Inl Validation
      else if length (str_chars s) > 500 then Inl Validation
      else Inr ())"

definition display_name_validate :: "string \<Rightarrow> unit kresult" where
  "display_name_validate s = (if length (str_chars s) > 100 then Inl Validation else Inr ())"

definition summary_validate :: "string \<Rightarrow> unit kresult" where
  "summary_validate s = (if length (str_chars s) > 2000 then Inl Validation else Inr ())"

definition label_validate :: "string \<Rightarrow> unit kresult" where
  "label_validate s = (if length (str_chars s) > 255 then Inl Validation else Inr ())"

definition content_validate :: "string \<Rightarrow> unit kresult" where
  "content_validate s = (if length (str_chars s) > 1000 then Inl Validation else Inr ())"

definition image_url_validate :: "string \<Rightarrow> unit kresult" where
  "image_url_validate s =
     (if s = [] then Inl Validation
      else if length (str_chars s) > 2048 then Inl Validation
      else Inr ())"

definition acct_validate :: "string \<Rightarrow> unit kresult" where
  "acct_validate s =
     (if str_trim (str_chars s) = [] then Inl Rejected
      else let parts = split_on (CHR ''@'') s in
        if length parts \<noteq> 2 \<or> parts ! 0 = [] \<or> parts ! 1 = [] then Inl Rejected
        else Inr ())"

definition remote_account_url_validate :: "string \<Rightarrow> unit kresult" where
  "remote_account_url_validate s =
     (if str_trim (str_chars s) = [] then Inl Rejected
      else if \<not> starts_with ''http://'' s \<and> \<not> starts_with ''https://'' s then Inl Rejected
      else Inr ())"

definition auth_host_url_validate :: "string \<Rightarrow> unit kresult" where
  "auth_host_url_validate s =
     (if str_trim (str_chars s) = [] then Inl Rejected
      else if \<not> starts_with ''http://'' s \<and> \<not> starts_with ''https://'' s then Inl Rejected
      else Inr ())"

lemma account_name_validate_ok:
  "account_name_validate s = Inr () \<longleftrightarrow>
     str_chars s \<noteq> [] \<and> list_all (\<lambda>c. \<not> is_whitespace c) (str_chars s)"
  by (cases "str_chars s")
    (auto simp: account_name_validate_def str_trim_eq_Nil list_ex_iff list_all_iff)

lemma moderation_reason_validate_ok:
  "moderation_reason_validate s = Inr () \<longleftrightarrow>
     list_ex (\<lambda>c. \<not> is_whitespace c) (str_chars s) \<and> length (str_chars s) \<le> 500"
  by (auto simp: moderation_reason_validate_def str_trim_eq_Nil list_ex_iff list_all_iff)

lemma two_parts:
  "length xs = 2 \<and> xs ! 0 \<noteq> [] \<and> xs ! 1 \<noteq> [] \<longleftrightarrow> (\<exists>u v. xs = [u, v] \<and> u \<noteq> [] \<and> v \<noteq> [])"
  by (auto simp: numeral_2_eq_2 length_Suc_conv)

lemma acct_whitespace_ok:
  "acct_validate s = Inr () \<Longrightarrow> str_trim (str_chars s) \<noteq> []"
  by (auto simp: acct_validate_def split: if_splits)

text \<open>An accepted handle is \<open>user@domain\<close> with exactly one separator.\<close>

lemma acct_validate_ok_iff:
  "acct_validate s = Inr () \<longleftrightarrow> str_trim (str_chars s) \<noteq> [] \<and>
     (\<exists>u v. s = u @ CHR ''@'' # v \<and> u \<noteq> [] \<and> v \<noteq> [] \<and> CHR ''@'' \<notin> set u \<and> CHR ''@'' \<notin> set v)"
proof -
  have "acct_validate s = Inr () \<longleftrightarrow> str_trim (str_chars s) \<noteq> [] \<and>
     (\<exists>u v. split_on (CHR ''@'') s = [u, v] \<and> u \<noteq> [] \<and> v \<noteq> [])"
    by (subst two_parts [symmetric]) (auto simp: acct_validate_def Let_def)
  then show ?thesis unfolding split_on_two by blast
qed

end
