(* ===== verification/Account_Service.thy ===== *)
theory Account_Service
  imports Event_Repositories Read_Models Permission Signing_Keys Pagination Value_Objects
begin

text \<open>
  The account use cases of \<open>application/src/service/account/\<close>: creation, update,
  deactivation, reactivation, moderation, instance roles and the list queries. The use cases
  that change an existing account load it, test a guard and save a command that expects the
  loaded version; the locale \<open>guarded_command\<close> is the contract that makes such a step safe.
\<close>

subsection \<open>Data transfer objects\<close>

datatype moderation_dto =
    DtoSuspended string datetime "datetime option"
  | DtoBanned string datetime

record account_dto =
  ad_nanoid :: nanoid
  ad_name :: string
  ad_is_bot :: bool
  ad_created_at :: datetime
  ad_moderation :: "moderation_dto option"

definition account_dto_from :: "account \<Rightarrow> account_dto" where
  "account_dto_from a =
     \<lparr> ad_nanoid = acc_nanoid a, ad_name = acc_name a, ad_is_bot = acc_is_bot a,
       ad_created_at = acc_created_at a,
       ad_moderation =
         (case acc_status a of
            Active \<Rightarrow> None
          | Suspended reason suspended_at expires_at \<Rightarrow> Some (DtoSuspended reason suspended_at expires_at)
          | Banned reason banned_at \<Rightarrow> Some (DtoBanned reason banned_at)) \<rparr>"

subsection \<open>Creation\<close>

definition create_account_rows :: "app \<Rightarrow> auth_account_id \<Rightarrow> string \<Rightarrow> bool \<Rightarrow> account op" where
  "create_account_rows ap auth_account_id name is_bot =
     (let e = ap_env ap in
      op_bind (generate_id e) (\<lambda>account_id.
      op_bind (nanoid_default e) (\<lambda>nano.
      op_bind (account_repository_save e (account_create account_id name is_bot nano auth_account_id)) (\<lambda>event.
      op_bind (op_lift (account_apply e event None)) (\<lambda>entity.
      op_bind (op_lift (ok_or Internal entity)) (\<lambda>account.
      op_bind (exec (account_read_model_create account)) (\<lambda>_.
      op_bind (exec (link_auth_account account_id auth_account_id)) (\<lambda>_.
      op_bind (generate_id e) (\<lambda>profile_id.
      op_bind (nanoid_default e) (\<lambda>profile_nano.
      op_bind (profile_repository_save e
        (profile_create profile_id (acc_id account) (Some name) None None None profile_nano)) (\<lambda>profile_event.
      op_bind (op_lift (profile_apply profile_event None)) (\<lambda>profile_entity.
      op_bind (op_lift (ok_or Internal profile_entity)) (\<lambda>profile.
      op_bind (exec (profile_read_model_create profile)) (\<lambda>_.
      op_bind (create_signing_key ap (acc_id account) (acc_nanoid account) Rsa2048) (\<lambda>_.
      op_return account)))))))))))))))"

definition create_account :: "app \<Rightarrow> auth_account_id \<Rightarrow> string \<Rightarrow> bool \<Rightarrow> account_dto op" where
  "create_account ap auth_account_id name is_bot =
     op_bind (transaction (create_account_rows ap auth_account_id name is_bot)) (\<lambda>account.
     op_bind (create_relation (ap_env ap) (TargetAccount (acc_id account) Owner) auth_account_id) (\<lambda>_.
     op_return (account_dto_from account)))"

subsection \<open>Guarded commands on an existing account\<close>

definition guarded_save ::
  "env \<Rightarrow> account_id \<Rightarrow> (account \<Rightarrow> bool) \<Rightarrow> (version \<Rightarrow> account_command) \<Rightarrow> unit op" where
  "guarded_save e account_id guard command =
     op_bind (try_query (account_repository_load e account_id)) (\<lambda>loaded.
     if \<not> guard (rh_aggregate loaded) then op_fail Rejected
     else op_bind (account_repository_save e (command (rh_version loaded))) (\<lambda>_. op_return ()))"

text \<open>The lookups answer \<open>NotFound\<close> when there is no row.\<close>

definition found_unfiltered :: "env \<Rightarrow> nanoid \<Rightarrow> account op" where
  "found_unfiltered e nano =
     op_bind (query (account_find_by_nanoid_unfiltered e nano)) (\<lambda>row. op_lift (ok_or NotFound row))"

definition found_visible :: "env \<Rightarrow> nanoid \<Rightarrow> account op" where
  "found_visible e nano =
     op_bind (query (account_find_by_nanoid e nano)) (\<lambda>row. op_lift (ok_or NotFound row))"

definition found_including_deleted :: "env \<Rightarrow> nanoid \<Rightarrow> account op" where
  "found_including_deleted e nano =
     op_bind (query (account_find_by_nanoid_including_deleted e nano)) (\<lambda>row. op_lift (ok_or NotFound row))"

definition update_account :: "env \<Rightarrow> auth_account_id \<Rightarrow> nanoid \<Rightarrow> bool field_action \<Rightarrow> unit op" where
  "update_account e auth_account_id nano new_is_bot =
     op_bind (found_unfiltered e nano) (\<lambda>projection.
     op_bind (check_permission e auth_account_id (account_edit (acc_id projection))) (\<lambda>_.
     op_bind (try_query (account_repository_load e (acc_id projection))) (\<lambda>loaded.
     let account = rh_aggregate loaded;
         is_bot = (case new_is_bot of Unchanged \<Rightarrow> acc_is_bot account | Clear \<Rightarrow> False | Set v \<Rightarrow> v)
     in if \<not> is_active (acc_status account) then op_fail Rejected
        else if acc_deleted_at account \<noteq> None then op_fail Rejected
        else op_bind (account_repository_save e (account_update (acc_id projection) is_bot (rh_version loaded)))
               (\<lambda>_. op_return ()))))"

definition deactivate_account :: "env \<Rightarrow> auth_account_id \<Rightarrow> nanoid \<Rightarrow> unit op" where
  "deactivate_account e auth_account_id nano =
     op_bind (found_visible e nano) (\<lambda>projection.
     op_bind (check_permission e auth_account_id (account_deactivate_permission (acc_id projection))) (\<lambda>_.
     op_bind (transaction (guarded_save e (acc_id projection) (\<lambda>_. True)
       (account_deactivate (acc_id projection)))) (\<lambda>_.
     op_iter (\<lambda>relation. delete_relation e (TargetAccount (acc_id projection) relation) auth_account_id)
       [Owner, Editor, Signer])))"

definition reactivate_account :: "env \<Rightarrow> auth_account_id \<Rightarrow> nanoid \<Rightarrow> unit op" where
  "reactivate_account e auth_account_id nano =
     op_bind (found_including_deleted e nano) (\<lambda>projection.
     op_bind (query (is_linked_including_deleted auth_account_id (acc_id projection))) (\<lambda>linked.
     if \<not> linked then op_fail PermissionDenied
     else
       op_bind (transaction (guarded_save e (acc_id projection) (\<lambda>a. acc_deleted_at a \<noteq> None)
         (account_reactivate (acc_id projection)))) (\<lambda>_.
       op_iter (\<lambda>relation. create_relation e (TargetAccount (acc_id projection) relation) auth_account_id)
         [Owner, Editor, Signer])))"

subsection \<open>Moderation\<close>

definition suspend_account ::
  "env \<Rightarrow> auth_account_id \<Rightarrow> nanoid \<Rightarrow> string \<Rightarrow> datetime option \<Rightarrow> unit op" where
  "suspend_account e auth_account_id nano reason expires_at =
     op_bind (op_lift (moderation_reason_validate reason)) (\<lambda>_.
     op_bind (found_unfiltered e nano) (\<lambda>projection.
     op_bind (check_permission e auth_account_id instance_moderate) (\<lambda>_.
     if (case expires_at of None \<Rightarrow> False | Some exp \<Rightarrow> exp \<le> now_utc e) then op_fail Rejected
     else transaction (guarded_save e (acc_id projection)
       (\<lambda>a. is_active (acc_status a) \<and> acc_deleted_at a = None)
       (account_suspend e (acc_id projection) reason expires_at)))))"

definition unsuspend_account :: "env \<Rightarrow> auth_account_id \<Rightarrow> nanoid \<Rightarrow> unit op" where
  "unsuspend_account e auth_account_id nano =
     op_bind (found_unfiltered e nano) (\<lambda>projection.
     op_bind (check_permission e auth_account_id instance_moderate) (\<lambda>_.
     transaction (guarded_save e (acc_id projection) (\<lambda>a. is_suspended (acc_status a))
       (account_unsuspend (acc_id projection)))))"

definition ban_account :: "env \<Rightarrow> auth_account_id \<Rightarrow> nanoid \<Rightarrow> string \<Rightarrow> unit op" where
  "ban_account e auth_account_id nano reason =
     op_bind (op_lift (moderation_reason_validate reason)) (\<lambda>_.
     op_bind (found_unfiltered e nano) (\<lambda>projection.
     op_bind (check_permission e auth_account_id instance_moderate) (\<lambda>_.
     transaction (guarded_save e (acc_id projection)
       (\<lambda>a. \<not> is_banned (acc_status a) \<and> acc_deleted_at a = None)
       (account_ban e (acc_id projection) reason)))))"

definition unban_account :: "env \<Rightarrow> auth_account_id \<Rightarrow> nanoid \<Rightarrow> unit op" where
  "unban_account e auth_account_id nano =
     op_bind (found_unfiltered e nano) (\<lambda>projection.
     op_bind (check_permission e auth_account_id instance_moderate) (\<lambda>_.
     transaction (guarded_save e (acc_id projection) (\<lambda>a. is_banned (acc_status a))
       (account_unban (acc_id projection)))))"

subsection \<open>Instance roles\<close>

definition assign_instance_role :: "env \<Rightarrow> auth_account_id \<Rightarrow> nanoid \<Rightarrow> instance_role \<Rightarrow> unit op" where
  "assign_instance_role e auth_account_id nano role =
     op_bind (found_unfiltered e nano) (\<lambda>projection.
     op_bind (check_permission e auth_account_id instance_administrate) (\<lambda>_.
     op_bind (query (find_auth_account_id_by_account_id (acc_id projection))) (\<lambda>linked.
     op_bind (op_lift (ok_or NotFound linked)) (\<lambda>target_auth_id.
     create_relation e (TargetInstance role) target_auth_id))))"

definition revoke_instance_role :: "env \<Rightarrow> auth_account_id \<Rightarrow> nanoid \<Rightarrow> instance_role \<Rightarrow> unit op" where
  "revoke_instance_role e auth_account_id nano role =
     op_bind (found_unfiltered e nano) (\<lambda>projection.
     op_bind (check_permission e auth_account_id instance_administrate) (\<lambda>_.
     op_bind (query (find_auth_account_id_by_account_id (acc_id projection))) (\<lambda>linked.
     op_bind (op_lift (ok_or NotFound linked)) (\<lambda>target_auth_id.
     if role = Admin \<and> target_auth_id = auth_account_id then op_fail Rejected
     else delete_relation e (TargetInstance role) target_auth_id))))"

record session_context =
  sc_auth_account_id :: auth_account_id
  sc_instance_roles :: "instance_role list"

definition get_session_context ::
  "env \<Rightarrow> auth_account_id \<Rightarrow> world \<Rightarrow> session_context kresult option" where
  "get_session_context e auth_account_id w =
     map_option (res_map (\<lambda>roles.
         \<lparr> sc_auth_account_id = auth_account_id, sc_instance_roles = roles \<rparr>))
       (list_instance_roles e auth_account_id w)"

subsection \<open>Queries\<close>

definition get_all_accounts :: "env \<Rightarrow> auth_account_id \<Rightarrow> pagination \<Rightarrow> account_dto list option op" where
  "get_all_accounts e auth_account_id pg =
     op_bind (query (account_find_by_auth_id e auth_account_id)) (\<lambda>accounts.
     op_bind (case pg_cursor pg of
                Some cursor \<Rightarrow> query (account_find_by_nanoid e cursor)
              | None \<Rightarrow> op_return None) (\<lambda>cursor.
     op_return (Some (map account_dto_from
       (apply_pagination acc_id accounts (pg_limit pg) cursor (pg_direction pg))))))"

fun viewable_accounts :: "env \<Rightarrow> auth_account_id \<Rightarrow> account list \<Rightarrow> account_dto list op" where
  "viewable_accounts e auth_account_id [] = op_return []"
| "viewable_accounts e auth_account_id (a # as) = (\<lambda>w.
     case check_permission e auth_account_id (account_view (acc_id a)) w of
       (Inr _, w') \<Rightarrow> op_bind (viewable_accounts e auth_account_id as) (\<lambda>rest.
                        op_return (account_dto_from a # rest)) w'
     | (Inl _, w') \<Rightarrow> viewable_accounts e auth_account_id as w')"

definition get_accounts_by_ids :: "env \<Rightarrow> auth_account_id \<Rightarrow> nanoid list \<Rightarrow> account_dto list op" where
  "get_accounts_by_ids e auth_account_id ids =
     op_bind (query (account_find_by_nanoids e ids)) (\<lambda>accounts.
     viewable_accounts e auth_account_id accounts)"

text \<open>The invariant of the requests: generated versions stay ahead, and account \<open>j\<close> is readable or not.\<close>

definition readable :: "env \<Rightarrow> account_id \<Rightarrow> bool \<Rightarrow> world \<Rightarrow> bool" where
  "readable e j b w \<longleftrightarrow> ids_ahead w \<and> is_ok (account_repository_load e j (w_db w)) = b"

lemma readable_same_db:
  assumes "readable e j b w" and "w_db w' = w_db w" and "w_last_id w' = w_last_id w"
  shows "readable e j b w'"
  using assms by (simp add: readable_def ids_ahead_def)

lemma readable_rollback:
  assumes "readable e j b w" and "w_last_id w \<le> w_last_id u"
  shows "readable e j b (u \<lparr> w_db := w_db w \<rparr>)"
  using assms by (auto simp: readable_def ids_ahead_def intro: versions_below_mono)

text \<open>Whether an account can be read does not depend on the clock.\<close>

lemma load_ok_iff:
  "is_ok (account_repository_load e j d) \<longleftrightarrow>
     account_events_find_by_id j None d \<noteq> [] \<and>
     (\<exists>a. res_fold (account_apply e) (account_events_find_by_id j None d) None = Inr (Some a))"
  by (auto simp: account_repository_load_def from_events_def Let_def is_ok_iff result_iffs)

lemma load_ok_clock:
  assumes "time_crate e" and "time_crate e'"
  shows "is_ok (account_repository_load e j d) = is_ok (account_repository_load e' j d)"
proof -
  let ?evs = "account_events_find_by_id j None d"
  have "res_map (map_option forget_deleted_at) (res_fold (account_apply e) ?evs None) =
      res_map (map_option forget_deleted_at) (res_fold (account_apply e') ?evs None)"
    by (rule account_fold_two_clocks [OF assms refl])
  then have "(\<exists>a. res_fold (account_apply e) ?evs None = Inr (Some a)) =
      (\<exists>a. res_fold (account_apply e') ?evs None = Inr (Some a))"
    by (cases "res_fold (account_apply e) ?evs None"; cases "res_fold (account_apply e') ?evs None")
      (auto simp: map_option_case split: option.splits)
  then show ?thesis unfolding load_ok_iff by blast
qed

lemma guarded_save_ahead:
  assumes "ids_ahead w" and "snowflake_crate e" and "guarded_save e i guard command w = (x, w')"
  shows "ids_ahead w'" and "w_last_id w \<le> w_last_id w'"
proof -
  have "keeps ids_ahead (guarded_save e i guard command)"
    unfolding guarded_save_def
    by (intro keeps_intros acc_port.save_keeps_ahead [OF assms(2)])
  then show "ids_ahead w'" using assms(1,3) by (rule keepsD)
  show "w_last_id w \<le> w_last_id w'"
    using assms(2,3)
    by (auto simp: guarded_save_def op_bind_def acc_port.save_eq Let_def snowflake_crate_def less_imp_le
        split: sum.splits if_splits)
qed

subsection \<open>The contract of a guarded command\<close>

locale guarded_command =
  fixes e :: env and i :: account_id and guard :: "account \<Rightarrow> bool"
    and command :: "version \<Rightarrow> account_command"
  assumes target: "ce_id (command v) = i"
    and expects: "ce_prev_version (command v) = Some (At v)"
    and accepted: "guard a \<Longrightarrow> ee_event ev = ce_event (command v) \<Longrightarrow>
      is_ok (account_apply e ev (Some a))"
begin

lemma refused:
  "account_repository_load e i (w_db w) = Inr r \<Longrightarrow> \<not> guard (rh_aggregate r) \<Longrightarrow>
     guarded_save e i guard command w = (Inl Rejected, w)"
  by (simp add: guarded_save_def op_bind_def)

lemma load_failed:
  "account_repository_load e i (w_db w) = Inl x \<Longrightarrow> guarded_save e i guard command w = (Inl x, w)"
  by (simp add: guarded_save_def op_bind_def)

lemma saved:
  assumes "ids_ahead w" and "snowflake_crate e" and "account_repository_load e i (w_db w) = Inr r"
    and "guard (rh_aggregate r)"
  shows "\<exists>w' ev a. guarded_save e i guard command w = (Inr (), w') \<and>
     ee_event ev = ce_event (command (rh_version r)) \<and>
     account_apply e ev (Some (rh_aggregate r)) = Inr (Some a) \<and>
     account_repository_load e i (w_db w') = Inr \<lparr> rh_aggregate = a, rh_version = ee_version ev \<rparr> \<and>
     ee_version ev = next_snowflake e (w_last_id w) \<and> ids_ahead w' \<and> w_keto w' = w_keto w"
proof -
  let ?c = "command (rh_version r)"
  have "expectation_met (t_account_events (w_db w)) ?c"
    using acc_repo.load_then_expect [OF assms(3) target expects] by simp
  then obtain ev w' where save: "account_repository_save e ?c w = (Inr ev, w')"
    using acc_port.save_ok_iff [OF assms(1,2), of ?c] by (metis is_ok_iff prod.collapse)
  then have ev: "ev = envelope_of ?c (next_snowflake e (w_last_id w))" and keto: "w_keto w' = w_keto w"
    using acc_port.save_Inr [OF save] by auto
  have event: "ee_event ev = ce_event ?c" and version: "ee_version ev = next_snowflake e (w_last_id w)"
    using ev by (simp_all add: envelope_of_def)
  obtain m where m: "account_apply e ev (Some (rh_aggregate r)) = Inr m"
    using accepted [OF assms(4) event] by (auto simp: is_ok_iff)
  then obtain a where a: "m = Some a" using acct.keeps by (cases m) auto
  have load: "account_repository_load e i (w_db w') = Inr \<lparr> rh_aggregate = a, rh_version = ee_version ev \<rparr>"
    using acc_repo.load_after_save [OF assms(1,2,3) save target] m a by simp
  have "ids_ahead w'"
    using acc_port.save_keeps_ahead [OF assms(2)] assms(1) save by (metis keepsD)
  moreover have "guarded_save e i guard command w = (Inr (), w')"
    using assms(3,4) save by (simp add: guarded_save_def op_bind_def)
  ultimately show ?thesis using event version m a load keto by blast
qed

lemma other_accounts:
  assumes "guarded_save e i guard command w = (x, w')" and "j \<noteq> i"
  shows "account_repository_load e' j (w_db w') = account_repository_load e' j (w_db w)"
proof (cases "\<exists>r ev. account_repository_load e i (w_db w) = Inr r \<and>
    account_repository_save e (command (rh_version r)) w = (Inr ev, w')")
  case True
  then obtain r :: "account rehydrated" and ev
    where "account_repository_save e (command (rh_version r)) w = (Inr ev, w')" by blast
  from acc_repo.load_other_after_save [OF this] assms(2) show ?thesis by (simp add: target)
next
  case False
  then have "w_db w' = w_db w"
    using assms(1) acc_port.save_eq
    by (auto simp: guarded_save_def op_bind_def Let_def split: prod.splits sum.splits if_splits)
  then show ?thesis by simp
qed

text \<open>A guarded command never makes an account unreadable.\<close>

lemma stays_loadable:
  assumes "ids_ahead w" and "snowflake_crate e" and "guarded_save e i guard command w = (x, w')"
    and "is_ok (account_repository_load e j (w_db w))"
  shows "is_ok (account_repository_load e j (w_db w'))"
proof (cases "j = i")
  case False
  with other_accounts [OF assms(3)] assms(4) show ?thesis by simp
next
  case True
  with assms(4) obtain r where r: "account_repository_load e i (w_db w) = Inr r" by (auto simp: is_ok_iff)
  show ?thesis
  proof (cases "guard (rh_aggregate r)")
    case True
    with saved [OF assms(1,2) r] assms(3) \<open>j = i\<close> show ?thesis by (auto simp: is_ok_iff)
  next
    case False
    with refused [OF r] assms(3,4) show ?thesis by simp
  qed
qed

lemma same_readability:
  assumes "ids_ahead w" and "snowflake_crate e" and "guarded_save e i guard command w = (x, w')"
  shows "is_ok (account_repository_load e j (w_db w')) = is_ok (account_repository_load e j (w_db w))"
proof (cases "is_ok (account_repository_load e j (w_db w))")
  case True
  with stays_loadable [OF assms] show ?thesis by simp
next
  case False
  then obtain y where y: "account_repository_load e j (w_db w) = Inl y"
    by (cases "account_repository_load e j (w_db w)") auto
  show ?thesis
  proof (cases "j = i")
    case True
    with load_failed y assms(3) show ?thesis by simp
  next
    case False
    with other_accounts [OF assms(3)] show ?thesis by simp
  qed
qed

lemma keeps_readable:
  assumes "snowflake_crate e" and "time_crate e" and "time_crate e'"
  shows "keeps (readable e' j b) (guarded_save e i guard command)"
    and "keeps (readable e' j b) (transaction (guarded_save e i guard command))"
proof -
  have step: "readable e' j b w' \<and> w_last_id w \<le> w_last_id w'"
    if "readable e' j b w" and run: "guarded_save e i guard command w = (x, w')" for w x w'
    using that same_readability [OF _ assms(1) run, of j] guarded_save_ahead [OF _ assms(1) run]
    by (simp add: readable_def load_ok_clock [OF assms(3,2)])
  then show "keeps (readable e' j b) (guarded_save e i guard command)"
    unfolding keeps_def by (metis prod.collapse)
  show "keeps (readable e' j b) (transaction (guarded_save e i guard command))"
    unfolding keeps_def
  proof (intro allI impI)
    fix w
    assume w: "readable e' j b w"
    obtain x w' where run: "guarded_save e i guard command w = (x, w')" by fastforce
    from step [OF w run] w show "readable e' j b (snd (transaction (guarded_save e i guard command) w))"
      by (cases x) (auto simp: transaction_def run intro: readable_rollback)
  qed
qed

end

interpretation suspend_cmd: guarded_command e i "\<lambda>a. is_active (acc_status a) \<and> acc_deleted_at a = None"
    "account_suspend e i reason expires_at" for e i reason expires_at
  by unfold_locales (simp_all add: account_suspend_def account_apply_def)

interpretation unsuspend_cmd: guarded_command e i "\<lambda>a. is_suspended (acc_status a)"
    "account_unsuspend i" for e i
  by unfold_locales (simp_all add: account_unsuspend_def account_apply_def)

interpretation ban_cmd: guarded_command e i "\<lambda>a. \<not> is_banned (acc_status a) \<and> acc_deleted_at a = None"
    "account_ban e i reason" for e i reason
  by unfold_locales (simp_all add: account_ban_def account_apply_def)

interpretation unban_cmd: guarded_command e i "\<lambda>a. is_banned (acc_status a)" "account_unban i" for e i
  by unfold_locales (simp_all add: account_unban_def account_apply_def)

interpretation reactivate_cmd: guarded_command e i "\<lambda>a. acc_deleted_at a \<noteq> None"
    "account_reactivate i" for e i
  by unfold_locales (simp_all add: account_reactivate_def account_apply_def)

interpretation update_cmd: guarded_command e i "\<lambda>a. is_active (acc_status a) \<and> acc_deleted_at a = None"
    "account_update i is_bot" for e i is_bot
  by unfold_locales (simp_all add: account_update_def account_apply_def)

subsection \<open>Requests on existing accounts\<close>

datatype account_request =
    UpdateRequest nanoid "bool field_action"
  | ReactivateRequest nanoid
  | SuspendRequest nanoid string "datetime option"
  | UnsuspendRequest nanoid
  | BanRequest nanoid string
  | UnbanRequest nanoid
  | AssignRequest nanoid instance_role
  | RevokeRequest nanoid instance_role

fun handle_request :: "env \<Rightarrow> auth_account_id \<Rightarrow> account_request \<Rightarrow> unit op" where
  "handle_request e auth (UpdateRequest nano b) = update_account e auth nano b"
| "handle_request e auth (ReactivateRequest nano) = reactivate_account e auth nano"
| "handle_request e auth (SuspendRequest nano reason t) = suspend_account e auth nano reason t"
| "handle_request e auth (UnsuspendRequest nano) = unsuspend_account e auth nano"
| "handle_request e auth (BanRequest nano reason) = ban_account e auth nano reason"
| "handle_request e auth (UnbanRequest nano) = unban_account e auth nano"
| "handle_request e auth (AssignRequest nano role) = assign_instance_role e auth nano role"
| "handle_request e auth (RevokeRequest nano role) = revoke_instance_role e auth nano role"

text \<open>A request at any time, by anyone, with any outcome.\<close>

inductive account_step :: "world \<Rightarrow> world \<Rightarrow> bool" where
  request: "snowflake_crate e \<Longrightarrow> time_crate e \<Longrightarrow> handle_request e auth req w = (r, w') \<Longrightarrow> account_step w w'"

lemma keeps_readable_check [keeps_intros]: "keeps (readable e j b) (check_permission e' subject p)"
  by (simp add: keeps_def check_permission_world)

lemma delete_relation_fields:
  "w_db (snd (delete_relation e target subject w)) = w_db w"
  "w_last_id (snd (delete_relation e target subject w)) = w_last_id w"
  by (auto simp: delete_relation_def Let_def split: prod.splits option.splits)

lemma keeps_readable_relations [keeps_intros]:
  "keeps (readable e j b) (create_relation e' target subject)"
  "keeps (readable e j b) (delete_relation e' target subject)"
  by (auto simp: keeps_def create_relation_db create_relation_fields delete_relation_fields
      intro: readable_same_db)

lemma keeps_found [keeps_intros]:
  "keeps P (found_unfiltered e nano)" "keeps P (found_visible e nano)"
  "keeps P (found_including_deleted e nano)"
  by (simp_all add: found_unfiltered_def found_visible_def found_including_deleted_def keeps_intros)

text \<open>An update is a guarded command whose value depends on the loaded account.\<close>

lemma keeps_readable_update:
  assumes "snowflake_crate e" and "time_crate e" and "time_crate e'"
  shows "keeps (readable e' j b)
    (op_bind (try_query (account_repository_load e i)) (\<lambda>loaded.
     let account = rh_aggregate loaded;
         is_bot = (case nb of Unchanged \<Rightarrow> acc_is_bot account | Clear \<Rightarrow> False | Set v \<Rightarrow> v)
     in if \<not> is_active (acc_status account) then op_fail Rejected
        else if acc_deleted_at account \<noteq> None then op_fail Rejected
        else op_bind (account_repository_save e (account_update i is_bot (rh_version loaded)))
               (\<lambda>_. op_return ())))" (is "keeps _ ?m")
  unfolding keeps_def
proof (intro allI impI)
  fix w
  assume w: "readable e' j b w"
  show "readable e' j b (snd (?m w))"
  proof (cases "account_repository_load e i (w_db w)")
    case (Inl x)
    with w show ?thesis by (simp add: op_bind_def)
  next
    case (Inr r)
    let ?v = "case nb of Unchanged \<Rightarrow> acc_is_bot (rh_aggregate r) | Clear \<Rightarrow> False | Set v \<Rightarrow> v"
    have "?m w = guarded_save e i (\<lambda>a. is_active (acc_status a) \<and> acc_deleted_at a = None)
        (account_update i ?v) w"
      using Inr by (simp add: guarded_save_def op_bind_def Let_def)
    with update_cmd.keeps_readable(1) [OF assms, of j b i ?v] w show ?thesis by (simp add: keeps_def)
  qed
qed

lemma handle_request_readable:
  assumes "snowflake_crate e" and "time_crate e" and "time_crate e'"
  shows "keeps (readable e' j b) (handle_request e auth req)"
proof (cases req)
  case (UpdateRequest nano nb)
  show ?thesis
    unfolding UpdateRequest handle_request.simps update_account_def
    by (intro keeps_bind keeps_found keeps_readable_check keeps_readable_update assms)
qed (auto simp: reactivate_account_def suspend_account_def unsuspend_account_def
      ban_account_def unban_account_def assign_instance_role_def revoke_instance_role_def
      intro!: keeps_intros
        suspend_cmd.keeps_readable(2) [OF assms] unsuspend_cmd.keeps_readable(2) [OF assms]
        ban_cmd.keeps_readable(2) [OF assms] unban_cmd.keeps_readable(2) [OF assms]
        reactivate_cmd.keeps_readable(2) [OF assms])

lemma account_steps_readable:
  assumes "account_step\<^sup>*\<^sup>* w w'" and "time_crate e" and "readable e j b w"
  shows "readable e j b w'"
  using assms(1)
proof (induction rule: rtranclp_induct)
  case base
  show ?case by (rule assms(3))
next
  case (step u v)
  from step.hyps(2) show ?case
  proof (cases rule: account_step.cases)
    case (request e1 auth req r)
    show ?thesis
      by (rule keepsD [OF handle_request_readable [OF request(1,2) assms(2)] step.IH request(3)])
  qed
qed

end
