(* ===== verification/Account_Service_Theorems.thy ===== *)
theory Account_Service_Theorems
  imports Account_Service
begin

text \<open>
  What the account use cases do: outcomes on every branch, what a creation leaves behind, how
  permissions follow deactivation and reactivation, and that no request but deactivation can
  make an account unreadable.
\<close>

subsection \<open>An example\<close>

text \<open>Account 7 of auth account 3, who owns it; 5 is a moderator, 6 an administrator.\<close>

definition service_account :: account where
  "service_account = \<lparr> acc_id = 7, acc_name = ''alice'', acc_is_bot = False, acc_status = Active,
     acc_deleted_at = None, acc_version = 9, acc_nanoid = ''n1'', acc_created_at = id_created_at 7 \<rparr>"

definition service_world :: world where
  "service_world = empty_world \<lparr>
     w_last_id := 9,
     w_db := empty_db \<lparr>
       t_account_events :=
         \<lparr> et_rows = [\<lparr> er_seq = 1, er_version = 9, er_id = 7,
                       er_data = AccountCreated ''alice'' False ''n1'' 3 \<rparr>],
           et_next_seq = 2 \<rparr>,
       t_accounts := [row_of_account service_account],
       t_auth_hosts := [\<lparr> hw_id = 1, hw_url = ''https://idp.example'' \<rparr>],
       t_auth_accounts := [\<lparr> aw_id = 3, aw_host_id = 1, aw_client_id = ''c'' \<rparr>],
       t_auth_emumet_accounts := [(7, 3)] \<rparr>,
     w_keto := [relation_tuple_of (TargetAccount 7 Owner) 3, relation_tuple_of (TargetInstance Moderator) 5,
                relation_tuple_of (TargetInstance Admin) 6] \<rparr>"

lemma service_world_ahead [simp]: "ids_ahead service_world"
  by (simp add: ids_ahead_def service_world_def empty_world_def empty_db_def versions_below_def
      wf_event_table_def empty_event_table_def)

lemma service_world_load:
  "account_repository_load (keto_env t) 7 (w_db service_world) =
     Inr \<lparr> rh_aggregate = service_account, rh_version = 9 \<rparr>"
  by (simp add: account_repository_load_def account_events_find_by_id_def service_world_def
      find_by_id_def event_row_try_from_def from_events_def account_apply_def created_at_of_id
      service_account_def)

lemma service_world_lookup:
  "account_find_by_nanoid_unfiltered (keto_env t) ''n1'' (w_db service_world) = Some service_account"
  "account_find_by_nanoid (keto_env t) ''n1'' (w_db service_world) = Some service_account"
  "account_find_by_nanoid_including_deleted (keto_env t) ''n1'' (w_db service_world) = Some service_account"
  by (simp_all add: account_find_by_nanoid_unfiltered_def account_find_by_nanoid_def
      account_find_by_nanoid_including_deleted_def service_world_def account_row_roundtrip
      account_row_roundtrip_expiry visible_row_of_account expire_def)
    (simp_all add: service_account_def)

lemma service_world_relations:
  "has_relation service_world t s \<longleftrightarrow>
     t = TargetAccount 7 Owner \<and> s = 3 \<or> t = TargetInstance Moderator \<and> s = 5 \<or> t = TargetInstance Admin \<and> s = 6"
  by (simp add: has_relation_def service_world_def)

subsection \<open>Lemmas\<close>

lemma guarded_save_keto: "guarded_save e i guard command w = (x, w') \<Longrightarrow> w_keto w' = w_keto w"
  by (auto simp: guarded_save_def op_bind_def acc_port.save_eq Let_def split: sum.splits if_splits)

lemma transaction_keto:
  "transaction (guarded_save e i guard command) w = (x, w') \<Longrightarrow> w_keto w' = w_keto w"
  by (cases x) (auto simp: transaction_Inr_iff transaction_Inl_iff dest: guarded_save_keto)

lemma relations_deleted:
  assumes "keto_service e"
    and "op_iter (\<lambda>relation. delete_relation e (TargetAccount i relation) s) relations w = (r, w')"
  shows "r = Inr () \<and> w_db w' = w_db w \<and>
    (\<forall>t u. has_relation w' t u \<longleftrightarrow>
       has_relation w t u \<and> \<not> (\<exists>relation \<in> set relations. t = TargetAccount i relation \<and> u = s))"
  using assms(2)
proof (induction relations arbitrary: w)
  case Nil
  then show ?case by simp
next
  case (Cons relation relations)
  obtain r1 w1 where one: "delete_relation e (TargetAccount i relation) s w = (r1, w1)" by fastforce
  note d = delete_relation_has [OF assms(1) one]
  with Cons.prems one have "op_iter (\<lambda>relation. delete_relation e (TargetAccount i relation) s) relations w1 = (r, w')"
    by simp
  from Cons.IH [OF this] d show ?case by auto
qed

lemma relations_created:
  assumes "keto_service e"
    and "op_iter (\<lambda>relation. create_relation e (TargetAccount i relation) s) relations w = (r, w')"
  shows "r = Inr () \<and> w_db w' = w_db w \<and>
    (\<forall>t u. has_relation w' t u \<longleftrightarrow>
       has_relation w t u \<or> (\<exists>relation \<in> set relations. t = TargetAccount i relation \<and> u = s))"
  using assms(2)
proof (induction relations arbitrary: w)
  case Nil
  then show ?case by simp
next
  case (Cons relation relations)
  obtain r1 w1 where one: "create_relation e (TargetAccount i relation) s w = (r1, w1)" by fastforce
  note d = create_relation_has [OF assms(1) one]
  with Cons.prems one have "op_iter (\<lambda>relation. create_relation e (TargetAccount i relation) s) relations w1 = (r, w')"
    by simp
  from Cons.IH [OF this] d show ?case by auto
qed

text \<open>The run of a deactivation by the owner, and of a reactivation by a linked principal.\<close>

lemma deactivate_run:
  assumes "ids_ahead w" and "snowflake_crate e" and "keto_service e"
    and "account_find_by_nanoid e nano (w_db w) = Some p"
    and "has_relation w (TargetAccount (acc_id p) Owner) auth"
    and "account_repository_load e (acc_id p) (w_db w) = Inr r"
  shows "\<exists>ev w'. deactivate_account e auth nano w = (Inr (), w') \<and>
    account_repository_load e (acc_id p) (w_db w') =
      res_map (\<lambda>m. \<lparr> rh_aggregate = the m, rh_version = ee_version ev \<rparr>)
        (account_apply e ev (Some (rh_aggregate r))) \<and>
    ee_event ev = AccountDeactivated \<and> ids_ahead w'"
proof -
  let ?i = "acc_id p"
  let ?c = "account_deactivate ?i (rh_version r)"
  have "expectation_met (t_account_events (w_db w)) ?c"
    using acc_repo.load_then_expect [OF assms(6), of ?c "rh_version r"] by (simp add: account_deactivate_def)
  then obtain ev w1 where save: "account_repository_save e ?c w = (Inr ev, w1)"
    using acc_port.save_ok_iff [OF assms(1,2), of ?c] by (metis is_ok_iff prod.collapse)
  have ev: "ee_event ev = AccountDeactivated"
    using acc_port.save_Inr(1) [OF save] by (simp add: envelope_of_def account_deactivate_def)
  have load: "account_repository_load e ?i (w_db w1) =
      res_map (\<lambda>m. \<lparr> rh_aggregate = the m, rh_version = ee_version ev \<rparr>)
        (account_apply e ev (Some (rh_aggregate r)))"
    using acc_repo.load_after_save [OF assms(1,2,6) save] by (simp add: account_deactivate_def)
  have ahead: "ids_ahead w1"
    using acc_port.save_keeps_ahead [OF assms(2)] assms(1) save by (metis keepsD)
  obtain x w' where del: "op_iter (\<lambda>relation. delete_relation e (TargetAccount ?i relation) auth)
      [Owner, Editor, Signer] w1 = (x, w')" by fastforce
  have "deactivate_account e auth nano w = (Inr (), w')"
    using assms(4-6) save del relations_deleted [OF assms(3) del]
    by (simp add: deactivate_account_def found_visible_def op_bind_def check_permissions [OF assms(3)]
        transaction_def guarded_save_def)
  moreover have "readable e ?i b w'" if "readable e ?i b w1" for b
    using keepsD [OF keeps_iter [OF keeps_readable_relations(2)] that del] .
  then have "ids_ahead w'" using ahead by (simp add: readable_def)
  moreover have "w_db w' = w_db w1" using relations_deleted [OF assms(3) del] by simp
  ultimately show ?thesis using load ev by auto
qed

lemma reactivate_run:
  assumes "ids_ahead w" and "snowflake_crate e" and "keto_service e"
    and "account_find_by_nanoid_including_deleted e nano (w_db w) = Some p"
    and "is_linked_including_deleted auth (acc_id p) (w_db w)"
    and "account_repository_load e (acc_id p) (w_db w) = Inr r"
    and "acc_deleted_at (rh_aggregate r) \<noteq> None"
  shows "\<exists>w'. reactivate_account e auth nano w = (Inr (), w')"
proof -
  obtain w1 where save: "guarded_save e (acc_id p) (\<lambda>a. acc_deleted_at a \<noteq> None)
      (account_reactivate (acc_id p)) w = (Inr (), w1)"
    using reactivate_cmd.saved [OF assms(1,2,6,7)] by auto
  obtain x w' where new: "op_iter (\<lambda>relation. create_relation e (TargetAccount (acc_id p) relation) auth)
      [Owner, Editor, Signer] w1 = (x, w')" by fastforce
  from relations_created [OF assms(3) new] new save assms(4,5) show ?thesis
    by (simp add: reactivate_account_def found_including_deleted_def op_bind_def transaction_def)
qed

text \<open>The steps of a successful creation.\<close>

lemma create_account_rows_steps:
  assumes "create_account_rows ap auth name b w = (Inr a, w')"
  obtains ev w2 d3 d4 pev w6 p d7 k where
    "account_repository_save (ap_env ap) (account_create (next_snowflake (ap_env ap) (w_last_id w)) name b
        (random_nanoid (ap_env ap) (w_nano_seed w)) auth)
      (w \<lparr> w_last_id := next_snowflake (ap_env ap) (w_last_id w), w_nano_seed := Suc (w_nano_seed w) \<rparr>) =
      (Inr ev, w2)"
    and "account_apply (ap_env ap) ev None = Inr (Some a)"
    and "account_read_model_create a (w_db w2) = Inr ((), d3)"
    and "link_auth_account (next_snowflake (ap_env ap) (w_last_id w)) auth d3 = Inr ((), d4)"
    and "profile_repository_save (ap_env ap)
      (profile_create (next_snowflake (ap_env ap) (w_last_id w2)) (acc_id a) (Some name) None None None
        (random_nanoid (ap_env ap) (w_nano_seed w2)))
      (w2 \<lparr> w_db := d4, w_last_id := next_snowflake (ap_env ap) (w_last_id w2),
            w_nano_seed := Suc (w_nano_seed w2) \<rparr>) = (Inr pev, w6)"
    and "profile_apply pev None = Inr (Some p)"
    and "profile_read_model_create p (w_db w6) = Inr ((), d7)"
    and "create_signing_key ap (acc_id a) (acc_nanoid a) Rsa2048 (w6 \<lparr> w_db := d7 \<rparr>) = (Inr k, w')"
  using assms unfolding create_account_rows_def Let_def
  by (auto simp: op_bind_Inr_iff exec_Inr_iff generate_id_def nanoid_default_def result_iffs Let_def)

text \<open>What the tables are afterwards.\<close>

lemma account_row_created:
  assumes "account_read_model_create a d = Inr ((), d')" and "acc_status a = Active" and "acc_deleted_at a = None"
  shows "d' = d \<lparr> t_accounts := t_accounts d @ [row_of_account a] \<rparr>"
    and "\<forall>r \<in> set (t_accounts d). ar_id r \<noteq> acc_id a \<and> ar_nanoid r \<noteq> acc_nanoid a \<and> ar_name r \<noteq> acc_name a"
  using assms
  by (auto simp: account_read_model_create_def Let_def result_iffs insert_row_Inr_iff row_of_account_def account_clash_def)

lemma profile_row_created:
  "profile_read_model_create p d = Inr ((), d') \<Longrightarrow> d' = d \<lparr> t_profiles := t_profiles d @ [row_of_profile p] \<rparr>"
  by (auto simp: profile_read_model_create_def Let_def result_iffs insert_row_Inr_iff)

lemma auth_account_linked:
  "link_auth_account i auth d = Inr ((), d') \<Longrightarrow>
     \<exists>links. d' = d \<lparr> t_auth_emumet_accounts := links \<rparr> \<and> (i, auth) \<in> set links"
  by (auto simp: link_auth_account_def split: if_splits intro: exI [of _ "t_auth_emumet_accounts d"])

lemma created_account_fields:
  assumes "account_apply e ev None = Inr (Some a)" and "ee_event ev = AccountCreated name b nano auth"
  shows "acc_name a = name" "acc_is_bot a = b" "acc_status a = Active" "acc_deleted_at a = None"
    "acc_id a = ee_id ev" "acc_version a = ee_version ev" "acc_nanoid a = nano"
  using assms by (auto simp: account_apply_def res_bind_Inr_iff)

definition creation_complete :: "app \<Rightarrow> auth_account_id \<Rightarrow> string \<Rightarrow> db \<Rightarrow> account \<Rightarrow> db \<Rightarrow> bool" where
  "creation_complete ap auth name d a d' \<longleftrightarrow>
     t_accounts d' = t_accounts d @ [row_of_account a] \<and>
     (\<forall>r \<in> set (t_accounts d). ar_id r \<noteq> acc_id a \<and> ar_nanoid r \<noteq> acc_nanoid a \<and> ar_name r \<noteq> name) \<and>
     (acc_id a, auth) \<in> set (t_auth_emumet_accounts d') \<and>
     (\<exists>p. t_profiles d' = t_profiles d @ [row_of_profile p] \<and>
        pr_account_id p = acc_id a \<and> pr_display_name p = Some name) \<and>
     (\<exists>k. t_signing_keys d' = t_signing_keys d @ [row_of_signing_key k] \<and>
        sk_account_id k = acc_id a \<and> sk_revoked_at k = None \<and>
        sk_key_id_uri k = actor_key_id (actor_url_builder_new (ap_base_url ap) (acc_nanoid a)))"

lemma create_account_rows_ok:
  assumes "create_account_rows ap auth name b w = (Inr a, w')" and "ids_ahead w"
    and "snowflake_crate (ap_env ap)"
  shows "account_repository_load (ap_env ap) (acc_id a) (w_db w') =
           Inr \<lparr> rh_aggregate = a, rh_version = acc_version a \<rparr>"
    and "acc_name a = name" "acc_is_bot a = b" "acc_status a = Active" "acc_deleted_at a = None"
    and "creation_complete ap auth name (w_db w) a (w_db w')"
proof -
  let ?e = "ap_env ap"
  let ?i = "next_snowflake ?e (w_last_id w)"
  let ?w1 = "w \<lparr> w_last_id := ?i, w_nano_seed := Suc (w_nano_seed w) \<rparr>"
  let ?c = "account_create ?i name b (random_nanoid ?e (w_nano_seed w)) auth"
  from assms(1) obtain ev w2 d3 d4 pev w6 p d7 k where
    save: "account_repository_save ?e ?c ?w1 = (Inr ev, w2)"
    and app: "account_apply ?e ev None = Inr (Some a)"
    and create: "account_read_model_create a (w_db w2) = Inr ((), d3)"
    and link: "link_auth_account ?i auth d3 = Inr ((), d4)"
    and psave: "profile_repository_save ?e (profile_create (next_snowflake ?e (w_last_id w2)) (acc_id a) (Some name)
        None None None (random_nanoid ?e (w_nano_seed w2)))
      (w2 \<lparr> w_db := d4, w_last_id := next_snowflake ?e (w_last_id w2), w_nano_seed := Suc (w_nano_seed w2) \<rparr>) = (Inr pev, w6)"
    and papp: "profile_apply pev None = Inr (Some p)"
    and pcreate: "profile_read_model_create p (w_db w6) = Inr ((), d7)"
    and key: "create_signing_key ap (acc_id a) (acc_nanoid a) Rsa2048 (w6 \<lparr> w_db := d7 \<rparr>) = (Inr k, w')"
    by (rule create_account_rows_steps)
  note s = acc_port.save_Inr [OF save] and ps = prof_port.save_Inr [OF psave]
  have ev: "ee_id ev = ?i" "ee_event ev = AccountCreated name b (random_nanoid ?e (w_nano_seed w)) auth"
    using s(1) by (simp_all add: envelope_of_def account_create_def)
  note a = created_account_fields [OF app ev(2)]
  then show "acc_name a = name" "acc_is_bot a = b" "acc_status a = Active" "acc_deleted_at a = None" by simp_all
  obtain t2 where d2: "w_db w2 = w_db w \<lparr> t_account_events := t2 \<rparr>" using s(4) by auto
  note d3 = account_row_created [OF create a(3,4)]
  obtain links where d4: "d4 = d3 \<lparr> t_auth_emumet_accounts := links \<rparr>" "(?i, auth) \<in> set links"
    using auth_account_linked [OF link] by blast
  obtain t6 where d6: "w_db w6 = d4 \<lparr> t_profile_events := t6 \<rparr>" using ps(4) by auto
  note d' = create_signing_key_ok [OF key] and d7 = profile_row_created [OF pcreate]
  have p: "pr_account_id p = acc_id a" "pr_display_name p = Some name"
    using papp ps(1) by (auto simp: profile_apply_def envelope_of_def profile_create_def)
  show "creation_complete ap auth name (w_db w) a (w_db w')"
    using d2 d3 d4 d6 d7 d' p a(1,5) ev(1) unfolding creation_complete_def by auto
  have "ids_ahead ?w1"
    using assms(2,3) by (auto simp: ids_ahead_def snowflake_crate_def less_imp_le intro: versions_below_mono)
  from acc_repo.load_after_first_save [OF this assms(3) save _ app]
  have "account_repository_load ?e (acc_id a) (w_db w2) = Inr \<lparr> rh_aggregate = a, rh_version = acc_version a \<rparr>"
    using a(5,6) ev(1) by (simp add: account_create_def)
  then show "account_repository_load ?e (acc_id a) (w_db w') = Inr \<lparr> rh_aggregate = a, rh_version = acc_version a \<rparr>"
    using d2 d3(1) d4(1) d6 d7 d'(2) by (simp add: account_repository_load_def account_events_find_by_id_def)
qed

subsection \<open>Properties\<close>

text \<open>C4. Suspension: the first failing check decides, in the order reason, permission, expiry time,
  state of the account; when all pass, the account loads as suspended with the given reason, time
  and expiry, at a new version.\<close>

theorem suspend_account_outcome:
  assumes "ids_ahead w" and "snowflake_crate e" and "keto_service e"
    and "account_find_by_nanoid_unfiltered e nano (w_db w) = Some p"
    and "account_repository_load e (acc_id p) (w_db w) = Inr r"
  shows "fst (suspend_account e auth nano reason expires_at w) =
      (if moderation_reason_validate reason \<noteq> Inr () then Inl Validation
       else if \<not> has_relation w (TargetInstance Admin) auth \<and> \<not> has_relation w (TargetInstance Moderator) auth
       then Inl PermissionDenied
       else if (case expires_at of None \<Rightarrow> False | Some t \<Rightarrow> t \<le> now_utc e) then Inl Rejected
       else if \<not> is_active (acc_status (rh_aggregate r)) \<or> acc_deleted_at (rh_aggregate r) \<noteq> None
       then Inl Rejected else Inr ()) \<and>
    (fst (suspend_account e auth nano reason expires_at w) = Inr () \<longrightarrow>
       account_repository_load e (acc_id p) (w_db (snd (suspend_account e auth nano reason expires_at w))) =
         Inr \<lparr> rh_aggregate = (rh_aggregate r) \<lparr> acc_status := Suspended reason (now_utc e) expires_at,
                 acc_version := next_snowflake e (w_last_id w) \<rparr>,
               rh_version = next_snowflake e (w_last_id w) \<rparr>)"
proof -
  let ?guard = "\<lambda>a. is_active (acc_status a) \<and> acc_deleted_at a = None"
  let ?save = "guarded_save e (acc_id p) ?guard (account_suspend e (acc_id p) reason expires_at)"
  have invalid: "moderation_reason_validate reason \<noteq> Inr () \<Longrightarrow> moderation_reason_validate reason = Inl Validation"
    by (simp add: moderation_reason_validate_def split: if_splits)
  show ?thesis
  proof (cases "?guard (rh_aggregate r)")
    case True
    obtain w' ev a where "?save w = (Inr (), w')" and "ee_event ev = AccountSuspended reason (now_utc e) expires_at"
      and "account_apply e ev (Some (rh_aggregate r)) = Inr (Some a)"
      and "account_repository_load e (acc_id p) (w_db w') = Inr \<lparr> rh_aggregate = a, rh_version = ee_version ev \<rparr>"
      and "ee_version ev = next_snowflake e (w_last_id w)"
      using suspend_cmd.saved [OF assms(1,2,5) True, of reason expires_at] by (auto simp: account_suspend_def)
    with True invalid assms(4) show ?thesis
      by (auto simp: suspend_account_def found_unfiltered_def op_bind_def check_permissions [OF assms(3)]
          transaction_def account_apply_def)
  next
    case False
    from suspend_cmd.refused [OF assms(5) False] False invalid assms(4) show ?thesis
      by (auto simp: suspend_account_def found_unfiltered_def op_bind_def check_permissions [OF assms(3)]
          transaction_def)
  qed
qed

theorem suspend_account_outcome_witness:
  "fst (suspend_account (keto_env 100) 5 ''n1'' ''spam'' (Some 200) service_world) = Inr () \<and>
   fst (suspend_account (keto_env 100) 3 ''n1'' ''spam'' (Some 200) service_world) = Inl PermissionDenied \<and>
   fst (suspend_account (keto_env 100) 5 ''n1'' ''spam'' (Some 50) service_world) = Inl Rejected"
proof -
  have valid: "moderation_reason_validate ''spam'' = Inr ()" by code_simp
  note out = suspend_account_outcome [of service_world "keto_env 100" "''n1''" service_account
      "\<lparr> rh_aggregate = service_account, rh_version = 9 \<rparr>"]
  have l: "account_repository_load (keto_env 100) (acc_id service_account) (w_db service_world) =
      Inr \<lparr> rh_aggregate = service_account, rh_version = 9 \<rparr>"
    using service_world_load by (simp add: service_account_def)
  show ?thesis
    using out [of 5 "''spam''" "Some 200"] out [of 3 "''spam''" "Some 200"] out [of 5 "''spam''" "Some 50"] l
    by (simp add: service_world_lookup valid service_world_relations) (simp add: service_account_def)
qed




text \<open>The example with a deactivation the read model has not seen yet.\<close>

definition deactivated_world :: world where
  "deactivated_world = service_world \<lparr> w_last_id := 10,
     w_db := w_db service_world \<lparr> t_account_events :=
       \<lparr> et_rows = [\<lparr> er_seq = 1, er_version = 9, er_id = 7,
                     er_data = AccountCreated ''alice'' False ''n1'' 3 \<rparr>,
                   \<lparr> er_seq = 2, er_version = 10, er_id = 7, er_data = AccountDeactivated \<rparr>],
         et_next_seq = 3 \<rparr> \<rparr> \<rparr>"

lemma deactivated_world_facts:
  "ids_ahead deactivated_world"
  "account_find_by_nanoid (keto_env t) ''n1'' (w_db deactivated_world) = Some service_account"
  "account_find_by_nanoid_including_deleted (keto_env t) ''n1'' (w_db deactivated_world) = Some service_account"
  "has_relation deactivated_world u s = has_relation service_world u s"
  "account_repository_load (keto_env t) 7 (w_db deactivated_world) =
     Inr \<lparr> rh_aggregate = service_account \<lparr> acc_deleted_at := Some t, acc_version := 10 \<rparr>, rh_version = 10 \<rparr>"
  using service_world_lookup(2,3) [of t]
  by (simp_all add: deactivated_world_def ids_ahead_def service_world_def empty_world_def empty_db_def
      versions_below_def wf_event_table_def empty_event_table_def account_find_by_nanoid_def
      account_find_by_nanoid_including_deleted_def has_relation_def account_repository_load_def
      account_events_find_by_id_def find_by_id_def event_row_try_from_def from_events_def
      account_apply_def created_at_of_id service_account_def)


text \<open>C23. Permissions follow the life cycle: after a deactivation the caller has no permission left on
  the account; after a reactivation, which asks only for the stored link, the caller has them all.\<close>

theorem permissions_follow_lifecycle:
  assumes "keto_service e"
  shows "(deactivate_account e auth nano w = (Inr (), w') \<and>
          account_find_by_nanoid e nano (w_db w) = Some p \<longrightarrow>
            has_relation w (TargetAccount (acc_id p) Owner) auth \<and>
            (\<forall>relation. \<not> has_relation w' (TargetAccount (acc_id p) relation) auth)) \<and>
         (reactivate_account e auth nano v = (Inr (), v') \<and>
          account_find_by_nanoid_including_deleted e nano (w_db v) = Some q \<longrightarrow>
            is_linked_including_deleted auth (acc_id q) (w_db v) \<and>
            (\<forall>relation. has_relation v' (TargetAccount (acc_id q) relation) auth))"
proof (intro conjI impI; elim conjE)
  have all: "relation \<in> set [Owner, Editor, Signer]" for relation by (cases relation) simp_all
  assume run: "deactivate_account e auth nano w = (Inr (), w')"
    and look: "account_find_by_nanoid e nano (w_db w) = Some p"
  then obtain w1 where "has_relation w (TargetAccount (acc_id p) Owner) auth"
    and del: "op_iter (\<lambda>relation. delete_relation e (TargetAccount (acc_id p) relation) auth)
      [Owner, Editor, Signer] w1 = (Inr (), w')"
    by (auto simp: deactivate_account_def found_visible_def op_bind_Inr_iff
        check_permissions [OF assms] simp del: op_iter.simps split: if_splits)
  with relations_deleted [OF assms del] all
  show "has_relation w (TargetAccount (acc_id p) Owner) auth"
    and "\<forall>relation. \<not> has_relation w' (TargetAccount (acc_id p) relation) auth" by blast+
next
  have all: "relation \<in> set [Owner, Editor, Signer]" for relation by (cases relation) simp_all
  assume run: "reactivate_account e auth nano v = (Inr (), v')"
    and look: "account_find_by_nanoid_including_deleted e nano (w_db v) = Some q"
  then obtain v1 where "is_linked_including_deleted auth (acc_id q) (w_db v)"
    and new: "op_iter (\<lambda>relation. create_relation e (TargetAccount (acc_id q) relation) auth)
      [Owner, Editor, Signer] v1 = (Inr (), v')"
    by (auto simp: reactivate_account_def found_including_deleted_def op_bind_Inr_iff
        simp del: op_iter.simps split: if_splits)
  with relations_created [OF assms new] all
  show "is_linked_including_deleted auth (acc_id q) (w_db v)"
    and "\<forall>relation. has_relation v' (TargetAccount (acc_id q) relation) auth" by blast+
qed

theorem permissions_follow_lifecycle_witness:
  "\<exists>w' v'. deactivate_account (keto_env 100) 3 ''n1'' service_world = (Inr (), w') \<and>
     \<not> has_relation w' (TargetAccount 7 Owner) 3 \<and>
     reactivate_account (keto_env 100) 3 ''n1'' deactivated_world = (Inr (), v') \<and>
     has_relation v' (TargetAccount 7 Signer) 3"
proof -
  have load: "account_repository_load (keto_env 100) (acc_id service_account) (w_db service_world) =
      Inr \<lparr> rh_aggregate = service_account, rh_version = 9 \<rparr>"
    using service_world_load by (simp add: service_account_def)
  obtain w' where w': "deactivate_account (keto_env 100) 3 ''n1'' service_world = (Inr (), w')"
    using deactivate_run [OF _ _ _ service_world_lookup(2) _ load, of 3]
    by (auto simp: service_world_relations service_account_def)
  have load': "account_repository_load (keto_env 100) (acc_id service_account) (w_db deactivated_world) =
      Inr \<lparr> rh_aggregate = service_account \<lparr> acc_deleted_at := Some 100, acc_version := 10 \<rparr>, rh_version = 10 \<rparr>"
    using deactivated_world_facts(5) by (simp add: service_account_def)
  obtain v' where v': "reactivate_account (keto_env 100) 3 ''n1'' deactivated_world = (Inr (), v')"
    using reactivate_run [OF deactivated_world_facts(1) _ _ deactivated_world_facts(3) _ load', of 3]
    by (auto simp: is_linked_including_deleted_def deactivated_world_def service_world_def service_account_def)
  show ?thesis
    using permissions_follow_lifecycle [of "keto_env 100" 3 "''n1''" service_world w' service_account
        deactivated_world v' service_account] w' v' service_world_lookup(2) deactivated_world_facts(3)
    by (auto simp: service_account_def)
qed

text \<open>C24. An administrator cannot revoke their own administration: whatever role of whatever account
  is revoked successfully, the caller may still administrate afterwards, and nobody but the
  account's owner loses anything.\<close>

theorem revoke_keeps_administrator:
  assumes "keto_service e" and "revoke_instance_role e auth nano role w = (Inr (), w')"
  shows "check_permission e auth instance_administrate w' = (Inr (), w') \<and>
         (\<exists>p target. account_find_by_nanoid_unfiltered e nano (w_db w) = Some p \<and>
            find_auth_account_id_by_account_id (acc_id p) (w_db w) = Some target \<and>
            (\<forall>t s. has_relation w' t s \<longleftrightarrow>
               has_relation w t s \<and> \<not> (t = TargetInstance role \<and> s = target)))"
proof -
  from assms(2) obtain p target where p: "account_find_by_nanoid_unfiltered e nano (w_db w) = Some p"
    and admin: "has_relation w (TargetInstance Admin) auth"
    and target: "find_auth_account_id_by_account_id (acc_id p) (w_db w) = Some target"
    and ne: "\<not> (role = Admin \<and> target = auth)"
    and del: "delete_relation e (TargetInstance role) target w = (Inr (), w')"
    by (auto simp: revoke_instance_role_def found_unfiltered_def op_bind_Inr_iff result_iffs
        check_permissions [OF assms(1)] split: if_splits)
  note d = delete_relation_has [OF assms(1) del]
  then have "has_relation w' (TargetInstance Admin) auth" using admin ne by blast
  then show ?thesis using p target d by (auto simp: check_permissions [OF assms(1)])
qed

theorem revoke_keeps_administrator_witness:
  "\<exists>w'. revoke_instance_role (keto_env 100) 6 ''n1'' Moderator service_world = (Inr (), w') \<and>
     check_permission (keto_env 100) 6 instance_administrate w' = (Inr (), w')"
proof -
  have "find_auth_account_id_by_account_id (acc_id service_account) (w_db service_world) = Some 3"
    by (simp add: find_auth_account_id_by_account_id_def service_world_def service_account_def)
  then obtain w' where "revoke_instance_role (keto_env 100) 6 ''n1'' Moderator service_world = (Inr (), w')"
    by (simp add: revoke_instance_role_def found_unfiltered_def op_bind_def service_world_lookup
        check_permissions service_world_relations delete_relation_eq)
  with revoke_keeps_administrator [OF _ this] show ?thesis by auto
qed



text \<open>Listing one's accounts with the nanoid of an account that is hidden at the moment as cursor
  starts over at the first page, although the list itself contains hidden accounts.\<close>

theorem get_all_accounts_hidden_cursor:
  assumes "account_find_by_nanoid e nano (w_db w) = None"
  shows "get_all_accounts e auth \<lparr> pg_limit = n, pg_cursor = Some nano, pg_direction = dir \<rparr> w =
         get_all_accounts e auth \<lparr> pg_limit = n, pg_cursor = None, pg_direction = dir \<rparr> w"
  using assms by (simp add: get_all_accounts_def op_bind_def)

definition banned_world :: world where
  "banned_world = service_world \<lparr> w_db := w_db service_world \<lparr>
     t_accounts := [row_of_account (service_account \<lparr> acc_status := Banned ''spam'' 50 \<rparr>)] \<rparr> \<rparr>"

theorem get_all_accounts_hidden_cursor_witness:
  "\<exists>a. get_all_accounts (keto_env 100) 3 \<lparr> pg_limit = 5, pg_cursor = Some ''n1'', pg_direction = NEXT \<rparr> banned_world =
     (Inr (Some [account_dto_from a]), banned_world) \<and> acc_nanoid a = ''n1''"
proof -
  let ?a = "service_account \<lparr> acc_status := Banned ''spam'' 50 \<rparr>"
  have "account_find_by_nanoid (keto_env 100) ''n1'' (w_db banned_world) = None"
    by (simp add: account_find_by_nanoid_def banned_world_def visible_row_of_account)
  from get_all_accounts_hidden_cursor [OF this, of 3 5 NEXT]
  have "get_all_accounts (keto_env 100) 3 \<lparr> pg_limit = 5, pg_cursor = Some ''n1'', pg_direction = NEXT \<rparr> banned_world =
      (Inr (Some [account_dto_from ?a]), banned_world)"
    by (simp add: get_all_accounts_def op_bind_def account_find_by_auth_id_def banned_world_def
        service_world_def account_row_roundtrip_expiry expire_def apply_pagination_def)
      (simp add: service_account_def)
  then show ?thesis by (intro exI [of _ ?a]) (simp add: service_account_def)
qed


definition example_app :: app where
  "example_app = \<lparr> ap_env = keto_env 100, ap_crypto = plain_crypto, ap_base_url = ''https://e.example/'' \<rparr>"

lemma keto_env_generators:
  "next_snowflake (keto_env t) n = n + 1" "random_nanoid (keto_env t) k = CHR ''n'' # nat_to_string k"
  by (simp_all add: keto_env_def clock_env_def)

lemma example_creation:
  "\<exists>dto w'. create_account example_app 3 ''bob'' False (service_world \<lparr> w_nano_seed := 5 \<rparr>) = (Inr dto, w')"
  by (simp add: create_account_def create_account_rows_def example_app_def Let_def op_bind_def generate_id_def
      nanoid_default_def acc_port.save_eq prof_port.save_eq persist_internal_def insert_event_def
      insert_event_where_def max_version_def stream_rows_def account_create_def profile_create_def envelope_of_def
      account_apply_def profile_apply_def created_at_of_id exec_def account_read_model_create_def insert_row_def
      account_clash_def link_auth_account_def profile_read_model_create_def profile_key_clash_def profile_refs_def
      row_of_profile_def nullable_ref_def create_signing_key_def draw_entropy_def plain_crypto_def
      signing_key_generator_generate_def signing_key_create_def transaction_def create_relation_eq
      service_world_def empty_world_def empty_db_def empty_event_table_def keto_env_generators service_account_def) code_simp


end
