(* ===== verification/Relations.thy ===== *)
theory Relations
  imports Database
begin

text \<open>
  Follows, blocks and mutes: the entities (\<open>kernel/src/entity/follow.rs\<close>, \<open>block.rs\<close>,
  \<open>mute.rs\<close> and their target identifiers) and their repositories
  (\<open>driver/src/database/postgres/follow.rs\<close>, \<open>block.rs\<close>, \<open>mute.rs\<close>). The three target
  enums have the same two constructors and share one datatype. The locale \<open>pair_store\<close> is
  the contract of such a repository as a set of ordered pairs.
\<close>

datatype target_id = Local int | Remote int

type_synonym follow_target_id = target_id
type_synonym block_target_id = target_id
type_synonym mute_target_id = target_id

record follow =
  fo_id :: int
  fo_source :: follow_target_id
  fo_destination :: follow_target_id
  fo_approved_at :: "datetime option"

record block =
  bl_id :: int
  bl_source :: block_target_id
  bl_destination :: block_target_id

record mute =
  mu_id :: int
  mu_source :: mute_target_id
  mu_destination :: mute_target_id

definition follow_new ::
  "int \<Rightarrow> follow_target_id \<Rightarrow> follow_target_id \<Rightarrow> datetime option \<Rightarrow> follow kresult" where
  "follow_new i source destination approved_at =
     (case (source, destination) of
        (Remote _, Remote _) \<Rightarrow> Inl Internal
      | (source, destination) \<Rightarrow>
          Inr \<lparr> fo_id = i, fo_source = source, fo_destination = destination,
                fo_approved_at = approved_at \<rparr>)"

definition block_new :: "int \<Rightarrow> block_target_id \<Rightarrow> block_target_id \<Rightarrow> block kresult" where
  "block_new i source destination =
     (case (source, destination) of
        (Remote _, Remote _) \<Rightarrow> Inl Internal
      | (source, destination) \<Rightarrow>
          Inr \<lparr> bl_id = i, bl_source = source, bl_destination = destination \<rparr>)"

definition mute_new :: "int \<Rightarrow> mute_target_id \<Rightarrow> mute_target_id \<Rightarrow> mute kresult" where
  "mute_new i source destination =
     (case (source, destination) of
        (Remote _, Remote _) \<Rightarrow> Inl Internal
      | (source, destination) \<Rightarrow>
          Inr \<lparr> mu_id = i, mu_source = source, mu_destination = destination \<rparr>)"

text \<open>The two nullable columns of one side of a relation, and back.\<close>

fun split_target_id :: "target_id \<Rightarrow> int option \<times> int option" where
  "split_target_id (Local i) = (Some i, None)"
| "split_target_id (Remote i) = (None, Some i)"

fun join_target_id :: "int option \<Rightarrow> int option \<Rightarrow> target_id kresult" where
  "join_target_id (Some i) None = Inr (Local i)"
| "join_target_id None (Some i) = Inr (Remote i)"
| "join_target_id _ _ = Inl Internal"

subsection \<open>Inserts\<close>

text \<open>
  What an \<open>INSERT\<close> does: it succeeds, violates a unique index (SQL state 23505), or fails
  otherwise.
\<close>

datatype 'r insert_outcome = Inserted "'r list" | UniqueViolation | OtherViolation

text \<open>Check constraints come first, then the unique indexes, then the foreign keys.\<close>

definition insert_checked ::
  "bool \<Rightarrow> ('r \<Rightarrow> bool) \<Rightarrow> bool \<Rightarrow> 'r \<Rightarrow> 'r list \<Rightarrow> 'r insert_outcome" where
  "insert_checked checks clash refs r rows =
     (if \<not> checks then OtherViolation
      else if list_ex clash rows then UniqueViolation
      else if \<not> refs then OtherViolation
      else Inserted (rows @ [r]))"

definition exclusive :: "int option \<Rightarrow> int option \<Rightarrow> bool" where
  "exclusive l r \<longleftrightarrow> (l \<noteq> None) \<noteq> (r \<noteq> None)"

text \<open>One partial unique index: both columns are set and agree.\<close>

definition index_clash :: "int option \<Rightarrow> int option \<Rightarrow> int option \<Rightarrow> int option \<Rightarrow> bool" where
  "index_clash a b a' b' \<longleftrightarrow> a \<noteq> None \<and> b \<noteq> None \<and> a' = a \<and> b' = b"

definition side_refs :: "db \<Rightarrow> int option \<Rightarrow> int option \<Rightarrow> bool" where
  "side_refs d l r \<longleftrightarrow>
     nullable_ref l (map ar_id (t_accounts d)) \<and> nullable_ref r (map rw_id (t_remote_accounts d))"

subsection \<open>Follows\<close>

definition follow_try_from :: "follow_row \<Rightarrow> follow kresult" where
  "follow_try_from r =
     res_bind (join_target_id (fw_follower_local_id r) (fw_follower_remote_id r)) (\<lambda>source.
     res_bind (join_target_id (fw_followee_local_id r) (fw_followee_remote_id r)) (\<lambda>destination.
     follow_new (fw_id r) source destination (fw_approved_at r)))"

definition follow_row_of :: "follow \<Rightarrow> follow_row" where
  "follow_row_of f =
     (case (split_target_id (fo_source f), split_target_id (fo_destination f)) of
        ((follower_local_id, follower_remote_id), (followee_local_id, followee_remote_id)) \<Rightarrow>
          \<lparr> fw_id = fo_id f, fw_follower_local_id = follower_local_id,
            fw_follower_remote_id = follower_remote_id, fw_followee_local_id = followee_local_id,
            fw_followee_remote_id = followee_remote_id, fw_approved_at = fo_approved_at f \<rparr>)"

definition follow_clash :: "follow_row \<Rightarrow> follow_row \<Rightarrow> bool" where
  "follow_clash r r' \<longleftrightarrow>
     fw_id r' = fw_id r \<or>
     index_clash (fw_follower_local_id r) (fw_followee_remote_id r)
       (fw_follower_local_id r') (fw_followee_remote_id r') \<or>
     index_clash (fw_follower_remote_id r) (fw_followee_local_id r)
       (fw_follower_remote_id r') (fw_followee_local_id r') \<or>
     index_clash (fw_follower_local_id r) (fw_followee_local_id r)
       (fw_follower_local_id r') (fw_followee_local_id r') \<or>
     index_clash (fw_follower_remote_id r) (fw_followee_remote_id r)
       (fw_follower_remote_id r') (fw_followee_remote_id r')"

definition follow_checks :: "follow_row \<Rightarrow> bool" where
  "follow_checks r \<longleftrightarrow>
     exclusive (fw_follower_local_id r) (fw_follower_remote_id r) \<and>
     exclusive (fw_followee_local_id r) (fw_followee_remote_id r)"

definition follow_refs :: "db \<Rightarrow> follow_row \<Rightarrow> bool" where
  "follow_refs d r \<longleftrightarrow>
     side_refs d (fw_follower_local_id r) (fw_follower_remote_id r) \<and>
     side_refs d (fw_followee_local_id r) (fw_followee_remote_id r)"

definition insert_follow :: "follow \<Rightarrow> db \<Rightarrow> follow_row insert_outcome" where
  "insert_follow f d =
     (let r = follow_row_of f
      in insert_checked (follow_checks r) (follow_clash r) (follow_refs d r) r (t_follows d))"

definition find_followings :: "follow_target_id \<Rightarrow> db \<Rightarrow> follow list kresult" where
  "find_followings source_id d =
     res_collect (map follow_try_from
       (case source_id of
          Local i \<Rightarrow> filter (\<lambda>r. fw_follower_local_id r = Some i) (t_follows d)
        | Remote i \<Rightarrow> filter (\<lambda>r. fw_follower_remote_id r = Some i) (t_follows d)))"

definition find_followers :: "follow_target_id \<Rightarrow> db \<Rightarrow> follow list kresult" where
  "find_followers destination_id d =
     res_collect (map follow_try_from
       (case destination_id of
          Local i \<Rightarrow> filter (\<lambda>r. fw_followee_local_id r = Some i \<and> fw_approved_at r \<noteq> None) (t_follows d)
        | Remote i \<Rightarrow>
            filter (\<lambda>r. fw_followee_remote_id r = Some i \<and> fw_approved_at r \<noteq> None) (t_follows d)))"

definition follow_create :: "follow \<Rightarrow> db \<Rightarrow> (unit \<times> db) kresult" where
  "follow_create f d =
     (case insert_follow f d of
        Inserted rows \<Rightarrow> Inr ((), d \<lparr> t_follows := rows \<rparr>)
      | UniqueViolation \<Rightarrow> Inl Rejected
      | OtherViolation \<Rightarrow> Inl Internal)"

definition follow_repository_update :: "follow \<Rightarrow> db \<Rightarrow> (unit \<times> db) kresult" where
  "follow_repository_update f d =
     (let r = follow_row_of f;
          (rows, n) = update_rows (\<lambda>x. fw_id x = fo_id f) (\<lambda>x. r) (t_follows d)
      in if n = 0 then Inl NotFound
         else if \<not> follow_checks r \<or> \<not> follow_refs d r \<or>
                 list_ex (\<lambda>x. fw_id x \<noteq> fo_id f \<and> follow_clash r x) (t_follows d) then Inl Internal
         else Inr ((), d \<lparr> t_follows := rows \<rparr>))"

definition follow_delete :: "int \<Rightarrow> db \<Rightarrow> (unit \<times> db) kresult" where
  "follow_delete follow_id d =
     (let (rows, n) = delete_rows (\<lambda>r. fw_id r = follow_id) (t_follows d)
      in if n = 0 then Inl NotFound else Inr ((), d \<lparr> t_follows := rows \<rparr>))"

definition follow_insert_if_absent :: "follow \<Rightarrow> db \<Rightarrow> (bool \<times> db) kresult" where
  "follow_insert_if_absent f d =
     (case insert_follow f d of
        Inserted rows \<Rightarrow> Inr (True, d \<lparr> t_follows := rows \<rparr>)
      | UniqueViolation \<Rightarrow> Inr (False, d)
      | OtherViolation \<Rightarrow> Inl Internal)"

text \<open>\<open>IS NOT DISTINCT FROM\<close> on the four columns.\<close>

definition follow_between :: "follow_target_id \<Rightarrow> follow_target_id \<Rightarrow> follow_row \<Rightarrow> bool" where
  "follow_between source destination r \<longleftrightarrow>
     (case (split_target_id source, split_target_id destination) of
        ((follower_local_id, follower_remote_id), (followee_local_id, followee_remote_id)) \<Rightarrow>
          fw_follower_local_id r = follower_local_id \<and> fw_follower_remote_id r = follower_remote_id \<and>
          fw_followee_local_id r = followee_local_id \<and> fw_followee_remote_id r = followee_remote_id)"

definition approve_follow_if_pending ::
  "env \<Rightarrow> follow_target_id \<Rightarrow> follow_target_id \<Rightarrow> db \<Rightarrow> (bool \<times> db) kresult" where
  "approve_follow_if_pending e source destination d =
     (let (rows, n) =
        update_rows (\<lambda>r. follow_between source destination r \<and> fw_approved_at r = None)
          (\<lambda>r. r \<lparr> fw_approved_at := Some (now_utc e) \<rparr>) (t_follows d)
      in Inr (n > 0, d \<lparr> t_follows := rows \<rparr>))"

definition follow_delete_if_exists ::
  "follow_target_id \<Rightarrow> follow_target_id \<Rightarrow> db \<Rightarrow> (bool \<times> db) kresult" where
  "follow_delete_if_exists source destination d =
     (let (rows, n) = delete_rows (follow_between source destination) (t_follows d)
      in Inr (n > 0, d \<lparr> t_follows := rows \<rparr>))"

subsection \<open>Blocks\<close>

definition block_try_from :: "block_row \<Rightarrow> block kresult" where
  "block_try_from r =
     res_bind (join_target_id (bw_blocker_local_id r) (bw_blocker_remote_id r)) (\<lambda>source.
     res_bind (join_target_id (bw_blocked_local_id r) (bw_blocked_remote_id r)) (\<lambda>destination.
     block_new (bw_id r) source destination))"

definition block_row_of :: "block \<Rightarrow> block_row" where
  "block_row_of b =
     (case (split_target_id (bl_source b), split_target_id (bl_destination b)) of
        ((blocker_local_id, blocker_remote_id), (blocked_local_id, blocked_remote_id)) \<Rightarrow>
          \<lparr> bw_id = bl_id b, bw_blocker_local_id = blocker_local_id,
            bw_blocker_remote_id = blocker_remote_id, bw_blocked_local_id = blocked_local_id,
            bw_blocked_remote_id = blocked_remote_id \<rparr>)"

definition block_clash :: "block_row \<Rightarrow> block_row \<Rightarrow> bool" where
  "block_clash r r' \<longleftrightarrow>
     bw_id r' = bw_id r \<or>
     index_clash (bw_blocker_local_id r) (bw_blocked_remote_id r)
       (bw_blocker_local_id r') (bw_blocked_remote_id r') \<or>
     index_clash (bw_blocker_remote_id r) (bw_blocked_local_id r)
       (bw_blocker_remote_id r') (bw_blocked_local_id r') \<or>
     index_clash (bw_blocker_local_id r) (bw_blocked_local_id r)
       (bw_blocker_local_id r') (bw_blocked_local_id r') \<or>
     index_clash (bw_blocker_remote_id r) (bw_blocked_remote_id r)
       (bw_blocker_remote_id r') (bw_blocked_remote_id r')"

definition block_checks :: "block_row \<Rightarrow> bool" where
  "block_checks r \<longleftrightarrow>
     exclusive (bw_blocker_local_id r) (bw_blocker_remote_id r) \<and>
     exclusive (bw_blocked_local_id r) (bw_blocked_remote_id r)"

definition block_refs :: "db \<Rightarrow> block_row \<Rightarrow> bool" where
  "block_refs d r \<longleftrightarrow>
     side_refs d (bw_blocker_local_id r) (bw_blocker_remote_id r) \<and>
     side_refs d (bw_blocked_local_id r) (bw_blocked_remote_id r)"

definition insert_block :: "block \<Rightarrow> db \<Rightarrow> block_row insert_outcome" where
  "insert_block b d =
     (let r = block_row_of b
      in insert_checked (block_checks r) (block_clash r) (block_refs d r) r (t_blocks d))"

definition find_blocks :: "block_target_id \<Rightarrow> db \<Rightarrow> block list kresult" where
  "find_blocks source_id d =
     res_collect (map block_try_from
       (case source_id of
          Local i \<Rightarrow> filter (\<lambda>r. bw_blocker_local_id r = Some i) (t_blocks d)
        | Remote i \<Rightarrow> filter (\<lambda>r. bw_blocker_remote_id r = Some i) (t_blocks d)))"

definition block_create :: "block \<Rightarrow> db \<Rightarrow> (unit \<times> db) kresult" where
  "block_create b d =
     (case insert_block b d of
        Inserted rows \<Rightarrow> Inr ((), d \<lparr> t_blocks := rows \<rparr>)
      | UniqueViolation \<Rightarrow> Inl Rejected
      | OtherViolation \<Rightarrow> Inl Internal)"

definition block_delete :: "int \<Rightarrow> db \<Rightarrow> (unit \<times> db) kresult" where
  "block_delete block_id d =
     (let (rows, n) = delete_rows (\<lambda>r. bw_id r = block_id) (t_blocks d)
      in if n = 0 then Inl NotFound else Inr ((), d \<lparr> t_blocks := rows \<rparr>))"

definition block_insert_if_absent :: "block \<Rightarrow> db \<Rightarrow> (bool \<times> db) kresult" where
  "block_insert_if_absent b d =
     (case insert_block b d of
        Inserted rows \<Rightarrow> Inr (True, d \<lparr> t_blocks := rows \<rparr>)
      | UniqueViolation \<Rightarrow> Inr (False, d)
      | OtherViolation \<Rightarrow> Inl Internal)"

definition block_between :: "block_target_id \<Rightarrow> block_target_id \<Rightarrow> block_row \<Rightarrow> bool" where
  "block_between source destination r \<longleftrightarrow>
     (case (split_target_id source, split_target_id destination) of
        ((blocker_local_id, blocker_remote_id), (blocked_local_id, blocked_remote_id)) \<Rightarrow>
          bw_blocker_local_id r = blocker_local_id \<and> bw_blocker_remote_id r = blocker_remote_id \<and>
          bw_blocked_local_id r = blocked_local_id \<and> bw_blocked_remote_id r = blocked_remote_id)"

definition block_delete_if_exists ::
  "block_target_id \<Rightarrow> block_target_id \<Rightarrow> db \<Rightarrow> (bool \<times> db) kresult" where
  "block_delete_if_exists source destination d =
     (let (rows, n) = delete_rows (block_between source destination) (t_blocks d)
      in Inr (n > 0, d \<lparr> t_blocks := rows \<rparr>))"

subsection \<open>Mutes\<close>

definition mute_try_from :: "mute_row \<Rightarrow> mute kresult" where
  "mute_try_from r =
     res_bind (join_target_id (uw_muter_local_id r) (uw_muter_remote_id r)) (\<lambda>source.
     res_bind (join_target_id (uw_muted_local_id r) (uw_muted_remote_id r)) (\<lambda>destination.
     mute_new (uw_id r) source destination))"

definition mute_row_of :: "mute \<Rightarrow> mute_row" where
  "mute_row_of m =
     (case (split_target_id (mu_source m), split_target_id (mu_destination m)) of
        ((muter_local_id, muter_remote_id), (muted_local_id, muted_remote_id)) \<Rightarrow>
          \<lparr> uw_id = mu_id m, uw_muter_local_id = muter_local_id,
            uw_muter_remote_id = muter_remote_id, uw_muted_local_id = muted_local_id,
            uw_muted_remote_id = muted_remote_id \<rparr>)"

definition mute_clash :: "mute_row \<Rightarrow> mute_row \<Rightarrow> bool" where
  "mute_clash r r' \<longleftrightarrow>
     uw_id r' = uw_id r \<or>
     index_clash (uw_muter_local_id r) (uw_muted_remote_id r)
       (uw_muter_local_id r') (uw_muted_remote_id r') \<or>
     index_clash (uw_muter_remote_id r) (uw_muted_local_id r)
       (uw_muter_remote_id r') (uw_muted_local_id r') \<or>
     index_clash (uw_muter_local_id r) (uw_muted_local_id r)
       (uw_muter_local_id r') (uw_muted_local_id r') \<or>
     index_clash (uw_muter_remote_id r) (uw_muted_remote_id r)
       (uw_muter_remote_id r') (uw_muted_remote_id r')"

definition mute_checks :: "mute_row \<Rightarrow> bool" where
  "mute_checks r \<longleftrightarrow>
     exclusive (uw_muter_local_id r) (uw_muter_remote_id r) \<and>
     exclusive (uw_muted_local_id r) (uw_muted_remote_id r)"

definition mute_refs :: "db \<Rightarrow> mute_row \<Rightarrow> bool" where
  "mute_refs d r \<longleftrightarrow>
     side_refs d (uw_muter_local_id r) (uw_muter_remote_id r) \<and>
     side_refs d (uw_muted_local_id r) (uw_muted_remote_id r)"

definition insert_mute :: "mute \<Rightarrow> db \<Rightarrow> mute_row insert_outcome" where
  "insert_mute m d =
     (let r = mute_row_of m
      in insert_checked (mute_checks r) (mute_clash r) (mute_refs d r) r (t_mutes d))"

definition find_mutes :: "mute_target_id \<Rightarrow> db \<Rightarrow> mute list kresult" where
  "find_mutes source_id d =
     res_collect (map mute_try_from
       (case source_id of
          Local i \<Rightarrow> filter (\<lambda>r. uw_muter_local_id r = Some i) (t_mutes d)
        | Remote i \<Rightarrow> filter (\<lambda>r. uw_muter_remote_id r = Some i) (t_mutes d)))"

definition mute_create :: "mute \<Rightarrow> db \<Rightarrow> (unit \<times> db) kresult" where
  "mute_create m d =
     (case insert_mute m d of
        Inserted rows \<Rightarrow> Inr ((), d \<lparr> t_mutes := rows \<rparr>)
      | UniqueViolation \<Rightarrow> Inl Rejected
      | OtherViolation \<Rightarrow> Inl Internal)"

definition mute_delete :: "int \<Rightarrow> db \<Rightarrow> (unit \<times> db) kresult" where
  "mute_delete mute_id d =
     (let (rows, n) = delete_rows (\<lambda>r. uw_id r = mute_id) (t_mutes d)
      in if n = 0 then Inl NotFound else Inr ((), d \<lparr> t_mutes := rows \<rparr>))"

definition mute_insert_if_absent :: "mute \<Rightarrow> db \<Rightarrow> (bool \<times> db) kresult" where
  "mute_insert_if_absent m d =
     (case insert_mute m d of
        Inserted rows \<Rightarrow> Inr (True, d \<lparr> t_mutes := rows \<rparr>)
      | UniqueViolation \<Rightarrow> Inr (False, d)
      | OtherViolation \<Rightarrow> Inl Internal)"

definition mute_between :: "mute_target_id \<Rightarrow> mute_target_id \<Rightarrow> mute_row \<Rightarrow> bool" where
  "mute_between source destination r \<longleftrightarrow>
     (case (split_target_id source, split_target_id destination) of
        ((muter_local_id, muter_remote_id), (muted_local_id, muted_remote_id)) \<Rightarrow>
          uw_muter_local_id r = muter_local_id \<and> uw_muter_remote_id r = muter_remote_id \<and>
          uw_muted_local_id r = muted_local_id \<and> uw_muted_remote_id r = muted_remote_id)"

definition mute_delete_if_exists ::
  "mute_target_id \<Rightarrow> mute_target_id \<Rightarrow> db \<Rightarrow> (bool \<times> db) kresult" where
  "mute_delete_if_exists source destination d =
     (let (rows, n) = delete_rows (mute_between source destination) (t_mutes d)
      in Inr (n > 0, d \<lparr> t_mutes := rows \<rparr>))"

subsection \<open>Tables as lists of entities\<close>

fun both_remote :: "target_id \<Rightarrow> target_id \<Rightarrow> bool" where
  "both_remote (Remote _) (Remote _) \<longleftrightarrow> True"
| "both_remote _ _ \<longleftrightarrow> False"

text \<open>The table holds exactly the given entities, and no remote-to-remote relation.\<close>

definition holds_follows :: "follow list \<Rightarrow> db \<Rightarrow> bool" where
  "holds_follows fs d \<longleftrightarrow>
     t_follows d = map follow_row_of fs \<and>
     (\<forall>f \<in> set fs. \<not> both_remote (fo_source f) (fo_destination f))"

definition holds_blocks :: "block list \<Rightarrow> db \<Rightarrow> bool" where
  "holds_blocks bs d \<longleftrightarrow>
     t_blocks d = map block_row_of bs \<and>
     (\<forall>b \<in> set bs. \<not> both_remote (bl_source b) (bl_destination b))"

definition holds_mutes :: "mute list \<Rightarrow> db \<Rightarrow> bool" where
  "holds_mutes ms d \<longleftrightarrow>
     t_mutes d = map mute_row_of ms \<and>
     (\<forall>m \<in> set ms. \<not> both_remote (mu_source m) (mu_destination m))"

text \<open>Identifiers and ordered pairs are unique.\<close>

definition pair_wf :: "('x \<Rightarrow> int) \<Rightarrow> ('x \<Rightarrow> target_id) \<Rightarrow> ('x \<Rightarrow> target_id) \<Rightarrow> 'x list \<Rightarrow> bool" where
  "pair_wf ident src dst xs \<longleftrightarrow> distinct (map ident xs) \<and> distinct (map (\<lambda>x. (src x, dst x)) xs)"

subsection \<open>The contract of a relation repository\<close>

locale pair_store =
  fixes holds :: "'x list \<Rightarrow> db \<Rightarrow> bool"
    and ident :: "'x \<Rightarrow> int" and src :: "'x \<Rightarrow> target_id" and dst :: "'x \<Rightarrow> target_id"
    and add :: "'x \<Rightarrow> db \<Rightarrow> (bool \<times> db) kresult"
    and remove :: "target_id \<Rightarrow> target_id \<Rightarrow> db \<Rightarrow> (bool \<times> db) kresult"
    and outgoing :: "target_id \<Rightarrow> db \<Rightarrow> 'x list kresult"
  assumes add_present: "holds xs d \<Longrightarrow> y \<in> set xs \<Longrightarrow>
      ident y = ident x \<or> src y = src x \<and> dst y = dst x \<Longrightarrow> add x d = Inr (False, d)"
    and add_absent: "holds xs d \<Longrightarrow> \<not> both_remote (src x) (dst x) \<Longrightarrow>
      (\<forall>y \<in> set xs. ident y \<noteq> ident x \<and> \<not> (src y = src x \<and> dst y = dst x)) \<Longrightarrow>
      add x d = Inr (b, d') \<Longrightarrow> b \<and> holds (xs @ [x]) d'"
    and remove_ok: "holds xs d \<Longrightarrow> \<exists>d'. remove s t d = Inr (\<exists>y \<in> set xs. src y = s \<and> dst y = t, d') \<and>
      holds (filter (\<lambda>y. \<not> (src y = s \<and> dst y = t)) xs) d'"
    and outgoing_ok: "holds xs d \<Longrightarrow> outgoing s d = Inr (filter (\<lambda>y. src y = s) xs)"
begin

lemma add_keeps_wf:
  assumes "holds xs d" and "pair_wf ident src dst xs" and "\<not> both_remote (src x) (dst x)"
    and "add x d = Inr (b, d')"
  shows "\<exists>ys. holds ys d' \<and> pair_wf ident src dst ys \<and> (if b then ys = xs @ [x] else ys = xs)"
proof (cases "\<exists>y \<in> set xs. ident y = ident x \<or> src y = src x \<and> dst y = dst x")
  case True
  with add_present [OF assms(1)] assms show ?thesis by auto
next
  case False
  then have "b \<and> holds (xs @ [x]) d'" using add_absent [OF assms(1,3) _ assms(4)] by blast
  moreover have "pair_wf ident src dst (xs @ [x])"
    using assms(2) False by (auto simp: pair_wf_def)
  ultimately show ?thesis by auto
qed

text \<open>Adding the same pair again reports that it was there and changes nothing.\<close>

lemma add_twice:
  assumes "holds xs d" and "\<not> both_remote (src x) (dst x)" and "add x d = Inr (True, d')"
    and "src y = src x" and "dst y = dst x"
  shows "add y d' = Inr (False, d')"
proof (cases "\<exists>z \<in> set xs. ident z = ident x \<or> src z = src x \<and> dst z = dst x")
  case True
  with add_present [OF assms(1)] assms(3) show ?thesis by auto
next
  case False
  then have "holds (xs @ [x]) d'" using add_absent [OF assms(1,2) _ assms(3)] by blast
  then show ?thesis by (rule add_present [of _ _ x]) (use assms in auto)
qed

text \<open>Adding a new pair and removing it again restores the entities.\<close>

lemma add_then_remove:
  assumes "holds xs d" and "\<not> both_remote (src x) (dst x)" and "add x d = Inr (True, d')"
    and "\<forall>y \<in> set xs. ident y \<noteq> ident x"
  shows "\<exists>d''. remove (src x) (dst x) d' = Inr (True, d'') \<and> holds xs d''"
proof -
  have no: "\<forall>y \<in> set xs. \<not> (src y = src x \<and> dst y = dst x)"
    using add_present [OF assms(1)] assms(3) by auto
  then have "holds (xs @ [x]) d'" using add_absent [OF assms(1,2) _ assms(3)] assms(4) by blast
  from remove_ok [OF this, of "src x" "dst x"] no show ?thesis
    by (auto simp: filter_id_conv cong: filter_cong)
qed

lemma remove_gone:
  assumes "holds xs d" and "remove s t d = Inr (b, d')"
  shows "\<exists>ys. outgoing s d' = Inr ys \<and> (\<forall>y \<in> set ys. dst y \<noteq> t)"
  using remove_ok [OF assms(1), of s t] assms(2) outgoing_ok by fastforce

lemma outgoing_unique:
  assumes "holds xs d" and "pair_wf ident src dst xs" and "outgoing s d = Inr ys"
  shows "distinct (map dst ys)"
proof -
  have "ys = filter (\<lambda>y. src y = s) xs" using outgoing_ok [OF assms(1)] assms(3) by simp
  moreover have "inj_on (\<lambda>x. (src x, dst x)) (set xs)" and "distinct xs"
    using assms(2) by (auto simp: pair_wf_def distinct_map)
  ultimately show ?thesis by (auto simp: distinct_map inj_on_def)
qed

end

lemma split_target_id_inject [simp]: "split_target_id s = split_target_id t \<longleftrightarrow> s = t"
  by (cases s; cases t) simp_all

lemma join_split [simp]: "join_target_id (fst (split_target_id t)) (snd (split_target_id t)) = Inr t"
  by (cases t) simp_all

subsection \<open>Follows\<close>

lemma follow_row_roundtrip:
  "\<not> both_remote (fo_source x) (fo_destination x) \<Longrightarrow> follow_try_from (follow_row_of x) = Inr x"
  by (cases "fo_source x"; cases "fo_destination x")
    (simp_all add: follow_try_from_def follow_row_of_def follow_new_def)

lemma follow_row_of_facts:
  "fw_id (follow_row_of x) = fo_id x"
  "follow_checks (follow_row_of x)"
  "follow_between s t (follow_row_of x) \<longleftrightarrow> fo_source x = s \<and> fo_destination x = t"
  "follow_clash (follow_row_of x) (follow_row_of y) \<longleftrightarrow>
     fo_id y = fo_id x \<or> fo_source y = fo_source x \<and> fo_destination y = fo_destination x"
  by (cases "fo_source x"; cases "fo_destination x"; cases "fo_source y"; cases "fo_destination y";
      cases s; cases t;
      auto simp: follow_row_of_def follow_checks_def exclusive_def follow_between_def follow_clash_def
        index_clash_def)+

lemma follow_row_of_source:
  "fw_follower_local_id (follow_row_of x) = Some i \<longleftrightarrow> fo_source x = Local i"
  "fw_follower_remote_id (follow_row_of x) = Some i \<longleftrightarrow> fo_source x = Remote i"
  by (cases "fo_source x"; cases "fo_destination x"; auto simp: follow_row_of_def)+

lemma collect_follows:
  "\<forall>x \<in> set xs. \<not> both_remote (fo_source x) (fo_destination x) \<Longrightarrow>
     res_collect (map follow_try_from (map follow_row_of xs)) = Inr xs"
  by (induction xs) (simp_all add: follow_row_roundtrip)

lemma find_followings_holds:
  assumes "holds_follows xs d"
  shows "find_followings s d = Inr (filter (\<lambda>x. fo_source x = s) xs)"
proof -
  have "(case s of
      Local i \<Rightarrow> filter (\<lambda>r. fw_follower_local_id r = Some i) (t_follows d)
    | Remote i \<Rightarrow> filter (\<lambda>r. fw_follower_remote_id r = Some i) (t_follows d)) =
    map follow_row_of (filter (\<lambda>x. fo_source x = s) xs)"
    using assms by (cases s) (simp_all add: holds_follows_def filter_map o_def follow_row_of_source)
  moreover have "\<forall>x \<in> set (filter (\<lambda>x. fo_source x = s) xs).
      \<not> both_remote (fo_source x) (fo_destination x)"
    using assms by (auto simp: holds_follows_def)
  ultimately show ?thesis unfolding find_followings_def by (simp only: collect_follows)
qed

interpretation follow_pairs: pair_store holds_follows fo_id fo_source fo_destination
    follow_insert_if_absent follow_delete_if_exists find_followings
proof
  fix xs d and x y :: follow
  assume "holds_follows xs d" "y \<in> set xs"
    "fo_id y = fo_id x \<or> fo_source y = fo_source x \<and> fo_destination y = fo_destination x"
  then show "follow_insert_if_absent x d = Inr (False, d)"
    by (auto simp: follow_insert_if_absent_def insert_follow_def insert_checked_def holds_follows_def Let_def
        list_ex_iff follow_row_of_facts)
next
  fix xs d b d' and x :: follow
  assume *: "holds_follows xs d" "\<not> both_remote (fo_source x) (fo_destination x)"
    "\<forall>y\<in>set xs. fo_id y \<noteq> fo_id x \<and> \<not> (fo_source y = fo_source x \<and> fo_destination y = fo_destination x)"
    "follow_insert_if_absent x d = Inr (b, d')"
  then have "\<not> list_ex (follow_clash (follow_row_of x)) (t_follows d)"
    by (auto simp: holds_follows_def list_ex_iff follow_row_of_facts)
  with * show "b \<and> holds_follows (xs @ [x]) d'"
    by (auto simp: follow_insert_if_absent_def insert_follow_def insert_checked_def holds_follows_def Let_def
        follow_row_of_facts split: if_splits)
next
  fix xs d s t
  assume *: "holds_follows xs d"
  then have "filter (\<lambda>r. \<not> follow_between s t r) (t_follows d) =
      map follow_row_of (filter (\<lambda>y. \<not> (fo_source y = s \<and> fo_destination y = t)) xs)"
    and "(filter (follow_between s t) (t_follows d) \<noteq> []) = (\<exists>y\<in>set xs. fo_source y = s \<and> fo_destination y = t)"
    by (auto simp: holds_follows_def filter_map o_def follow_row_of_facts filter_empty_conv)
  then have "follow_delete_if_exists s t d = Inr (\<exists>y\<in>set xs. fo_source y = s \<and> fo_destination y = t,
      d \<lparr> t_follows := map follow_row_of (filter (\<lambda>y. \<not> (fo_source y = s \<and> fo_destination y = t)) xs) \<rparr>)"
    by (simp only: follow_delete_if_exists_def delete_rows_def Let_def prod.case length_greater_0_conv)
  with * show "\<exists>d'. follow_delete_if_exists s t d = Inr (\<exists>y\<in>set xs. fo_source y = s \<and> fo_destination y = t, d') \<and>
      holds_follows (filter (\<lambda>y. \<not> (fo_source y = s \<and> fo_destination y = t)) xs) d'"
    by (auto simp: holds_follows_def)
qed (rule find_followings_holds)

subsection \<open>Blocks\<close>

lemma block_row_roundtrip:
  "\<not> both_remote (bl_source x) (bl_destination x) \<Longrightarrow> block_try_from (block_row_of x) = Inr x"
  by (cases "bl_source x"; cases "bl_destination x")
    (simp_all add: block_try_from_def block_row_of_def block_new_def)

lemma block_row_of_facts:
  "bw_id (block_row_of x) = bl_id x"
  "block_checks (block_row_of x)"
  "block_between s t (block_row_of x) \<longleftrightarrow> bl_source x = s \<and> bl_destination x = t"
  "block_clash (block_row_of x) (block_row_of y) \<longleftrightarrow>
     bl_id y = bl_id x \<or> bl_source y = bl_source x \<and> bl_destination y = bl_destination x"
  by (cases "bl_source x"; cases "bl_destination x"; cases "bl_source y"; cases "bl_destination y";
      cases s; cases t;
      auto simp: block_row_of_def block_checks_def exclusive_def block_between_def block_clash_def
        index_clash_def)+

lemma block_row_of_source:
  "bw_blocker_local_id (block_row_of x) = Some i \<longleftrightarrow> bl_source x = Local i"
  "bw_blocker_remote_id (block_row_of x) = Some i \<longleftrightarrow> bl_source x = Remote i"
  by (cases "bl_source x"; cases "bl_destination x"; auto simp: block_row_of_def)+

lemma collect_blocks:
  "\<forall>x \<in> set xs. \<not> both_remote (bl_source x) (bl_destination x) \<Longrightarrow>
     res_collect (map block_try_from (map block_row_of xs)) = Inr xs"
  by (induction xs) (simp_all add: block_row_roundtrip)

lemma find_blocks_holds:
  assumes "holds_blocks xs d"
  shows "find_blocks s d = Inr (filter (\<lambda>x. bl_source x = s) xs)"
proof -
  have "(case s of
      Local i \<Rightarrow> filter (\<lambda>r. bw_blocker_local_id r = Some i) (t_blocks d)
    | Remote i \<Rightarrow> filter (\<lambda>r. bw_blocker_remote_id r = Some i) (t_blocks d)) =
    map block_row_of (filter (\<lambda>x. bl_source x = s) xs)"
    using assms by (cases s) (simp_all add: holds_blocks_def filter_map o_def block_row_of_source)
  moreover have "\<forall>x \<in> set (filter (\<lambda>x. bl_source x = s) xs).
      \<not> both_remote (bl_source x) (bl_destination x)"
    using assms by (auto simp: holds_blocks_def)
  ultimately show ?thesis unfolding find_blocks_def by (simp only: collect_blocks)
qed

interpretation block_pairs: pair_store holds_blocks bl_id bl_source bl_destination
    block_insert_if_absent block_delete_if_exists find_blocks
proof
  fix xs d and x y :: block
  assume "holds_blocks xs d" "y \<in> set xs"
    "bl_id y = bl_id x \<or> bl_source y = bl_source x \<and> bl_destination y = bl_destination x"
  then show "block_insert_if_absent x d = Inr (False, d)"
    by (auto simp: block_insert_if_absent_def insert_block_def insert_checked_def holds_blocks_def Let_def
        list_ex_iff block_row_of_facts)
next
  fix xs d b d' and x :: block
  assume *: "holds_blocks xs d" "\<not> both_remote (bl_source x) (bl_destination x)"
    "\<forall>y\<in>set xs. bl_id y \<noteq> bl_id x \<and> \<not> (bl_source y = bl_source x \<and> bl_destination y = bl_destination x)"
    "block_insert_if_absent x d = Inr (b, d')"
  then have "\<not> list_ex (block_clash (block_row_of x)) (t_blocks d)"
    by (auto simp: holds_blocks_def list_ex_iff block_row_of_facts)
  with * show "b \<and> holds_blocks (xs @ [x]) d'"
    by (auto simp: block_insert_if_absent_def insert_block_def insert_checked_def holds_blocks_def Let_def
        block_row_of_facts split: if_splits)
next
  fix xs d s t
  assume *: "holds_blocks xs d"
  then have "filter (\<lambda>r. \<not> block_between s t r) (t_blocks d) =
      map block_row_of (filter (\<lambda>y. \<not> (bl_source y = s \<and> bl_destination y = t)) xs)"
    and "(filter (block_between s t) (t_blocks d) \<noteq> []) = (\<exists>y\<in>set xs. bl_source y = s \<and> bl_destination y = t)"
    by (auto simp: holds_blocks_def filter_map o_def block_row_of_facts filter_empty_conv)
  then have "block_delete_if_exists s t d = Inr (\<exists>y\<in>set xs. bl_source y = s \<and> bl_destination y = t,
      d \<lparr> t_blocks := map block_row_of (filter (\<lambda>y. \<not> (bl_source y = s \<and> bl_destination y = t)) xs) \<rparr>)"
    by (simp only: block_delete_if_exists_def delete_rows_def Let_def prod.case length_greater_0_conv)
  with * show "\<exists>d'. block_delete_if_exists s t d = Inr (\<exists>y\<in>set xs. bl_source y = s \<and> bl_destination y = t, d') \<and>
      holds_blocks (filter (\<lambda>y. \<not> (bl_source y = s \<and> bl_destination y = t)) xs) d'"
    by (auto simp: holds_blocks_def)
qed (rule find_blocks_holds)

subsection \<open>Mutes\<close>

lemma mute_row_roundtrip:
  "\<not> both_remote (mu_source x) (mu_destination x) \<Longrightarrow> mute_try_from (mute_row_of x) = Inr x"
  by (cases "mu_source x"; cases "mu_destination x")
    (simp_all add: mute_try_from_def mute_row_of_def mute_new_def)

lemma mute_row_of_facts:
  "uw_id (mute_row_of x) = mu_id x"
  "mute_checks (mute_row_of x)"
  "mute_between s t (mute_row_of x) \<longleftrightarrow> mu_source x = s \<and> mu_destination x = t"
  "mute_clash (mute_row_of x) (mute_row_of y) \<longleftrightarrow>
     mu_id y = mu_id x \<or> mu_source y = mu_source x \<and> mu_destination y = mu_destination x"
  by (cases "mu_source x"; cases "mu_destination x"; cases "mu_source y"; cases "mu_destination y";
      cases s; cases t;
      auto simp: mute_row_of_def mute_checks_def exclusive_def mute_between_def mute_clash_def
        index_clash_def)+

lemma mute_row_of_source:
  "uw_muter_local_id (mute_row_of x) = Some i \<longleftrightarrow> mu_source x = Local i"
  "uw_muter_remote_id (mute_row_of x) = Some i \<longleftrightarrow> mu_source x = Remote i"
  by (cases "mu_source x"; cases "mu_destination x"; auto simp: mute_row_of_def)+

lemma collect_mutes:
  "\<forall>x \<in> set xs. \<not> both_remote (mu_source x) (mu_destination x) \<Longrightarrow>
     res_collect (map mute_try_from (map mute_row_of xs)) = Inr xs"
  by (induction xs) (simp_all add: mute_row_roundtrip)

lemma find_mutes_holds:
  assumes "holds_mutes xs d"
  shows "find_mutes s d = Inr (filter (\<lambda>x. mu_source x = s) xs)"
proof -
  have "(case s of
      Local i \<Rightarrow> filter (\<lambda>r. uw_muter_local_id r = Some i) (t_mutes d)
    | Remote i \<Rightarrow> filter (\<lambda>r. uw_muter_remote_id r = Some i) (t_mutes d)) =
    map mute_row_of (filter (\<lambda>x. mu_source x = s) xs)"
    using assms by (cases s) (simp_all add: holds_mutes_def filter_map o_def mute_row_of_source)
  moreover have "\<forall>x \<in> set (filter (\<lambda>x. mu_source x = s) xs).
      \<not> both_remote (mu_source x) (mu_destination x)"
    using assms by (auto simp: holds_mutes_def)
  ultimately show ?thesis unfolding find_mutes_def by (simp only: collect_mutes)
qed

interpretation mute_pairs: pair_store holds_mutes mu_id mu_source mu_destination
    mute_insert_if_absent mute_delete_if_exists find_mutes
proof
  fix xs d and x y :: mute
  assume "holds_mutes xs d" "y \<in> set xs"
    "mu_id y = mu_id x \<or> mu_source y = mu_source x \<and> mu_destination y = mu_destination x"
  then show "mute_insert_if_absent x d = Inr (False, d)"
    by (auto simp: mute_insert_if_absent_def insert_mute_def insert_checked_def holds_mutes_def Let_def
        list_ex_iff mute_row_of_facts)
next
  fix xs d b d' and x :: mute
  assume *: "holds_mutes xs d" "\<not> both_remote (mu_source x) (mu_destination x)"
    "\<forall>y\<in>set xs. mu_id y \<noteq> mu_id x \<and> \<not> (mu_source y = mu_source x \<and> mu_destination y = mu_destination x)"
    "mute_insert_if_absent x d = Inr (b, d')"
  then have "\<not> list_ex (mute_clash (mute_row_of x)) (t_mutes d)"
    by (auto simp: holds_mutes_def list_ex_iff mute_row_of_facts)
  with * show "b \<and> holds_mutes (xs @ [x]) d'"
    by (auto simp: mute_insert_if_absent_def insert_mute_def insert_checked_def holds_mutes_def Let_def
        mute_row_of_facts split: if_splits)
next
  fix xs d s t
  assume *: "holds_mutes xs d"
  then have "filter (\<lambda>r. \<not> mute_between s t r) (t_mutes d) =
      map mute_row_of (filter (\<lambda>y. \<not> (mu_source y = s \<and> mu_destination y = t)) xs)"
    and "(filter (mute_between s t) (t_mutes d) \<noteq> []) = (\<exists>y\<in>set xs. mu_source y = s \<and> mu_destination y = t)"
    by (auto simp: holds_mutes_def filter_map o_def mute_row_of_facts filter_empty_conv)
  then have "mute_delete_if_exists s t d = Inr (\<exists>y\<in>set xs. mu_source y = s \<and> mu_destination y = t,
      d \<lparr> t_mutes := map mute_row_of (filter (\<lambda>y. \<not> (mu_source y = s \<and> mu_destination y = t)) xs) \<rparr>)"
    by (simp only: mute_delete_if_exists_def delete_rows_def Let_def prod.case length_greater_0_conv)
  with * show "\<exists>d'. mute_delete_if_exists s t d = Inr (\<exists>y\<in>set xs. mu_source y = s \<and> mu_destination y = t, d') \<and>
      holds_mutes (filter (\<lambda>y. \<not> (mu_source y = s \<and> mu_destination y = t)) xs) d'"
    by (auto simp: holds_mutes_def)
qed (rule find_mutes_holds)

subsection \<open>Everything the repository does to the follow table\<close>

inductive follow_step :: "db \<Rightarrow> db \<Rightarrow> bool" where
  create: "follow_create f d = Inr ((), d') \<Longrightarrow> \<not> both_remote (fo_source f) (fo_destination f) \<Longrightarrow>
     follow_step d d'"
| insert: "follow_insert_if_absent f d = Inr (b, d') \<Longrightarrow>
     \<not> both_remote (fo_source f) (fo_destination f) \<Longrightarrow> follow_step d d'"
| update: "follow_repository_update f d = Inr ((), d') \<Longrightarrow>
     \<not> both_remote (fo_source f) (fo_destination f) \<Longrightarrow> follow_step d d'"
| approve: "approve_follow_if_pending e s t d = Inr (b, d') \<Longrightarrow> follow_step d d'"
| delete: "follow_delete i d = Inr ((), d') \<Longrightarrow> follow_step d d'"
| delete_pair: "follow_delete_if_exists s t d = Inr (b, d') \<Longrightarrow> follow_step d d'"

definition follow_table_ok :: "db \<Rightarrow> bool" where
  "follow_table_ok d \<longleftrightarrow>
     (\<exists>fs. holds_follows fs d \<and> pair_wf fo_id fo_source fo_destination fs)"

lemma pair_wf_filter: "pair_wf ident src dst xs \<Longrightarrow> pair_wf ident src dst (filter P xs)"
  by (auto simp: pair_wf_def distinct_map_filter)

lemma pair_wf_map:
  assumes "\<And>x. ident (g x) = ident x" "\<And>x. src (g x) = src x" "\<And>x. dst (g x) = dst x"
  shows "pair_wf ident src dst (map g xs) = pair_wf ident src dst xs"
  using assms by (simp add: pair_wf_def o_def)

text \<open>Replacing the element of one identifier by an element whose pair no other has.\<close>

lemma pair_wf_replace:
  assumes "pair_wf ident src dst xs"
    and "\<forall>x \<in> set xs. ident x \<noteq> ident f \<longrightarrow> \<not> (src x = src f \<and> dst x = dst f)"
  shows "pair_wf ident src dst (map (\<lambda>x. if ident x = ident f then f else x) xs)"
proof -
  let ?g = "\<lambda>x. if ident x = ident f then f else x"
  have inj: "inj_on ident (set xs)" "inj_on (\<lambda>x. (src x, dst x)) (set xs)" and d: "distinct xs"
    using assms(1) by (auto simp: pair_wf_def distinct_map)
  have "x = y" if "x \<in> set xs" "y \<in> set xs" "src (?g x) = src (?g y)" "dst (?g x) = dst (?g y)" for x y
  proof (cases "ident x = ident f \<longleftrightarrow> ident y = ident f")
    case True
    with that inj_onD [OF inj(1), of x y] inj_onD [OF inj(2), of x y] show ?thesis
      by (cases "ident x = ident f") auto
  next
    case False
    with that assms(2) show ?thesis by (auto split: if_splits)
  qed
  then have "inj_on ((\<lambda>x. (src x, dst x)) \<circ> ?g) (set xs)" by (intro inj_onI) simp
  moreover have "ident \<circ> ?g = ident" by auto
  ultimately show ?thesis using inj(1) d by (simp add: pair_wf_def distinct_map)
qed

lemma follow_create_insert:
  "follow_create f d = Inr ((), d') \<Longrightarrow> follow_insert_if_absent f d = Inr (True, d')"
  by (auto simp: follow_create_def follow_insert_if_absent_def split: insert_outcome.splits)

lemma follow_table_insert:
  assumes "follow_table_ok d" and "\<not> both_remote (fo_source f) (fo_destination f)"
    and "follow_insert_if_absent f d = Inr (b, d')"
  shows "follow_table_ok d'"
  using assms follow_pairs.add_keeps_wf unfolding follow_table_ok_def by blast

lemma follow_row_approved:
  "(follow_row_of x) \<lparr> fw_approved_at := a \<rparr> = follow_row_of (x \<lparr> fo_approved_at := a \<rparr>)"
  by (cases "fo_source x"; cases "fo_destination x") (simp_all add: follow_row_of_def)

lemma follow_table_approve:
  assumes "follow_table_ok d" and "approve_follow_if_pending e s t d = Inr (b, d')"
  shows "follow_table_ok d'"
proof -
  from assms(1) obtain fs where fs: "holds_follows fs d" "pair_wf fo_id fo_source fo_destination fs"
    by (auto simp: follow_table_ok_def)
  let ?p = "\<lambda>r. follow_between s t r \<and> fw_approved_at r = None"
  let ?g = "\<lambda>f. if ?p (follow_row_of f) then f \<lparr> fo_approved_at := Some (now_utc e) \<rparr> else f"
  have "t_follows d' = map follow_row_of (map ?g fs)"
    using assms(2) fs(1)
    by (auto simp: approve_follow_if_pending_def Let_def update_rows_def holds_follows_def follow_row_approved)
  moreover have "pair_wf fo_id fo_source fo_destination (map ?g fs)"
    using fs(2) by (simp add: pair_wf_map)
  moreover have "\<forall>f \<in> set (map ?g fs). \<not> both_remote (fo_source f) (fo_destination f)"
    using fs(1) by (auto simp: holds_follows_def)
  ultimately have "holds_follows (map ?g fs) d' \<and> pair_wf fo_id fo_source fo_destination (map ?g fs)"
    unfolding holds_follows_def by blast
  then show ?thesis unfolding follow_table_ok_def by blast
qed

lemma follow_table_update:
  assumes "follow_table_ok d" and "follow_repository_update f d = Inr ((), d')"
    and "\<not> both_remote (fo_source f) (fo_destination f)"
  shows "follow_table_ok d'"
proof -
  from assms(1) obtain fs where fs: "holds_follows fs d" "pair_wf fo_id fo_source fo_destination fs"
    by (auto simp: follow_table_ok_def)
  let ?g = "\<lambda>x. if fo_id x = fo_id f then f else x"
  have rows: "t_follows d' = map follow_row_of (map ?g fs)"
    and no: "\<forall>x \<in> set fs. fo_id x \<noteq> fo_id f \<longrightarrow> \<not> (fo_source x = fo_source f \<and> fo_destination x = fo_destination f)"
    using assms(2) fs(1)
    by (auto simp: follow_repository_update_def Let_def update_rows_def holds_follows_def
        follow_row_of_facts list_ex_iff split: if_splits prod.splits)
  have "pair_wf fo_id fo_source fo_destination (map ?g fs)" by (rule pair_wf_replace [OF fs(2) no])
  moreover have "holds_follows (map ?g fs) d'"
    using rows fs(1) assms(3) by (auto simp: holds_follows_def)
  ultimately show ?thesis unfolding follow_table_ok_def by blast
qed

lemma follow_table_remove:
  assumes "follow_table_ok d" and "t_follows d' = filter P (t_follows d)"
  shows "follow_table_ok d'"
proof -
  from assms(1) obtain fs where fs: "holds_follows fs d" "pair_wf fo_id fo_source fo_destination fs"
    by (auto simp: follow_table_ok_def)
  then have "holds_follows (filter (P \<circ> follow_row_of) fs) d'"
    using assms(2) by (auto simp: holds_follows_def filter_map)
  with pair_wf_filter [OF fs(2)] show ?thesis unfolding follow_table_ok_def by blast
qed

lemma follow_step_ok: "follow_step d d' \<Longrightarrow> follow_table_ok d \<Longrightarrow> follow_table_ok d'"
proof (induction rule: follow_step.induct)
  case (create f d d')
  then show ?case using follow_table_insert follow_create_insert by blast
next
  case (delete i d d')
  then show ?case
    by (intro follow_table_remove [of d d' "\<lambda>r. fw_id r \<noteq> i"])
      (auto simp: follow_delete_def delete_rows_def Let_def split: if_splits)
next
  case (delete_pair s t d b d')
  then show ?case
    by (intro follow_table_remove [of d d' "\<lambda>r. \<not> follow_between s t r"])
      (auto simp: follow_delete_if_exists_def delete_rows_def Let_def)
qed (blast intro: follow_table_insert follow_table_approve follow_table_update)+

subsection \<open>Properties\<close>

text \<open>C33. From an empty table, whatever the follow repository is asked to do, every stored row is a
  well-formed follow, and no two rows have the same follower and followee.\<close>

theorem follow_table_invariant:
  assumes "follow_step\<^sup>*\<^sup>* d d'" and "t_follows d = []"
  shows "\<exists>fs. find_followings s d' = Inr fs \<and> (\<forall>f \<in> set fs. fo_source f = s) \<and>
           distinct (map fo_destination fs)"
proof -
  have "follow_table_ok d"
    using assms(2) by (auto simp: follow_table_ok_def holds_follows_def pair_wf_def)
  with assms(1) have "follow_table_ok d'" by (induction rule: rtranclp_induct) (auto intro: follow_step_ok)
  then obtain fs where fs: "holds_follows fs d'" "pair_wf fo_id fo_source fo_destination fs"
    by (auto simp: follow_table_ok_def)
  note out = follow_pairs.outgoing_ok [OF fs(1), of s]
  from out follow_pairs.outgoing_unique [OF fs out] show ?thesis by auto
qed

definition example_follow :: follow where
  "example_follow = \<lparr> fo_id = 1, fo_source = Remote 4, fo_destination = Local 7, fo_approved_at = None \<rparr>"

definition two_parties :: db where
  "two_parties = empty_db \<lparr>
     t_accounts := [\<lparr> ar_id = 7, ar_name = ''alice'', ar_is_bot = False, ar_deleted_at = None,
       ar_suspended_at = None, ar_suspend_expires_at = None, ar_suspend_reason = None,
       ar_banned_at = None, ar_ban_reason = None, ar_version = 9, ar_nanoid = ''n7'', ar_created_at = 1 \<rparr>],
     t_remote_accounts := [\<lparr> rw_id = 4, rw_acct = ''bob@b.example'', rw_url = ''https://b.example/bob'',
       rw_icon_id = None, rw_inbox_url = None, rw_public_key_pem = None \<rparr>] \<rparr>"

theorem follow_table_invariant_witness:
  "\<exists>d' fs. follow_insert_if_absent example_follow two_parties = Inr (True, d') \<and>
     find_followings (Remote 4) d' = Inr fs \<and> fs \<noteq> [] \<and> distinct (map fo_destination fs)"
proof -
  let ?d = "two_parties \<lparr> t_follows := [follow_row_of example_follow] \<rparr>"
  have ins: "follow_insert_if_absent example_follow two_parties = Inr (True, ?d)"
    by (simp add: follow_insert_if_absent_def insert_follow_def insert_checked_def two_parties_def
        example_follow_def follow_row_of_def follow_checks_def exclusive_def follow_refs_def side_refs_def
        nullable_ref_def empty_db_def)
  then have "follow_step two_parties ?d"
    by (rule follow_step.insert) (simp add: example_follow_def)
  then have "follow_step\<^sup>*\<^sup>* two_parties ?d" by blast
  from follow_table_invariant [OF this, of "Remote 4"] have "\<exists>fs. find_followings (Remote 4) ?d = Inr fs \<and>
      distinct (map fo_destination fs)" by (auto simp: two_parties_def empty_db_def)
  moreover have "find_followings (Remote 4) ?d = Inr [example_follow]"
    by (simp add: find_followings_def follow_row_roundtrip) (simp add: example_follow_def follow_row_of_def
        follow_try_from_def follow_new_def)
  ultimately show ?thesis using ins by (intro exI [of _ ?d] exI [of _ "[example_follow]"]) auto
qed

text \<open>A block that was newly recorded is withdrawn exactly: deleting the pair reports success
  and leaves the blocks there were before.\<close>

theorem block_roundtrip:
  assumes "holds_blocks bs d" and "\<forall>c \<in> set bs. bl_id c \<noteq> bl_id b"
    and "\<not> both_remote (bl_source b) (bl_destination b)"
    and "block_insert_if_absent b d = Inr (True, d')"
  shows "\<exists>d''. block_delete_if_exists (bl_source b) (bl_destination b) d' = Inr (True, d'') \<and>
           find_blocks s d'' = find_blocks s d"
proof -
  from block_pairs.add_then_remove [OF assms(1,3,4,2)] obtain d''
    where "block_delete_if_exists (bl_source b) (bl_destination b) d' = Inr (True, d'')" "holds_blocks bs d''"
    by blast
  with assms(1) show ?thesis by (auto simp: find_blocks_holds)
qed

theorem block_roundtrip_witness:
  "\<exists>d' d''. block_insert_if_absent \<lparr> bl_id = 2, bl_source = Local 7, bl_destination = Remote 4 \<rparr> two_parties =
       Inr (True, d') \<and>
     block_delete_if_exists (Local 7) (Remote 4) d' = Inr (True, d'') \<and>
     find_blocks (Local 7) d'' = Inr []"
proof -
  let ?b = "\<lparr> bl_id = 2, bl_source = Local 7, bl_destination = Remote 4 \<rparr> :: block"
  have ins: "block_insert_if_absent ?b two_parties = Inr (True, two_parties \<lparr> t_blocks := [block_row_of ?b] \<rparr>)"
    by (simp add: block_insert_if_absent_def insert_block_def insert_checked_def two_parties_def
        block_row_of_def block_checks_def exclusive_def block_refs_def side_refs_def nullable_ref_def
        empty_db_def)
  have "holds_blocks [] two_parties" by (simp add: holds_blocks_def two_parties_def empty_db_def)
  from block_roundtrip [OF this _ _ ins, of "Local 7"] this ins show ?thesis
    by (auto simp: find_blocks_holds)
qed

end
