(* ===== verification/Projection.thy ===== *)
theory Projection
  imports Read_Models Relations Permission Event_Repositories
begin

text \<open>
  The three projectors of \<open>application/src/projection/\<close>. One poll reads the window of events
  after the checkpoint, groups it by aggregate, folds each group in version order onto the
  stored projection, writes the result under a savepoint and advances the checkpoint, all in
  one transaction. A group whose fold or write fails is skipped.
\<close>

definition ACCOUNT_PROJECTOR_NAME :: string where "ACCOUNT_PROJECTOR_NAME = ''account_projector''"
definition ACCOUNT_PROJECTOR_WINDOW :: int where "ACCOUNT_PROJECTOR_WINDOW = 100"
definition ACCOUNT_PROJECTOR_BATCH_LIMIT :: nat where "ACCOUNT_PROJECTOR_BATCH_LIMIT = 1000"
definition PROFILE_PROJECTOR_NAME :: string where "PROFILE_PROJECTOR_NAME = ''profile_projector''"
definition PROFILE_PROJECTOR_WINDOW :: int where "PROFILE_PROJECTOR_WINDOW = 100"
definition PROFILE_PROJECTOR_BATCH_LIMIT :: nat where "PROFILE_PROJECTOR_BATCH_LIMIT = 1000"
definition METADATA_PROJECTOR_NAME :: string where "METADATA_PROJECTOR_NAME = ''metadata_projector''"
definition METADATA_PROJECTOR_WINDOW :: int where "METADATA_PROJECTOR_WINDOW = 100"
definition METADATA_PROJECTOR_BATCH_LIMIT :: nat where "METADATA_PROJECTOR_BATCH_LIMIT = 1000"

text \<open>
  Grouping in a \<open>HashMap\<close>: the keys come in the map's order, the events of a key in the order
  of the window.
\<close>

definition group_events ::
  "env \<Rightarrow> 'e event_row list \<Rightarrow> (int \<times> 'e event_envelope list) list" where
  "group_events e events =
     map (\<lambda>i. (i, map event_row_try_from (filter (\<lambda>r. er_id r = i) events)))
       (hash_order e (remdups (map er_id events)))"

text \<open>Events newer than the stored projection.\<close>

definition pending_events ::
  "version option \<Rightarrow> 'e event_envelope list \<Rightarrow> 'e event_envelope list" where
  "pending_events existing_version envelopes =
     filter (\<lambda>ev. case existing_version of Some v \<Rightarrow> v < ee_version ev | None \<Rightarrow> True)
       (sort_key ee_version envelopes)"

text \<open>
  A savepoint around a group: the error of the body is logged, the database restored, and the
  batch goes on. An error that is only logged is ignored.
\<close>

definition under_savepoint :: "unit op \<Rightarrow> unit op" where
  "under_savepoint body w =
     (case body w of
        (Inr _, w') \<Rightarrow> (Inr (), w')
      | (Inl _, w') \<Rightarrow> (Inr (), w' \<lparr> w_db := w_db w \<rparr>))"

definition log_error :: "unit op \<Rightarrow> unit op" where
  "log_error body w = (Inr (), snd (body w))"

subsection \<open>Accounts\<close>

fun created_auth_account_id :: "account_event event_envelope list \<Rightarrow> auth_account_id option" where
  "created_auth_account_id [] = None"
| "created_auth_account_id (ev # evs) =
     (case ee_event ev of AccountCreated _ _ _ auth \<Rightarrow> Some auth | _ \<Rightarrow> created_auth_account_id evs)"

text \<open>The cascade of a deactivation: profile, metadata and follows are removed.\<close>

definition project_deactivated :: "account_id \<Rightarrow> account \<Rightarrow> unit op" where
  "project_deactivated account_id a =
     op_bind (exec (account_upsert a)) (\<lambda>_.
     op_bind (query (profile_find_by_account_id account_id)) (\<lambda>profile.
     op_bind (case profile of
                Some p \<Rightarrow> exec (profile_read_model_delete (pr_id p))
              | None \<Rightarrow> op_return ()) (\<lambda>_.
     op_bind (query (metadata_find_by_account_id account_id)) (\<lambda>metadata_list.
     op_bind (op_iter (\<lambda>m. exec (metadata_read_model_delete (md_id m))) metadata_list) (\<lambda>_.
     op_bind (try_query (find_followings (Local account_id))) (\<lambda>followings.
     op_bind (op_iter (\<lambda>f. exec (follow_delete (fo_id f))) followings) (\<lambda>_.
     op_bind (try_query (find_followers (Local account_id))) (\<lambda>followers.
     op_iter (\<lambda>f. exec (follow_delete (fo_id f))) followers))))))))"

definition project_present :: "env \<Rightarrow> account_id \<Rightarrow> account \<Rightarrow> auth_account_id option \<Rightarrow> unit op" where
  "project_present e account_id a created =
     op_bind (exec (account_upsert a)) (\<lambda>_.
     case created of
       Some auth_id \<Rightarrow>
         op_bind (exec (link_auth_account account_id auth_id)) (\<lambda>_.
         log_error (create_relation e (TargetAccount account_id Owner) auth_id))
     | None \<Rightarrow> op_return ())"

definition project_account_write ::
  "env \<Rightarrow> account_id \<Rightarrow> account option \<Rightarrow> auth_account_id option \<Rightarrow> unit op" where
  "project_account_write e account_id entity created =
     (case entity of
        Some a \<Rightarrow>
          if acc_deleted_at a \<noteq> None then project_deactivated account_id a
          else project_present e account_id a created
      | None \<Rightarrow> op_return ())"

definition project_account_group ::
  "env \<Rightarrow> account_id \<times> account_event event_envelope list \<Rightarrow> unit op" where
  "project_account_group e grp =
     (let account_id = fst grp;
          created = created_auth_account_id (sort_key ee_version (snd grp))
      in op_bind (query (account_find_by_id_unfiltered e account_id)) (\<lambda>existing.
         let pending = pending_events (map_option acc_version existing) (snd grp) in
         if pending = [] \<and> created = None then op_return ()
         else
           (case res_fold (account_apply e) pending existing of
              Inl _ \<Rightarrow> op_return ()
            | Inr entity \<Rightarrow> under_savepoint (project_account_write e account_id entity created))))"

definition project_batch :: "env \<Rightarrow> int op" where
  "project_batch e =
     transaction (
       op_bind (query (checkpoint_get ACCOUNT_PROJECTOR_NAME)) (\<lambda>stored.
       let checkpoint = (case stored of Some c \<Rightarrow> c | None \<Rightarrow> 0) in
       op_bind (query (\<lambda>d. find_by_seq_window (t_account_events d)
                  (checkpoint - ACCOUNT_PROJECTOR_WINDOW) ACCOUNT_PROJECTOR_BATCH_LIMIT)) (\<lambda>events.
       if events = [] then op_return checkpoint
       else
         let max_seq = er_seq (last events) in
         op_bind (op_iter (project_account_group e) (group_events e events)) (\<lambda>_.
         op_bind (exec (checkpoint_set ACCOUNT_PROJECTOR_NAME max_seq)) (\<lambda>_.
         op_return max_seq)))))"

subsection \<open>Profiles\<close>

fun created_profile_account :: "profile_event event_envelope list \<Rightarrow> account_id option" where
  "created_profile_account [] = None"
| "created_profile_account (ev # evs) =
     (case ee_event ev of
        ProfileCreated account_id _ _ _ _ _ \<Rightarrow> Some account_id
      | _ \<Rightarrow> created_profile_account evs)"

text \<open>The parent account is known and deactivated.\<close>

definition parent_deleted :: "env \<Rightarrow> account_id option \<Rightarrow> db \<Rightarrow> bool" where
  "parent_deleted e parent d =
     (case parent of
        None \<Rightarrow> False
      | Some account_id \<Rightarrow>
          (case account_find_by_id_including_deleted e account_id d of
             None \<Rightarrow> False
           | Some a \<Rightarrow> acc_deleted_at a \<noteq> None))"

definition project_profile_group ::
  "env \<Rightarrow> profile_id \<times> profile_event event_envelope list \<Rightarrow> unit op" where
  "project_profile_group e grp =
     (let profile_id = fst grp in
      op_bind (query (profile_find_by_id_unfiltered profile_id)) (\<lambda>existing.
      let pending = pending_events (map_option pr_version existing) (snd grp) in
      if pending = [] then op_return ()
      else
        op_bind (query (parent_deleted e
            (if existing = None then created_profile_account pending else None))) (\<lambda>skip.
        if skip then op_return ()
        else
          (case res_fold profile_apply pending (map_option profile_of_projection existing) of
             Inl _ \<Rightarrow> op_return ()
           | Inr entity \<Rightarrow>
               under_savepoint
                 (case entity of
                    Some p \<Rightarrow> exec (profile_upsert p)
                  | None \<Rightarrow> exec (profile_projection_delete profile_id))))))"

definition project_profile_batch :: "env \<Rightarrow> int op" where
  "project_profile_batch e =
     transaction (
       op_bind (query (checkpoint_get PROFILE_PROJECTOR_NAME)) (\<lambda>stored.
       let checkpoint = (case stored of Some c \<Rightarrow> c | None \<Rightarrow> 0) in
       op_bind (query (\<lambda>d. find_by_seq_window (t_profile_events d)
                  (checkpoint - PROFILE_PROJECTOR_WINDOW) PROFILE_PROJECTOR_BATCH_LIMIT)) (\<lambda>events.
       if events = [] then op_return checkpoint
       else
         let max_seq = er_seq (last events) in
         op_bind (op_iter (project_profile_group e) (group_events e events)) (\<lambda>_.
         op_bind (exec (checkpoint_set PROFILE_PROJECTOR_NAME max_seq)) (\<lambda>_.
         op_return max_seq)))))"

subsection \<open>Metadata\<close>

fun created_metadata_account :: "metadata_event event_envelope list \<Rightarrow> account_id option" where
  "created_metadata_account [] = None"
| "created_metadata_account (ev # evs) =
     (case ee_event ev of
        MetadataCreated account_id _ _ _ \<Rightarrow> Some account_id
      | _ \<Rightarrow> created_metadata_account evs)"

definition project_metadata_group ::
  "env \<Rightarrow> metadata_id \<times> metadata_event event_envelope list \<Rightarrow> unit op" where
  "project_metadata_group e grp =
     (let metadata_id = fst grp in
      op_bind (query (metadata_find_by_id_unfiltered metadata_id)) (\<lambda>existing.
      let pending = pending_events (map_option md_version existing) (snd grp) in
      if pending = [] then op_return ()
      else
        op_bind (query (parent_deleted e
            (if existing = None then created_metadata_account pending else None))) (\<lambda>skip.
        if skip then op_return ()
        else
          (case res_fold metadata_apply pending (map_option metadata_of_projection existing) of
             Inl _ \<Rightarrow> op_return ()
           | Inr entity \<Rightarrow>
               under_savepoint
                 (case entity of
                    Some m \<Rightarrow> exec (metadata_upsert m)
                  | None \<Rightarrow> exec (metadata_projection_delete metadata_id))))))"

definition project_metadata_batch :: "env \<Rightarrow> int op" where
  "project_metadata_batch e =
     transaction (
       op_bind (query (checkpoint_get METADATA_PROJECTOR_NAME)) (\<lambda>stored.
       let checkpoint = (case stored of Some c \<Rightarrow> c | None \<Rightarrow> 0) in
       op_bind (query (\<lambda>d. find_by_seq_window (t_metadata_events d)
                  (checkpoint - METADATA_PROJECTOR_WINDOW) METADATA_PROJECTOR_BATCH_LIMIT)) (\<lambda>events.
       if events = [] then op_return checkpoint
       else
         let max_seq = er_seq (last events) in
         op_bind (op_iter (project_metadata_group e) (group_events e events)) (\<lambda>_.
         op_bind (exec (checkpoint_set METADATA_PROJECTOR_NAME max_seq)) (\<lambda>_.
         op_return max_seq)))))"

subsection \<open>The window always advances\<close>

text \<open>
  Strictly increasing integers between two bounds are at most as many as the numbers between
  the bounds.
\<close>

lemma strict_sorted_length:
  fixes xs :: "int list"
  assumes "sorted_wrt (<) xs" and "\<forall>x \<in> set xs. lo < x \<and> x \<le> hi"
  shows "length xs \<le> nat (hi - lo)"
proof -
  have "distinct xs" using assms(1) by (simp add: strict_sorted_iff)
  then have "length xs = card (set xs)" by (simp add: distinct_card)
  also have "\<dots> \<le> card {lo<..hi}" using assms(2) by (intro card_mono) auto
  finally show ?thesis by simp
qed

lemma window_rows:
  assumes "wf_event_table t"
  shows "find_by_seq_window t from limit = take limit (filter (\<lambda>r. from < er_seq r) (et_rows t))"
proof -
  have "sorted (map er_seq (et_rows t))"
    using assms by (simp add: wf_event_table_def strict_sorted_iff)
  then have "sorted (map er_seq (filter (\<lambda>r. from < er_seq r) (et_rows t)))"
    by (rule sorted_filter)
  then show ?thesis by (simp add: find_by_seq_window_def sort_key_id)
qed

lemma window_advances:
  assumes "wf_event_table t" and "r \<in> set (et_rows t)" and "c < er_seq r"
    and "0 \<le> width" and "nat width < limit"
  shows "find_by_seq_window t (c - width) limit \<noteq> []"
    and "c < er_seq (last (find_by_seq_window t (c - width) limit))"
proof -
  let ?rows = "filter (\<lambda>r. c - width < er_seq r) (et_rows t)"
  let ?win = "take limit ?rows"
  have win: "find_by_seq_window t (c - width) limit = ?win" by (rule window_rows [OF assms(1)])
  have r: "r \<in> set ?rows" using assms by auto
  have sorted: "sorted_wrt (<) (map er_seq ?rows)"
    using assms(1) by (simp add: wf_event_table_def sorted_wrt_map sorted_wrt_filter)
  have ne: "?win \<noteq> []" using r assms(5) by (cases ?rows) auto
  then show "find_by_seq_window t (c - width) limit \<noteq> []" by (simp add: win)
  have "c < er_seq (last ?win)"
  proof (rule ccontr)
    assume low: "\<not> c < er_seq (last ?win)"
    have sw: "sorted_wrt (<) (map er_seq ?win)"
      using sorted by (metis append_take_drop_id map_append sorted_wrt_append)
    then have "sorted (map er_seq ?win)" by (simp add: strict_sorted_iff)
    then have all: "\<forall>x \<in> set ?win. er_seq x \<le> c"
      using sorted_key_last low by fastforce
    then have "length (map er_seq ?win) \<le> nat (c - (c - width))"
      by (intro strict_sorted_length [OF sw]) (auto dest: in_set_takeD)
    then have "length ?win < limit" using assms(5) by simp
    then have "?win = ?rows" by simp
    with r all assms(3) show False by auto
  qed
  then show "c < er_seq (last (find_by_seq_window t (c - width) limit))" by (simp add: win)
qed

subsection \<open>A batch always completes and leaves the logs alone\<close>

definition logs_of :: "db \<Rightarrow> account_event event_table \<times> profile_event event_table \<times>
    metadata_event event_table \<times> checkpoint_row list" where
  "logs_of d = (t_account_events d, t_profile_events d, t_metadata_events d, t_projection_checkpoints d)"

lemma writes_keep_logs:
  "account_upsert a d = Inr ((), d') \<Longrightarrow> logs_of d' = logs_of d"
  "profile_upsert p d = Inr ((), d') \<Longrightarrow> logs_of d' = logs_of d"
  "metadata_upsert m d = Inr ((), d') \<Longrightarrow> logs_of d' = logs_of d"
  "profile_read_model_delete i d = Inr ((), d') \<Longrightarrow> logs_of d' = logs_of d"
  "metadata_read_model_delete i d = Inr ((), d') \<Longrightarrow> logs_of d' = logs_of d"
  "profile_projection_delete i d = Inr ((), d') \<Longrightarrow> logs_of d' = logs_of d"
  "metadata_projection_delete i d = Inr ((), d') \<Longrightarrow> logs_of d' = logs_of d"
  "follow_delete i d = Inr ((), d') \<Longrightarrow> logs_of d' = logs_of d"
  "link_auth_account i j d = Inr ((), d') \<Longrightarrow> logs_of d' = logs_of d"
  by (auto simp: account_upsert_def profile_upsert_def metadata_upsert_def res_map_Inr_iff logs_of_def
      profile_read_model_delete_def metadata_read_model_delete_def profile_projection_delete_def
      metadata_projection_delete_def follow_delete_def link_auth_account_def Let_def
      split: if_splits prod.splits)

abbreviation has_logs where
  "has_logs L \<equiv> (\<lambda>w. logs_of (w_db w) = L)"

lemma keeps_logs_exec:
  "(\<And>d d'. f d = Inr ((), d') \<Longrightarrow> logs_of d' = logs_of d) \<Longrightarrow> keeps (has_logs L) (exec f)"
  by (rule keeps_exec) auto

lemma keeps_logs_writes [keeps_intros]:
  "keeps (has_logs L) (exec (account_upsert a))"
  "keeps (has_logs L) (exec (profile_upsert p))"
  "keeps (has_logs L) (exec (metadata_upsert m))"
  "keeps (has_logs L) (exec (profile_read_model_delete i))"
  "keeps (has_logs L) (exec (metadata_read_model_delete i))"
  "keeps (has_logs L) (exec (profile_projection_delete i))"
  "keeps (has_logs L) (exec (metadata_projection_delete i))"
  "keeps (has_logs L) (exec (follow_delete i))"
  "keeps (has_logs L) (exec (link_auth_account i j))"
  by (rule keeps_logs_exec, erule writes_keep_logs)+

lemma keeps_logs_relation [keeps_intros]: "keeps (has_logs L) (create_relation e target subject)"
  by (simp add: keeps_def create_relation_db)

lemma keeps_logs_log_error [keeps_intros]:
  "keeps (has_logs L) m \<Longrightarrow> keeps (has_logs L) (log_error m)"
  by (simp add: keeps_def log_error_def)

lemma keeps_logs_savepoint [keeps_intros]:
  "keeps (has_logs L) m \<Longrightarrow> keeps (has_logs L) (under_savepoint m)"
  by (auto simp: keeps_def under_savepoint_def split: prod.splits sum.splits; metis snd_conv)

lemma keeps_logs_write: "keeps (has_logs L) (project_account_write e i entity created)"
  unfolding project_account_write_def project_deactivated_def project_present_def
  by (intro keeps_intros)

lemma keeps_logs_groups:
  "keeps (has_logs L) (project_account_group e ga)"
  "keeps (has_logs L) (project_profile_group e gp)"
  "keeps (has_logs L) (project_metadata_group e gm)"
  unfolding project_account_group_def project_profile_group_def project_metadata_group_def Let_def
  by (auto intro!: keeps_intros keeps_logs_write split: sum.split option.split)

lemma under_savepoint_ok: "\<exists>w'. under_savepoint m w = (Inr (), w')"
  by (auto simp: under_savepoint_def split: prod.splits sum.splits)

lemma groups_ok:
  "\<exists>w'. project_account_group e ga w = (Inr (), w')"
  "\<exists>w'. project_profile_group e gp w = (Inr (), w')"
  "\<exists>w'. project_metadata_group e gm w = (Inr (), w')"
  by (auto simp: project_account_group_def project_profile_group_def project_metadata_group_def
      op_bind_def Let_def under_savepoint_ok split: sum.split)

lemma op_iter_ok:
  assumes "\<And>x w. \<exists>w'. f x w = (Inr (), w')"
  shows "\<exists>w'. op_iter f xs w = (Inr (), w')"
proof (induction xs arbitrary: w)
  case (Cons x xs)
  obtain w' where "f x w = (Inr (), w')" using assms by blast
  with Cons show ?case by simp
qed simp

text \<open>The common shape of the three polls.\<close>

lemma poll_runs:
  assumes groups: "\<And>g w. \<exists>w'. f g w = (Inr (), w')"
    and logs: "\<And>g L. keeps (has_logs L) (f g)"
    and stored: "checkpoint_get name (w_db w) = stored"
    and win: "events (w_db w) (case stored of Some c \<Rightarrow> c | None \<Rightarrow> 0) = evs" and ne: "evs \<noteq> []"
  shows "\<exists>w' d'. transaction (
       op_bind (query (checkpoint_get name)) (\<lambda>stored.
       let checkpoint = (case stored of Some c \<Rightarrow> c | None \<Rightarrow> 0) in
       op_bind (query (\<lambda>d. events d checkpoint)) (\<lambda>evs.
       if evs = [] then op_return checkpoint
       else
         let max_seq = last_seq evs in
         op_bind (op_iter f (groups_of evs)) (\<lambda>_.
         op_bind (exec (checkpoint_set name max_seq)) (\<lambda>_.
         op_return max_seq))))) w = (Inr (last_seq evs), w') \<and>
     op_iter f (groups_of evs) w = (Inr (), d') \<and>
     checkpoint_set name (last_seq evs) (w_db d') = Inr ((), w_db w') \<and>
     checkpoint_get name (w_db d') = stored"
proof -
  obtain w1 where w1: "op_iter f (groups_of evs) w = (Inr (), w1)"
    using op_iter_ok [of f, OF groups] by blast
  have "keeps (has_logs (logs_of (w_db w))) (op_iter f (groups_of evs))"
    by (rule keeps_iter) (rule logs)
  then have same: "logs_of (w_db w1) = logs_of (w_db w)" 
    using keepsD [of "has_logs (logs_of (w_db w))" "op_iter f (groups_of evs)" w "Inr ()" w1] w1
    by simp
  obtain d where d: "checkpoint_set name (last_seq evs) (w_db w1) = Inr ((), d)"
    using checkpoint_set_ok by blast
  have "exec (checkpoint_set name (last_seq evs)) w1 = (Inr (), w1 \<lparr> w_db := d \<rparr>)"
    using d by (simp add: exec_def)
  moreover have "checkpoint_get name (w_db w1) = stored"
    using same stored by (simp add: logs_of_def checkpoint_get_def)
  ultimately show ?thesis
    using w1 d stored win ne
    by (intro exI [of _ "w1 \<lparr> w_db := d \<rparr>"] exI [of _ w1]) (simp add: transaction_def Let_def)
qed

subsection \<open>Folding a window onto a projection\<close>

text \<open>
  Folding the pending events of a window onto the projection of a prefix gives the whole
  aggregate, provided the window holds every event after the prefix.
\<close>

lemma pending_is_suffix:
  assumes "sorted (map ee_version evs)" and "distinct (map ee_version evs)"
    and "mset (filter (\<lambda>ev. v < ee_version ev) envelopes) = mset (filter (\<lambda>ev. v < ee_version ev) evs)"
  shows "pending_events (Some v) envelopes = filter (\<lambda>ev. v < ee_version ev) evs"
proof -
  let ?n = "\<lambda>ev. v < ee_version ev"
  have "sort_key ee_version (filter ?n envelopes) = filter ?n evs"
  proof (rule sort_key_inj_key_eq)
    show "mset (filter ?n envelopes) = mset (filter ?n evs)" by (rule assms(3))
    show "sorted (map ee_version (filter ?n evs))" using assms(1) by (rule sorted_filter)
    show "inj_on ee_version (set (filter ?n envelopes))"
      using mset_eq_setD [OF assms(3)] assms(2) by (auto simp: distinct_map inj_on_def)
  qed
  then show ?thesis by (simp add: pending_events_def filter_sort_key)
qed

lemma fold_suffix:
  assumes "sorted (map ee_version evs)" and "distinct (map ee_version evs)"
    and "res_fold app evs None = Inr m"
    and "res_fold app (filter (\<lambda>ev. ee_version ev \<le> v) evs) None = Inr (Some a)"
    and "mset (filter (\<lambda>ev. v < ee_version ev) envelopes) = mset (filter (\<lambda>ev. v < ee_version ev) evs)"
  shows "res_fold app (pending_events (Some v) envelopes) (Some a) = Inr m"
proof -
  have "res_fold app (filter (\<lambda>ev. ee_version ev \<le> v) evs @ filter (\<lambda>ev. v < ee_version ev) evs) None =
      Inr m"
    using assms(3) sorted_key_filter_split [OF assms(1), of v] by simp
  then show ?thesis
    using assms(4) pending_is_suffix [OF assms(1,2,5)] by (simp add: res_fold_append)
qed

lemma pending_all:
  assumes "sorted (map ee_version evs)" and "distinct (map ee_version evs)"
    and "mset envelopes = mset evs"
  shows "pending_events None envelopes = evs" and "sort_key ee_version envelopes = evs"
proof -
  show "sort_key ee_version envelopes = evs"
    using mset_eq_setD [OF assms(3)] assms(2)
    by (intro sort_key_inj_key_eq [OF assms(3) _ assms(1)]) (auto simp: distinct_map)
  then show "pending_events None envelopes = evs" by (simp add: pending_events_def)
qed

lemma account_upsert_row:
  assumes "account_upsert a d = Inr ((), d')"
  shows "List.find (\<lambda>r. ar_id r = acc_id a) (t_accounts d') =
     Some (case List.find (\<lambda>r. ar_id r = acc_id a) (t_accounts d) of
             None \<Rightarrow> row_of_account a
           | Some old \<Rightarrow> if ar_version old < acc_version a then row_of_account a else old)"
proof -
  from assms obtain rows where "upsert_row ar_id ar_version
      (\<lambda>r r'. ar_nanoid r' = ar_nanoid r \<or> ar_name r' = ar_name r) True (row_of_account a)
      (t_accounts d) = Inr rows" and "t_accounts d' = rows"
    by (auto simp: account_upsert_def res_map_Inr_iff)
  with upsert_row_find [OF this(1)] show ?thesis by (simp split: option.splits)
qed

lemma unfiltered_row:
  assumes "distinct (map ar_id (t_accounts d))" and "account_find_by_id_unfiltered e i d = Some a"
  shows "\<exists>row. List.find (\<lambda>r. ar_id r = i) (t_accounts d) = Some row \<and> ar_version row = acc_version a"
proof -
  from assms(2) obtain row where "List.find (\<lambda>r. ar_id r = i \<and> ar_deleted_at r = None) (t_accounts d) = Some row"
    and "a = account_from_row e row True"
    by (auto simp: account_find_by_id_unfiltered_def)
  with find_unique_key [OF assms(1), of i "\<lambda>r. ar_deleted_at r = None" row] show ?thesis
    by (auto simp: account_from_row_def Let_def)
qed

text \<open>The stream of an account that loads starts with its creation.\<close>

lemma account_load_creation:
  assumes "account_repository_load e i d = Inr r"
  shows "\<exists>auth. created_auth_account_id (find_by_id (t_account_events d) i None) = Some auth"
proof -
  let ?evs = "find_by_id (t_account_events d) i None"
  from assms have fe: "from_events (account_apply e) ?evs = Inr (Some r)"
    by (simp add: acc_repo.load_Inr_iff)
  from from_events_SomeD(2) [OF fe] obtain ev rest where evs: "?evs = ev # rest" by (cases ?evs) auto
  with from_events_SomeD(1) [OF fe] obtain m where "account_apply e ev None = Inr m"
    by (auto simp: res_bind_Inr_iff)
  with evs show ?thesis by (auto simp: account_apply_None)
qed

text \<open>The examples: account 7 with two events, of which only the first is projected.\<close>

definition example_row :: account_row where
  "example_row = row_of_account \<lparr> acc_id = 7, acc_name = ''alice'', acc_is_bot = False,
     acc_status = Active, acc_deleted_at = None, acc_version = 9, acc_nanoid = ''n1'',
     acc_created_at = id_created_at 7 \<rparr>"

definition lagging_world :: world where
  "lagging_world = empty_world \<lparr>
     w_last_id := 10,
     w_db := empty_db \<lparr>
       t_account_events :=
         \<lparr> et_rows = [\<lparr> er_seq = 1, er_version = 9, er_id = 7,
                       er_data = AccountCreated ''alice'' False ''n1'' 3 \<rparr>,
                     \<lparr> er_seq = 2, er_version = 10, er_id = 7, er_data = AccountUpdated True \<rparr>],
           et_next_seq = 3 \<rparr>,
       t_accounts := [example_row],
       t_auth_accounts := [\<lparr> aw_id = 3, aw_host_id = 1, aw_client_id = ''c'' \<rparr>],
       t_projection_checkpoints :=
         [\<lparr> cw_projector_name = ACCOUNT_PROJECTOR_NAME, cw_last_seq = 1 \<rparr>] \<rparr> \<rparr>"

lemma lagging_world_log:
  "wf_event_table (t_account_events (w_db lagging_world))"
  "checkpoint_get ACCOUNT_PROJECTOR_NAME (w_db lagging_world) = Some 1"
  "find_by_id (t_account_events (w_db lagging_world)) 7 None = example_stream"
  "t_accounts (w_db lagging_world) = [example_row]"
  by (simp_all add: lagging_world_def wf_event_table_def checkpoint_get_def find_by_id_def
      event_row_try_from_def example_stream_def)

lemma lagging_world_load:
  "account_repository_load (clock_env 0) 7 (w_db lagging_world) = Inr example_rehydrated"
  by (simp add: account_repository_load_def account_events_find_by_id_def lagging_world_log
      example_stream_def example_rehydrated_def from_events_def account_apply_def created_at_of_id)

text \<open>The metadata row after a write: the newer field, or none.\<close>

lemma metadata_upsert_found:
  assumes "metadata_upsert b d = Inr ((), d')" and "metadata_find_by_id (md_id b) d = Some a"
    and "md_version a < md_version b"
  shows "metadata_find_by_id (md_id b) d' = Some b"
proof -
  from assms(1) obtain rows where up: "upsert_row mw_id mw_version (\<lambda>r r'. mw_nanoid r' = mw_nanoid r)
      (metadata_refs d (row_of_metadata b)) (row_of_metadata b) (t_metadatas d) = Inr rows"
    and d': "t_metadatas d' = rows" by (auto simp: metadata_upsert_def res_map_Inr_iff)
  from assms(2,3) obtain old where "List.find (\<lambda>r. mw_id r = md_id b) (t_metadatas d) = Some old"
    and "mw_version old < md_version b"
    by (auto simp: metadata_find_by_id_def metadata_projection_from_def)
  with upsert_row_find [OF up] d' show ?thesis
    by (simp add: metadata_find_by_id_def row_of_metadata_def metadata_projection_from_def)
qed

lemma metadata_deleted_gone:
  "metadata_projection_delete i d = Inr ((), d') \<Longrightarrow> metadata_find_by_id i d' = None"
  by (auto simp: metadata_projection_delete_def metadata_find_by_id_def delete_rows_def find_None_iff)

subsection \<open>Properties\<close>

text \<open>C27. The account projector makes progress: while an event lies beyond the checkpoint, a
  poll succeeds and moves the checkpoint forward, however many events are waiting.\<close>

theorem account_projector_progress:
  assumes "wf_event_table (t_account_events (w_db w))"
    and "r \<in> set (et_rows (t_account_events (w_db w)))"
    and "checkpoint_get ACCOUNT_PROJECTOR_NAME (w_db w) = Some c" and "c < er_seq r"
  shows "\<exists>n w'. project_batch e w = (Inr n, w') \<and> c < n \<and>
           checkpoint_get ACCOUNT_PROJECTOR_NAME (w_db w') = Some n"
proof -
  let ?win = "\<lambda>d c. find_by_seq_window (t_account_events d) (c - ACCOUNT_PROJECTOR_WINDOW)
    ACCOUNT_PROJECTOR_BATCH_LIMIT"
  have width: "0 \<le> ACCOUNT_PROJECTOR_WINDOW" "nat ACCOUNT_PROJECTOR_WINDOW < ACCOUNT_PROJECTOR_BATCH_LIMIT"
    by (simp_all add: ACCOUNT_PROJECTOR_WINDOW_def ACCOUNT_PROJECTOR_BATCH_LIMIT_def)
  note adv = window_advances [OF assms(1,2,4) width]
  have "\<exists>w' (d' :: world). project_batch e w = (Inr (er_seq (last (?win (w_db w) c))), w') \<and>
     op_iter (project_account_group e) (group_events e (?win (w_db w) c)) w = (Inr (), d') \<and>
     checkpoint_set ACCOUNT_PROJECTOR_NAME (er_seq (last (?win (w_db w) c))) (w_db d') = Inr ((), w_db w') \<and>
     checkpoint_get ACCOUNT_PROJECTOR_NAME (w_db d') = Some c"
    unfolding project_batch_def
    by (rule poll_runs [where events = ?win, OF groups_ok(1) keeps_logs_groups(1) assms(3)])
      (use adv(1) in simp_all)
  then obtain w' and d' :: world where run: "project_batch e w = (Inr (er_seq (last (?win (w_db w) c))), w')"
    and set: "checkpoint_set ACCOUNT_PROJECTOR_NAME (er_seq (last (?win (w_db w) c))) (w_db d') =
      Inr ((), w_db w')" and get: "checkpoint_get ACCOUNT_PROJECTOR_NAME (w_db d') = Some c" by blast
  show ?thesis using run checkpoint_set_get [OF set] get adv(2) by auto
qed

theorem account_projector_progress_witness:
  "\<exists>n w'. project_batch (keto_env 0) lagging_world = (Inr n, w') \<and> 1 < n \<and>
     checkpoint_get ACCOUNT_PROJECTOR_NAME (w_db w') = Some n"
proof (rule account_projector_progress)
  show "\<lparr> er_seq = 2, er_version = 10, er_id = 7, er_data = AccountUpdated True \<rparr>
      \<in> set (et_rows (t_account_events (w_db lagging_world)))"
    by (simp add: lagging_world_def)
qed (simp_all add: lagging_world_log)



text \<open>C28. Materialisation: projecting the whole stream of an account that has no row yet writes
  its row, links it to the auth account that created it and makes that auth account its owner.\<close>

theorem account_projector_materialises:
  assumes "keto_service e" and "wf_event_table (t_account_events (w_db w))"
    and "List.find (\<lambda>row. ar_id row = i) (t_accounts (w_db w)) = None"
    and "account_repository_load e i (w_db w) = Inr r" and "acc_deleted_at (rh_aggregate r) = None"
    and "mset envelopes = mset (find_by_id (t_account_events (w_db w)) i None)"
    and "created_auth_account_id (find_by_id (t_account_events (w_db w)) i None) = Some auth"
    and "account_upsert (rh_aggregate r) (w_db w) = Inr ((), d1)"
    and "link_auth_account i auth d1 = Inr ((), d2)"
  shows "\<exists>w'. project_account_group e (i, envelopes) w = (Inr (), w') \<and>
     List.find (\<lambda>row. ar_id row = i) (t_accounts (w_db w')) = Some (row_of_account (rh_aggregate r)) \<and>
     (i, auth) \<in> set (t_auth_emumet_accounts (w_db w')) \<and>
     relation_tuple_of (TargetAccount i Owner) auth \<in> set (w_keto w')"
proof -
  let ?evs = "find_by_id (t_account_events (w_db w)) i None"
  let ?w1 = "w \<lparr> w_db := d2 \<rparr>"
  let ?w2 = "snd (create_relation e (TargetAccount i Owner) auth ?w1)"
  have load: "from_events (account_apply e) ?evs = Inr (Some r)"
    using assms(4) by (simp add: acc_repo.load_Inr_iff)
  note all = pending_all [OF find_by_id_sorted find_by_id_distinct [OF assms(2)] assms(6)]
  have none: "account_find_by_id_unfiltered e i (w_db w) = None"
    using assms(3) by (auto simp: account_find_by_id_unfiltered_def find_None_iff)
  have "project_account_group e (i, envelopes) w = (Inr (), ?w2)"
    using none all assms(5,7,8,9) from_events_SomeD(1,2) [OF load]
    by (simp add: project_account_group_def project_account_write_def project_present_def
        under_savepoint_def exec_def op_bind_def log_error_def Let_def)
  moreover have "w_db ?w2 = d2" by (simp add: create_relation_db)
  moreover have "relation_tuple_of (TargetAccount i Owner) auth \<in> set (w_keto ?w2)"
    by (simp add: create_relation_eq [OF assms(1)] Let_def)
  moreover have "t_accounts d2 = t_accounts d1" and "(i, auth) \<in> set (t_auth_emumet_accounts d2)"
    using assms(9) by (auto simp: link_auth_account_def split: if_splits)
  moreover have "List.find (\<lambda>row. ar_id row = i) (t_accounts d1) = Some (row_of_account (rh_aggregate r))"
    using account_upsert_row [OF assms(8)] acc_repo.load_identity [OF assms(4)] assms(3) by simp
  ultimately show ?thesis by (intro exI [of _ ?w2]) simp
qed

theorem account_projector_materialises_witness:
  "\<exists>w'. project_account_group (keto_env 0) (7, example_stream)
       (lagging_world \<lparr> w_db := w_db lagging_world \<lparr> t_accounts := [] \<rparr> \<rparr>) = (Inr (), w') \<and>
     (7, 3) \<in> set (t_auth_emumet_accounts (w_db w')) \<and>
     relation_tuple_of (TargetAccount 7 Owner) 3 \<in> set (w_keto w')"
proof -
  let ?w = "lagging_world \<lparr> w_db := w_db lagging_world \<lparr> t_accounts := [] \<rparr> \<rparr>"
  let ?row = "row_of_account (rh_aggregate example_rehydrated)"
  let ?d1 = "w_db ?w \<lparr> t_accounts := [?row] \<rparr>"
  have evs: "find_by_id (t_account_events (w_db ?w)) 7 None = example_stream"
    using lagging_world_log(3) by simp
  have load: "account_repository_load (keto_env 0) 7 (w_db ?w) = Inr example_rehydrated"
    by (simp add: account_repository_load_def account_events_find_by_id_def lagging_world_log
        example_stream_def example_rehydrated_def from_events_def account_apply_def created_at_of_id)
  have up: "account_upsert (rh_aggregate example_rehydrated) (w_db ?w) = Inr ((), ?d1)"
    by (simp add: account_upsert_def upsert_row_def)
  have link: "link_auth_account 7 3 ?d1 = Inr ((), ?d1 \<lparr> t_auth_emumet_accounts := [(7, 3)] \<rparr>)"
    by (simp add: link_auth_account_def lagging_world_def example_rehydrated_def empty_db_def)
  have "created_auth_account_id (find_by_id (t_account_events (w_db ?w)) 7 None) = Some 3"
    unfolding evs by (simp add: example_stream_def)
  from account_projector_materialises [OF _ _ _ load _ _ this up link, of example_stream]
  show ?thesis
    using lagging_world_log(1) evs by (auto simp: example_rehydrated_def)
qed

text \<open>C29. While the read model has an account as deactivated, a window without its creation event
  is never projected: the group is dropped and nothing is written. So a reactivation that
  reaches the projector after the creation event has left the window is lost.\<close>

theorem account_projector_drops_reactivation:
  assumes "\<forall>row \<in> set (t_accounts (w_db w)). ar_id row = i \<longrightarrow> ar_deleted_at row \<noteq> None"
    and "envelopes \<noteq> []"
    and "\<forall>ev \<in> set envelopes. \<forall>nm b nid auth. ee_event ev \<noteq> AccountCreated nm b nid auth"
  shows "project_account_group e (i, envelopes) w = (Inr (), w)"
proof -
  have none: "account_find_by_id_unfiltered e i (w_db w) = None"
    using assms(1) by (auto simp: account_find_by_id_unfiltered_def find_None_iff)
  obtain ev rest where p: "pending_events None envelopes = ev # rest"
    using assms(2) by (cases "pending_events None envelopes") (auto simp: pending_events_def)
  then have "ev \<in> set (sort_key ee_version envelopes)" by (simp add: pending_events_def)
  then have "ev \<in> set envelopes" by simp
  then have "account_apply e ev None \<noteq> Inr m" for m
    using assms(3) by (auto simp: account_apply_None)
  then obtain x where "account_apply e ev None = Inl x" by (cases "account_apply e ev None") auto
  with none p show ?thesis
    by (simp add: project_account_group_def op_bind_def Let_def)
qed

theorem account_projector_drops_reactivation_witness:
  "project_account_group (clock_env 0)
     (7, [\<lparr> ee_id = 7, ee_event = AccountReactivated, ee_version = 12 \<rparr>])
     (lagging_world \<lparr> w_db := w_db lagging_world \<lparr> t_accounts := [example_row \<lparr> ar_deleted_at := Some 5 \<rparr>] \<rparr> \<rparr>) =
   (Inr (), lagging_world \<lparr> w_db := w_db lagging_world \<lparr> t_accounts := [example_row \<lparr> ar_deleted_at := Some 5 \<rparr>] \<rparr> \<rparr>)"
  by (rule account_projector_drops_reactivation) simp_all

text \<open>C30. When a suspension has run out, the read model shows the account as active, and a pending
  \<open>Unsuspended\<close> event, although the event stream accepts it, makes the fold fail: the group
  with every later event is dropped.\<close>

theorem account_projector_drops_unsuspension:
  assumes "List.find (\<lambda>row. ar_id row = i \<and> ar_deleted_at row = None) (t_accounts (w_db w)) =
             Some (row_of_account s)"
    and "suspension_over (now_utc e) (acc_status s)"
    and "pending_events (Some (acc_version s)) envelopes = ev # rest"
    and "ee_event ev = AccountUnsuspended"
  shows "project_account_group e (i, envelopes) w = (Inr (), w) \<and>
         is_ok (account_apply e ev (Some s))"
proof -
  have "account_find_by_id_unfiltered e i (w_db w) = Some (s \<lparr> acc_status := Active \<rparr>)"
    using assms(1,2) by (simp add: account_find_by_id_unfiltered_def account_row_roundtrip_expiry expire_def)
  moreover have "account_apply e ev (Some (s \<lparr> acc_status := Active \<rparr>)) = Inl Internal"
    using assms(4) by (simp add: account_apply_def)
  moreover have "is_suspended (acc_status s)" using assms(2) by (cases "acc_status s") auto
  ultimately show ?thesis
    using assms(3,4) by (simp add: project_account_group_def op_bind_def Let_def account_apply_def)
qed

theorem account_projector_drops_unsuspension_witness:
  "project_account_group (clock_env 100)
     (7, [\<lparr> ee_id = 7, ee_event = AccountUnsuspended, ee_version = 12 \<rparr>])
     (lagging_world \<lparr> w_db := empty_db \<lparr> t_accounts := [row_of_account
        (example_account 9 False \<lparr> acc_status := Suspended ''spam'' 10 (Some 50) \<rparr>)] \<rparr> \<rparr>) =
   (Inr (), lagging_world \<lparr> w_db := empty_db \<lparr> t_accounts := [row_of_account
        (example_account 9 False \<lparr> acc_status := Suspended ''spam'' 10 (Some 50) \<rparr>)] \<rparr> \<rparr>)"
proof -
  let ?s = "example_account 9 False \<lparr> acc_status := Suspended ''spam'' 10 (Some 50) \<rparr>"
  let ?w = "lagging_world \<lparr> w_db := empty_db \<lparr> t_accounts := [row_of_account ?s] \<rparr> \<rparr>"
  have "List.find (\<lambda>row. ar_id row = 7 \<and> ar_deleted_at row = None) (t_accounts (w_db ?w)) =
      Some (row_of_account ?s)" by (simp add: example_account_def)
  from account_projector_drops_unsuspension [OF this, of "clock_env 100"
      "[\<lparr> ee_id = 7, ee_event = AccountUnsuspended, ee_version = 12 \<rparr>]"]
  show ?thesis by (simp add: pending_events_def example_account_def)
qed

text \<open>C31. The metadata projector follows its stream, deletions included: when the stored field is
  what a prefix replays to and the window holds every later event, the field found afterwards is
  the one the whole stream replays to, and none if the stream deletes it.\<close>

theorem metadata_projector_catches_up:
  assumes "wf_event_table (t_metadata_events (w_db w))"
    and "metadata_find_by_id i (w_db w) = Some a"
    and "res_fold metadata_apply (filter (\<lambda>ev. ee_version ev \<le> md_version a)
           (find_by_id (t_metadata_events (w_db w)) i None)) None = Inr (Some a)"
    and "res_fold metadata_apply (find_by_id (t_metadata_events (w_db w)) i None) None = Inr m"
    and "mset (filter (\<lambda>ev. md_version a < ee_version ev) envelopes) =
         mset (filter (\<lambda>ev. md_version a < ee_version ev)
           (find_by_id (t_metadata_events (w_db w)) i None))"
    and "\<forall>b. m = Some b \<longrightarrow> is_ok (metadata_upsert b (w_db w))"
  shows "\<exists>w'. project_metadata_group e (i, envelopes) w = (Inr (), w') \<and>
           metadata_find_by_id i (w_db w') = m"
proof -
  let ?evs = "find_by_id (t_metadata_events (w_db w)) i None"
  note sorted = find_by_id_sorted [of "t_metadata_events (w_db w)" i] find_by_id_distinct [OF assms(1), of i]
  note pend = pending_is_suffix [OF sorted assms(5)]
  have fold: "res_fold metadata_apply (pending_events (Some (md_version a)) envelopes) (Some a) = Inr m"
    by (rule fold_suffix [OF sorted assms(4,3,5)])
  show ?thesis
  proof (cases "pending_events (Some (md_version a)) envelopes = []")
    case True
    with fold have "m = Some a" by simp
    with True assms(2) show ?thesis
      by (simp add: project_metadata_group_def metadata_find_by_id_unfiltered_def op_bind_def Let_def)
  next
    case False
    have run: "project_metadata_group e (i, envelopes) w =
        under_savepoint (case m of Some b \<Rightarrow> exec (metadata_upsert b)
          | None \<Rightarrow> exec (metadata_projection_delete i)) w"
      using False fold assms(2)
      by (simp add: project_metadata_group_def metadata_find_by_id_unfiltered_def op_bind_def Let_def
          parent_deleted_def)
    show ?thesis
    proof (cases m)
      case None
      with run show ?thesis
        by (auto simp: under_savepoint_def exec_def metadata_projection_delete_def
            intro: metadata_deleted_gone)
    next
      case (Some b)
      with assms(6) obtain d' where up: "metadata_upsert b (w_db w) = Inr ((), d')"
        by (auto simp: is_ok_iff)
      have "md_id a = i" using assms(2)
        by (auto simp: metadata_find_by_id_def metadata_projection_from_def dest: find_SomeD)
      then have i: "md_id b = i"
        using meta.fold_id [OF fold [unfolded Some pend]] find_by_id_same_stream [of i "t_metadata_events (w_db w)" None]
        by (simp add: same_stream_def list_all_iff)
      have "last (pending_events (Some (md_version a)) envelopes) \<in> set (filter (\<lambda>ev. md_version a < ee_version ev) ?evs)"
        using False pend by (metis last_in_set)
      then have "md_version a < md_version b"
        using meta.fold_version [OF fold [unfolded Some] False] by simp
      with up run Some i metadata_upsert_found [OF up] assms(2) show ?thesis
        by (simp add: under_savepoint_def exec_def)
    qed
  qed
qed

theorem metadata_projector_catches_up_witness:
  "let w = lagging_world \<lparr> w_db := empty_db \<lparr>
         t_metadata_events := \<lparr> et_rows =
           [\<lparr> er_seq = 1, er_version = 5, er_id = 3, er_data = MetadataCreated 7 ''site'' ''a.example'' ''n'' \<rparr>,
            \<lparr> er_seq = 2, er_version = 6, er_id = 3, er_data = MetadataDeleted \<rparr>], et_next_seq = 3 \<rparr>,
         t_metadatas := [\<lparr> mw_id = 3, mw_account_id = 7, mw_label = ''site'', mw_content = ''a.example'',
           mw_version = 5, mw_nanoid = ''n'' \<rparr>] \<rparr> \<rparr>
   in metadata_find_by_id 3 (w_db w) \<noteq> None \<and>
      (\<exists>w'. project_metadata_group (clock_env 0)
         (3, [\<lparr> ee_id = 3, ee_event = MetadataDeleted, ee_version = 6 \<rparr>]) w = (Inr (), w') \<and>
         metadata_find_by_id 3 (w_db w') = None)"
  unfolding Let_def
  apply (rule conjI)
   apply (simp add: metadata_find_by_id_def)
  apply (rule metadata_projector_catches_up [where a = "\<lparr> md_id = 3, md_account_id = 7, md_label = ''site'',
      md_content = ''a.example'', md_version = 5, md_nanoid = ''n'' \<rparr>"])
       apply (simp_all add: metadata_find_by_id_def metadata_projection_from_def wf_event_table_def
        find_by_id_def event_row_try_from_def metadata_apply_def)
  done

end
