(* ===== verification/Ip_Blocks.thy ===== *)
theory Ip_Blocks
  imports Network
begin

text \<open>
  The test for addresses that are not public, which the application
  (\<open>application/src/service/activitypub/fetch.rs\<close>) and the driver
  (\<open>driver/src/http_signing/ssrf.rs\<close>) have in the same words, and its comparison with the
  CIDR blocks it stands for.
\<close>

unbundle bit_operations_syntax

subsection \<open>Addresses that are not public\<close>

definition is_blocked_ipv4 :: "ipv4 \<Rightarrow> bool" where
  "is_blocked_ipv4 ip \<longleftrightarrow>
     is_private ip \<or> is_loopback ip \<or> is_link_local ip \<or> is_broadcast ip \<or> is_documentation ip \<or>
     is_multicast ip \<or> is_unspecified ip \<or>
     octet ip 0 = 0 \<or> 224 \<le> octet ip 0 \<or>
     (octet ip 0 = 100 \<and> 64 \<le> octet ip 1 \<and> octet ip 1 \<le> 127) \<or>
     (octet ip 0 = 198 \<and> 18 \<le> octet ip 1 \<and> octet ip 1 \<le> 19) \<or>
     (octet ip 0 = 192 \<and> octet ip 1 = 0 \<and> octet ip 2 = 0)"

definition is_blocked_ipv6 :: "ipv6 \<Rightarrow> bool" where
  "is_blocked_ipv6 ip =
     (case to_ipv4_mapped ip of
        Some ipv4 \<Rightarrow> is_blocked_ipv4 ipv4
      | None \<Rightarrow>
          is_loopback6 ip \<or> is_unspecified6 ip \<or> is_multicast6 ip \<or>
          segment ip 0 AND 0xfe00 = 0xfc00 \<or>
          segment ip 0 AND 0xffc0 = 0xfe80 \<or>
          (segment ip 0 = 0x2001 \<and> segment ip 1 = 0x0db8) \<or>
          segment ip 0 = 0x2002 \<or>
          (segment ip 0 = 0x2001 \<and> segment ip 1 = 0))"

fun is_blocked :: "ip_addr \<Rightarrow> bool" where
  "is_blocked (V4 ip) = is_blocked_ipv4 ip"
| "is_blocked (V6 ip) = is_blocked_ipv6 ip"

definition validate_public_ip :: "ip_addr \<Rightarrow> unit kresult" where
  "validate_public_ip ip = (if is_blocked ip then Inl Rejected else Inr ())"

subsection \<open>CIDR blocks\<close>

definition in_cidr :: "'w::len word \<Rightarrow> 'w word \<times> nat \<Rightarrow> bool" where
  "in_cidr ip block = (case block of (net, n) \<Rightarrow>
     drop_bit (LENGTH('w) - n) ip = drop_bit (LENGTH('w) - n) net)"

definition private_blocks4 :: "(ipv4 \<times> nat) list" where
  "private_blocks4 =
     [(ipv4_new 0 0 0 0, 8), (ipv4_new 10 0 0 0, 8), (ipv4_new 100 64 0 0, 10),
      (ipv4_new 127 0 0 0, 8), (ipv4_new 169 254 0 0, 16), (ipv4_new 172 16 0 0, 12),
      (ipv4_new 192 0 0 0, 24), (ipv4_new 192 0 2 0, 24), (ipv4_new 192 168 0 0, 16),
      (ipv4_new 198 18 0 0, 15), (ipv4_new 198 51 100 0, 24), (ipv4_new 203 0 113 0, 24),
      (ipv4_new 224 0 0 0, 3)]"

definition private_blocks6 :: "(ipv6 \<times> nat) list" where
  "private_blocks6 =
     [(0, 128), (1, 128), (ipv6_new [0xff00, 0, 0, 0, 0, 0, 0, 0], 8),
      (ipv6_new [0xfc00, 0, 0, 0, 0, 0, 0, 0], 7), (ipv6_new [0xfe80, 0, 0, 0, 0, 0, 0, 0], 10),
      (ipv6_new [0x2001, 0x0db8, 0, 0, 0, 0, 0, 0], 32), (ipv6_new [0x2002, 0, 0, 0, 0, 0, 0, 0], 16),
      (ipv6_new [0x2001, 0, 0, 0, 0, 0, 0, 0], 32)]"

definition mapped_block :: "ipv6 \<times> nat" where
  "mapped_block = (ipv6_new [0, 0, 0, 0, 0, 0xffff, 0, 0], 96)"

subsection \<open>Octets and segments as numbers\<close>

lemma unat_octet: "unat (octet ip i) = unat ip div 256 ^ (3 - i) mod 256"
proof -
  have "unat (octet ip i) = unat (drop_bit (8 * (3 - i)) ip) mod 2 ^ 8"
    by (simp add: octet_def unsigned_ucast_eq take_bit_eq_mod)
  also have "unat (drop_bit (8 * (3 - i)) ip) = unat ip div 2 ^ (8 * (3 - i))"
    by (simp only: unat_drop_bit_eq, simp only: drop_bit_eq_div)
  finally show ?thesis by (simp add: power_mult)
qed

lemma unat_segment: "unat (segment ip i) = unat ip div 65536 ^ (7 - i) mod 65536"
proof -
  have "unat (segment ip i) = unat (drop_bit (16 * (7 - i)) ip) mod 2 ^ 16"
    by (simp add: segment_def unsigned_ucast_eq take_bit_eq_mod)
  also have "unat (drop_bit (16 * (7 - i)) ip) = unat ip div 2 ^ (16 * (7 - i))"
    by (simp only: unat_drop_bit_eq, simp only: drop_bit_eq_div)
  finally show ?thesis by (simp add: power_mult)
qed

lemma in_cidr_unat:
  fixes ip :: "'w::len word"
  shows "in_cidr ip (net, n) \<longleftrightarrow>
     unat ip div 2 ^ (LENGTH('w) - n) = unat net div 2 ^ (LENGTH('w) - n)"
  by (simp only: in_cidr_def prod.case word_unat_eq_iff unat_drop_bit_eq, simp only: drop_bit_eq_div)

text \<open>The leading part of an address, from its first octets.\<close>

lemma octets_unat:
  fixes ip :: ipv4
  shows "unat ip div 2 ^ 24 = unat (octet ip 0)"
    and "unat ip div 2 ^ 16 = unat (octet ip 0) * 256 + unat (octet ip 1)"
    and "unat ip div 2 ^ 8 = (unat (octet ip 0) * 256 + unat (octet ip 1)) * 256 + unat (octet ip 2)"
proof -
  have "unat ip < 2 ^ 32" using unsigned_less [of ip] by simp
  then have "unat ip div 2 ^ 24 < 256" by simp
  then show a: "unat ip div 2 ^ 24 = unat (octet ip 0)" by (simp add: unat_octet)
  show b: "unat ip div 2 ^ 16 = unat (octet ip 0) * 256 + unat (octet ip 1)"
    using div_mult_mod_eq [of "unat ip div 2 ^ 16" 256] a
    by (simp add: unat_octet div_mult2_eq [symmetric])
  show "unat ip div 2 ^ 8 = (unat (octet ip 0) * 256 + unat (octet ip 1)) * 256 + unat (octet ip 2)"
    using div_mult_mod_eq [of "unat ip div 2 ^ 8" 256] b
    by (simp add: unat_octet [of ip 2] div_mult2_eq [symmetric])
qed

lemma octet_bound: "unat (octet ip i) < 256"
  using unsigned_less [of "octet ip i"] by simp

lemma div_split: "(n :: nat) div 2 ^ (k + m) = n div 2 ^ k div 2 ^ m"
  by (simp add: power_add div_mult2_eq)

lemma leading_bits4:
  fixes ip :: ipv4
  shows "unat ip div 2 ^ 29 = unat (octet ip 0) div 32"
    and "unat ip div 2 ^ 22 = (unat (octet ip 0) * 256 + unat (octet ip 1)) div 64"
    and "unat ip div 2 ^ 20 = (unat (octet ip 0) * 256 + unat (octet ip 1)) div 16"
    and "unat ip div 2 ^ 17 = (unat (octet ip 0) * 256 + unat (octet ip 1)) div 2"
proof -
  have "unat ip div 2 ^ 29 = unat ip div 2 ^ 24 div 2 ^ 5" using div_split [of _ 24 5] by simp
  then show "unat ip div 2 ^ 29 = unat (octet ip 0) div 32" unfolding octets_unat by simp
  have "unat ip div 2 ^ 22 = unat ip div 2 ^ 16 div 2 ^ 6" using div_split [of _ 16 6] by simp
  then show "unat ip div 2 ^ 22 = (unat (octet ip 0) * 256 + unat (octet ip 1)) div 64"
    unfolding octets_unat by simp
  have "unat ip div 2 ^ 20 = unat ip div 2 ^ 16 div 2 ^ 4" using div_split [of _ 16 4] by simp
  then show "unat ip div 2 ^ 20 = (unat (octet ip 0) * 256 + unat (octet ip 1)) div 16"
    unfolding octets_unat by simp
  have "unat ip div 2 ^ 17 = unat ip div 2 ^ 16 div 2 ^ 1" using div_split [of _ 16 1] by simp
  then show "unat ip div 2 ^ 17 = (unat (octet ip 0) * 256 + unat (octet ip 1)) div 2"
    unfolding octets_unat by simp
qed

lemma is_broadcast_octet: "is_broadcast ip \<Longrightarrow> unat (octet ip 0) = 255"
  by (simp add: is_broadcast_def unat_octet unsigned_minus_1_eq_mask mask_eq_exp_minus_1)

lemma is_unspecified_octet: "is_unspecified ip \<Longrightarrow> unat (octet ip 0) = 0"
  by (simp add: is_unspecified_def unat_octet)

lemma unat_numeral_octets:
  "unat (0 :: 8 word) = 0" "unat (2 :: 8 word) = 2" "unat (10 :: 8 word) = 10" "unat (16 :: 8 word) = 16"
  "unat (18 :: 8 word) = 18" "unat (19 :: 8 word) = 19" "unat (31 :: 8 word) = 31" "unat (51 :: 8 word) = 51"
  "unat (64 :: 8 word) = 64" "unat (100 :: 8 word) = 100" "unat (113 :: 8 word) = 113"
  "unat (127 :: 8 word) = 127" "unat (168 :: 8 word) = 168" "unat (169 :: 8 word) = 169"
  "unat (172 :: 8 word) = 172" "unat (192 :: 8 word) = 192" "unat (198 :: 8 word) = 198"
  "unat (203 :: 8 word) = 203" "unat (224 :: 8 word) = 224" "unat (239 :: 8 word) = 239"
  "unat (254 :: 8 word) = 254"
  by simp_all

text \<open>The tests on octets, as numbers.\<close>

lemma blocked_octets_arith:
  assumes "bc \<Longrightarrow> a = 255" and "us \<Longrightarrow> a = 0"
  shows "((a = 10 \<or> a = 172 \<and> 16 \<le> b \<and> b \<le> 31 \<or> a = 192 \<and> b = 168) \<or> a = 127 \<or> (a = 169 \<and> b = 254) \<or>
      bc \<or> (a = 192 \<and> b = 0 \<and> c = 2 \<or> a = 198 \<and> b = 51 \<and> c = 100 \<or> a = 203 \<and> b = 0 \<and> c = 113) \<or>
      (224 \<le> a \<and> a \<le> 239) \<or> us \<or> a = 0 \<or> 224 \<le> a \<or> (a = 100 \<and> 64 \<le> b \<and> b \<le> 127) \<or>
      (a = 198 \<and> 18 \<le> b \<and> b \<le> 19) \<or> (a = 192 \<and> b = 0 \<and> c = 0)) \<longleftrightarrow>
     (a = 0 \<or> a = 10 \<or> a = 127 \<or> 224 \<le> (a :: nat) \<or> (a = 100 \<and> 64 \<le> (b :: nat) \<and> b \<le> 127) \<or>
      (a = 169 \<and> b = 254) \<or> (a = 172 \<and> 16 \<le> b \<and> b \<le> 31) \<or>
      (a = 192 \<and> (b = 168 \<or> b = 0 \<and> (c = 0 \<or> c = (2 :: nat)))) \<or>
      (a = 198 \<and> (18 \<le> b \<and> b \<le> 19 \<or> b = 51 \<and> c = 100)) \<or> (a = 203 \<and> b = 0 \<and> c = 113))"
proof (cases "224 \<le> a \<or> a = 0")
  case True
  then show ?thesis by (rule disjE) simp_all
next
  case False
  then have "\<not> 224 \<le> a" and "a \<noteq> 0" by simp_all
  moreover from False assms have "\<not> bc" and "\<not> us" by auto
  ultimately show ?thesis by argo
qed

lemma is_blocked_ipv4_octets:
  "is_blocked_ipv4 ip \<longleftrightarrow>
     (let a = unat (octet ip 0); b = unat (octet ip 1); c = unat (octet ip 2) in
      a = 0 \<or> a = 10 \<or> a = 127 \<or> 224 \<le> a \<or> (a = 100 \<and> 64 \<le> b \<and> b \<le> 127) \<or>
      (a = 169 \<and> b = 254) \<or> (a = 172 \<and> 16 \<le> b \<and> b \<le> 31) \<or>
      (a = 192 \<and> (b = 168 \<or> b = 0 \<and> (c = 0 \<or> c = 2))) \<or>
      (a = 198 \<and> (18 \<le> b \<and> b \<le> 19 \<or> b = 51 \<and> c = 100)) \<or> (a = 203 \<and> b = 0 \<and> c = 113))"
proof -
  show ?thesis
    unfolding is_blocked_ipv4_def is_private_def is_loopback_def is_link_local_def
      is_documentation_def is_multicast_def word_unat_eq_iff [where 'a = 8] word_le_nat_alt Let_def
    unfolding unat_numeral_octets
    by (rule blocked_octets_arith) (rule is_broadcast_octet is_unspecified_octet, assumption)+
qed

lemma private_blocks4_octets:
  "list_ex (in_cidr ip) private_blocks4 \<longleftrightarrow>
     (let a = unat (octet ip 0); b = unat (octet ip 1); c = unat (octet ip 2) in
      a = 0 \<or> a = 10 \<or> (a * 256 + b) div 64 = 401 \<or> a = 127 \<or> a * 256 + b = 43518 \<or>
      (a * 256 + b) div 16 = 2753 \<or> (a * 256 + b) * 256 + c = 12582912 \<or>
      (a * 256 + b) * 256 + c = 12582914 \<or> a * 256 + b = 49320 \<or> (a * 256 + b) div 2 = 25353 \<or>
      (a * 256 + b) * 256 + c = 12989284 \<or> (a * 256 + b) * 256 + c = 13303921 \<or> a div 32 = 7)"
  by (simp add: private_blocks4_def in_cidr_unat ipv4_new_def octets_unat [simplified]
      leading_bits4 [simplified] Let_def)

lemma div_eq_range: "0 < k \<Longrightarrow> (x :: nat) div k = q \<longleftrightarrow> q * k \<le> x \<and> x \<le> q * k + (k - 1)"
proof -
  assume k: "0 < k"
  have "x div k = q \<longleftrightarrow> q * k \<le> x \<and> x < Suc q * k"
    using k by (metis div_nat_eqI dividend_less_times_div mult.commute times_div_less_eq_dividend mult_Suc_right)
  with k show ?thesis by auto
qed

lemma radix_range:
  assumes "b < 256" and "h < (256 :: nat)"
  shows "x * 256 + l \<le> a * 256 + b \<and> a * 256 + b \<le> x * 256 + h \<longleftrightarrow> a = x \<and> l \<le> b \<and> b \<le> h"
proof
  assume *: "x * 256 + l \<le> a * 256 + b \<and> a * 256 + b \<le> x * 256 + h"
  with assms have "a < x + 1" "x < a + 1" by linarith+
  with * show "a = x \<and> l \<le> b \<and> b \<le> h" by simp
qed auto

lemma radix_eq:
  assumes "b < k" and "y < (k :: nat)"
  shows "a * k + b = x * k + y \<longleftrightarrow> a = x \<and> b = y"
proof
  assume *: "a * k + b = x * k + y"
  have "(a * k + b) div k = a" "(x * k + y) div k = x" using assms by simp_all
  with * show "a = x \<and> b = y" by simp
qed simp

lemma block_sizes_arith:
  assumes b: "b < (256 :: nat)" and c: "c < (256 :: nat)"
  shows "(a * 256 + b) div 64 = 401 \<longleftrightarrow> a = 100 \<and> 64 \<le> b \<and> b \<le> 127"
    and "(a * 256 + b) div 16 = 2753 \<longleftrightarrow> a = 172 \<and> 16 \<le> b \<and> b \<le> 31"
    and "(a * 256 + b) div 2 = 25353 \<longleftrightarrow> a = 198 \<and> 18 \<le> b \<and> b \<le> 19"
    and "a * 256 + b = 43518 \<longleftrightarrow> a = 169 \<and> b = 254"
    and "a * 256 + b = 49320 \<longleftrightarrow> a = 192 \<and> b = 168"
    and "(a * 256 + b) * 256 + c = 12582912 \<longleftrightarrow> a = 192 \<and> b = 0 \<and> c = 0"
    and "(a * 256 + b) * 256 + c = 12582914 \<longleftrightarrow> a = 192 \<and> b = 0 \<and> c = 2"
    and "(a * 256 + b) * 256 + c = 12989284 \<longleftrightarrow> a = 198 \<and> b = 51 \<and> c = 100"
    and "(a * 256 + b) * 256 + c = 13303921 \<longleftrightarrow> a = 203 \<and> b = 0 \<and> c = 113"
  using radix_range [OF b, of 127 100 64 a] radix_range [OF b, of 31 172 16 a]
    radix_range [OF b, of 19 198 18 a] radix_eq [OF b, of 254 a 169] radix_eq [OF b, of 168 a 192]
    radix_eq [OF c, of 0 "a * 256 + b" 49152] radix_eq [OF c, of 2 "a * 256 + b" 49152]
    radix_eq [OF c, of 100 "a * 256 + b" 50739] radix_eq [OF c, of 113 "a * 256 + b" 51968]
    radix_eq [OF b, of 0 a 192] radix_eq [OF b, of 51 a 198] radix_eq [OF b, of 0 a 203]
  by (simp_all add: div_eq_range)

lemma blocked4_cidr: "is_blocked_ipv4 ip \<longleftrightarrow> list_ex (in_cidr ip) private_blocks4"
proof -
  have "unat (octet ip 0) div 32 = 7 \<longleftrightarrow> 224 \<le> unat (octet ip 0)"
    using octet_bound [of ip 0] by linarith
  then show ?thesis
    unfolding is_blocked_ipv4_octets private_blocks4_octets Let_def
      block_sizes_arith [OF octet_bound [of ip 1] octet_bound [of ip 2]]
    by argo
qed

lemma unat_and_not_mask: "unat ((w :: 16 word) AND NOT (mask k)) = unat w div 2 ^ k * 2 ^ k"
proof -
  have "w AND NOT (mask k) = push_bit k (drop_bit k w)"
    by (rule bit_eqI) (auto simp: bit_simps)
  then have "unat (w AND NOT (mask k)) = take_bit 16 (push_bit k (drop_bit k (unat w)))"
    by (simp only: unsigned_push_bit_eq unat_drop_bit_eq) simp
  moreover have "unat w div 2 ^ k * 2 ^ k < 2 ^ 16"
  proof -
    have "unat w < 2 ^ 16" using unsigned_less [of w] by simp
    then show ?thesis by (meson div_times_less_eq_dividend le_less_trans)
  qed
  ultimately show ?thesis
    by (simp add: push_bit_eq_mult drop_bit_eq_div take_bit_nat_eq_self)
qed

lemma masked_segment:
  "(w :: 16 word) AND 0xff00 = 0xff00 \<longleftrightarrow> unat w div 256 = 0xff"
  "w AND 0xfe00 = 0xfc00 \<longleftrightarrow> unat w div 512 = 0x7e"
  "w AND 0xffc0 = 0xfe80 \<longleftrightarrow> unat w div 64 = 0x3fa"
proof -
  have masks: "(0xff00 :: 16 word) = NOT (mask 8)" "(0xfe00 :: 16 word) = NOT (mask 9)"
    "(0xffc0 :: 16 word) = NOT (mask 6)"
    by (simp_all add: mask_eq_exp_minus_1 word_unat_eq_iff)
  show "w AND 0xff00 = 0xff00 \<longleftrightarrow> unat w div 256 = 0xff"
    unfolding word_unat_eq_iff by (subst masks(1)) (simp add: unat_and_not_mask)
  show "w AND 0xfe00 = 0xfc00 \<longleftrightarrow> unat w div 512 = 0x7e"
    unfolding masks word_unat_eq_iff unat_and_not_mask by simp
  show "w AND 0xffc0 = 0xfe80 \<longleftrightarrow> unat w div 64 = 0x3fa"
    unfolding masks word_unat_eq_iff unat_and_not_mask by simp
qed

text \<open>The leading part of an IPv6 address, from its first segments.\<close>

lemma segment_step:
  "unat ip div 65536 ^ n = unat ip div 65536 ^ Suc n * 65536 + unat ip div 65536 ^ n mod 65536"
  using div_mult_mod_eq [of "unat ip div 65536 ^ n" 65536] by (simp add: div_mult2_eq [symmetric] mult.commute)

lemma unat_ipv6_bound: "unat (ip :: ipv6) div 65536 ^ 8 = 0"
proof -
  have "unat ip < 2 ^ 128" using unsigned_less [of ip] by simp
  then show ?thesis by simp
qed

lemma segments_unat:
  fixes ip :: ipv6
  shows "unat ip div 65536 ^ 7 = unat (segment ip 0)"
    and "unat ip div 65536 ^ 6 = unat (segment ip 0) * 65536 + unat (segment ip 1)"
    and "unat ip div 65536 ^ 2 = 0xffff \<longleftrightarrow>
           (\<forall>i < 5. segment ip i = 0) \<and> segment ip 5 = 0xffff"
proof -
  show s0: "unat ip div 65536 ^ 7 = unat (segment ip 0)"
    using segment_step [of ip 7] unat_ipv6_bound [of ip] by (simp only: unat_segment) simp
  show s1: "unat ip div 65536 ^ 6 = unat (segment ip 0) * 65536 + unat (segment ip 1)"
    using segment_step [of ip 6] s0 by (simp only: unat_segment [of _ 1]) simp
  have all5: "(\<forall>i < 5. segment ip i = 0) \<longleftrightarrow>
      segment ip 0 = 0 \<and> segment ip 1 = 0 \<and> segment ip 2 = 0 \<and> segment ip 3 = 0 \<and> segment ip 4 = 0"
    by (auto simp: less_Suc_eq numeral_eq_Suc)
  have b: "unat (segment ip i) < 65536" for i using unsigned_less [of "segment ip i"] by simp
  have s: "unat ip div 65536 ^ 5 = unat ip div 65536 ^ 6 * 65536 + unat (segment ip 2)"
    "unat ip div 65536 ^ 4 = unat ip div 65536 ^ 5 * 65536 + unat (segment ip 3)"
    "unat ip div 65536 ^ 3 = unat ip div 65536 ^ 4 * 65536 + unat (segment ip 4)"
    "unat ip div 65536 ^ 2 = unat ip div 65536 ^ 3 * 65536 + unat (segment ip 5)"
    using segment_step [of ip 5] segment_step [of ip 4] segment_step [of ip 3] segment_step [of ip 2]
    by (simp_all only: unat_segment) simp_all
  show "unat ip div 65536 ^ 2 = 0xffff \<longleftrightarrow> (\<forall>i < 5. segment ip i = 0) \<and> segment ip 5 = 0xffff"
  proof -
    have "unat ip div 65536 ^ 2 = 0xffff \<longleftrightarrow> unat ip div 65536 ^ 3 = 0 \<and> unat (segment ip 5) = 0xffff"
      using s(4) radix_eq [of _ 65536 65535 _ 0] b [of 5] by simp
    moreover have "unat ip div 65536 ^ 3 = 0 \<longleftrightarrow> (\<forall>i < 5. segment ip i = 0)"
      unfolding all5 unfolding word_unat_eq_iff using s s1 by simp
    ultimately show ?thesis unfolding word_unat_eq_iff [of _ "0xffff"] by simp
  qed
qed

lemma cidr6_simps:
  fixes ip :: ipv6
  shows "unat ip div 2 ^ 112 = unat (segment ip 0)"
    and "unat ip div 2 ^ 96 = unat (segment ip 0) * 65536 + unat (segment ip 1)"
    and "unat ip div 2 ^ 120 = unat (segment ip 0) div 256"
    and "unat ip div 2 ^ 121 = unat (segment ip 0) div 512"
    and "unat ip div 2 ^ 118 = unat (segment ip 0) div 64"
proof -
  show h: "unat ip div 2 ^ 112 = unat (segment ip 0)"
    and "unat ip div 2 ^ 96 = unat (segment ip 0) * 65536 + unat (segment ip 1)"
    using segments_unat(1,2) [of ip] by simp_all
  have "unat ip div 2 ^ 120 = unat ip div 2 ^ 112 div 2 ^ 8" using div_split [of _ 112 8] by simp
  then show "unat ip div 2 ^ 120 = unat (segment ip 0) div 256" unfolding h by simp
  have "unat ip div 2 ^ 121 = unat ip div 2 ^ 112 div 2 ^ 9" using div_split [of _ 112 9] by simp
  then show "unat ip div 2 ^ 121 = unat (segment ip 0) div 512" unfolding h by simp
  have "unat ip div 2 ^ 118 = unat ip div 2 ^ 112 div 2 ^ 6" using div_split [of _ 112 6] by simp
  then show "unat ip div 2 ^ 118 = unat (segment ip 0) div 64" unfolding h by simp
qed

lemma to_ipv4_mapped_cidr:
  "to_ipv4_mapped ip = (if in_cidr ip mapped_block then Some (ucast ip) else None)"
  using segments_unat(3) [of ip]
  by (simp add: to_ipv4_mapped_def mapped_block_def in_cidr_unat ipv6_new_def)

lemma segment_pair:
  "y < 65536 \<Longrightarrow> unat (segment ip 0) * 65536 + unat (segment ip 1) = x * 65536 + y \<longleftrightarrow>
     unat (segment ip 0) = x \<and> unat (segment ip 1) = y"
  using unsigned_less [of "segment ip 1"] by (intro radix_eq) simp_all

lemma blocked6_cidr:
  "is_blocked_ipv6 ip \<longleftrightarrow>
     (if in_cidr ip mapped_block then list_ex (in_cidr (ucast ip)) private_blocks4
      else list_ex (in_cidr ip) private_blocks6)"
proof (cases "in_cidr ip mapped_block")
  case True
  then show ?thesis by (simp add: is_blocked_ipv6_def to_ipv4_mapped_cidr blocked4_cidr)
next
  case False
  have pairs: "unat (segment ip 0) * 65536 + unat (segment ip 1) = 536939960 \<longleftrightarrow>
      segment ip 0 = 0x2001 \<and> segment ip 1 = 0x0db8"
    "unat (segment ip 0) * 65536 + unat (segment ip 1) = 536936448 \<longleftrightarrow>
      segment ip 0 = 0x2001 \<and> segment ip 1 = 0"
    using segment_pair [of 3512 ip 8193] segment_pair [of 0 ip 8193]
    by (simp_all add: word_unat_eq_iff)
  have "list_ex (in_cidr ip) private_blocks6 \<longleftrightarrow>
      ip = 0 \<or> ip = 1 \<or> segment ip 0 AND 0xff00 = 0xff00 \<or> segment ip 0 AND 0xfe00 = 0xfc00 \<or>
      segment ip 0 AND 0xffc0 = 0xfe80 \<or> (segment ip 0 = 0x2001 \<and> segment ip 1 = 0x0db8) \<or>
      segment ip 0 = 0x2002 \<or> (segment ip 0 = 0x2001 \<and> segment ip 1 = 0)"
    unfolding pairs [symmetric] masked_segment
    by (simp add: private_blocks6_def in_cidr_unat ipv6_new_def cidr6_simps [simplified]
        word_unat_eq_iff)
  with False show ?thesis
    by (simp add: is_blocked_ipv6_def to_ipv4_mapped_cidr is_loopback6_def is_unspecified6_def
        is_multicast6_def) argo
qed

text \<open>C37. 
  The address test refuses exactly the addresses of the special-purpose blocks: 0/8, 10/8,
  100.64/10, 127/8, 169.254/16, 172.16/12, 192.0.0/24, 192.0.2/24, 192.168/16, 198.18/15,
  198.51.100/24, 203.0.113/24 and everything from 224/3 on for IPv4; for IPv6, the IPv4-mapped
  form of those, the unspecified and loopback addresses, multicast, unique local, link local,
  documentation, 6to4 and Teredo addresses.
\<close>

theorem is_blocked_exact:
  "is_blocked ip \<longleftrightarrow>
     (case ip of
        V4 a \<Rightarrow> list_ex (in_cidr a) private_blocks4
      | V6 a \<Rightarrow> if in_cidr a mapped_block then list_ex (in_cidr (ucast a)) private_blocks4
                else list_ex (in_cidr a) private_blocks6)"
  by (cases ip) (simp_all add: blocked4_cidr blocked6_cidr)

end
