(* ===== verification/Ssrf.thy ===== *)
theory Ssrf
  imports Ip_Blocks Signing_Keys Permission
begin

text \<open>
  The guard against server-side request forgery. The application
  (\<open>application/src/service/activitypub/fetch.rs\<close>) and the driver
  (\<open>driver/src/http_signing/ssrf.rs\<close>, \<open>fetch.rs\<close>) each check a URL before they connect to
  it, resolve its host, refuse addresses that are not public and pin the client to the
  addresses they checked. The locale \<open>fetch_guard\<close> is the contract of the two, under which a
  request that passed the check can only reach public addresses. The build without the
  feature \<open>test-mode\<close> is modelled.
\<close>

text \<open>
  What the services that talk to other servers are configured with: the crates and peers, and
  the value of the environment variable \<open>AP_TEST_ALLOWED_FETCH_HOSTS\<close>.
\<close>

record federation =
  fd_app :: app
  fd_net :: network
  fd_allowed_hosts :: "string option"

abbreviation fd_env :: "federation \<Rightarrow> env" where
  "fd_env fd \<equiv> ap_env (fd_app fd)"

definition is_fetch_host_allowed :: "federation \<Rightarrow> string \<Rightarrow> bool" where
  "is_fetch_host_allowed fd host_lc =
     (case fd_allowed_hosts fd of
        None \<Rightarrow> False
      | Some val \<Rightarrow> list_ex (\<lambda>entry. eq_ignore_ascii_case (trim_text entry) host_lc) (split_on (CHR '','') val))"

subsection \<open>Checking a URL\<close>

definition host_lowercase :: "string \<Rightarrow> string" where
  "host_lowercase host = to_ascii_lowercase (trim_end_matches (CHR ''.'') host)"

definition is_localhost :: "string \<Rightarrow> bool" where
  "is_localhost host_lc \<longleftrightarrow> host_lc = ''localhost'' \<or> ends_with ''.localhost'' host_lc"

definition resolve_public :: "federation \<Rightarrow> string \<Rightarrow> nat \<Rightarrow> socket_addr list op" where
  "resolve_public fd host_lc port w =
     (res_bind (ok_or Rejected (lookup_host (fd_net fd) (w_requests w) host_lc port)) (\<lambda>addresses.
      res_bind (ensure (addresses \<noteq> []) Rejected) (\<lambda>_.
      res_map (\<lambda>_. addresses) (res_collect (map (\<lambda>a. validate_public_ip (fst a)) addresses)))), w)"

text \<open>\<open>validate_fetch_url\<close> of the application.\<close>

definition validate_fetch_url :: "federation \<Rightarrow> url \<Rightarrow> socket_addr list op" where
  "validate_fetch_url fd u =
     op_bind (op_lift (ensure (u_scheme u = ''http'' \<or> u_scheme u = ''https'') Rejected)) (\<lambda>_.
     op_bind (op_lift (ensure (u_username u = [] \<and> u_password u = None) Rejected)) (\<lambda>_.
     op_bind (op_lift (ok_or Rejected (u_host_str u))) (\<lambda>host.
     let host_lc = host_lowercase host in
     op_bind (op_lift (ensure (is_fetch_host_allowed fd host_lc \<or> \<not> is_localhost host_lc) Rejected)) (\<lambda>_.
     op_bind (op_lift (ok_or Rejected (u_port_or_known_default u))) (\<lambda>port.
     case parse_ip_addr host_lc of
       Some ip \<Rightarrow> op_bind (op_lift (validate_public_ip ip)) (\<lambda>_. op_return [(ip, port)])
     | None \<Rightarrow> resolve_public fd host_lc port)))))"

text \<open>\<open>validate_fetch_url\<close> of the driver.\<close>

definition key_validate_fetch_url :: "federation \<Rightarrow> url \<Rightarrow> socket_addr list op" where
  "key_validate_fetch_url fd u =
     op_bind (op_lift (ensure (u_scheme u = ''http'' \<or> u_scheme u = ''https'') Rejected)) (\<lambda>_.
     op_bind (op_lift (ensure (u_username u = [] \<and> u_password u = None) Rejected)) (\<lambda>_.
     op_bind (op_lift (ok_or Rejected (u_host_str u))) (\<lambda>host.
     let host_lc = host_lowercase host in
     op_bind (op_lift (ensure (\<not> is_localhost host_lc) Rejected)) (\<lambda>_.
     case parse_ip_addr host_lc of
       Some ip \<Rightarrow>
         op_bind (op_lift (validate_public_ip ip)) (\<lambda>_.
         op_bind (op_lift (ok_or Rejected (u_port_or_known_default u))) (\<lambda>port.
         op_return [(ip, port)]))
     | None \<Rightarrow>
         op_bind (op_lift (ok_or Rejected (u_port_or_known_default u))) (\<lambda>port.
         resolve_public fd host_lc port)))))"

text \<open>
  The pinned client: a host that is not written as an address is resolved to the addresses
  given. The driver builds a new client only for such a host.
\<close>

definition pinned_addresses :: "url \<Rightarrow> socket_addr list \<Rightarrow> socket_addr list option" where
  "pinned_addresses u resolved =
     (case u_host_str u of
        Some host \<Rightarrow> if parse_ip_addr host = None then Some resolved else None
      | None \<Rightarrow> None)"

definition client_for_url :: "federation \<Rightarrow> url \<Rightarrow> socket_addr list \<Rightarrow> socket_addr list option kresult" where
  "client_for_url fd u resolved =
     (if client_builds (fd_net fd) then Inr (pinned_addresses u resolved) else Inl Internal)"

definition key_client_for_url :: "federation \<Rightarrow> url \<Rightarrow> socket_addr list \<Rightarrow> socket_addr list option kresult" where
  "key_client_for_url fd u resolved =
     (case pinned_addresses u resolved of
        None \<Rightarrow> Inr None
      | Some addrs \<Rightarrow> if client_builds (fd_net fd) then Inr (Some addrs) else Inl Internal)"

text \<open>Sending: no answer, or a failure to connect, is \<open>Rejected\<close> at every call.\<close>

definition send_request :: "federation \<Rightarrow> http_request \<Rightarrow> http_response op" where
  "send_request fd rq w =
     (ok_or Rejected (http_send (fd_net fd) (w_requests w) rq),
      w \<lparr> w_requests := w_requests w @ [rq] \<rparr>)"

subsection \<open>Literal addresses\<close>

text \<open>Case and trailing dots do not matter for a host that is written as an address.\<close>

lemma hex_val_lower [simp]: "hex_val (ascii_lower c) = hex_val c"
  by (auto simp: hex_val_def ascii_lower_def Let_def)

lemma is_digit_of_lower [simp]: "is_digit_of radix (ascii_lower c) = is_digit_of radix c"
  by (simp add: is_digit_of_def)

lemma ascii_lower_eq_iff:
  "byte_val d < 97 \<Longrightarrow> \<not> (65 \<le> byte_val d \<and> byte_val d \<le> 90) \<Longrightarrow> ascii_lower c = d \<longleftrightarrow> c = d"
  by (auto simp: ascii_lower_def)

lemma read_number_lower:
  "read_number radix n z m (map ascii_lower s) = map_option (apsnd (map ascii_lower)) (read_number radix n z m s)"
  by (simp add: read_number_def takeWhile_map comp_def foldl_map Let_def hd_map ascii_lower_eq_iff
      drop_map cong: conj_cong)

lemma read_given_char_lower:
  "byte_val c < 97 \<Longrightarrow> \<not> (65 \<le> byte_val c \<and> byte_val c \<le> 90) \<Longrightarrow>
     read_given_char c (map ascii_lower s) = map_option (map ascii_lower) (read_given_char c s)"
  by (cases s) (auto simp: ascii_lower_eq_iff)

lemma read_dot_octet_lower:
  "read_octet (map ascii_lower s) = map_option (apsnd (map ascii_lower)) (read_octet s)"
  "read_dot_octet (map ascii_lower s) = map_option (apsnd (map ascii_lower)) (read_dot_octet s)"
  by (auto simp: read_octet_def read_dot_octet_def read_given_char_lower read_number_lower
      split: Option.bind_splits)

lemma read_ipv4_lower:
  "read_ipv4_addr (map ascii_lower s) = map_option (apsnd (map ascii_lower)) (read_ipv4_addr s)"
  by (auto simp: read_ipv4_addr_def read_dot_octet_lower split: Option.bind_splits)

lemma read_groups_lower:
  "read_groups first n (map ascii_lower s) =
     (case read_groups first n s of (gs, b, r) \<Rightarrow> (gs, b, map ascii_lower r))"
proof (induction n arbitrary: first s)
  case (Suc n)
  let ?body = "if first then Some s else read_given_char (CHR '':'') s"
  have body: "(if first then Some (map ascii_lower s) else read_given_char (CHR '':'') (map ascii_lower s))
      = map_option (map ascii_lower) ?body"
    by (simp add: read_given_char_lower)
  show ?case
  proof (cases ?body)
    case None
    then show ?thesis by (simp add: body)
  next
    case (Some t)
    with Suc.IH show ?thesis
      by (auto simp: body Let_def read_ipv4_lower read_number_lower split: option.splits prod.splits)
  qed
qed simp

lemma read_ipv6_lower:
  "read_ipv6_addr (map ascii_lower s) = map_option (apsnd (map ascii_lower)) (read_ipv6_addr s)"
  by (auto simp: read_ipv6_addr_def read_groups_lower read_given_char_lower
      split: Option.bind_splits prod.splits)

lemma parse_ip_addr_lower: "parse_ip_addr (map ascii_lower s) = parse_ip_addr s"
  by (auto simp: parse_ip_addr_def read_ipv4_lower read_ipv6_lower split: option.splits)

text \<open>What the readers consume does not end in a dot.\<close>

definition consumed :: "string \<Rightarrow> string \<Rightarrow> bool" where
  "consumed s r \<longleftrightarrow> (\<exists>p. s = p @ r \<and> (p = [] \<or> last p \<noteq> CHR ''.''))"

lemma consumed_refl [simp]: "consumed s s"
  by (auto simp: consumed_def)

lemma consumed_trans: "consumed s t \<Longrightarrow> consumed t r \<Longrightarrow> consumed s r"
  unfolding consumed_def by (metis append_assoc last_appendR append_Nil2)

lemma read_number_consumed:
  assumes "read_number radix n z m s = Some (v, r)"
  shows "\<exists>ds. s = ds @ r \<and> ds \<noteq> [] \<and> last ds \<noteq> CHR ''.''"
proof -
  let ?ds = "takeWhile (is_digit_of radix) s"
  from assms have ne: "?ds \<noteq> []" and r: "r = drop (length ?ds) s"
    by (auto simp: read_number_def Let_def split: if_splits)
  then have s: "s = ?ds @ r" by (metis append_eq_conv_conj takeWhile_eq_take append_take_drop_id)
  have "is_digit_of radix (last ?ds)" using ne by (metis last_in_set set_takeWhileD)
  then have "last ?ds \<noteq> CHR ''.''" by (auto simp: is_digit_of_def hex_val_def)
  with ne s show ?thesis by blast
qed

lemma read_given_char_consumed:
  "read_given_char c s = Some r \<Longrightarrow> s = c # r"
  by (cases s) (auto split: if_splits)

lemma read_ipv4_consumed:
  assumes "read_ipv4_addr s = Some (a, r)"
  shows "\<exists>p. s = p @ r \<and> p \<noteq> [] \<and> last p \<noteq> CHR ''.''"
proof -
  from assms obtain as bs cs ds where
    "s = (as @ CHR ''.'' # bs @ CHR ''.'' # cs @ CHR ''.'' # ds) @ r" and "ds \<noteq> []" "last ds \<noteq> CHR ''.''"
    by (auto simp: read_ipv4_addr_def read_dot_octet_def read_octet_def bind_eq_Some_conv
        dest!: read_number_consumed read_given_char_consumed)
  then show ?thesis
    by (intro exI [of _ "as @ CHR ''.'' # bs @ CHR ''.'' # cs @ CHR ''.'' # ds"]) auto
qed

lemma read_groups_consumed: "read_groups first n s = (gs, b, r) \<Longrightarrow> consumed s r"
proof (induction n arbitrary: first s gs b r)
  case (Suc n)
  let ?body = "if first then Some s else read_given_char (CHR '':'') s"
  show ?case
  proof (cases ?body)
    case None
    with Suc.prems show ?thesis by (auto simp: Let_def split: if_splits)
  next
    case (Some t)
    then have st: "s = t \<or> s = CHR '':'' # t"
      by (auto split: if_splits dest: read_given_char_consumed)
    have step: "consumed s r'" if "t = p @ r'" "p \<noteq> []" "last p \<noteq> CHR ''.''" for p r'
      using st that by (auto simp: consumed_def intro: exI [of _ "CHR '':'' # p"])
    show ?thesis
    proof (cases "if 0 < n then read_ipv4_addr t else None")
      case (Some v4)
      with Suc.prems \<open>?body = Some t\<close> have "read_ipv4_addr t = Some (fst v4, r)"
        by (cases v4) (auto simp: Let_def split: if_splits)
      from read_ipv4_consumed [OF this] step show ?thesis by blast
    next
      case None
      show ?thesis
      proof (cases "read_number 16 4 True 65535 t")
        case None
        with Suc.prems \<open>?body = Some t\<close> \<open>(if 0 < n then read_ipv4_addr t else None) = None\<close>
        show ?thesis by (auto simp: Let_def cong: if_cong)
      next
        case (Some g)
        with Suc.prems \<open>?body = Some t\<close> \<open>(if 0 < n then read_ipv4_addr t else None) = None\<close>
        obtain gs' b' where "read_groups False n (snd g) = (gs', b', r)"
          by (auto simp: Let_def cong: if_cong split: prod.splits)
        from Suc.IH [OF this] have "consumed (snd g) r" .
        moreover have "consumed s (snd g)"
          using read_number_consumed [of 16 4 True 65535 t "fst g" "snd g"] Some step by auto
        ultimately show ?thesis by (meson consumed_trans)
      qed
    qed
  qed
qed simp

lemma read_ipv6_consumed:
  assumes "read_ipv6_addr s = Some (a, r)"
  shows "consumed s r"
proof (cases "read_groups True 8 s")
  case (fields head b t)
  from read_groups_consumed [OF this] have st: "consumed s t" .
  show ?thesis
  proof (cases "length head = 8")
    case True
    with assms fields st show ?thesis by (simp add: read_ipv6_addr_def)
  next
    case False
    with assms fields obtain t1 t2 where "read_given_char (CHR '':'') t = Some t1"
      "read_given_char (CHR '':'') t1 = Some t2"
      and v: "(case read_groups True (7 - length head) t2 of (tail, _, r) \<Rightarrow>
         Some (ipv6_new (head @ replicate (8 - length head - length tail) 0 @ tail), r)) = Some (a, r)"
      by (auto simp: read_ipv6_addr_def bind_eq_Some_conv split: if_splits)
    then have "t = CHR '':'' # t1" "t1 = CHR '':'' # t2"
      by (auto dest: read_given_char_consumed)
    moreover from v obtain tail b' where rest: "read_groups True (7 - length head) t2 = (tail, b', r)"
      by (cases "read_groups True (7 - length head) t2") auto
    ultimately have "consumed t t2" by (auto simp: consumed_def intro: exI [of _ "'':''@'':''"])
    with st read_groups_consumed [OF rest] show ?thesis by (meson consumed_trans)
  qed
qed

lemma parse_ip_addr_no_dot: "parse_ip_addr s = Some ip \<Longrightarrow> s = [] \<or> last s \<noteq> CHR ''.''"
  by (auto simp: parse_ip_addr_def consumed_def split: option.splits if_splits
      dest!: read_ipv4_consumed read_ipv6_consumed)

lemma parse_ip_addr_host_lowercase:
  "parse_ip_addr host = Some ip \<Longrightarrow> parse_ip_addr (host_lowercase host) = Some ip"
  by (simp add: host_lowercase_def to_ascii_lowercase_def parse_ip_addr_lower trim_end_matches_id
      parse_ip_addr_no_dot)

text \<open>A name that begins with no hexadecimal digit is not an address.\<close>

lemma parse_ip_addr_name:
  assumes "hex_val c = None" and "c \<noteq> CHR '':''"
  shows "parse_ip_addr (c # s) = None"
proof -
  have number: "read_number radix n z m (c # s) = None" for radix n z m
    using assms by (simp add: read_number_def is_digit_of_def)
  then have v4: "read_ipv4_addr (c # s) = None" by (simp add: read_ipv4_addr_def read_octet_def)
  have "read_groups True n (c # s) = ([], False, c # s)" for n
    using number v4 by (cases n) (simp_all add: Let_def cong: if_cong)
  with assms(2) have "read_ipv6_addr (c # s) = None" by (simp add: read_ipv6_addr_def)
  with v4 show ?thesis by (simp add: parse_ip_addr_def)
qed

subsection \<open>The contract of a URL check\<close>

text \<open>
  The addresses a request can connect to are public: those its client is pinned to, or the
  address written in its URL.
\<close>

definition public_request :: "http_request \<Rightarrow> bool" where
  "public_request rq =
     (case rq_pinned rq of
        Some addrs \<Rightarrow> addrs \<noteq> [] \<and> list_all (\<lambda>a. \<not> is_blocked (fst a)) addrs
      | None \<Rightarrow>
          (case Option.bind (u_host_str (rq_url rq)) parse_ip_addr of
             Some ip \<Rightarrow> \<not> is_blocked ip
           | None \<Rightarrow> False))"

definition requests_public :: "world \<Rightarrow> bool" where
  "requests_public w = list_all public_request (w_requests w)"

lemma requests_public_fields [simp]:
  "requests_public (w \<lparr> w_db := d \<rparr>) = requests_public w"
  "requests_public (w \<lparr> w_last_id := i \<rparr>) = requests_public w"
  "requests_public (w \<lparr> w_nano_seed := k \<rparr>) = requests_public w"
  "requests_public (w \<lparr> w_keto := t \<rparr>) = requests_public w"
  by (simp_all add: requests_public_def)

lemma send_request_run:
  "send_request fd rq w = (ok_or Rejected (http_send (fd_net fd) (w_requests w) rq),
     w \<lparr> w_requests := w_requests w @ [rq] \<rparr>)"
  by (simp add: send_request_def)

lemma requests_public_snoc [simp]:
  "requests_public (w \<lparr> w_requests := w_requests w @ [rq] \<rparr>) \<longleftrightarrow> requests_public w \<and> public_request rq"
  by (simp add: requests_public_def)

text \<open>An operation that sends at most \<open>n\<close> requests, to public addresses, and changes nothing else.\<close>

definition sends :: "nat \<Rightarrow> 'a op \<Rightarrow> bool" where
  "sends n m \<longleftrightarrow>
     (\<forall>w. \<exists>rqs. snd (m w) = w \<lparr> w_requests := w_requests w @ rqs \<rparr> \<and> length rqs \<le> n \<and>
        list_all public_request rqs)"

named_theorems sends_intros \<open>introduction rules for operations that only send requests\<close>

lemma sends_pure [sends_intros]:
  "sends n (op_return x)" "sends n (op_fail e)" "sends n (op_lift r)" "sends n (query q)"
  "sends n (try_query tq)"
  by (auto simp: sends_def intro!: exI [of _ "[]"])

lemma sends_mono: "sends n m \<Longrightarrow> n \<le> k \<Longrightarrow> sends k m"
  unfolding sends_def by (meson order_trans)

lemma sends_bind:
  assumes "sends n m" and "\<And>x. sends k (f x)"
  shows "sends (n + k) (op_bind m f)"
  unfolding sends_def
proof
  fix w
  from assms(1) obtain rqs where 1: "snd (m w) = w \<lparr> w_requests := w_requests w @ rqs \<rparr>"
    "length rqs \<le> n" "list_all public_request rqs"
    unfolding sends_def by blast
  show "\<exists>rqs. snd (op_bind m f w) = w \<lparr> w_requests := w_requests w @ rqs \<rparr> \<and>
      length rqs \<le> n + k \<and> list_all public_request rqs"
  proof (cases "fst (m w)")
    case (Inl e)
    with 1 have "snd (op_bind m f w) = w \<lparr> w_requests := w_requests w @ rqs \<rparr>"
      by (simp add: op_bind_def split: prod.splits sum.splits) auto
    with 1 show ?thesis by (intro exI [of _ rqs]) simp
  next
    case (Inr x)
    from assms(2) [of x] obtain rqs' where
      2: "snd (f x (snd (m w))) = snd (m w) \<lparr> w_requests := w_requests (snd (m w)) @ rqs' \<rparr>"
      "length rqs' \<le> k" "list_all public_request rqs'"
      unfolding sends_def by blast
    with Inr 1 have "snd (op_bind m f w) = w \<lparr> w_requests := w_requests w @ rqs @ rqs' \<rparr>"
      by (simp add: op_bind_def split: prod.splits sum.splits) auto
    with 1 2 show ?thesis by (intro exI [of _ "rqs @ rqs'"]) simp
  qed
qed

lemma sends_bind_pure:
  "sends 0 m \<Longrightarrow> (\<And>x. sends k (f x)) \<Longrightarrow> sends k (op_bind m f)"
  using sends_bind [of 0 m k f] by simp

lemma sends_if [sends_intros]: "sends n m \<Longrightarrow> sends n m' \<Longrightarrow> sends n (if b then m else m')"
  by simp

lemma op_bind_assoc: "op_bind (op_bind m f) g = op_bind m (\<lambda>x. op_bind (f x) g)"
  by (rule ext) (simp add: op_bind_def split: prod.splits sum.splits)

lemma keeps_sends: "sends n m \<Longrightarrow> keeps requests_public m"
  unfolding keeps_def
proof (intro allI impI)
  fix w assume m: "sends n m" and w: "requests_public w"
  from m obtain rqs where "snd (m w) = w \<lparr> w_requests := w_requests w @ rqs \<rparr>"
    and "list_all public_request rqs"
    unfolding sends_def by blast
  with w show "requests_public (snd (m w))" by (simp add: requests_public_def)
qed

lemma keeps_generate_id [keeps_intros]: "keeps requests_public (generate_id e)"
  by (simp add: keeps_def generate_id_def Let_def)

lemma keeps_exec_public [keeps_intros]: "keeps requests_public (exec f)"
  by (rule keeps_exec) simp

locale fetch_guard =
  fixes validate :: "federation \<Rightarrow> url \<Rightarrow> socket_addr list op"
    and client :: "federation \<Rightarrow> url \<Rightarrow> socket_addr list \<Rightarrow> socket_addr list option kresult"
  assumes validate_world: "snd (validate fd u w) = w"
    and validate_public: "validate fd u w = (Inr addrs, w') \<Longrightarrow>
          addrs \<noteq> [] \<and> list_all (\<lambda>a. \<not> is_blocked (fst a)) addrs"
    and validate_literal: "validate fd u w = (Inr addrs, w') \<Longrightarrow>
          \<exists>host. u_host_str u = Some host \<and>
            (\<forall>ip. parse_ip_addr host = Some ip \<longrightarrow> (\<exists>port. addrs = [(ip, port)]))"
    and client_pins: "client fd u addrs = Inr p \<Longrightarrow> p = pinned_addresses u addrs"
begin

lemma validated_request:
  assumes "validate fd u w = (Inr addrs, w')" and "client fd u addrs = Inr p"
    and "rq_url rq = u" and "rq_pinned rq = p"
  shows "public_request rq"
proof -
  from validate_literal [OF assms(1)] obtain host where host: "u_host_str u = Some host"
    and lit: "\<And>ip. parse_ip_addr host = Some ip \<Longrightarrow> \<exists>port. addrs = [(ip, port)]"
    by blast
  from validate_public [OF assms(1)] client_pins [OF assms(2)] assms(3,4) host lit
  show ?thesis
    by (cases "parse_ip_addr host") (auto simp: public_request_def pinned_addresses_def)
qed

lemma keeps_validated:
  assumes "\<And>w addrs p. P w \<Longrightarrow> validate fd u w = (Inr addrs, w) \<Longrightarrow>
      client fd u addrs = Inr p \<Longrightarrow> P (snd (f addrs p w))"
  shows "keeps P (op_bind (validate fd u) (\<lambda>addrs. op_bind (op_lift (client fd u addrs)) (f addrs)))"
  unfolding keeps_def
proof (intro allI impI)
  fix w assume "P w"
  show "P (snd (op_bind (validate fd u) (\<lambda>addrs. op_bind (op_lift (client fd u addrs)) (f addrs)) w))"
  proof (cases "validate fd u w")
    case (Pair r w')
    with validate_world [of fd u w] have "w' = w" by simp
    with Pair \<open>P w\<close> assms show ?thesis
      by (cases r) (auto simp: op_bind_def split: sum.splits)
  qed
qed

text \<open>A request sent after the check, whatever follows it.\<close>

lemma sends_guarded:
  assumes "\<And>p. rq_url (mk p) = u" and "\<And>p. rq_pinned (mk p) = p"
  shows "sends 1 (op_bind (validate fd u) (\<lambda>addrs.
     op_bind (op_lift (client fd u addrs)) (\<lambda>p. send_request fd (mk p))))"
  unfolding sends_def
proof
  fix w
  let ?m = "op_bind (validate fd u) (\<lambda>addrs.
     op_bind (op_lift (client fd u addrs)) (\<lambda>p. send_request fd (mk p)))"
  obtain r where v: "validate fd u w = (r, w)"
    using validate_world [of fd u w] by (cases "validate fd u w") auto
  show "\<exists>rqs. snd (?m w) = w \<lparr> w_requests := w_requests w @ rqs \<rparr> \<and> length rqs \<le> 1 \<and>
      list_all public_request rqs"
  proof (cases "\<exists>addrs p. r = Inr addrs \<and> client fd u addrs = Inr p")
    case True
    then obtain addrs p where r: "r = Inr addrs" and p: "client fd u addrs = Inr p" by blast
    with v have "public_request (mk p)" using validated_request assms by blast
    moreover from v r p have "snd (?m w) = w \<lparr> w_requests := w_requests w @ [mk p] \<rparr>"
      by (simp add: op_bind_def send_request_run)
    ultimately show ?thesis by (intro exI [of _ "[mk p]"]) simp
  next
    case False
    with v have "snd (?m w) = w" by (cases r) (auto simp: op_bind_def split: sum.splits)
    then show ?thesis by (intro exI [of _ "[]"]) simp
  qed
qed

lemma sends_guarded_then:
  assumes "\<And>p. rq_url (mk p) = u" and "\<And>p. rq_pinned (mk p) = p" and "\<And>r. sends n (f r)"
  shows "sends (Suc n) (op_bind (validate fd u) (\<lambda>addrs.
     op_bind (op_lift (client fd u addrs)) (\<lambda>p. op_bind (send_request fd (mk p)) f)))"
  using sends_bind [OF sends_guarded [of mk u fd, OF assms(1,2)], of n f] assms(3)
  by (simp add: op_bind_assoc)

end

lemma resolve_public_Inr:
  "resolve_public fd host port w = (Inr addrs, w') \<longleftrightarrow>
     w' = w \<and> lookup_host (fd_net fd) (w_requests w) host port = Some addrs \<and> addrs \<noteq> [] \<and>
     list_all (\<lambda>a. \<not> is_blocked (fst a)) addrs"
proof -
  have "(\<exists>us. res_collect (map (\<lambda>a. validate_public_ip (fst a)) as) = Inr us) \<longleftrightarrow>
      list_all (\<lambda>a. \<not> is_blocked (fst a)) as" for as :: "socket_addr list"
    by (induction as) (auto simp: validate_public_ip_def result_iffs)
  then show ?thesis by (auto simp: resolve_public_def result_iffs)
qed

lemma resolve_public_world [simp]: "snd (resolve_public fd host port w) = w"
  by (simp add: resolve_public_def)

text \<open>The two checks of the program keep the contract.\<close>

lemma validate_fetch_url_Inr:
  assumes "validate_fetch_url fd u w = (Inr addrs, w')"
  shows "w' = w \<and> addrs \<noteq> [] \<and> list_all (\<lambda>a. \<not> is_blocked (fst a)) addrs \<and>
     (\<exists>host. u_host_str u = Some host \<and>
        (\<forall>ip. parse_ip_addr host = Some ip \<longrightarrow> (\<exists>port. addrs = [(ip, port)])))"
  using assms parse_ip_addr_host_lowercase
  by (fastforce simp: validate_fetch_url_def op_iffs result_iffs Let_def validate_public_ip_def
      resolve_public_Inr split: option.splits if_splits)

lemma key_validate_fetch_url_Inr:
  assumes "key_validate_fetch_url fd u w = (Inr addrs, w')"
  shows "w' = w \<and> addrs \<noteq> [] \<and> list_all (\<lambda>a. \<not> is_blocked (fst a)) addrs \<and>
     (\<exists>host. u_host_str u = Some host \<and>
        (\<forall>ip. parse_ip_addr host = Some ip \<longrightarrow> (\<exists>port. addrs = [(ip, port)])))"
  using assms parse_ip_addr_host_lowercase
  by (fastforce simp: key_validate_fetch_url_def op_iffs result_iffs Let_def validate_public_ip_def
      resolve_public_Inr split: option.splits if_splits)

lemma validate_fetch_url_world: "snd (validate_fetch_url fd u w) = w"
  by (auto simp: validate_fetch_url_def op_bind_def Let_def split: sum.splits option.splits prod.splits)

lemma key_validate_fetch_url_world: "snd (key_validate_fetch_url fd u w) = w"
  by (auto simp: key_validate_fetch_url_def op_bind_def Let_def split: sum.splits option.splits prod.splits)

interpretation app_guard: fetch_guard validate_fetch_url client_for_url
proof unfold_locales
  fix fd u w
  show "snd (validate_fetch_url fd u w) = w" by (rule validate_fetch_url_world)
qed (use validate_fetch_url_Inr in \<open>auto simp: client_for_url_def split: if_splits\<close>)

interpretation key_guard: fetch_guard key_validate_fetch_url key_client_for_url
proof unfold_locales
  fix fd u w
  show "snd (key_validate_fetch_url fd u w) = w" by (rule key_validate_fetch_url_world)
qed (use key_validate_fetch_url_Inr in \<open>auto simp: key_client_for_url_def split: option.splits if_splits\<close>)

end
