(* ===== verification/Crypto_Drivers.thy ===== *)
theory Crypto_Drivers
  imports Crypto Network
begin

text \<open>
  The cryptographic drivers of \<open>driver/src/crypto\<close>: key generation, signing and verification
  with RSA and Ed25519, sealing of private keys with Argon2id and AES-256-GCM, and the master
  password file. The primitives of the \<open>rsa\<close>, \<open>ed25519_dalek\<close>, \<open>argon2\<close> and \<open>aes_gcm\<close>
  crates, the random source and the file system are fields of the record \<open>crypto_crates\<close>;
  \<open>None\<close> is an error they return. Put together, the drivers give the \<open>crypto\<close> interface the
  services use, and they keep its contract.
\<close>

unbundle bit_operations_syntax

datatype io_error = FileNotFound | OtherIoError

text \<open>A signature scheme: key generation from a seed, PEM encoding, signing and verification.\<close>

record signature_crate =
  new_key :: "nat \<Rightarrow> string option"
  public_of :: "string \<Rightarrow> string"
  to_private_pem :: "string \<Rightarrow> string option"
  to_public_pem :: "string \<Rightarrow> string option"
  from_private_pem :: "string \<Rightarrow> string option"
  from_public_pem :: "string \<Rightarrow> string option"
  sign_bytes :: "string \<Rightarrow> string \<Rightarrow> string"
  signature_well_formed :: "string \<Rightarrow> bool"
  verify_bytes :: "string \<Rightarrow> string \<Rightarrow> string \<Rightarrow> bool"

record crypto_crates =
  rsa_crate :: signature_crate
  ed25519_crate :: signature_crate
  fill_bytes :: "nat \<Rightarrow> nat \<Rightarrow> nat \<Rightarrow> string"
  argon2_hash :: "nat \<Rightarrow> nat \<Rightarrow> nat \<Rightarrow> string \<Rightarrow> string \<Rightarrow> string option"
  aes_encrypt :: "string \<Rightarrow> string \<Rightarrow> string \<Rightarrow> string option"
  aes_decrypt :: "string \<Rightarrow> string \<Rightarrow> string \<Rightarrow> string option"
  file_read :: "string \<Rightarrow> io_error + string"
  file_mode :: "string \<Rightarrow> 32 word option"

subsection \<open>UTF-8\<close>

definition continuation :: "nat \<Rightarrow> nat \<Rightarrow> char \<Rightarrow> bool" where
  "continuation lo hi c \<longleftrightarrow> lo \<le> byte_val c \<and> byte_val c \<le> hi"

text \<open>\<open>std::str::from_utf8\<close> accepts exactly the well-formed byte sequences.\<close>

fun utf8_valid :: "string \<Rightarrow> bool" where
  "utf8_valid [] = True"
| "utf8_valid (b # bs) =
    (let n = byte_val b in
     if n < 128 then utf8_valid bs
     else if n < 194 then False
     else if n < 224 then
       (case bs of c1 # rest \<Rightarrow> continuation 128 191 c1 \<and> utf8_valid rest | _ \<Rightarrow> False)
     else if n < 240 then
       (case bs of c1 # c2 # rest \<Rightarrow>
          continuation (if n = 224 then 160 else 128) (if n = 237 then 159 else 191) c1 \<and>
          continuation 128 191 c2 \<and> utf8_valid rest
        | _ \<Rightarrow> False)
     else if n < 245 then
       (case bs of c1 # c2 # c3 # rest \<Rightarrow>
          continuation (if n = 240 then 144 else 128) (if n = 244 then 143 else 191) c1 \<and>
          continuation 128 191 c2 \<and> continuation 128 191 c3 \<and> utf8_valid rest
        | _ \<Rightarrow> False)
     else False)"

definition from_utf8 :: "string \<Rightarrow> string kresult" where
  "from_utf8 bytes = (if utf8_valid bytes then Inr bytes else Inl Internal)"

subsection \<open>Keys and signatures\<close>

text \<open>RSA and Ed25519 differ in the crate and the algorithm tag only.\<close>

definition raw_generator :: "signature_crate \<Rightarrow> signing_algorithm \<Rightarrow> nat \<Rightarrow> raw_key_pair kresult" where
  "raw_generator c algorithm seed =
     res_bind (ok_or Internal (new_key c seed)) (\<lambda>private_key.
     res_bind (ok_or Internal (to_private_pem c private_key)) (\<lambda>private_key_pem.
     res_bind (ok_or Internal (to_public_pem c (public_of c private_key))) (\<lambda>public_key_pem.
     Inr \<lparr> rk_public_key_pem = public_key_pem, rk_private_key_pem = private_key_pem,
           rk_algorithm = algorithm \<rparr>)))"

definition rsa2048_generate_raw :: "crypto_crates \<Rightarrow> nat \<Rightarrow> raw_key_pair kresult" where
  "rsa2048_generate_raw c = raw_generator (rsa_crate c) Rsa2048"

definition ed25519_generate_raw :: "crypto_crates \<Rightarrow> nat \<Rightarrow> raw_key_pair kresult" where
  "ed25519_generate_raw c = raw_generator (ed25519_crate c) Ed25519"

definition crate_sign :: "signature_crate \<Rightarrow> string \<Rightarrow> string \<Rightarrow> string kresult" where
  "crate_sign c data private_key_pem =
     res_bind (from_utf8 private_key_pem) (\<lambda>pem_str.
     res_bind (ok_or Internal (from_private_pem c pem_str)) (\<lambda>private_key.
     Inr (sign_bytes c private_key data)))"

definition crate_verify :: "signature_crate \<Rightarrow> string \<Rightarrow> string \<Rightarrow> string \<Rightarrow> bool kresult" where
  "crate_verify c data signature public_key_pem =
     res_bind (from_utf8 public_key_pem) (\<lambda>pem_str.
     res_bind (ok_or Internal (from_public_pem c pem_str)) (\<lambda>public_key.
     res_bind (ensure (signature_well_formed c signature) Internal) (\<lambda>_.
     Inr (verify_bytes c public_key data signature))))"

definition rsa2048_sign :: "crypto_crates \<Rightarrow> string \<Rightarrow> string \<Rightarrow> string kresult" where
  "rsa2048_sign c = crate_sign (rsa_crate c)"

definition rsa2048_verify :: "crypto_crates \<Rightarrow> string \<Rightarrow> string \<Rightarrow> string \<Rightarrow> bool kresult" where
  "rsa2048_verify c = crate_verify (rsa_crate c)"

definition ed25519_sign :: "crypto_crates \<Rightarrow> string \<Rightarrow> string \<Rightarrow> string kresult" where
  "ed25519_sign c = crate_sign (ed25519_crate c)"

definition ed25519_verify :: "crypto_crates \<Rightarrow> string \<Rightarrow> string \<Rightarrow> string \<Rightarrow> bool kresult" where
  "ed25519_verify c = crate_verify (ed25519_crate c)"

subsection \<open>Sealing\<close>

record argon2_params =
  memory_cost :: nat
  time_cost :: nat
  parallelism :: nat

definition argon2_params_default :: argon2_params where
  "argon2_params_default = \<lparr> memory_cost = 65536, time_cost = 3, parallelism = 4 \<rparr>"

definition derive_key :: "crypto_crates \<Rightarrow> argon2_params \<Rightarrow> string \<Rightarrow> string \<Rightarrow> string kresult" where
  "derive_key c p password salt =
     ok_or Internal (argon2_hash c (memory_cost p) (time_cost p) (parallelism p) password salt)"

definition argon2_encrypt ::
  "crypto_crates \<Rightarrow> network \<Rightarrow> argon2_params \<Rightarrow> nat \<Rightarrow> string \<Rightarrow> string \<Rightarrow> signing_algorithm \<Rightarrow>
   encrypted_private_key kresult" where
  "argon2_encrypt c n p seed private_key_pem password algorithm =
     (let salt = fill_bytes c seed 0 16 in
      res_bind (derive_key c p password salt) (\<lambda>derived_key.
      let nonce_bytes = fill_bytes c seed 1 12 in
      res_bind (ok_or Internal (aes_encrypt c derived_key nonce_bytes private_key_pem)) (\<lambda>ciphertext.
      Inr \<lparr> ep_ciphertext = base64_encode n ciphertext, ep_nonce = base64_encode n nonce_bytes,
            ep_salt = base64_encode n salt, ep_algorithm = algorithm \<rparr>)))"

text \<open>\<open>Nonce::from_slice\<close> panics unless it is given twelve bytes; \<open>None\<close> is that panic.\<close>

definition argon2_decrypt ::
  "crypto_crates \<Rightarrow> network \<Rightarrow> argon2_params \<Rightarrow> encrypted_private_key \<Rightarrow> string \<Rightarrow> string kresult option" where
  "argon2_decrypt c n p encrypted password =
     (case res_bind (ok_or Internal (base64_decode n (ep_salt encrypted))) (\<lambda>salt.
           res_bind (ok_or Internal (base64_decode n (ep_nonce encrypted))) (\<lambda>nonce_bytes.
           res_bind (ok_or Internal (base64_decode n (ep_ciphertext encrypted))) (\<lambda>ciphertext.
           res_bind (derive_key c p password salt) (\<lambda>derived_key.
           Inr (nonce_bytes, ciphertext, derived_key))))) of
        Inl e \<Rightarrow> Some (Inl e)
      | Inr (nonce_bytes, ciphertext, derived_key) \<Rightarrow>
          if length nonce_bytes \<noteq> 12 then None
          else Some (ok_or Internal (aes_decrypt c derived_key nonce_bytes ciphertext)))"

subsection \<open>The master password\<close>

definition validate_file_permissions :: "crypto_crates \<Rightarrow> string \<Rightarrow> unit kresult" where
  "validate_file_permissions c path =
     res_bind (ok_or Internal (file_mode c path)) (\<lambda>mode.
     if mode AND 0x3f \<noteq> 0 then Inl Internal else Inr ())"

record file_password_provider =
  secrets_path :: string
  fallback_path :: string

definition file_password_provider_new :: file_password_provider where
  "file_password_provider_new =
     \<lparr> secrets_path = ''/run/secrets/master-key-password'', fallback_path = ''./master-key-password'' \<rparr>"

fun read_password :: "crypto_crates \<Rightarrow> string list \<Rightarrow> string kresult" where
  "read_password c [] = Inl Internal"
| "read_password c (path # paths) =
     (case file_read c path of
        Inr password \<Rightarrow>
          res_bind (validate_file_permissions c path) (\<lambda>_.
          if password = [] then Inl Internal else Inr password)
      | Inl FileNotFound \<Rightarrow> read_password c paths
      | Inl OtherIoError \<Rightarrow> Inl Internal)"

definition file_get_password :: "crypto_crates \<Rightarrow> file_password_provider \<Rightarrow> string kresult" where
  "file_get_password c p = read_password c [secrets_path p, fallback_path p]"

text \<open>The interface the services get: a panic ends the request like an error.\<close>

definition driver_crypto :: "crypto_crates \<Rightarrow> network \<Rightarrow> crypto" where
  "driver_crypto c n =
     \<lparr> get_password = file_get_password c file_password_provider_new,
       generate_raw = rsa2048_generate_raw c,
       encrypt_key = argon2_encrypt c n argon2_params_default,
       decrypt_key = (\<lambda>k password.
         case argon2_decrypt c n argon2_params_default k password of
           Some r \<Rightarrow> r | None \<Rightarrow> Inl Internal) \<rparr>"

subsection \<open>The contract\<close>

text \<open>
  What the crates promise: AES-GCM opens what it sealed, the random source fills the buffer it is
  given, a signature verifies under the matching public key, and PEM documents are read back.
\<close>

definition sealing_crates :: "crypto_crates \<Rightarrow> bool" where
  "sealing_crates c \<longleftrightarrow>
     (\<forall>key nonce pem sealed. aes_encrypt c key nonce pem = Some sealed \<longrightarrow>
        aes_decrypt c key nonce sealed = Some pem) \<and>
     (\<forall>seed i n. length (fill_bytes c seed i n) = n)"

definition signature_crate_ok :: "signature_crate \<Rightarrow> bool" where
  "signature_crate_ok c \<longleftrightarrow>
     (\<forall>key pem. to_private_pem c key = Some pem \<longrightarrow> utf8_valid pem \<and> from_private_pem c pem = Some key) \<and>
     (\<forall>key pem. to_public_pem c key = Some pem \<longrightarrow> utf8_valid pem \<and> from_public_pem c pem = Some key) \<and>
     (\<forall>key data. signature_well_formed c (sign_bytes c key data) \<and>
        verify_bytes c (public_of c key) data (sign_bytes c key data))"

lemma argon2_decrypt_encrypt:
  assumes "sealing_crates c" and "base64_crate n"
    and "argon2_encrypt c n p seed pem password alg = Inr sealed"
  shows "argon2_decrypt c n p sealed password = Some (Inr pem)"
proof -
  from assms(3) obtain key ct where k: "derive_key c p password (fill_bytes c seed 0 16) = Inr key"
    and ct: "aes_encrypt c key (fill_bytes c seed 1 12) pem = Some ct"
    and sealed: "sealed = \<lparr> ep_ciphertext = base64_encode n ct,
        ep_nonce = base64_encode n (fill_bytes c seed 1 12),
        ep_salt = base64_encode n (fill_bytes c seed 0 16), ep_algorithm = alg \<rparr>"
    by (auto simp: argon2_encrypt_def Let_def result_iffs)
  from assms(2) have "base64_decode n (base64_encode n s) = Some s" for s
    by (simp add: base64_crate_def)
  with k ct sealed assms(1) show ?thesis
    by (simp add: argon2_decrypt_def sealing_crates_def)
qed

lemma generated_key_signs:
  assumes "signature_crate_ok c" and "raw_generator c alg seed = Inr pair"
  shows "\<exists>sig. crate_sign c data (rk_private_key_pem pair) = Inr sig \<and>
           crate_verify c data sig (rk_public_key_pem pair) = Inr True"
  using assms
  by (auto simp: raw_generator_def result_iffs signature_crate_ok_def crate_sign_def crate_verify_def
      from_utf8_def)

text \<open>The password is read from the first file that exists, if only its owner may access it.\<close>

lemma file_get_password_Inr:
  "file_get_password c p = Inr password \<longleftrightarrow>
     password \<noteq> [] \<and>
     (\<exists>path. file_read c path = Inr password \<and> validate_file_permissions c path = Inr () \<and>
        (path = secrets_path p \<or>
         path = fallback_path p \<and> file_read c (secrets_path p) = Inl FileNotFound))"
  by (auto simp: file_get_password_def result_iffs split: sum.splits io_error.splits if_splits)

lemma key_encryptor_driver: "sealing_crates c \<Longrightarrow> base64_crate n \<Longrightarrow> key_encryptor (driver_crypto c n)"
  by (auto simp: key_encryptor_def driver_crypto_def argon2_decrypt_encrypt)

text \<open>Primitives for examples: a key is its own PEM form, a signature is the key and the data.\<close>

definition toy_signatures :: signature_crate where
  "toy_signatures =
     \<lparr> new_key = (\<lambda>n. Some (nat_to_string n)), public_of = (\<lambda>k. k), to_private_pem = Some,
       to_public_pem = Some, from_private_pem = Some, from_public_pem = Some,
       sign_bytes = (\<lambda>k d. k @ d), signature_well_formed = (\<lambda>_. True),
       verify_bytes = (\<lambda>k d s. s = k @ d) \<rparr>"

text \<open>The toy PEM reader takes any text; the printer refuses what is not UTF-8.\<close>

definition toy_rsa :: signature_crate where
  "toy_rsa = toy_signatures
     \<lparr> to_private_pem := (\<lambda>k. if utf8_valid k then Some k else None),
       to_public_pem := (\<lambda>k. if utf8_valid k then Some k else None) \<rparr>"

definition toy_crates :: crypto_crates where
  "toy_crates =
     \<lparr> rsa_crate = toy_rsa, ed25519_crate = toy_rsa,
       fill_bytes = (\<lambda>_ _ n. replicate n (CHR ''0'')),
       argon2_hash = (\<lambda>_ _ _ password salt. Some password),
       aes_encrypt = (\<lambda>key nonce pem. Some (key @ pem)),
       aes_decrypt = (\<lambda>key nonce sealed. strip_prefix key sealed),
       file_read = (\<lambda>_. Inr ''master''), file_mode = (\<lambda>_. Some 0x180) \<rparr>"

lemma toy_crates_ok [simp]: "sealing_crates toy_crates" "signature_crate_ok (rsa_crate toy_crates)"
  "signature_crate_ok (ed25519_crate toy_crates)"
  by (auto simp: toy_crates_def sealing_crates_def signature_crate_ok_def toy_rsa_def toy_signatures_def
      split: if_splits)

text \<open>C39. 
  A signing key that was generated and sealed opens again under the password, and what the opened
  key signs verifies under the public key stored with it.
\<close>

theorem sealed_key_signs:
  assumes "sealing_crates c" and "signature_crate_ok (rsa_crate c)" and "base64_crate n"
    and "signing_key_generator_generate (driver_crypto c n) seed password = Inr pair"
  shows "\<exists>pem sig. decrypt_key (driver_crypto c n) (gk_encrypted_private_key pair) password = Inr pem \<and>
           rsa2048_sign c data pem = Inr sig \<and>
           rsa2048_verify c data sig (gk_public_key_pem pair) = Inr True"
proof -
  from generated_key_opens [OF key_encryptor_driver [OF assms(1,3)] assms(4)] obtain raw where
    raw: "rsa2048_generate_raw c seed = Inr raw"
    and pub: "gk_public_key_pem pair = rk_public_key_pem raw"
    and opens: "decrypt_key (driver_crypto c n) (gk_encrypted_private_key pair) password
        = Inr (rk_private_key_pem raw)"
    by (auto simp: driver_crypto_def)
  from generated_key_signs [OF assms(2) raw [unfolded rsa2048_generate_raw_def]] pub opens
  show ?thesis by (auto simp: rsa2048_sign_def rsa2048_verify_def)
qed

theorem sealed_key_signs_witness:
  "\<exists>pair pem sig. signing_key_generator_generate (driver_crypto toy_crates (table_net [] [])) 7 ''pw'' = Inr pair \<and>
     decrypt_key (driver_crypto toy_crates (table_net [] [])) (gk_encrypted_private_key pair) ''pw'' = Inr pem \<and>
     rsa2048_sign toy_crates ''data'' pem = Inr sig \<and>
     rsa2048_verify toy_crates ''data'' sig (gk_public_key_pem pair) = Inr True"
proof -
  have seven: "utf8_valid (nat_to_string 7)" by (subst nat_to_string.simps) simp
  obtain pair where pair:
    "signing_key_generator_generate (driver_crypto toy_crates (table_net [] [])) 7 ''pw'' = Inr pair"
    by (simp add: signing_key_generator_generate_def driver_crypto_def rsa2048_generate_raw_def
        raw_generator_def argon2_encrypt_def derive_key_def toy_crates_def toy_rsa_def
        toy_signatures_def Let_def seven)
  with sealed_key_signs [of toy_crates "table_net [] []" 7 "''pw''" pair "''data''"] show ?thesis by auto
qed

end
