(* ===== verification/Http_Signatures.thy ===== *)
theory Http_Signatures
  imports Ssrf Crypto_Drivers
begin

text \<open>
  HTTP signatures as \<open>driver/src/http_signing\<close> makes and checks them: the parser of the
  \<open>Signature\<close> header (\<open>cavage/parser.rs\<close>), the checks on signed headers, date and digest and
  the signing string (\<open>cavage/mod.rs\<close>), the public key in an actor document
  (\<open>actor_key.rs\<close>), fetching it with at most five redirects and one mebibyte
  (\<open>fetch.rs\<close>), the verifier and the signer. A header map is the list of its entries in the
  order in which it is enumerated. The messages of the verifier are reduced to the word they
  begin with. In the build without \<open>test-mode\<close> the tables of injected keys are empty.
\<close>

subsection \<open>Data\<close>

record http_signing_request =
  sr_method :: string
  sr_url :: string
  sr_headers :: "(string \<times> string) list"
  sr_body :: "string option"

record http_signing_response =
  cavage_headers :: "(string \<times> string) list"
  rfc9421_headers :: "(string \<times> string) list"

type_synonym http_signature_verification_input = http_signing_request

record actor_public_key =
  apk_id :: string
  apk_owner :: string
  apk_public_key_pem :: string

datatype invalid_reason =
    Rfc9421NotImplemented | MissingSignature | MalformedSignature | StaleDate | DigestMismatch
  | KeyFetchFailed | InvalidSignature

datatype signature_verification_result = Valid string | Invalid invalid_reason

record cavage_signature =
  cs_key_id :: string
  cs_algorithm :: string
  cs_headers :: "string list"
  cs_signature :: string

subsection \<open>Parsing the header\<close>

abbreviation quote :: char where "quote \<equiv> CHR 0x22"
abbreviation backslash :: char where "backslash \<equiv> CHR 0x5C"

definition push_param :: "string \<Rightarrow> string list \<Rightarrow> string list" where
  "push_param current params =
     (if trim_text current = [] then params else params @ [trim_text current])"

text \<open>The state of the loop: the parameters found, the current one, and the two flags.\<close>

fun split_params :: "string list \<Rightarrow> string \<Rightarrow> bool \<Rightarrow> bool \<Rightarrow> string \<Rightarrow> string list option" where
  "split_params params current in_quotes escaped [] =
     (if in_quotes then None else Some (push_param current params))"
| "split_params params current in_quotes escaped (ch # rest) =
     (if escaped then split_params params (current @ [ch]) in_quotes False rest
      else if ch = backslash \<and> in_quotes then split_params params (current @ [ch]) in_quotes True rest
      else if ch = quote then split_params params (current @ [ch]) (\<not> in_quotes) False rest
      else if ch = CHR '','' \<and> \<not> in_quotes then split_params (push_param current params) [] False False rest
      else split_params params (current @ [ch]) in_quotes False rest)"

definition split_signature_params :: "string \<Rightarrow> string list option" where
  "split_signature_params header =
     Option.bind (split_params [] [] False False header) (\<lambda>params.
     if params = [] then None else Some params)"

fun unescape :: "string \<Rightarrow> bool \<Rightarrow> string \<Rightarrow> string option" where
  "unescape output escaped [] = (if escaped then None else Some output)"
| "unescape output escaped (ch # rest) =
     (if escaped then unescape (output @ [ch]) False rest
      else if ch = backslash then unescape output True rest
      else unescape (output @ [ch]) False rest)"

definition parse_quoted_value :: "string \<Rightarrow> string option" where
  "parse_quoted_value value =
     (if \<not> ends_with [quote] value \<or> length value < 2 then None
      else unescape [] False (butlast (tl value)))"

definition parse_signature_param :: "string \<Rightarrow> (string \<times> string) option" where
  "parse_signature_param part =
     Option.bind (split_once (CHR ''='') part) (\<lambda>(name, value).
     let name = trim_text name; value = trim_text value in
     if name = [] then None
     else map_option (Pair name)
       (if starts_with [quote] value then parse_quoted_value value else Some value))"

fun collect_params :: "(string \<times> string) list \<Rightarrow> string list \<Rightarrow> (string \<times> string) list option" where
  "collect_params params [] = Some params"
| "collect_params params (part # parts) =
     Option.bind (parse_signature_param part) (\<lambda>(name, value).
     let name = to_ascii_lowercase name in
     if map_of params name \<noteq> None then None
     else collect_params ((name, value) # params) parts)"

definition signed_headers_of :: "string option \<Rightarrow> string list" where
  "signed_headers_of value =
     (case map_option (\<lambda>v. map to_ascii_lowercase (split_whitespace v)) value of
        Some (h # hs) \<Rightarrow> h # hs
      | _ \<Rightarrow> [''date''])"

definition parse_cavage_signature :: "network \<Rightarrow> string \<Rightarrow> cavage_signature option" where
  "parse_cavage_signature n header =
     Option.bind (split_signature_params header) (\<lambda>parts.
     Option.bind (collect_params [] parts) (\<lambda>params.
     Option.bind (map_of params ''keyid'') (\<lambda>key_id.
     Option.bind (map_of params ''signature'') (\<lambda>signature.
     Option.bind (base64_decode n signature) (\<lambda>signature.
     Some \<lparr> cs_key_id = key_id,
            cs_algorithm = (case map_of params ''algorithm'' of None \<Rightarrow> ''rsa-sha256'' | Some a \<Rightarrow> a),
            cs_headers = signed_headers_of (map_of params ''headers''),
            cs_signature = signature \<rparr>)))))"

subsection \<open>Checks\<close>

definition get_header :: "(string \<times> string) list \<Rightarrow> string \<Rightarrow> string option" where
  "get_header headers name =
     map_option snd (List.find (\<lambda>(key, _). eq_ignore_ascii_case key name) headers)"

fun join_lines :: "string list \<Rightarrow> string" where
  "join_lines [] = []"
| "join_lines [l] = l"
| "join_lines (l # ls) = l @ CHR 0x0A # join_lines ls"

definition signing_line :: "http_signature_verification_input \<Rightarrow> string \<Rightarrow> string \<Rightarrow> string option" where
  "signing_line request path_and_query header =
     (if header = ''(request-target)'' then
        Some (''(request-target): '' @ to_ascii_lowercase (sr_method request) @ '' '' @ path_and_query)
      else map_option (\<lambda>value. to_ascii_lowercase header @ '': '' @ value)
        (get_header (sr_headers request) header))"

definition cavage_signing_string ::
  "network \<Rightarrow> http_signature_verification_input \<Rightarrow> string list \<Rightarrow> string option" where
  "cavage_signing_string n request headers =
     Option.bind (url_parse n (sr_url request)) (\<lambda>u.
     let path_and_query = (case u_query u of Some q \<Rightarrow> u_path u @ ''?'' @ q | None \<Rightarrow> u_path u)
     in map_option join_lines (those (map (signing_line request path_and_query) headers)))"

definition verify_cavage_signature ::
  "crypto_crates \<Rightarrow> string \<Rightarrow> string \<Rightarrow> string \<Rightarrow> string \<Rightarrow> invalid_reason + bool" where
  "verify_cavage_signature c signing_string signature public_key_pem algorithm =
     (let algorithm = to_ascii_lowercase algorithm;
          ed25519 = (case ed25519_verify c signing_string signature public_key_pem of
                       Inr b \<Rightarrow> Inr b | Inl _ \<Rightarrow> Inl InvalidSignature)
      in if algorithm = ''ed25519'' \<or> algorithm = ''ed25519-sha256'' then ed25519
         else if algorithm = ''rsa-sha256'' \<or> algorithm = ''hs2019'' then
           (case rsa2048_verify c signing_string signature public_key_pem of
              Inr valid \<Rightarrow> Inr valid
            | Inl _ \<Rightarrow> if algorithm = ''hs2019'' then ed25519 else Inl InvalidSignature)
         else Inl MalformedSignature)"

definition DATE_TOLERANCE :: int where
  "DATE_TOLERANCE = 5 * 60 * 1000000000"

definition validate_date_header ::
  "network \<Rightarrow> env \<Rightarrow> http_signature_verification_input \<Rightarrow> invalid_reason + unit" where
  "validate_date_header n e request =
     res_bind (ok_or StaleDate (get_header (sr_headers request) ''date'')) (\<lambda>date.
     res_bind (ok_or StaleDate (parse_http_date n date)) (\<lambda>parsed.
     let now = now_utc e in
     if parsed > now then (if parsed - now > DATE_TOLERANCE then Inl StaleDate else Inr ())
     else (if now - parsed > DATE_TOLERANCE then Inl StaleDate else Inr ())))"

definition has_body :: "http_signature_verification_input \<Rightarrow> bool" where
  "has_body request = (case sr_body request of Some body \<Rightarrow> body \<noteq> [] | None \<Rightarrow> False)"

definition body_bytes :: "http_signature_verification_input \<Rightarrow> string" where
  "body_bytes request = (case sr_body request of Some body \<Rightarrow> body | None \<Rightarrow> [])"

definition sha256_part :: "string \<Rightarrow> string option" where
  "sha256_part part =
     Option.bind (split_once (CHR ''='') (trim_text part)) (\<lambda>(name, value).
     if eq_ignore_ascii_case name ''sha-256'' then Some (trim_text value) else None)"

fun first_some :: "('a \<Rightarrow> 'b option) \<Rightarrow> 'a list \<Rightarrow> 'b option" where
  "first_some f [] = None"
| "first_some f (x # xs) = (case f x of Some y \<Rightarrow> Some y | None \<Rightarrow> first_some f xs)"

definition validate_digest_header ::
  "network \<Rightarrow> http_signature_verification_input \<Rightarrow> invalid_reason + unit" where
  "validate_digest_header n request =
     (case get_header (sr_headers request) ''digest'' of
        None \<Rightarrow> if has_body request then Inl DigestMismatch else Inr ()
      | Some digest_header \<Rightarrow>
          res_bind (ok_or DigestMismatch (first_some sha256_part (split_on (CHR '','') digest_header))) (\<lambda>expected.
          res_bind (ok_or DigestMismatch (base64_decode n expected)) (\<lambda>expected.
          if expected = sha256 n (body_bytes request) then Inr () else Inl DigestMismatch)))"

definition validate_required_signed_headers ::
  "http_signature_verification_input \<Rightarrow> string list \<Rightarrow> invalid_reason + unit" where
  "validate_required_signed_headers request signed_headers =
     (if \<not> list_all (\<lambda>required. required \<in> set signed_headers) [''(request-target)'', ''host'', ''date''] then
        Inl MalformedSignature
      else if (has_body request \<or> get_header (sr_headers request) ''digest'' \<noteq> None) \<and>
              ''digest'' \<notin> set signed_headers then Inl MalformedSignature
      else Inr ())"

subsection \<open>The key in an actor document\<close>

definition key_value_matches_key_id :: "string \<Rightarrow> json \<Rightarrow> bool" where
  "key_value_matches_key_id key_id value = (json_get_str ''id'' value = Some key_id)"

definition public_key_value_to_actor_key ::
  "string \<Rightarrow> json \<Rightarrow> json option \<Rightarrow> actor_public_key option" where
  "public_key_value_to_actor_key key_id value owner_fallback =
     Option.bind (json_get_str ''publicKeyPem'' value) (\<lambda>public_key_pem.
     Some \<lparr> apk_id = (case json_get_str ''id'' value of Some i \<Rightarrow> i | None \<Rightarrow> key_id),
            apk_owner =
              (case Option.bind (case json_get ''owner'' value of Some v \<Rightarrow> Some v | None \<Rightarrow> owner_fallback)
                  json_as_str of
                 Some owner \<Rightarrow> owner | None \<Rightarrow> []),
            apk_public_key_pem = public_key_pem \<rparr>)"

definition actor_public_key_from_json :: "string \<Rightarrow> json \<Rightarrow> actor_public_key option" where
  "actor_public_key_from_json key_id document =
     (if json_get ''publicKeyPem'' document \<noteq> None \<and> key_value_matches_key_id key_id document then
        public_key_value_to_actor_key key_id document (json_get ''owner'' document)
      else
        (case json_get ''publicKey'' document of
           Some (JObject m) \<Rightarrow>
             if key_value_matches_key_id key_id (JObject m)
             then public_key_value_to_actor_key key_id (JObject m) (json_get ''id'' document)
             else None
         | Some (JArray keys) \<Rightarrow>
             Option.bind (List.find (key_value_matches_key_id key_id) keys) (\<lambda>value.
             public_key_value_to_actor_key key_id value (json_get ''id'' document))
         | _ \<Rightarrow> None))"

subsection \<open>Fetching\<close>

definition MAX_RESPONSE_BYTES :: nat where
  "MAX_RESPONSE_BYTES = 1024 * 1024"

text \<open>The bytes buffered so far, and the chunks that are still to come.\<close>

fun read_limited :: "nat \<Rightarrow> string \<Rightarrow> string list \<Rightarrow> string option" where
  "read_limited limit bytes [] = Some bytes"
| "read_limited limit bytes (chunk # chunks) =
     (if length bytes + length chunk > limit then None
      else read_limited limit (bytes @ chunk) chunks)"

definition key_get_request :: "url \<Rightarrow> socket_addr list option \<Rightarrow> http_request" where
  "key_get_request u pinned =
     \<lparr> rq_method = ''GET'', rq_url = u, rq_pinned = pinned,
       rq_headers = [(''accept'', ''application/activity+json''),
                     (''user-agent'', ''Emumet/0.1 ActivityPub HTTP Signature verifier'')],
       rq_body = [] \<rparr>"

fun fetch_limited_json :: "federation \<Rightarrow> nat \<Rightarrow> url \<Rightarrow> json op" where
  "fetch_limited_json fd 0 u = op_fail Rejected"
| "fetch_limited_json fd (Suc n) u =
     op_bind (key_validate_fetch_url fd u) (\<lambda>resolved_addresses.
     op_bind (op_lift (key_client_for_url fd u resolved_addresses)) (\<lambda>client.
     op_bind (send_request fd (key_get_request u client)) (\<lambda>response.
     if is_redirection (rs_status response) then
       op_bind (op_lift (ok_or Rejected (rs_location response))) (\<lambda>location.
       op_bind (op_lift (ok_or Rejected (url_join (fd_net fd) u location))) (\<lambda>u'.
       fetch_limited_json fd n u'))
     else if \<not> is_success (rs_status response) then op_fail Rejected
     else
       op_bind (op_lift (ok_or Rejected (read_limited MAX_RESPONSE_BYTES [] (rs_chunks response)))) (\<lambda>bytes.
       op_bind (op_lift (ensure (rs_complete response) Rejected)) (\<lambda>_.
       op_lift (ok_or Rejected (json_parse (fd_net fd) bytes)))))))"

definition fetch_actor_key :: "federation \<Rightarrow> string \<Rightarrow> actor_public_key op" where
  "fetch_actor_key fd key_id =
     op_bind (op_lift (ok_or Rejected (url_parse (fd_net fd) key_id))) (\<lambda>u.
     op_bind (fetch_limited_json fd 6 (url_without_fragment (fd_net fd) u)) (\<lambda>body.
     op_lift (ok_or Rejected (actor_public_key_from_json key_id body))))"

subsection \<open>Verifying\<close>

definition verify_http_signature ::
  "federation \<Rightarrow> crypto_crates \<Rightarrow> http_signature_verification_input \<Rightarrow> signature_verification_result op" where
  "verify_http_signature fd c request w =
     (if get_header (sr_headers request) ''signature-input'' \<noteq> None then
        (Inr (Invalid Rfc9421NotImplemented), w)
      else
        (case get_header (sr_headers request) ''signature'' of
           None \<Rightarrow> (Inr (Invalid MissingSignature), w)
         | Some signature_header \<Rightarrow>
             (case parse_cavage_signature (fd_net fd) signature_header of
                None \<Rightarrow> (Inr (Invalid MalformedSignature), w)
              | Some parsed \<Rightarrow>
                  (case res_bind (validate_required_signed_headers request (cs_headers parsed)) (\<lambda>_.
                        res_bind (validate_date_header (fd_net fd) (fd_env fd) request) (\<lambda>_.
                        res_bind (validate_digest_header (fd_net fd) request) (\<lambda>_.
                        ok_or MalformedSignature
                          (cavage_signing_string (fd_net fd) request (cs_headers parsed))))) of
                     Inl reason \<Rightarrow> (Inr (Invalid reason), w)
                   | Inr signing_string \<Rightarrow>
                       (case fetch_actor_key fd (cs_key_id parsed) w of
                          (Inl _, w') \<Rightarrow> (Inr (Invalid KeyFetchFailed), w')
                        | (Inr actor_key, w') \<Rightarrow>
                            (case verify_cavage_signature c signing_string (cs_signature parsed)
                                (apk_public_key_pem actor_key) (cs_algorithm parsed) of
                               Inr True \<Rightarrow> (Inr (Valid (cs_key_id parsed)), w')
                             | Inr False \<Rightarrow> (Inr (Invalid InvalidSignature), w')
                             | Inl reason \<Rightarrow> (Inr (Invalid reason), w')))))))"

subsection \<open>Requests of the verifier\<close>

lemma key_get_request_fields [simp]:
  "rq_url (key_get_request u p) = u" "rq_pinned (key_get_request u p) = p"
  by (simp_all add: key_get_request_def)

text \<open>What is buffered never exceeds the limit.\<close>

lemma read_limited_bound:
  "read_limited limit bytes chunks = Some all \<Longrightarrow> length bytes \<le> limit \<Longrightarrow>
     length all \<le> limit \<and> all = bytes @ concat chunks"
  by (induction chunks arbitrary: bytes) (fastforce split: if_splits)+

lemma read_limited_ok:
  "length (bytes @ concat chunks) \<le> limit \<Longrightarrow> read_limited limit bytes chunks = Some (bytes @ concat chunks)"
  by (induction chunks arbitrary: bytes) auto

lemma sends_fetch_limited_json: "sends n (fetch_limited_json fd n u)"
proof (induction n arbitrary: u)
  case 0
  then show ?case by (simp only: fetch_limited_json.simps sends_intros)
next
  case (Suc n)
  show ?case unfolding fetch_limited_json.simps
    by (rule key_guard.sends_guarded_then)
      (auto intro!: sends_intros sends_bind_pure Suc.IH)
qed

lemma sends_fetch_actor_key: "sends 6 (fetch_actor_key fd key_id)"
  unfolding fetch_actor_key_def
  by (rule sends_bind_pure, rule sends_intros,
      rule sends_bind [where n = 6 and k = 0, simplified], rule sends_fetch_limited_json, rule sends_intros)

lemma verify_world:
  "snd (verify_http_signature fd c request w) = w \<or>
   (\<exists>key_id. snd (verify_http_signature fd c request w) = snd (fetch_actor_key fd key_id w))"
  by (auto simp: verify_http_signature_def split: option.splits sum.splits prod.splits bool.splits)
    (metis snd_conv)+

lemma sends_verify: "sends 6 (verify_http_signature fd c request)"
  unfolding sends_def
proof
  fix w
  show "\<exists>rqs. snd (verify_http_signature fd c request w) = w \<lparr> w_requests := w_requests w @ rqs \<rparr> \<and>
      length rqs \<le> 6 \<and> list_all public_request rqs"
    using verify_world [of fd c request w]
  proof
    assume "snd (verify_http_signature fd c request w) = w"
    then show ?thesis by (intro exI [of _ "[]"]) simp
  next
    assume "\<exists>key_id. snd (verify_http_signature fd c request w) = snd (fetch_actor_key fd key_id w)"
    then show ?thesis using sends_fetch_actor_key unfolding sends_def by metis
  qed
qed

subsection \<open>What a valid signature means\<close>

lemma key_value_id: "public_key_value_to_actor_key key_id v f = Some k \<Longrightarrow>
    key_value_matches_key_id key_id v \<Longrightarrow> apk_id k = key_id"
  by (auto simp: public_key_value_to_actor_key_def key_value_matches_key_id_def bind_eq_Some_conv)

lemma actor_public_key_id: "actor_public_key_from_json key_id document = Some k \<Longrightarrow> apk_id k = key_id"
  by (auto simp: actor_public_key_from_json_def bind_eq_Some_conv key_value_id
      split: if_splits option.splits json.splits dest!: find_SomeD)

lemma fetch_actor_key_id: "fetch_actor_key fd key_id w = (Inr k, w') \<Longrightarrow> apk_id k = key_id"
  by (auto simp: fetch_actor_key_def op_iffs result_iffs dest: actor_public_key_id)

lemma validate_date_Inr:
  "validate_date_header n e request = Inr u \<longleftrightarrow>
     (\<exists>date t. get_header (sr_headers request) ''date'' = Some date \<and> parse_http_date n date = Some t \<and>
        \<bar>t - now_utc e\<bar> \<le> DATE_TOLERANCE)"
  by (cases "get_header (sr_headers request) ''date''"; cases "parse_http_date n (the (get_header (sr_headers request) ''date''))")
    (auto simp: validate_date_header_def Let_def)

lemma validate_required_Inr:
  "validate_required_signed_headers request hs = Inr u \<longleftrightarrow>
     {''(request-target)'', ''host'', ''date''} \<subseteq> set hs \<and>
     (has_body request \<or> get_header (sr_headers request) ''digest'' \<noteq> None \<longrightarrow> ''digest'' \<in> set hs)"
  by (auto simp: validate_required_signed_headers_def)

lemma validate_digest_Inr:
  "validate_digest_header n request = Inr u \<longleftrightarrow>
     (get_header (sr_headers request) ''digest'' = None \<and> \<not> has_body request) \<or>
     (\<exists>d v. get_header (sr_headers request) ''digest'' = Some d \<and>
        first_some sha256_part (split_on (CHR '','') d) = Some v \<and>
        base64_decode n v = Some (sha256 n (body_bytes request)))"
  by (auto simp: validate_digest_header_def result_iffs split: option.splits)

lemma verify_cavage_True:
  "verify_cavage_signature c data sig pem alg = Inr True \<Longrightarrow>
     rsa2048_verify c data sig pem = Inr True \<or> ed25519_verify c data sig pem = Inr True"
  by (auto simp: verify_cavage_signature_def Let_def split: if_splits sum.splits)

lemma verify_Valid:
  "verify_http_signature fd c request w = (Inr (Valid key_id), w') \<longleftrightarrow>
     (\<exists>header parsed data key.
        get_header (sr_headers request) ''signature-input'' = None \<and>
        get_header (sr_headers request) ''signature'' = Some header \<and>
        parse_cavage_signature (fd_net fd) header = Some parsed \<and> cs_key_id parsed = key_id \<and>
        validate_required_signed_headers request (cs_headers parsed) = Inr () \<and>
        validate_date_header (fd_net fd) (fd_env fd) request = Inr () \<and>
        validate_digest_header (fd_net fd) request = Inr () \<and>
        cavage_signing_string (fd_net fd) request (cs_headers parsed) = Some data \<and>
        fetch_actor_key fd key_id w = (Inr key, w') \<and>
        verify_cavage_signature c data (cs_signature parsed) (apk_public_key_pem key)
          (cs_algorithm parsed) = Inr True)"
  by (auto simp: verify_http_signature_def result_iffs split: option.splits sum.splits prod.splits bool.splits)

end
