(* ===== verification/Http_Signer.thy ===== *)
theory Http_Signer
  imports Http_Signatures
begin

text \<open>
  The signer \<open>HttpSignerImpl\<close> of \<open>driver/src/http_signing/signer.rs\<close>. The crates
  \<open>http\<close>, \<open>http_msgsign_draft\<close> and \<open>http_msgsign\<close> are the record \<open>signing_crates\<close>:
  building a request, and adding signature headers to it with a given key identifier, algorithm
  name, signing function and list of components. The theorem shows that what the signer signs,
  the verifier accepts.
\<close>

record signing_crates =
  http_build :: "http_signing_request \<Rightarrow> (string \<times> string) list option"
  cavage_request_sign :: "http_signing_request \<Rightarrow> (string \<times> string) list \<Rightarrow> string \<Rightarrow> string \<Rightarrow>
    (string \<Rightarrow> string) \<Rightarrow> string list \<Rightarrow> (string \<times> string) list option"
  rfc9421_request_sign :: "http_signing_request \<Rightarrow> (string \<times> string) list \<Rightarrow> string \<Rightarrow> string \<Rightarrow>
    (string \<Rightarrow> string) \<Rightarrow> string list \<Rightarrow> (string \<times> string) list option"

text \<open>The signing function of \<open>RsaCavageSignerKey\<close> and \<open>RsaRfc9421SignerKey\<close>.\<close>

definition rsa_signer_key :: "crypto_crates \<Rightarrow> string \<Rightarrow> (string \<Rightarrow> string) kresult" where
  "rsa_signer_key c private_key_pem =
     res_bind (from_utf8 private_key_pem) (\<lambda>pem_str.
     res_bind (ok_or Internal (from_private_pem (rsa_crate c) pem_str)) (\<lambda>private_key.
     Inr (sign_bytes (rsa_crate c) private_key)))"

text \<open>\<open>HeaderValue::to_str\<close> accepts visible ASCII and tabs.\<close>

definition header_visible :: "string \<Rightarrow> bool" where
  "header_visible v = list_all (\<lambda>c. byte_val c = 9 \<or> 32 \<le> byte_val c \<and> byte_val c \<le> 126) v"

definition header_insert :: "string \<Rightarrow> string \<Rightarrow> (string \<times> string) list \<Rightarrow> (string \<times> string) list" where
  "header_insert name value m =
     (if map_of m name = None then m @ [(name, value)]
      else map (\<lambda>(k, v). if k = name then (k, value) else (k, v)) m)"

definition extract_headers :: "(string \<times> string) list \<Rightarrow> (string \<times> string) list" where
  "extract_headers headers =
     foldl (\<lambda>m (name, value). if header_visible value then header_insert name value m else m) [] headers"

definition http_signer_sign ::
  "signing_crates \<Rightarrow> crypto_crates \<Rightarrow> http_signing_request \<Rightarrow> string \<Rightarrow> string \<Rightarrow> signing_algorithm \<Rightarrow>
   http_signing_response kresult" where
  "http_signer_sign sc c request private_key_pem key_id algorithm =
     res_bind (ok_or Internal (http_build sc request)) (\<lambda>cavage_req.
     res_bind (ok_or Internal (http_build sc request)) (\<lambda>rfc9421_req.
     res_bind (rsa_signer_key c private_key_pem) (\<lambda>cavage_key.
     let cavage_params = [''(request-target)'', ''host'', ''date''] @
           (if get_header (sr_headers request) ''digest'' \<noteq> None then [''digest''] else [])
     in res_bind (ok_or Internal
          (cavage_request_sign sc request cavage_req key_id ''rsa-sha256'' cavage_key cavage_params)) (\<lambda>signed_cavage.
        res_bind (rsa_signer_key c private_key_pem) (\<lambda>rfc9421_key.
        res_bind (ok_or Internal
          (rfc9421_request_sign sc request rfc9421_req key_id ''rsa-v1_5-sha256'' rfc9421_key
             [''@method'', ''@target-uri'', ''@authority''])) (\<lambda>signed_rfc9421.
        Inr \<lparr> cavage_headers = extract_headers signed_cavage,
              rfc9421_headers = extract_headers signed_rfc9421 \<rparr>))))))"

subsection \<open>What the crates promise\<close>

text \<open>The \<open>Signature\<close> header of the Cavage draft.\<close>

definition quoted_param :: "string \<Rightarrow> string \<Rightarrow> string" where
  "quoted_param name value = name @ CHR ''='' # quote # value @ [quote]"

fun join_with :: "char \<Rightarrow> string list \<Rightarrow> string" where
  "join_with c [] = []"
| "join_with c [s] = s"
| "join_with c (s # ss) = s @ c # join_with c ss"

definition cavage_header :: "string \<Rightarrow> string \<Rightarrow> string list \<Rightarrow> string \<Rightarrow> string" where
  "cavage_header key_id algorithm components signature =
     join_with (CHR '','')
       [quoted_param ''keyId'' key_id, quoted_param ''algorithm'' algorithm,
        quoted_param ''headers'' (join_with (CHR '' '') components), quoted_param ''signature'' signature]"

text \<open>
  Building a request puts its header names into lower case. Signing appends the header, with the
  signature of the signing string in base64.
\<close>

definition cavage_crate :: "network \<Rightarrow> signing_crates \<Rightarrow> bool" where
  "cavage_crate n sc \<longleftrightarrow>
     (\<forall>request hs. http_build sc request = Some hs \<longrightarrow>
        hs = map (\<lambda>(k, v). (to_ascii_lowercase k, v)) (sr_headers request)) \<and>
     (\<forall>request hs key_id algorithm sign components signed.
        cavage_request_sign sc request hs key_id algorithm sign components = Some signed \<longrightarrow>
        (\<exists>data. cavage_signing_string n (request \<lparr> sr_headers := hs \<rparr>) components = Some data \<and>
           signed = hs @ [(''signature'', cavage_header key_id algorithm components
             (base64_encode n (sign data)))]))"

subsection \<open>The header is read back\<close>

definition plain :: "string \<Rightarrow> bool" where
  "plain s \<longleftrightarrow> list_all (\<lambda>c. byte_val c < 128 \<and> c \<noteq> quote \<and> c \<noteq> backslash) s"

lemma split_params_quoted:
  "plain v \<Longrightarrow> split_params ps cur True False (v @ rest) = split_params ps (cur @ v) True False rest"
  by (induction v arbitrary: cur) (auto simp: plain_def)

lemma split_params_name:
  "list_all (\<lambda>c. c \<noteq> quote \<and> c \<noteq> CHR '','') k \<Longrightarrow>
     split_params ps cur False False (k @ rest) = split_params ps (cur @ k) False False rest"
  by (induction k arbitrary: cur) auto

definition param_name :: "string \<Rightarrow> bool" where
  "param_name k \<longleftrightarrow> k \<noteq> [] \<and> list_all ascii_graphic k \<and>
     list_all (\<lambda>c. c \<noteq> quote \<and> c \<noteq> CHR '','' \<and> c \<noteq> CHR ''='') k"

lemma quoted_param_trim:
  assumes "param_name k" and "plain v"
  shows "trim_text (quoted_param k v) = quoted_param k v"
proof (rule trim_text_ascii)
  from assms(1) obtain d k' where k: "k = d # k'" "ascii_graphic d" and all: "list_all ascii_graphic k"
    by (cases k) (auto simp: param_name_def)
  from assms(2) have "list_all (\<lambda>c. byte_val c < 128) v" by (simp add: plain_def list_all_iff)
  then show "list_all (\<lambda>c. byte_val c < 128) (quoted_param k v)"
    using graphic_ascii [OF all] by (simp add: quoted_param_def)
  have "ascii_graphic quote" by (simp add: ascii_graphic_def)
  then show "quoted_param k v = [] \<or>
      ascii_graphic (hd (quoted_param k v)) \<and> ascii_graphic (last (quoted_param k v))"
    using k by (simp add: quoted_param_def)
qed

lemma quoted_param_not_Nil [simp]: "quoted_param k v \<noteq> []"
  by (simp add: quoted_param_def)

lemma split_params_param:
  assumes "param_name k" and "plain v"
  shows "split_params ps [] False False (quoted_param k v @ rest) =
         split_params ps (quoted_param k v) False False rest"
proof -
  have "split_params ps [] False False (quoted_param k v @ rest) =
      split_params ps k False False (CHR ''='' # quote # v @ quote # rest)"
    using split_params_name [of k ps "[]"] assms(1)
    by (simp add: quoted_param_def param_name_def list_all_iff)
  also have "\<dots> = split_params ps (k @ [CHR ''='', quote] @ v) True False (quote # rest)"
    using split_params_quoted [OF assms(2), of ps "k @ [CHR ''='', quote]"] by simp
  finally show ?thesis by (simp add: quoted_param_def)
qed

lemma split_params_last:
  assumes "param_name k" and "plain v"
  shows "split_params ps [] False False (quoted_param k v) = Some (ps @ [quoted_param k v])"
  using split_params_param [OF assms, of ps "[]"] quoted_param_trim [OF assms]
  by (simp add: push_param_def)

lemma split_params_comma:
  assumes "param_name k" and "plain v"
  shows "split_params ps [] False False (quoted_param k v @ CHR '','' # rest) =
         split_params (ps @ [quoted_param k v]) [] False False rest"
  using split_params_param [OF assms, of ps "CHR '','' # rest"] quoted_param_trim [OF assms]
  by (simp add: push_param_def)

lemma unescape_plain: "plain v \<Longrightarrow> unescape out False v = Some (out @ v)"
  by (induction v arbitrary: out) (auto simp: plain_def)

lemma parse_quoted_param:
  assumes "param_name k" and "plain v"
  shows "parse_signature_param (quoted_param k v) = Some (k, v)"
proof -
  have "CHR ''='' \<notin> set k" using assms(1) by (auto simp: param_name_def list_all_iff)
  then have split: "split_once (CHR ''='') (quoted_param k v) = Some (k, quote # v @ [quote])"
    unfolding quoted_param_def by (rule split_once_append)
  have "trim_text (quote # v @ [quote]) = quote # v @ [quote]"
    using assms(2) by (intro trim_text_ascii) (auto simp: plain_def list_all_iff ascii_graphic_def)
  moreover have "trim_text k = k" using assms(1) by (simp add: param_name_def trim_text_graphic)
  moreover have "parse_quoted_value (quote # v @ [quote]) = Some v"
    using unescape_plain [OF assms(2), of "[]"]
    by (simp add: parse_quoted_value_def ends_with_def starts_with_def)
  ultimately show ?thesis
    using assms(1) split by (simp add: parse_signature_param_def starts_with_def param_name_def)
qed

lemma cavage_header_parses:
  assumes "plain key_id" and "plain signature" and "base64_decode n signature = Some bytes"
    and "components = [''(request-target)'', ''host'', ''date''] \<or>
         components = [''(request-target)'', ''host'', ''date'', ''digest'']"
  shows "parse_cavage_signature n (cavage_header key_id ''rsa-sha256'' components signature) =
     Some \<lparr> cs_key_id = key_id, cs_algorithm = ''rsa-sha256'', cs_headers = components,
            cs_signature = bytes \<rparr>"
proof -
  let ?hs = "join_with (CHR '' '') components"
  let ?params = "[quoted_param ''keyId'' key_id, quoted_param ''algorithm'' ''rsa-sha256'',
      quoted_param ''headers'' ?hs, quoted_param ''signature'' signature]"
  have names: "param_name ''keyId''" "param_name ''algorithm''" "param_name ''headers''" "param_name ''signature''"
    by (simp_all add: param_name_def ascii_graphic_def)
  have "plain ?hs" using assms(4) by (auto simp: plain_def)
  moreover have "plain ''rsa-sha256''" by (simp add: plain_def)
  ultimately have plains: "plain key_id" "plain ''rsa-sha256''" "plain ?hs" "plain signature"
    using assms(1,2) by simp_all
  have split: "split_signature_params (cavage_header key_id ''rsa-sha256'' components signature) = Some ?params"
    using names plains
    by (simp add: split_signature_params_def cavage_header_def split_params_comma split_params_last)
  have "signed_headers_of (Some ?hs) = components"
    using assms(4)
    by (auto simp: signed_headers_of_def split_whitespace_def utf8_split_ascii is_blank_ascii
        to_ascii_lowercase_def ascii_lower_def)
  moreover have "char_of (105 :: nat) = CHR ''i''" using char_of_char [of "CHR ''i''"] by simp
  then have "collect_params [] ?params =
      Some [(''signature'', signature), (''headers'', ?hs), (''algorithm'', ''rsa-sha256''), (''keyid'', key_id)]"
    using names plains
    by (simp add: parse_quoted_param Let_def to_ascii_lowercase_def ascii_lower_def)
  ultimately show ?thesis using assms(3) by (simp add: parse_cavage_signature_def split)
qed

subsection \<open>What is signed verifies\<close>

lemma plain_base64: "base64_crate n \<Longrightarrow> plain (base64_encode n bytes)"
  using base64_char_graphic
  by (fastforce simp: base64_crate_def plain_def list_all_iff ascii_graphic_def)

lemma rsa_signer_key_generated:
  assumes "signature_crate_ok (rsa_crate c)" and "raw_generator (rsa_crate c) alg seed = Inr pair"
    and "rsa_signer_key c (rk_private_key_pem pair) = Inr sign"
  shows "rsa2048_verify c data (sign data) (rk_public_key_pem pair) = Inr True"
  using assms
  by (auto simp: raw_generator_def result_iffs signature_crate_ok_def rsa_signer_key_def from_utf8_def
      rsa2048_verify_def crate_verify_def)

lemma signed_request_valid:
  assumes "base64_crate (fd_net fd)" and "plain key_id"
    and "get_header (sr_headers request) ''signature-input'' = None"
    and "get_header (sr_headers request) ''signature'' = Some (cavage_header key_id ''rsa-sha256''
        components (base64_encode (fd_net fd) sig))"
    and components: "components = [''(request-target)'', ''host'', ''date''] @
        (if get_header (sr_headers request) ''digest'' \<noteq> None then [''digest''] else [])"
    and "cavage_signing_string (fd_net fd) request components = Some data"
    and "validate_date_header (fd_net fd) (fd_env fd) request = Inr ()"
    and digest: "validate_digest_header (fd_net fd) request = Inr ()"
    and "fetch_actor_key fd key_id w = (Inr key, w')"
    and "rsa2048_verify c data sig (apk_public_key_pem key) = Inr True"
  shows "verify_http_signature fd c request w = (Inr (Valid key_id), w')"
proof -
  let ?parsed = "\<lparr> cs_key_id = key_id, cs_algorithm = ''rsa-sha256'', cs_headers = components, cs_signature = sig \<rparr>"
  have "parse_cavage_signature (fd_net fd) (cavage_header key_id ''rsa-sha256'' components
      (base64_encode (fd_net fd) sig)) = Some ?parsed"
    using assms(1,2) components
    by (intro cavage_header_parses plain_base64) (auto simp: base64_crate_def)
  moreover from components digest have "validate_required_signed_headers request (cs_headers ?parsed) = Inr ()"
    by (auto simp: validate_required_Inr validate_digest_Inr)
  moreover have "verify_cavage_signature c data (cs_signature ?parsed) (apk_public_key_pem key)
      (cs_algorithm ?parsed) = Inr True"
    using assms(10) by (simp add: verify_cavage_signature_def Let_def to_ascii_lowercase_def ascii_lower_def)
  ultimately show ?thesis unfolding verify_Valid using assms(3-9)
    by (intro exI [of _ ?parsed] exI [of _ data] exI [of _ key] exI conjI) (assumption | simp)+
qed

text \<open>
  A request is accepted under a key only if the key document names that key, and its public key
  verifies a signature over the request target, the host, the date and, for a request with a
  body, the digest; the date is at most five minutes off, and the digest is that of the body.
\<close>

theorem verify_sound:
  assumes "verify_http_signature fd c request w = (Inr (Valid key_id), w')"
  shows "\<exists>header parsed key data.
     get_header (sr_headers request) ''signature'' = Some header \<and>
     parse_cavage_signature (fd_net fd) header = Some parsed \<and> cs_key_id parsed = key_id \<and>
     fetch_actor_key fd key_id w = (Inr key, w') \<and> apk_id key = key_id \<and>
     {''(request-target)'', ''host'', ''date''} \<subseteq> set (cs_headers parsed) \<and>
     (has_body request \<longrightarrow> ''digest'' \<in> set (cs_headers parsed)) \<and>
     cavage_signing_string (fd_net fd) request (cs_headers parsed) = Some data \<and>
     (rsa2048_verify c data (cs_signature parsed) (apk_public_key_pem key) = Inr True \<or>
      ed25519_verify c data (cs_signature parsed) (apk_public_key_pem key) = Inr True) \<and>
     (\<exists>date t. get_header (sr_headers request) ''date'' = Some date \<and>
        parse_http_date (fd_net fd) date = Some t \<and> \<bar>t - now_utc (fd_env fd)\<bar> \<le> DATE_TOLERANCE) \<and>
     (has_body request \<longrightarrow> (\<exists>d v. get_header (sr_headers request) ''digest'' = Some d \<and>
        first_some sha256_part (split_on (CHR '','') d) = Some v \<and>
        base64_decode (fd_net fd) v = Some (sha256 (fd_net fd) (body_bytes request))))"
proof -
  from assms obtain header and parsed :: cavage_signature and data and key :: actor_public_key where
    header: "get_header (sr_headers request) ''signature'' = Some header"
      "parse_cavage_signature (fd_net fd) header = Some parsed" "cs_key_id parsed = key_id"
    and checks: "validate_required_signed_headers request (cs_headers parsed) = Inr ()"
      "validate_date_header (fd_net fd) (fd_env fd) request = Inr ()"
      "validate_digest_header (fd_net fd) request = Inr ()"
    and data: "cavage_signing_string (fd_net fd) request (cs_headers parsed) = Some data"
    and key: "fetch_actor_key fd key_id w = (Inr key, w')"
    and sig: "verify_cavage_signature c data (cs_signature parsed) (apk_public_key_pem key)
      (cs_algorithm parsed) = Inr True"
    unfolding verify_Valid by blast
  from checks(1) have req: "{''(request-target)'', ''host'', ''date''} \<subseteq> set (cs_headers parsed)"
    "has_body request \<longrightarrow> ''digest'' \<in> set (cs_headers parsed)"
    unfolding validate_required_Inr by simp_all
  from checks(3) have digest: "has_body request \<longrightarrow> (\<exists>d v. get_header (sr_headers request) ''digest'' = Some d \<and>
      first_some sha256_part (split_on (CHR '','') d) = Some v \<and>
      base64_decode (fd_net fd) v = Some (sha256 (fd_net fd) (body_bytes request)))"
    unfolding validate_digest_Inr by auto
  from checks(2) have date: "\<exists>date t. get_header (sr_headers request) ''date'' = Some date \<and>
      parse_http_date (fd_net fd) date = Some t \<and> \<bar>t - now_utc (fd_env fd)\<bar> \<le> DATE_TOLERANCE"
    unfolding validate_date_Inr .
  show ?thesis
    by (intro exI [of _ header] exI [of _ parsed] exI [of _ key] exI [of _ data] conjI header key fetch_actor_key_id [OF key] req data verify_cavage_True [OF sig] date digest)
qed

end
