(* ===== verification/Crud_Repositories.thy ===== *)
theory Crud_Repositories
  imports Database
begin

text \<open>
  The repositories without an event stream: images, remote accounts, auth hosts, auth accounts
  and outbox activities (\<open>driver/src/database/postgres/image.rs\<close>, \<open>remote_account.rs\<close>,
  \<open>auth_host.rs\<close>, \<open>auth_account.rs\<close>, \<open>outbox_activity.rs\<close>), with the entities of
  \<open>kernel/src/entity\<close>. Deleting a row carries out the \<open>ON DELETE\<close> clauses of the foreign
  keys that point to it.
\<close>

subsection \<open>Images\<close>

record image =
  im_id :: int
  im_url :: string
  im_hash :: string
  im_blur_hash :: string

definition image_from :: "image_row \<Rightarrow> image" where
  "image_from r = \<lparr> im_id = iw_id r, im_url = iw_url r, im_hash = iw_hash r, im_blur_hash = iw_blurhash r \<rparr>"

definition image_find_by_id :: "int \<Rightarrow> db \<Rightarrow> image option" where
  "image_find_by_id i d = map_option image_from (List.find (\<lambda>r. iw_id r = i) (t_images d))"

definition image_find_by_ids :: "int list \<Rightarrow> db \<Rightarrow> image list" where
  "image_find_by_ids ids d = map image_from (filter (\<lambda>r. iw_id r \<in> set ids) (t_images d))"

definition image_find_by_url :: "string \<Rightarrow> db \<Rightarrow> image option" where
  "image_find_by_url url d = map_option image_from (List.find (\<lambda>r. iw_url r = url) (t_images d))"

definition image_create :: "image \<Rightarrow> db \<Rightarrow> (unit \<times> db) kresult" where
  "image_create im d =
     (let r = \<lparr> iw_id = im_id im, iw_url = im_url im, iw_hash = im_hash im, iw_blurhash = im_blur_hash im \<rparr>
      in res_map (\<lambda>rows. ((), d \<lparr> t_images := rows \<rparr>))
           (insert_row (\<lambda>x. iw_id x = iw_id r \<or> iw_url x = iw_url r) True r (t_images d)))"

definition set_null :: "int \<Rightarrow> int option \<Rightarrow> int option" where
  "set_null i k = (if k = Some i then None else k)"

definition image_delete :: "int \<Rightarrow> db \<Rightarrow> (unit \<times> db) kresult" where
  "image_delete i d =
     (let (rows, n) = delete_rows (\<lambda>r. iw_id r = i) (t_images d)
      in if n = 0 then Inl NotFound
         else Inr ((), d \<lparr> t_images := rows,
           t_remote_accounts := map (\<lambda>r. r \<lparr> rw_icon_id := set_null i (rw_icon_id r) \<rparr>) (t_remote_accounts d),
           t_profiles := map (\<lambda>r. r \<lparr> pw_icon_id := set_null i (pw_icon_id r),
                                        pw_banner_id := set_null i (pw_banner_id r) \<rparr>) (t_profiles d) \<rparr>))"

subsection \<open>Remote accounts\<close>

record remote_account =
  ra_id :: int
  ra_acct :: string
  ra_url :: string
  ra_icon_id :: "int option"
  ra_inbox_url :: "string option"
  ra_public_key_pem :: "string option"

definition remote_account_from :: "remote_account_row \<Rightarrow> remote_account" where
  "remote_account_from r =
     \<lparr> ra_id = rw_id r, ra_acct = rw_acct r, ra_url = rw_url r, ra_icon_id = rw_icon_id r,
       ra_inbox_url = rw_inbox_url r, ra_public_key_pem = rw_public_key_pem r \<rparr>"

definition row_of_remote_account :: "remote_account \<Rightarrow> remote_account_row" where
  "row_of_remote_account a =
     \<lparr> rw_id = ra_id a, rw_acct = ra_acct a, rw_url = ra_url a, rw_icon_id = ra_icon_id a,
       rw_inbox_url = ra_inbox_url a, rw_public_key_pem = ra_public_key_pem a \<rparr>"

definition remote_account_find_by_id :: "int \<Rightarrow> db \<Rightarrow> remote_account option" where
  "remote_account_find_by_id i d =
     map_option remote_account_from (List.find (\<lambda>r. rw_id r = i) (t_remote_accounts d))"

definition remote_account_find_by_acct :: "string \<Rightarrow> db \<Rightarrow> remote_account option" where
  "remote_account_find_by_acct acct d =
     map_option remote_account_from (List.find (\<lambda>r. rw_acct r = acct) (t_remote_accounts d))"

definition remote_account_find_by_url :: "string \<Rightarrow> db \<Rightarrow> remote_account option" where
  "remote_account_find_by_url url d =
     map_option remote_account_from (List.find (\<lambda>r. rw_url r = url) (t_remote_accounts d))"

definition remote_account_clash :: "remote_account_row \<Rightarrow> remote_account_row \<Rightarrow> bool" where
  "remote_account_clash r x \<longleftrightarrow> rw_acct x = rw_acct r \<or> rw_url x = rw_url r"

definition remote_account_create :: "remote_account \<Rightarrow> db \<Rightarrow> (unit \<times> db) kresult" where
  "remote_account_create a d =
     (let r = row_of_remote_account a
      in res_map (\<lambda>rows. ((), d \<lparr> t_remote_accounts := rows \<rparr>))
           (insert_row (\<lambda>x. rw_id x = rw_id r \<or> remote_account_clash r x)
             (nullable_ref (rw_icon_id r) (map iw_id (t_images d))) r (t_remote_accounts d)))"

definition remote_account_update :: "remote_account \<Rightarrow> db \<Rightarrow> (unit \<times> db) kresult" where
  "remote_account_update a d =
     (let r = row_of_remote_account a;
          (rows, n) = update_rows (\<lambda>x. rw_id x = ra_id a) (\<lambda>_. r) (t_remote_accounts d)
      in if n = 0 then Inl NotFound
         else if \<not> nullable_ref (ra_icon_id a) (map iw_id (t_images d)) \<or>
                 list_ex (\<lambda>x. rw_id x \<noteq> ra_id a \<and> remote_account_clash r x) (t_remote_accounts d)
         then Inl Internal
         else Inr ((), d \<lparr> t_remote_accounts := rows \<rparr>))"

definition remote_account_delete :: "int \<Rightarrow> db \<Rightarrow> (unit \<times> db) kresult" where
  "remote_account_delete i d =
     (let (rows, n) = delete_rows (\<lambda>r. rw_id r = i) (t_remote_accounts d)
      in if n = 0 then Inl NotFound
         else Inr ((), d \<lparr> t_remote_accounts := rows,
           t_follows := filter (\<lambda>r. fw_follower_remote_id r \<noteq> Some i \<and> fw_followee_remote_id r \<noteq> Some i)
             (t_follows d),
           t_blocks := filter (\<lambda>r. bw_blocker_remote_id r \<noteq> Some i \<and> bw_blocked_remote_id r \<noteq> Some i)
             (t_blocks d),
           t_mutes := filter (\<lambda>r. uw_muter_remote_id r \<noteq> Some i \<and> uw_muted_remote_id r \<noteq> Some i)
             (t_mutes d) \<rparr>))"

subsection \<open>Auth hosts and auth accounts\<close>

record auth_host =
  ah_id :: int
  ah_url :: string

record auth_account =
  aa_id :: int
  aa_host :: int
  aa_client_id :: string

definition auth_host_from :: "auth_host_row \<Rightarrow> auth_host" where
  "auth_host_from r = \<lparr> ah_id = hw_id r, ah_url = hw_url r \<rparr>"

definition auth_host_find_by_id :: "int \<Rightarrow> db \<Rightarrow> auth_host option" where
  "auth_host_find_by_id i d = map_option auth_host_from (List.find (\<lambda>r. hw_id r = i) (t_auth_hosts d))"

definition auth_host_find_by_url :: "string \<Rightarrow> db \<Rightarrow> auth_host option" where
  "auth_host_find_by_url url d =
     map_option auth_host_from (List.find (\<lambda>r. hw_url r = url) (t_auth_hosts d))"

definition auth_host_create :: "auth_host \<Rightarrow> db \<Rightarrow> (unit \<times> db) kresult" where
  "auth_host_create h d =
     (let r = \<lparr> hw_id = ah_id h, hw_url = ah_url h \<rparr>
      in res_map (\<lambda>rows. ((), d \<lparr> t_auth_hosts := rows \<rparr>))
           (insert_row (\<lambda>x. hw_id x = hw_id r \<or> hw_url x = hw_url r) True r (t_auth_hosts d)))"

text \<open>An update that matches no row succeeds.\<close>

definition auth_host_update :: "auth_host \<Rightarrow> db \<Rightarrow> (unit \<times> db) kresult" where
  "auth_host_update h d =
     (if list_ex (\<lambda>x. hw_id x = ah_id h) (t_auth_hosts d) \<and>
         list_ex (\<lambda>x. hw_id x \<noteq> ah_id h \<and> hw_url x = ah_url h) (t_auth_hosts d) then Inl Internal
      else Inr ((), d \<lparr> t_auth_hosts :=
             fst (update_rows (\<lambda>x. hw_id x = ah_id h) (\<lambda>x. x \<lparr> hw_url := ah_url h \<rparr>) (t_auth_hosts d)) \<rparr>))"

definition auth_account_from :: "auth_account_row \<Rightarrow> auth_account" where
  "auth_account_from r = \<lparr> aa_id = aw_id r, aa_host = aw_host_id r, aa_client_id = aw_client_id r \<rparr>"

definition auth_account_by_client :: "int \<Rightarrow> string \<Rightarrow> db \<Rightarrow> auth_account_row option" where
  "auth_account_by_client host_id client_id d =
     List.find (\<lambda>r. aw_host_id r = host_id \<and> aw_client_id r = client_id) (t_auth_accounts d)"

text \<open>The insert with \<open>ON CONFLICT (host_id, client_id) DO NOTHING RETURNING\<close>.\<close>

definition auth_account_insert :: "int \<Rightarrow> int \<Rightarrow> string \<Rightarrow> db \<Rightarrow> (auth_account_row option \<times> db) kresult" where
  "auth_account_insert i host_id client_id d =
     (if auth_account_by_client host_id client_id d \<noteq> None then Inr (None, d)
      else
        let r = \<lparr> aw_id = i, aw_host_id = host_id, aw_client_id = client_id \<rparr> in
        res_map (\<lambda>rows. (Some r, d \<lparr> t_auth_accounts := rows \<rparr>))
          (insert_row (\<lambda>x. aw_id x = i) (host_id \<in> set (map hw_id (t_auth_hosts d))) r (t_auth_accounts d)))"

definition auth_account_find_or_create :: "env \<Rightarrow> int \<Rightarrow> string \<Rightarrow> auth_account op" where
  "auth_account_find_or_create e host_id client_id =
     op_bind (generate_id e) (\<lambda>new_id.
     op_bind (exec (auth_account_insert new_id host_id client_id)) (\<lambda>inserted.
     case inserted of
       Some r \<Rightarrow> op_return (auth_account_from r)
     | None \<Rightarrow>
         op_bind (query (auth_account_by_client host_id client_id)) (\<lambda>row.
         case row of Some r \<Rightarrow> op_return (auth_account_from r) | None \<Rightarrow> op_fail Internal)))"

definition auth_account_find_by_id :: "int \<Rightarrow> db \<Rightarrow> auth_account option" where
  "auth_account_find_by_id i d =
     map_option auth_account_from (List.find (\<lambda>r. aw_id r = i) (t_auth_accounts d))"

definition auth_account_create :: "auth_account \<Rightarrow> db \<Rightarrow> (unit \<times> db) kresult" where
  "auth_account_create a d =
     (let r = \<lparr> aw_id = aa_id a, aw_host_id = aa_host a, aw_client_id = aa_client_id a \<rparr>
      in res_map (\<lambda>rows. ((), d \<lparr> t_auth_accounts := rows \<rparr>))
           (insert_row
             (\<lambda>x. aw_id x = aw_id r \<or> aw_host_id x = aw_host_id r \<and> aw_client_id x = aw_client_id r)
             (aw_host_id r \<in> set (map hw_id (t_auth_hosts d))) r (t_auth_accounts d)))"

subsection \<open>Outbox activities\<close>

record outbox_activity =
  oa_id :: int
  oa_account_id :: int
  oa_activity_id :: string
  oa_activity_type :: string
  oa_object_json :: string
  oa_created_at :: datetime
  oa_delivered_at :: "datetime option"
  oa_attempted_at :: "datetime option"
  oa_error :: "string option"

definition outbox_activity_from :: "outbox_row \<Rightarrow> outbox_activity" where
  "outbox_activity_from r =
     \<lparr> oa_id = ow_id r, oa_account_id = ow_account_id r, oa_activity_id = ow_activity_id r,
       oa_activity_type = ow_activity_type r, oa_object_json = ow_object_json r,
       oa_created_at = ow_created_at r, oa_delivered_at = ow_delivered_at r,
       oa_attempted_at = ow_attempted_at r, oa_error = ow_error r \<rparr>"

text \<open>The identifier comes from the sequence of the table, not from the entity.\<close>

definition outbox_create :: "outbox_activity \<Rightarrow> db \<Rightarrow> (int \<times> db) kresult" where
  "outbox_create a d =
     (let i = t_outbox_next_id d;
          r = \<lparr> ow_id = i, ow_account_id = oa_account_id a, ow_activity_id = oa_activity_id a,
                ow_activity_type = oa_activity_type a, ow_object_json = oa_object_json a,
                ow_created_at = oa_created_at a, ow_delivered_at = oa_delivered_at a,
                ow_attempted_at = oa_attempted_at a, ow_error = oa_error a \<rparr>
      in res_map (\<lambda>rows. (i, d \<lparr> t_outbox_activities := rows, t_outbox_next_id := i + 1 \<rparr>))
           (insert_row (\<lambda>x. ow_id x = i \<or> ow_activity_id x = ow_activity_id r) True r
             (t_outbox_activities d)))"

definition outbox_find_by_account_id :: "int \<Rightarrow> nat \<Rightarrow> int option \<Rightarrow> db \<Rightarrow> outbox_activity list" where
  "outbox_find_by_account_id account_id limit cursor d =
     map outbox_activity_from (take limit (sort_key (\<lambda>r. - ow_id r)
       (filter (\<lambda>r. ow_account_id r = account_id \<and>
                    (case cursor of None \<Rightarrow> True | Some c \<Rightarrow> ow_id r < c) \<and>
                    ow_delivered_at r \<noteq> None) (t_outbox_activities d))))"

definition outbox_count_by_account_id :: "int \<Rightarrow> db \<Rightarrow> nat" where
  "outbox_count_by_account_id account_id d =
     length (filter (\<lambda>r. ow_account_id r = account_id \<and> ow_delivered_at r \<noteq> None) (t_outbox_activities d))"

definition outbox_find_pending_deliveries :: "nat \<Rightarrow> db \<Rightarrow> outbox_activity list" where
  "outbox_find_pending_deliveries limit d =
     map outbox_activity_from (take limit (sort_key ow_id
       (filter (\<lambda>r. ow_delivered_at r = None) (t_outbox_activities d))))"

definition outbox_mark_delivered :: "env \<Rightarrow> int \<Rightarrow> db \<Rightarrow> (unit \<times> db) kresult" where
  "outbox_mark_delivered e i d =
     Inr ((), d \<lparr> t_outbox_activities := fst (update_rows (\<lambda>r. ow_id r = i)
       (\<lambda>r. r \<lparr> ow_delivered_at := Some (now_utc e), ow_attempted_at := None, ow_error := None \<rparr>)
       (t_outbox_activities d)) \<rparr>)"

definition outbox_mark_delivery_attempt :: "env \<Rightarrow> int \<Rightarrow> string option \<Rightarrow> db \<Rightarrow> (unit \<times> db) kresult" where
  "outbox_mark_delivery_attempt e i err d =
     Inr ((), d \<lparr> t_outbox_activities := fst (update_rows (\<lambda>r. ow_id r = i)
       (\<lambda>r. r \<lparr> ow_attempted_at := Some (now_utc e), ow_error := err \<rparr>) (t_outbox_activities d)) \<rparr>)"

subsection \<open>Lemmas\<close>

lemma find_or_create_finds:
  assumes "auth_account_find_or_create e host client w = (Inr a, w')"
  shows "map_option auth_account_from (auth_account_by_client host client (w_db w')) = Some a"
proof (cases "auth_account_by_client host client (w_db w)")
  case None
  then have "List.find (\<lambda>r. aw_host_id r = host \<and> aw_client_id r = client) (t_auth_accounts (w_db w)) = None"
    by (simp add: auth_account_by_client_def)
  with assms None show ?thesis
    by (auto simp: auth_account_find_or_create_def auth_account_insert_def generate_id_def op_iffs Let_def
        res_map_Inr_iff insert_row_Inr_iff auth_account_by_client_def find_append split: option.splits)
next
  case (Some r)
  with assms show ?thesis
    by (auto simp: auth_account_find_or_create_def auth_account_insert_def generate_id_def op_iffs Let_def
        split: option.splits)
qed

lemma find_or_create_found:
  assumes "auth_account_by_client host client (w_db w) = Some r"
  shows "auth_account_find_or_create e host client w =
           (Inr (auth_account_from r), w \<lparr> w_last_id := next_snowflake e (w_last_id w) \<rparr>)"
  using assms
  by (simp add: auth_account_find_or_create_def auth_account_insert_def generate_id_def op_bind_def
      exec_def Let_def)

text \<open>The outbox table: identifiers are handed out in increasing order.\<close>

definition outbox_ids_ok :: "db \<Rightarrow> bool" where
  "outbox_ids_ok d \<longleftrightarrow>
     distinct (map ow_id (t_outbox_activities d)) \<and>
     (\<forall>r \<in> set (t_outbox_activities d). ow_id r < t_outbox_next_id d)"

lemma outbox_create_ids: "outbox_create a d = Inr (i, d') \<Longrightarrow> outbox_ids_ok d \<Longrightarrow> outbox_ids_ok d'"
  by (auto simp: outbox_create_def outbox_ids_ok_def Let_def res_map_Inr_iff insert_row_Inr_iff)

text \<open>
  Cursor pagination over rows with distinct keys: the rows below the last key of a page, in
  descending order, are the rows after the page.
\<close>

definition descending :: "int \<Rightarrow> outbox_row list \<Rightarrow> outbox_row list" where
  "descending account_id rows =
     sort_key (\<lambda>r. - ow_id r) (filter (\<lambda>r. ow_account_id r = account_id \<and> ow_delivered_at r \<noteq> None) rows)"

lemma outbox_page_after:
  assumes "outbox_ids_ok d" and "n < length (descending account_id (t_outbox_activities d))"
  shows "outbox_find_by_account_id account_id limit
           (Some (ow_id (descending account_id (t_outbox_activities d) ! n))) d =
         map outbox_activity_from (take limit (drop (Suc n) (descending account_id (t_outbox_activities d))))"
proof -
  let ?rows = "filter (\<lambda>r. ow_account_id r = account_id \<and> ow_delivered_at r \<noteq> None) (t_outbox_activities d)"
  let ?all = "descending account_id (t_outbox_activities d)"
  let ?k = "\<lambda>r. - ow_id r"
  have "distinct (map ow_id ?rows)"
    using assms(1) by (simp add: outbox_ids_ok_def distinct_map_filter)
  then have "inj_on ow_id (set ?rows)" and "distinct ?rows" by (simp_all add: distinct_map)
  then have "distinct (map ?k ?all)" by (auto simp: descending_def distinct_map inj_on_def)
  moreover have "sorted (map ?k ?all)" by (simp add: descending_def)
  ultimately have "filter (\<lambda>r. ?k (?all ! n) < ?k r) ?all = drop (Suc n) ?all"
    using assms(2) by (intro filter_above_key)
  then have "sort_key ?k (filter (\<lambda>r. ow_id r < ow_id (?all ! n)) ?rows) = drop (Suc n) ?all"
    by (simp add: descending_def filter_sort)
  moreover have "filter (\<lambda>r. ow_account_id r = account_id \<and> ow_id r < ow_id (?all ! n) \<and>
      ow_delivered_at r \<noteq> None) (t_outbox_activities d) = filter (\<lambda>r. ow_id r < ow_id (?all ! n)) ?rows"
    by (auto intro: filter_cong)
  ultimately show ?thesis by (simp add: outbox_find_by_account_id_def)
qed

subsection \<open>Properties\<close>

text \<open>C34. Walking the outbox with cursors misses and repeats nothing: the page that follows the
  last activity of a page is the next stretch of all delivered activities, newest first.\<close>

theorem outbox_pages_partition:
  assumes "outbox_ids_ok d"
    and "page = outbox_find_by_account_id account_id limit None d" and "page \<noteq> []"
    and "length (t_outbox_activities d) \<le> all"
  shows "page @ outbox_find_by_account_id account_id limit' (Some (oa_id (last page))) d =
         take (length page + limit') (outbox_find_by_account_id account_id all None d)"
proof -
  let ?all = "descending account_id (t_outbox_activities d)"
  have "length ?all \<le> all" using assms(4)
    by (simp add: descending_def) (meson le_trans length_filter_le)
  then have whole: "outbox_find_by_account_id account_id all None d = map outbox_activity_from ?all"
    by (simp add: outbox_find_by_account_id_def descending_def)
  have page: "page = map outbox_activity_from (take limit ?all)"
    using assms(2) by (simp add: outbox_find_by_account_id_def descending_def)
  let ?n = "length page - 1"
  from assms(3) have "0 < length page" by simp
  moreover have "length page \<le> length ?all" using page by simp
  ultimately have n: "?n < length ?all" "Suc ?n = length page" by linarith+
  have "last (take limit ?all) = ?all ! ?n"
    using page assms(3) by (subst last_conv_nth) (auto simp: min_def)
  then have "oa_id (last page) = ow_id (?all ! ?n)"
    using page assms(3) by (simp add: last_map outbox_activity_from_def)
  then have "outbox_find_by_account_id account_id limit' (Some (oa_id (last page))) d =
      map outbox_activity_from (take limit' (drop (length page) ?all))"
    using outbox_page_after [OF assms(1) n(1), of limit'] n(2) by simp
  moreover have "page = map outbox_activity_from (take (length page) ?all)"
    using page by (simp add: min_def)
  ultimately show ?thesis using whole
    by (metis map_append take_add take_map)
qed

theorem outbox_pages_partition_witness:
  "let row = (\<lambda>i. \<lparr> ow_id = i, ow_account_id = 7, ow_activity_id = [], ow_activity_type = ''Follow'',
         ow_object_json = [], ow_created_at = 0, ow_delivered_at = Some 1, ow_attempted_at = None,
         ow_error = None \<rparr>);
       d = empty_db \<lparr> t_outbox_activities := [row 1, row 2, row 3], t_outbox_next_id := 4 \<rparr>
   in map oa_id (outbox_find_by_account_id 7 2 None d) = [3, 2] \<and>
      map oa_id (outbox_find_by_account_id 7 2 None d @ outbox_find_by_account_id 7 2 (Some 2) d) = [3, 2, 1]"
proof -
  let ?row = "\<lambda>i. \<lparr> ow_id = i, ow_account_id = 7, ow_activity_id = [], ow_activity_type = ''Follow'',
         ow_object_json = [], ow_created_at = 0, ow_delivered_at = Some 1, ow_attempted_at = None,
         ow_error = None \<rparr> :: outbox_row"
  let ?d = "empty_db \<lparr> t_outbox_activities := [?row 1, ?row 2, ?row 3], t_outbox_next_id := 4 \<rparr>"
  have page: "map oa_id (outbox_find_by_account_id 7 2 None ?d) = [3, 2]"
    by (simp add: outbox_find_by_account_id_def outbox_activity_from_def)
  then have ne: "outbox_find_by_account_id 7 2 None ?d \<noteq> []"
    and l: "oa_id (last (outbox_find_by_account_id 7 2 None ?d)) = 2"
    by (simp_all add: outbox_find_by_account_id_def outbox_activity_from_def)
  have "outbox_ids_ok ?d" by (simp add: outbox_ids_ok_def)
  from outbox_pages_partition [OF this refl ne, of 3 2] l page show ?thesis
    by (simp add: outbox_find_by_account_id_def outbox_activity_from_def)
qed

end
