(* ===== verification/Activity_Streams.thy ===== *)
theory Activity_Streams
  imports Json Actor_Url
begin

text \<open>
  The ActivityStreams documents of \<open>kernel/src/activitypub.rs\<close>: actors, public keys, images,
  collections, activities and WebFinger responses, with the constructors the code gives them and
  the derived (de)serialisation of actors and activities. \<open>serde_json\<close> keeps the members of an
  object ordered by key; a structure is also read from an array of all its members in order.
\<close>

definition ACTIVITYSTREAMS_CONTEXT :: string where
  "ACTIVITYSTREAMS_CONTEXT = ''https://www.w3.org/ns/activitystreams''"

definition ACTIVITY_JSON :: string where
  "ACTIVITY_JSON = ''application/activity+json''"

definition local_actor_url :: "string \<Rightarrow> string \<Rightarrow> string" where
  "local_actor_url public_base_url account_nanoid =
     actor_id (actor_url_builder_new public_base_url account_nanoid)"

subsection \<open>Documents\<close>

record public_key =
  pk_id :: string
  pk_owner :: string
  pk_public_key_pem :: string

record image_object =
  io_type :: string
  io_url :: "string option"
  io_media_type :: "string option"

definition image_object_new :: "string \<Rightarrow> image_object" where
  "image_object_new url = \<lparr> io_type = ''Image'', io_url = Some url, io_media_type = None \<rparr>"

record actor =
  at_context :: "json list"
  at_id :: string
  at_object_type :: string
  at_preferred_username :: string
  at_name :: "string option"
  at_summary :: "string option"
  at_icon :: "image_object option"
  at_image :: "image_object option"
  at_url :: string
  at_inbox :: string
  at_outbox :: string
  at_followers :: string
  at_following :: string
  at_public_key :: public_key

record actor_images =
  ai_icon_url :: "string option"
  ai_banner_url :: "string option"

definition actor_new ::
  "actor_url_builder \<Rightarrow> string \<Rightarrow> string option \<Rightarrow> string option \<Rightarrow> actor_images \<Rightarrow> string \<Rightarrow> string \<Rightarrow> actor" where
  "actor_new urls preferred_username display_name summary images public_key_pem public_key_id =
     \<lparr> at_context = [JString ACTIVITYSTREAMS_CONTEXT,
                     JObject [(''publicKey'', JString ''https://w3id.org/security/v1#publicKey'')]],
       at_id = actor_id urls, at_object_type = ''Person'',
       at_preferred_username = preferred_username, at_name = display_name, at_summary = summary,
       at_icon = map_option image_object_new (ai_icon_url images),
       at_image = map_option image_object_new (ai_banner_url images),
       at_url = actor_id urls, at_inbox = actor_inbox urls, at_outbox = actor_outbox urls,
       at_followers = actor_followers urls, at_following = actor_following urls,
       at_public_key = \<lparr> pk_id = public_key_id, pk_owner = actor_id urls,
                        pk_public_key_pem = public_key_pem \<rparr> \<rparr>"

record ordered_collection =
  oc_context :: "json list"
  oc_id :: string
  oc_type :: string
  oc_total_items :: "nat option"
  oc_first :: "string option"
  oc_last :: "string option"
  oc_ordered_items :: "json list option"

definition ordered_collection_new ::
  "string \<Rightarrow> nat \<Rightarrow> string option \<Rightarrow> string option \<Rightarrow> ordered_collection" where
  "ordered_collection_new i total_items first_page last_page =
     \<lparr> oc_context = [JString ACTIVITYSTREAMS_CONTEXT], oc_id = i, oc_type = ''OrderedCollection'',
       oc_total_items = Some total_items, oc_first = first_page, oc_last = last_page, oc_ordered_items = None \<rparr>"

definition ordered_collection_with_items :: "string \<Rightarrow> nat \<Rightarrow> json list \<Rightarrow> ordered_collection" where
  "ordered_collection_with_items i total_items ordered_items =
     \<lparr> oc_context = [JString ACTIVITYSTREAMS_CONTEXT], oc_id = i, oc_type = ''OrderedCollection'',
       oc_total_items = Some total_items, oc_first = None, oc_last = None,
       oc_ordered_items = Some ordered_items \<rparr>"

record activity =
  av_context :: "json option"
  av_id :: string
  av_type :: string
  av_actor :: string
  av_object :: "json option"
  av_target :: "json option"
  av_to :: "string list option"
  av_cc :: "string list option"

record web_finger_link =
  wl_rel :: string
  wl_type :: string
  wl_href :: string

record web_finger_response =
  wf_subject :: string
  wf_links :: "web_finger_link list option"
  wf_aliases :: "string list option"

subsection \<open>Derived serialisation\<close>

text \<open>\<open>serde_json::to_value\<close> orders the members by key, \<open>to_string\<close> writes them as declared.\<close>

definition activity_to_value :: "activity \<Rightarrow> json" where
  "activity_to_value a =
     JObject (ser_opt ''@context'' id (av_context a) @ (''actor'', JString (av_actor a)) #
       ser_opt ''cc'' strings_to_json (av_cc a) @ (''id'', JString (av_id a)) #
       ser_opt ''object'' id (av_object a) @ ser_opt ''target'' id (av_target a) @
       ser_opt ''to'' strings_to_json (av_to a) @ [(''type'', JString (av_type a))])"

definition activity_document :: "activity \<Rightarrow> json" where
  "activity_document a =
     JObject (ser_opt ''@context'' id (av_context a) @ (''id'', JString (av_id a)) #
       (''type'', JString (av_type a)) # (''actor'', JString (av_actor a)) #
       ser_opt ''object'' id (av_object a) @ ser_opt ''target'' id (av_target a) @
       ser_opt ''to'' strings_to_json (av_to a) @ ser_opt ''cc'' strings_to_json (av_cc a))"

definition activity_build ::
  "json option option \<Rightarrow> string option \<Rightarrow> string option \<Rightarrow> string option \<Rightarrow> json option option \<Rightarrow>
   json option option \<Rightarrow> string list option option \<Rightarrow> string list option option \<Rightarrow> activity option" where
  "activity_build context i ty actor obj target recipients cc =
     Option.bind context (\<lambda>context. Option.bind i (\<lambda>i. Option.bind ty (\<lambda>ty.
     Option.bind actor (\<lambda>actor. Option.bind obj (\<lambda>obj. Option.bind target (\<lambda>target.
     Option.bind recipients (\<lambda>recipients. Option.bind cc (\<lambda>cc.
       Some \<lparr> av_context = context, av_id = i, av_type = ty, av_actor = actor, av_object = obj,
              av_target = target, av_to = recipients, av_cc = cc \<rparr>))))))))"

fun activity_from_value :: "json \<Rightarrow> activity option" where
  "activity_from_value (JObject m) =
     activity_build (de_opt_field Some ''@context'' m) (de_field json_as_str ''id'' m)
       (de_field json_as_str ''type'' m) (de_field json_as_str ''actor'' m)
       (de_opt_field Some ''object'' m) (de_opt_field Some ''target'' m)
       (de_opt_field (de_vec json_as_str) ''to'' m) (de_opt_field (de_vec json_as_str) ''cc'' m)"
| "activity_from_value (JArray [context, i, ty, actor, obj, target, recipients, cc]) =
     activity_build (de_option Some context) (json_as_str i) (json_as_str ty) (json_as_str actor)
       (de_option Some obj) (de_option Some target) (de_option (de_vec json_as_str) recipients)
       (de_option (de_vec json_as_str) cc)"
| "activity_from_value _ = None"

definition public_key_to_value :: "public_key \<Rightarrow> json" where
  "public_key_to_value k =
     JObject [(''id'', JString (pk_id k)), (''owner'', JString (pk_owner k)),
              (''publicKeyPem'', JString (pk_public_key_pem k))]"

definition image_object_to_value :: "image_object \<Rightarrow> json" where
  "image_object_to_value i =
     JObject (ser_opt ''mediaType'' JString (io_media_type i) @
       (''type'', JString (io_type i)) # ser_opt ''url'' JString (io_url i))"

definition actor_to_value :: "actor \<Rightarrow> json" where
  "actor_to_value a =
     JObject ((''@context'', JArray (at_context a)) # (''followers'', JString (at_followers a)) #
       (''following'', JString (at_following a)) # ser_opt ''icon'' image_object_to_value (at_icon a) @
       (''id'', JString (at_id a)) # ser_opt ''image'' image_object_to_value (at_image a) @
       (''inbox'', JString (at_inbox a)) # ser_opt ''name'' JString (at_name a) @
       (''outbox'', JString (at_outbox a)) #
       (''preferredUsername'', JString (at_preferred_username a)) #
       (''publicKey'', public_key_to_value (at_public_key a)) #
       ser_opt ''summary'' JString (at_summary a) @
       [(''type'', JString (at_object_type a)), (''url'', JString (at_url a))])"

definition public_key_build :: "string option \<Rightarrow> string option \<Rightarrow> string option \<Rightarrow> public_key option" where
  "public_key_build i owner pem =
     Option.bind i (\<lambda>i. Option.bind owner (\<lambda>owner. Option.bind pem (\<lambda>pem.
       Some \<lparr> pk_id = i, pk_owner = owner, pk_public_key_pem = pem \<rparr>)))"

fun public_key_from_value :: "json \<Rightarrow> public_key option" where
  "public_key_from_value (JObject m) =
     public_key_build (de_field json_as_str ''id'' m) (de_field json_as_str ''owner'' m)
       (de_field json_as_str ''publicKeyPem'' m)"
| "public_key_from_value (JArray [i, owner, pem]) =
     public_key_build (json_as_str i) (json_as_str owner) (json_as_str pem)"
| "public_key_from_value _ = None"

definition image_object_build ::
  "string option \<Rightarrow> string option option \<Rightarrow> string option option \<Rightarrow> image_object option" where
  "image_object_build ty url media_type =
     Option.bind ty (\<lambda>ty. Option.bind url (\<lambda>url. Option.bind media_type (\<lambda>media_type.
       Some \<lparr> io_type = ty, io_url = url, io_media_type = media_type \<rparr>)))"

fun image_object_from_value :: "json \<Rightarrow> image_object option" where
  "image_object_from_value (JObject m) =
     image_object_build (de_field json_as_str ''type'' m) (de_opt_field json_as_str ''url'' m)
       (de_opt_field json_as_str ''mediaType'' m)"
| "image_object_from_value (JArray [ty, url, media_type]) =
     image_object_build (json_as_str ty) (de_option json_as_str url) (de_option json_as_str media_type)"
| "image_object_from_value _ = None"

definition actor_build ::
  "json list option \<Rightarrow> string option \<Rightarrow> string option \<Rightarrow> string option \<Rightarrow> string option option \<Rightarrow>
   string option option \<Rightarrow> image_object option option \<Rightarrow> image_object option option \<Rightarrow> string option \<Rightarrow>
   string option \<Rightarrow> string option \<Rightarrow> string option \<Rightarrow> string option \<Rightarrow> public_key option \<Rightarrow> actor option" where
  "actor_build context i ty username name summary icon banner url inbox outbox followers following key =
     Option.bind context (\<lambda>context. Option.bind i (\<lambda>i. Option.bind ty (\<lambda>ty.
     Option.bind username (\<lambda>username. Option.bind name (\<lambda>name. Option.bind summary (\<lambda>summary.
     Option.bind icon (\<lambda>icon. Option.bind banner (\<lambda>banner. Option.bind url (\<lambda>url.
     Option.bind inbox (\<lambda>inbox. Option.bind outbox (\<lambda>outbox. Option.bind followers (\<lambda>followers.
     Option.bind following (\<lambda>following. Option.bind key (\<lambda>key.
       Some \<lparr> at_context = context, at_id = i, at_object_type = ty,
              at_preferred_username = username, at_name = name, at_summary = summary,
              at_icon = icon, at_image = banner, at_url = url, at_inbox = inbox,
              at_outbox = outbox, at_followers = followers, at_following = following,
              at_public_key = key \<rparr>))))))))))))))"

fun actor_from_value :: "json \<Rightarrow> actor option" where
  "actor_from_value (JObject m) =
     actor_build (de_field json_as_array ''@context'' m) (de_field json_as_str ''id'' m)
       (de_field json_as_str ''type'' m) (de_field json_as_str ''preferredUsername'' m)
       (de_opt_field json_as_str ''name'' m) (de_opt_field json_as_str ''summary'' m)
       (de_opt_field image_object_from_value ''icon'' m) (de_opt_field image_object_from_value ''image'' m)
       (de_field json_as_str ''url'' m) (de_field json_as_str ''inbox'' m)
       (de_field json_as_str ''outbox'' m) (de_field json_as_str ''followers'' m)
       (de_field json_as_str ''following'' m) (de_field public_key_from_value ''publicKey'' m)"
| "actor_from_value (JArray [context, i, ty, username, name, summary, icon, banner, url, inbox,
       outbox, followers, following, key]) =
     actor_build (json_as_array context) (json_as_str i) (json_as_str ty) (json_as_str username)
       (de_option json_as_str name) (de_option json_as_str summary)
       (de_option image_object_from_value icon) (de_option image_object_from_value banner)
       (json_as_str url) (json_as_str inbox) (json_as_str outbox) (json_as_str followers)
       (json_as_str following) (public_key_from_value key)"
| "actor_from_value _ = None"

subsection \<open>Round trips\<close>

text \<open>A value that serde reads back as it was written: \<open>Some(Value::Null)\<close> becomes \<open>None\<close>.\<close>

definition no_null_values :: "activity \<Rightarrow> bool" where
  "no_null_values a \<longleftrightarrow>
     av_context a \<noteq> Some JNull \<and> av_object a \<noteq> Some JNull \<and> av_target a \<noteq> Some JNull"

lemma de_option_id [serde_simps]: "de_option Some v = Some (if v = JNull then None else Some v)"
  by (cases v) auto

lemma public_key_roundtrip [serde_simps]: "public_key_from_value (public_key_to_value k) = Some k"
  by (simp add: public_key_to_value_def public_key_build_def de_field_def)

lemma image_object_roundtrip [serde_simps]: "image_object_from_value (image_object_to_value i) = Some i"
  by (cases "io_url i"; cases "io_media_type i")
    (simp_all add: image_object_to_value_def image_object_build_def de_field_def de_opt_field_def)

lemma image_object_to_value_not_null [simp]: "image_object_to_value i \<noteq> JNull"
  by (simp add: image_object_to_value_def)

lemma de_opt_field_ser [serde_simps]:
  "de_opt_field f k m = (case map_of m k of None \<Rightarrow> Some None | Some v \<Rightarrow> de_option f v)"
  by (simp add: de_opt_field_def)

lemma activity_roundtrip:
  "no_null_values a \<Longrightarrow> activity_from_value (activity_to_value a) = Some a"
  by (cases "av_context a"; cases "av_object a"; cases "av_target a"; cases "av_to a"; cases "av_cc a")
    (simp_all add: activity_to_value_def activity_build_def no_null_values_def de_field_def serde_simps)

lemma activity_document_roundtrip:
  "no_null_values a \<Longrightarrow> activity_from_value (activity_document a) = Some a"
  by (cases "av_context a"; cases "av_object a"; cases "av_target a"; cases "av_to a"; cases "av_cc a")
    (simp_all add: activity_document_def activity_build_def no_null_values_def de_field_def serde_simps)

lemma actor_roundtrip: "actor_from_value (actor_to_value a) = Some a"
  by (cases "at_name a"; cases "at_summary a"; cases "at_icon a"; cases "at_image a")
    (simp_all add: actor_to_value_def actor_build_def de_field_def serde_simps)

end
