(* ===== verification/Remote_Actors.thy ===== *)
theory Remote_Actors
  imports Ssrf Crud_Repositories Activity_Streams
begin

text \<open>
  Resolution of remote actors (\<open>application/src/service/activitypub/remote_actor.rs\<close>): fetching
  an actor document with at most five redirects, WebFinger for \<open>acct:\<close> identifiers, and the row
  kept for a remote account. The theorems show that every request goes to a public address, that
  a resolved actor is the one asked for, and that one row per actor URL is kept.
\<close>

record resolved_remote_actor =
  rr_acct :: string
  rr_url :: string
  rr_inbox_url :: "string option"
  rr_public_key_pem :: "string option"

definition same_activitypub_id :: "string \<Rightarrow> string \<Rightarrow> bool" where
  "same_activitypub_id left right =
     (trim_end_matches (CHR ''/'') left = trim_end_matches (CHR ''/'') right)"

definition get_request :: "url \<Rightarrow> socket_addr list option \<Rightarrow> string \<Rightarrow> string \<Rightarrow> http_request" where
  "get_request u pinned accept user_agent =
     \<lparr> rq_method = ''GET'', rq_url = u, rq_pinned = pinned,
       rq_headers = [(''accept'', accept), (''user-agent'', user_agent)], rq_body = [] \<rparr>"

text \<open>\<open>Response::json\<close>: the whole body, parsed.\<close>

definition response_json :: "federation \<Rightarrow> http_response \<Rightarrow> json option" where
  "response_json fd r = (if rs_complete r then json_parse (fd_net fd) (concat (rs_chunks r)) else None)"

text \<open>The loop over redirects; \<open>n\<close> is the number of requests it may still make.\<close>

fun fetch_actor :: "federation \<Rightarrow> nat \<Rightarrow> url \<Rightarrow> actor op" where
  "fetch_actor fd 0 u = op_fail Rejected"
| "fetch_actor fd (Suc n) u =
     op_bind (validate_fetch_url fd u) (\<lambda>resolved_addresses.
     op_bind (op_lift (client_for_url fd u resolved_addresses)) (\<lambda>client.
     op_bind (send_request fd (get_request u client ACTIVITY_JSON ''Emumet/0.1 ActivityPub actor resolver'')) (\<lambda>response.
     if is_redirection (rs_status response) then
       op_bind (op_lift (ok_or Rejected (rs_location response))) (\<lambda>location.
       op_bind (op_lift (ok_or Rejected (url_join (fd_net fd) u location))) (\<lambda>u'.
       fetch_actor fd n u'))
     else if \<not> is_success (rs_status response) then op_fail Rejected
     else op_lift (ok_or Rejected (Option.bind (response_json fd response) actor_from_value)))))"

definition resolve_remote_actor :: "federation \<Rightarrow> string \<Rightarrow> resolved_remote_actor op" where
  "resolve_remote_actor fd actor_url =
     op_bind (op_lift (ok_or Rejected (url_parse (fd_net fd) actor_url))) (\<lambda>u.
     op_bind (fetch_actor fd 6 u) (\<lambda>actor.
     op_bind (op_lift (ok_or Rejected (url_parse (fd_net fd) (at_id actor)))) (\<lambda>actor_id.
     op_bind (op_lift (ok_or Rejected (u_host_str actor_id))) (\<lambda>host.
     op_bind (op_lift (ensure (str_trim (str_chars (at_preferred_username actor)) \<noteq> []) Rejected)) (\<lambda>_.
     op_bind (op_lift (ensure (same_activitypub_id (at_id actor) actor_url) Rejected)) (\<lambda>_.
     op_return \<lparr> rr_acct = at_preferred_username actor @ ''@'' @ host, rr_url = at_id actor,
                 rr_inbox_url = Some (at_inbox actor),
                 rr_public_key_pem = Some (pk_public_key_pem (at_public_key actor)) \<rparr>))))))"

subsection \<open>WebFinger\<close>

definition is_alphanumeric :: "network \<Rightarrow> scalar \<Rightarrow> bool" where
  "is_alphanumeric n c \<longleftrightarrow>
     (if c < 128 then 48 \<le> c \<and> c \<le> 57 \<or> 65 \<le> c \<and> c \<le> 90 \<or> 97 \<le> c \<and> c \<le> 122
      else unicode_alphanumeric n c)"

text \<open>The characters \<open>.\<close>, \<open>-\<close> and \<open>_\<close> are 46, 45 and 95.\<close>

definition webfinger_user_ok :: "network \<Rightarrow> string \<Rightarrow> bool" where
  "webfinger_user_ok n user =
     list_all (\<lambda>c. is_alphanumeric n c \<or> c = 46 \<or> c = 45 \<or> c = 95) (str_chars user)"

definition webfinger_domain_ok :: "network \<Rightarrow> string \<Rightarrow> bool" where
  "webfinger_domain_ok n domain \<longleftrightarrow>
     list_all (\<lambda>c. is_alphanumeric n c \<or> c = 46 \<or> c = 45) (str_chars domain) \<and>
     \<not> starts_with ''-'' domain \<and> \<not> ends_with ''-'' domain"

definition self_link_href :: "json \<Rightarrow> string option" where
  "self_link_href link =
     Option.bind (json_get_str ''rel'' link) (\<lambda>rel.
     Option.bind (json_get_str ''type'' link) (\<lambda>ty.
     Option.bind (json_get_str ''href'' link) (\<lambda>href.
     if rel = ''self'' \<and> (ty = ''application/activity+json'' \<or> ty = ''application/ld+json'')
     then Some href else None)))"

fun find_map :: "('a \<Rightarrow> 'b option) \<Rightarrow> 'a list \<Rightarrow> 'b option" where
  "find_map f [] = None"
| "find_map f (x # xs) = (case f x of Some y \<Rightarrow> Some y | None \<Rightarrow> find_map f xs)"

definition resolve_remote_webfinger :: "federation \<Rightarrow> string \<Rightarrow> string \<Rightarrow> resolved_remote_actor op" where
  "resolve_remote_webfinger fd user domain =
     op_bind (op_lift (ensure (webfinger_user_ok (fd_net fd) user) Rejected)) (\<lambda>_.
     op_bind (op_lift (ensure (webfinger_domain_ok (fd_net fd) domain) Rejected)) (\<lambda>_.
     op_bind (op_lift (ok_or Rejected (url_parse (fd_net fd)
       (''https://'' @ domain @ ''/.well-known/webfinger?resource=acct:'' @ user @ ''@'' @ domain)))) (\<lambda>u.
     op_bind (validate_fetch_url fd u) (\<lambda>resolved_addresses.
     op_bind (op_lift (client_for_url fd u resolved_addresses)) (\<lambda>client.
     op_bind (send_request fd (get_request u client ''application/jrd+json'' ''Emumet/0.1 WebFinger resolver'')) (\<lambda>response.
     op_bind (op_lift (ensure (is_success (rs_status response)) Rejected)) (\<lambda>_.
     op_bind (op_lift (ok_or Rejected (response_json fd response))) (\<lambda>jrd.
     op_bind (op_lift (ok_or Rejected (json_get_str ''subject'' jrd))) (\<lambda>subject.
     op_bind (op_lift (ensure (subject = ''acct:'' @ user @ ''@'' @ domain) Rejected)) (\<lambda>_.
     op_bind (op_lift (ok_or NotFound
       (Option.bind (Option.bind (json_get ''links'' jrd) json_as_array) (find_map self_link_href)))) (\<lambda>actor_url.
     resolve_remote_actor fd actor_url)))))))))))"

definition resolve_remote_actor_identifier :: "federation \<Rightarrow> string \<Rightarrow> resolved_remote_actor op" where
  "resolve_remote_actor_identifier fd identifier =
     (case Option.bind (strip_prefix ''acct:'' identifier) (split_once (CHR ''@'')) of
        Some (user, domain) \<Rightarrow>
          if user = [] \<or> domain = [] then op_fail Rejected
          else resolve_remote_webfinger fd user domain
      | None \<Rightarrow> resolve_remote_actor fd identifier)"

subsection \<open>The row of a remote account\<close>

definition upsert_remote_account :: "federation \<Rightarrow> resolved_remote_actor \<Rightarrow> remote_account op" where
  "upsert_remote_account fd actor =
     op_bind (query (remote_account_find_by_url (rr_url actor))) (\<lambda>found.
     case found of
       Some existing \<Rightarrow>
         (let updated = \<lparr> ra_id = ra_id existing, ra_acct = rr_acct actor, ra_url = rr_url actor,
                          ra_icon_id = ra_icon_id existing, ra_inbox_url = rr_inbox_url actor,
                          ra_public_key_pem = rr_public_key_pem actor \<rparr>
          in op_bind (exec (remote_account_update updated)) (\<lambda>_. op_return updated))
     | None \<Rightarrow>
         op_bind (generate_id (fd_env fd)) (\<lambda>i.
         let remote_account = \<lparr> ra_id = i, ra_acct = rr_acct actor, ra_url = rr_url actor,
                                ra_icon_id = None, ra_inbox_url = rr_inbox_url actor,
                                ra_public_key_pem = rr_public_key_pem actor \<rparr>
         in op_bind (exec (remote_account_create remote_account)) (\<lambda>_. op_return remote_account)))"

subsection \<open>Requests stay public\<close>

lemma get_request_fields [simp]:
  "rq_url (get_request u p a ua) = u" "rq_pinned (get_request u p a ua) = p"
  by (simp_all add: get_request_def)

lemma sends_fetch_actor: "sends n (fetch_actor fd n u)"
proof (induction n arbitrary: u)
  case 0
  then show ?case by (simp only: fetch_actor.simps sends_intros)
next
  case (Suc n)
  show ?case unfolding fetch_actor.simps
    by (rule app_guard.sends_guarded_then)
      (auto intro!: sends_intros sends_bind_pure Suc.IH)
qed

lemma sends_resolve_remote_actor: "sends 6 (resolve_remote_actor fd s)"
  unfolding resolve_remote_actor_def
  by (intro sends_bind_pure sends_intros sends_bind [where n = 6 and k = 0, simplified] sends_fetch_actor)

lemma sends_resolve_remote_webfinger: "sends (Suc 6) (resolve_remote_webfinger fd user domain)"
  unfolding resolve_remote_webfinger_def
  by (rule sends_bind_pure, rule sends_intros, rule sends_bind_pure, rule sends_intros,
      rule sends_bind_pure, rule sends_intros, rule app_guard.sends_guarded_then)
    (simp_all, intro sends_bind_pure sends_intros sends_resolve_remote_actor)

lemma sends_resolve_identifier: "sends 7 (resolve_remote_actor_identifier fd s)"
  using sends_resolve_remote_webfinger sends_mono [OF sends_resolve_remote_actor, of 7]
  by (auto simp: resolve_remote_actor_identifier_def split: option.splits prod.splits intro: sends_intros)

lemmas keeps_resolve [keeps_intros] =
  sends_resolve_remote_actor [THEN keeps_sends] sends_resolve_identifier [THEN keeps_sends]

lemma keeps_upsert_remote_account [keeps_intros]:
  "keeps requests_public (upsert_remote_account fd actor)"
  unfolding upsert_remote_account_def Let_def by (intro keeps_intros)

subsection \<open>Resolved actors\<close>

lemma resolve_remote_actor_same:
  "resolve_remote_actor fd s w = (Inr a, w') \<Longrightarrow> same_activitypub_id (rr_url a) s"
  by (auto simp: resolve_remote_actor_def op_iffs result_iffs)

lemma resolve_identifier_same:
  assumes "resolve_remote_actor_identifier fd s w = (Inr a, w')" and "\<not> starts_with ''acct:'' s"
  shows "same_activitypub_id (rr_url a) s"
  using assms by (auto simp: resolve_remote_actor_identifier_def strip_prefix_def resolve_remote_actor_same)

subsection \<open>One row per actor\<close>

definition remote_accounts_ok :: "db \<Rightarrow> bool" where
  "remote_accounts_ok d \<longleftrightarrow>
     distinct (map rw_id (t_remote_accounts d)) \<and> distinct (map rw_url (t_remote_accounts d)) \<and>
     distinct (map rw_acct (t_remote_accounts d))"

lemma remote_account_row_roundtrip [simp]: "remote_account_from (row_of_remote_account a) = a"
  by (simp add: remote_account_from_def row_of_remote_account_def)

lemma row_of_remote_account_fields [simp]:
  "rw_id (row_of_remote_account a) = ra_id a" "rw_url (row_of_remote_account a) = ra_url a"
  "rw_acct (row_of_remote_account a) = ra_acct a"
  by (simp_all add: row_of_remote_account_def)

lemma remote_account_create_ok:
  assumes "remote_account_create a d = Inr (u, d')" and "remote_accounts_ok d"
  shows "remote_accounts_ok d'"
    and "t_remote_accounts d' = t_remote_accounts d @ [row_of_remote_account a]"
    and "d' = d \<lparr> t_remote_accounts := t_remote_accounts d @ [row_of_remote_account a] \<rparr>"
  using assms
  by (auto simp: remote_account_create_def remote_accounts_ok_def remote_account_clash_def Let_def
      result_iffs insert_row_Inr_iff)

text \<open>Replacing the row of one key keeps a column distinct when no other row has the new value.\<close>

lemma distinct_map_replace:
  assumes "distinct (map g xs)" and "distinct (map k xs)" and "\<And>x. x \<in> set xs \<Longrightarrow> k x \<noteq> i \<Longrightarrow> g x \<noteq> g r"
  shows "distinct (map g (map (\<lambda>x. if k x = i then r else x) xs))"
  using assms
proof (induction xs)
  case (Cons x xs)
  then have IH: "distinct (map g (map (\<lambda>x. if k x = i then r else x) xs))" by simp
  show ?case
  proof (cases "k x = i")
    case True
    with Cons.prems(2) have "\<forall>y \<in> set xs. k y \<noteq> i" by (metis distinct.simps(2) image_eqI list.map(2) list.set_map)
    with Cons.prems(3) have "\<forall>y \<in> set xs. g y \<noteq> g r" by simp
    with \<open>\<forall>y \<in> set xs. k y \<noteq> i\<close> IH True show ?thesis by (auto simp: image_iff)
  next
    case False
    with Cons.prems IH show ?thesis by (auto simp: image_iff)
  qed
qed simp

lemma remote_account_update_ok:
  assumes "remote_account_update a d = Inr (u, d')" and "remote_accounts_ok d"
  shows "remote_accounts_ok d'"
    and "t_remote_accounts d' =
           map (\<lambda>x. if rw_id x = ra_id a then row_of_remote_account a else x) (t_remote_accounts d)"
proof -
  let ?rows = "map (\<lambda>x. if rw_id x = ra_id a then row_of_remote_account a else x) (t_remote_accounts d)"
  from assms(1) have rows: "t_remote_accounts d' = ?rows"
    and clash: "\<And>x. x \<in> set (t_remote_accounts d) \<Longrightarrow> rw_id x \<noteq> ra_id a \<Longrightarrow>
        rw_url x \<noteq> ra_url a \<and> rw_acct x \<noteq> ra_acct a"
    by (auto simp: remote_account_update_def update_rows_def Let_def list_ex_iff remote_account_clash_def
        split: if_splits)
  show "t_remote_accounts d' = ?rows" by (rule rows)
  from assms(2) clash show "remote_accounts_ok d'"
    unfolding remote_accounts_ok_def rows
    by (auto intro!: distinct_map_replace [where k = rw_id, simplified])
qed

lemma find_unique_row:
  assumes "distinct (map k xs)" and "x \<in> set xs" and "k x = v"
  shows "List.find (\<lambda>y. k y = v) xs = Some x"
  using assms by (induction xs) auto

subsection \<open>An example peer\<close>

definition alice_url :: string where
  "alice_url = ''https://remote.example/ap/accounts/alice''"

definition alice_actor :: actor where
  "alice_actor =
     actor_new (actor_url_builder_new ''https://remote.example'' ''alice'') ''alice'' None None
       \<lparr> ai_icon_url = None, ai_banner_url = None \<rparr> ''PEM'' (alice_url @ ''#main-key'')"

definition example_fd :: federation where
  "example_fd =
     \<lparr> fd_app = \<lparr> ap_env = keto_env 60, ap_crypto = plain_crypto,
                  ap_base_url = ''https://emumet.example'' \<rparr>,
       fd_net = table_net [(alice_url, ok_page ''alice'')] [(''alice'', actor_to_value alice_actor)],
       fd_allowed_hosts = None \<rparr>"

definition alice_resolved :: resolved_remote_actor where
  "alice_resolved = \<lparr> rr_acct = ''alice@remote.example'', rr_url = alice_url,
     rr_inbox_url = Some (alice_url @ ''/inbox''), rr_public_key_pem = Some ''PEM'' \<rparr>"

definition alice_parsed :: url where
  "alice_parsed =
     \<lparr> u_as_str = alice_url, u_scheme = ''https'', u_username = [], u_password = None,
       u_host_str = Some ''remote.example'', u_port = None, u_port_or_known_default = Some 443,
       u_path = ''/ap/accounts/alice'', u_query = None \<rparr>"

lemma alice_parsed_fields [simp]:
  "u_as_str alice_parsed = alice_url" "u_host_str alice_parsed = Some ''remote.example''"
  by (simp_all add: alice_parsed_def)

lemma public_example: "\<not> is_blocked_ipv4 (ipv4_new 93 184 216 34)"
  by (simp add: is_blocked_ipv4_octets Let_def unat_octet ipv4_new_def)

lemma remote_example_host: "parse_ip_addr ''remote.example'' = None"
  by (rule parse_ip_addr_name) (simp_all add: hex_val_def)

lemma example_fd_net [simp]:
  "url_parse (fd_net example_fd) s = simple_url s" "client_builds (fd_net example_fd)"
  "lookup_host (fd_net example_fd) rqs host port = Some [(V4 (ipv4_new 93 184 216 34), port)]"
  "http_send (fd_net example_fd) rqs rq =
     (if u_as_str (rq_url rq) = alice_url then Some (ok_page ''alice'') else None)"
  "json_parse (fd_net example_fd) s = (if s = ''alice'' then Some (actor_to_value alice_actor) else None)"
  "fd_allowed_hosts example_fd = None" "fd_env example_fd = keto_env 60"
  by (simp_all add: example_fd_def table_net_def)

lemma alice_url_parsed: "simple_url alice_url = Some alice_parsed"
  by (simp add: simple_url_def alice_url_def alice_parsed_def strip_prefix_def starts_with_def)

lemma alice_validated:
  "validate_fetch_url example_fd alice_parsed w = (Inr [(V4 (ipv4_new 93 184 216 34), 443)], w)"
proof -
  have "host_lowercase ''remote.example'' = ''remote.example''"
    by (simp add: host_lowercase_def to_ascii_lowercase_def ascii_lower_def trim_end_matches_def)
  moreover have "\<not> is_localhost ''remote.example''"
    by (simp add: is_localhost_def ends_with_def starts_with_def)
  ultimately show ?thesis
    using remote_example_host public_example
    by (simp add: validate_fetch_url_def alice_parsed_def op_bind_def resolve_public_def
        is_fetch_host_allowed_def validate_public_ip_def)
qed

lemma alice_resolves:
  "fst (resolve_remote_actor_identifier example_fd alice_url empty_world) = Inr alice_resolved"
proof -
  have six: "(6 :: nat) = Suc 5" by simp
  have "strip_prefix ''acct:'' alice_url = None"
    by (simp add: alice_url_def strip_prefix_def starts_with_def)
  moreover have "fst (fetch_actor example_fd 6 alice_parsed empty_world) = Inr alice_actor"
    unfolding six fetch_actor.simps op_bind_def
    by (simp add: alice_validated client_for_url_def send_request_run response_json_def ok_page_def
        is_redirection_def is_success_def actor_roundtrip)
  then obtain w1 where "fetch_actor example_fd 6 alice_parsed empty_world = (Inr alice_actor, w1)"
    by (cases "fetch_actor example_fd 6 alice_parsed empty_world") simp
  moreover have "at_id alice_actor = alice_url" "at_preferred_username alice_actor = ''alice''"
    "at_inbox alice_actor = alice_url @ ''/inbox''" "pk_public_key_pem (at_public_key alice_actor) = ''PEM''"
    by (simp_all add: alice_actor_def actor_new_def actor_id_def actor_inbox_def actor_url_builder_new_def
        alice_url_def trim_end_matches_def ACTORS_PATH_def)
  moreover have "str_trim (str_chars ''alice'') \<noteq> []" by (simp add: str_trim_eq_Nil is_whitespace_def)
  ultimately show ?thesis
    by (simp add: resolve_remote_actor_identifier_def resolve_remote_actor_def op_bind_def alice_url_parsed
        alice_resolved_def same_activitypub_id_def)
qed



text \<open>
  After a remote account was refreshed, its URL leads to the row written; a row that was there
  keeps its ident, and one URL, one handle and one ident still belong to one row.
\<close>

lemma upsert_remote_account_row:
  assumes "upsert_remote_account fd actor w = (Inr r, w')" and "remote_accounts_ok (w_db w)"
  shows "remote_accounts_ok (w_db w') \<and>
     remote_account_find_by_url (rr_url actor) (w_db w') = Some r \<and>
     (\<forall>old. remote_account_find_by_url (rr_url actor) (w_db w) = Some old \<longrightarrow> ra_id r = ra_id old)"
proof (cases "remote_account_find_by_url (rr_url actor) (w_db w)")
  case None
  with assms(1) have "remote_account_create r (w_db w) = Inr ((), w_db w')"
    and url: "ra_url r = rr_url actor"
    by (auto simp: upsert_remote_account_def op_iffs generate_id_def Let_def)
  with assms(2) have new: "remote_accounts_ok (w_db w')"
      "t_remote_accounts (w_db w') = t_remote_accounts (w_db w) @ [row_of_remote_account r]"
    using remote_account_create_ok [of r "w_db w" "()" "w_db w'"] by auto
  from None have "List.find (\<lambda>x. rw_url x = rr_url actor) (t_remote_accounts (w_db w)) = None"
    by (simp add: remote_account_find_by_url_def)
  with new url None show ?thesis by (simp add: remote_account_find_by_url_def find_append)
next
  case (Some old)
  with assms(1) have upd: "remote_account_update r (w_db w) = Inr ((), w_db w')"
    and r: "ra_url r = rr_url actor" "ra_id r = ra_id old"
    by (auto simp: upsert_remote_account_def op_iffs Let_def)
  from remote_account_update_ok [OF upd assms(2)] have ok: "remote_accounts_ok (w_db w')"
    and rows: "t_remote_accounts (w_db w') =
       map (\<lambda>x. if rw_id x = ra_id r then row_of_remote_account r else x) (t_remote_accounts (w_db w))"
    by simp_all
  from Some obtain x where x: "x \<in> set (t_remote_accounts (w_db w))" "rw_id x = ra_id old"
    by (auto simp: remote_account_find_by_url_def remote_account_from_def dest!: find_SomeD)
  then have "row_of_remote_account r \<in> set (t_remote_accounts (w_db w'))" using rows r by force
  with ok r have "List.find (\<lambda>x. rw_url x = rr_url actor) (t_remote_accounts (w_db w')) = Some (row_of_remote_account r)"
    by (intro find_unique_row) (auto simp: remote_accounts_ok_def)
  with ok r have "remote_account_find_by_url (rr_url actor) (w_db w') = Some r"
    by (simp add: remote_account_find_by_url_def)
  with ok r Some show ?thesis by simp
qed

end
