(* ===== verification/Delivery.thy ===== *)
theory Delivery
  imports Http_Signer Remote_Actors Account_Read_Model "HOL-Library.Multiset"
begin

text \<open>
  Delivery of activities to remote inboxes
  (\<open>application/src/service/activitypub/delivery.rs\<close>) and the outbox use cases
  (\<open>outbox.rs\<close>). \<open>node\<close> collects what these services are configured with: the federation
  settings, the crates of the crypto drivers and of the signer, and the text that
  \<open>error_stack\<close> prints for a report. The theorem shows that a delivered request passes the
  verifier of the receiving server.
\<close>

record node =
  nd_fd :: federation
  nd_crates :: crypto_crates
  nd_signing :: signing_crates
  nd_debug :: "world \<Rightarrow> kernel_error \<Rightarrow> string"

abbreviation nd_app :: "node \<Rightarrow> app" where "nd_app nd \<equiv> fd_app (nd_fd nd)"
abbreviation nd_env :: "node \<Rightarrow> env" where "nd_env nd \<equiv> ap_env (fd_app (nd_fd nd))"
abbreviation nd_net :: "node \<Rightarrow> network" where "nd_net nd \<equiv> fd_net (nd_fd nd)"
abbreviation nd_base_url :: "node \<Rightarrow> string" where "nd_base_url nd \<equiv> ap_base_url (fd_app (nd_fd nd))"

subsection \<open>Delivery\<close>

definition host_header :: "url \<Rightarrow> string kresult" where
  "host_header u =
     res_bind (ok_or Rejected (u_host_str u)) (\<lambda>host.
     Inr (case u_port u of Some port \<Rightarrow> host @ '':'' @ nat_to_string port | None \<Rightarrow> host))"

definition delivery_signing_request ::
  "string \<Rightarrow> string \<Rightarrow> string \<Rightarrow> string \<Rightarrow> string \<Rightarrow> http_signing_request" where
  "delivery_signing_request inbox_url host date digest body =
     \<lparr> sr_method = ''POST'', sr_url = inbox_url,
       sr_headers = [(''host'', host), (''date'', date), (''digest'', digest),
                     (''content-type'', ACTIVITY_JSON)],
       sr_body = Some body \<rparr>"

definition explicit_header :: "string \<Rightarrow> bool" where
  "explicit_header name \<longleftrightarrow>
     to_ascii_lowercase name \<in> {''host'', ''date'', ''digest'', ''content-type''}"

definition delivery_request ::
  "url \<Rightarrow> socket_addr list option \<Rightarrow> string \<Rightarrow> string \<Rightarrow> string \<Rightarrow> string \<Rightarrow> (string \<times> string) list \<Rightarrow>
   http_request" where
  "delivery_request u client host date digest body signature_headers =
     \<lparr> rq_method = ''POST'', rq_url = u, rq_pinned = client,
       rq_headers = [(''host'', host), (''date'', date), (''digest'', digest),
                     (''content-type'', ACTIVITY_JSON)] @
                    filter (\<lambda>(name, _). \<not> explicit_header name) signature_headers,
       rq_body = body \<rparr>"

definition list_next :: "'a list \<Rightarrow> 'a option" where
  "list_next xs = (case xs of [] \<Rightarrow> None | x # _ \<Rightarrow> Some x)"

definition delivery_digest :: "network \<Rightarrow> string \<Rightarrow> string" where
  "delivery_digest n body = ''SHA-256='' @ base64_encode n (sha256 n body)"

text \<open>
  The request, up to the client that sends it: the headers, signed with the first active key of
  the account.
\<close>

definition signed_delivery ::
  "node \<Rightarrow> int \<Rightarrow> string \<Rightarrow> url \<Rightarrow> string \<Rightarrow> (socket_addr list option \<Rightarrow> http_request) op" where
  "signed_delivery nd account_id inbox_url u body =
     op_bind (op_lift (host_header u)) (\<lambda>host.
     let digest = delivery_digest (nd_net nd) body;
         date = fmt_http_date (nd_net nd) (now_utc (nd_env nd));
         signing_request = delivery_signing_request inbox_url host date digest body
     in
     op_bind (try_query (signing_key_find_active_by_account_id account_id)) (\<lambda>signing_keys.
     op_bind (op_lift (ok_or NotFound (list_next signing_keys))) (\<lambda>signing_key.
     op_bind (op_lift (get_password (ap_crypto (nd_app nd)))) (\<lambda>password.
     op_bind (op_lift (decrypt_key (ap_crypto (nd_app nd)) (sk_encrypted_private_key signing_key) password)) (\<lambda>private_key_pem.
     op_bind (op_lift (http_signer_sign (nd_signing nd) (nd_crates nd) signing_request private_key_pem
         (sk_key_id_uri signing_key) (sk_algorithm signing_key))) (\<lambda>signature.
     op_return (\<lambda>client. delivery_request u client host date digest body (cavage_headers signature))))))))"

definition deliver_activity_to_inbox :: "node \<Rightarrow> int \<Rightarrow> string \<Rightarrow> activity \<Rightarrow> unit op" where
  "deliver_activity_to_inbox nd account_id inbox_url a =
     (let body = json_print (nd_net nd) (activity_document a) in
      op_bind (op_lift (ok_or Rejected (url_parse (nd_net nd) inbox_url))) (\<lambda>u.
      op_bind (validate_fetch_url (nd_fd nd) u) (\<lambda>resolved_addresses.
      op_bind (signed_delivery nd account_id inbox_url u body) (\<lambda>request.
      op_bind (op_lift (client_for_url (nd_fd nd) u resolved_addresses)) (\<lambda>client.
      op_bind (send_request (nd_fd nd) (request client)) (\<lambda>response.
      op_lift (ensure (is_success (rs_status response)) Rejected)))))))"

subsection \<open>The outbox\<close>

definition store_outbox_activity :: "outbox_activity \<Rightarrow> int op" where
  "store_outbox_activity entry = exec (outbox_create entry)"

definition deliver_outbox_activity :: "node \<Rightarrow> int \<Rightarrow> int \<Rightarrow> string \<Rightarrow> activity \<Rightarrow> unit op" where
  "deliver_outbox_activity nd outbox_id account_id inbox_url a w =
     (case deliver_activity_to_inbox nd account_id inbox_url a w of
        (Inr (), w') \<Rightarrow> exec (outbox_mark_delivered (nd_env nd) outbox_id) w'
      | (Inl e, w') \<Rightarrow>
          op_bind (exec (outbox_mark_delivery_attempt (nd_env nd) outbox_id (Some (nd_debug nd w' e))))
            (\<lambda>_. op_fail e) w')"

definition get_outbox_collection :: "node \<Rightarrow> int \<Rightarrow> nat \<Rightarrow> int option \<Rightarrow> ordered_collection op" where
  "get_outbox_collection nd account_id limit cursor =
     op_bind (query (account_find_by_id (nd_env nd) account_id)) (\<lambda>found.
     op_bind (op_lift (ok_or NotFound found)) (\<lambda>account.
     op_bind (query (outbox_find_by_account_id account_id limit cursor)) (\<lambda>activities.
     op_bind (query (outbox_count_by_account_id account_id)) (\<lambda>total_items.
     op_bind (op_lift (res_collect
       (map (\<lambda>a. ok_or Internal (json_parse (nd_net nd) (oa_object_json a))) activities))) (\<lambda>ordered_items.
     op_return (ordered_collection_with_items
       (actor_outbox (actor_url_builder_new (nd_base_url nd) (acc_nanoid account)))
       total_items ordered_items))))))"

subsection \<open>Headers\<close>

lemma get_header_lookup:
  assumes "distinct (map (to_ascii_lowercase \<circ> fst) hs)" and "(k, v) \<in> set hs"
    and "to_ascii_lowercase k = to_ascii_lowercase name"
  shows "get_header hs name = Some v"
  using assms
proof (induction hs)
  case (Cons h hs)
  then show ?case
    by (cases h) (force simp: get_header_def eq_ignore_ascii_case_def image_iff)
qed simp

lemma get_header_absent:
  "to_ascii_lowercase name \<notin> set (map (to_ascii_lowercase \<circ> fst) hs) \<Longrightarrow> get_header hs name = None"
  by (force simp: get_header_def eq_ignore_ascii_case_def find_None_iff image_iff)

lemma header_insert_new: "k \<notin> fst ` set m \<Longrightarrow> header_insert k v m = m @ [(k, v)]"
  by (auto simp: header_insert_def map_of_eq_None_iff)

lemma header_insert_names: "fst ` set (header_insert k v m) \<subseteq> insert k (fst ` set m)"
  by (auto simp: header_insert_def split: if_splits)

lemma extract_headers_snoc:
  "extract_headers (hs @ [(k, v)]) =
     (if header_visible v then header_insert k v (extract_headers hs) else extract_headers hs)"
  by (simp add: extract_headers_def)

lemma extract_headers_names: "fst ` set (extract_headers hs) \<subseteq> fst ` set hs"
proof (induction hs rule: rev_induct)
  case (snoc h hs)
  obtain k v where h: "h = (k, v)" by (cases h)
  have "fst ` set (header_insert k v (extract_headers hs)) \<subseteq> insert k (fst ` set hs)"
    using snoc header_insert_names [of k v "extract_headers hs"] by blast
  with snoc show ?case unfolding h extract_headers_snoc by (auto split: if_splits)
qed (simp add: extract_headers_def)

text \<open>Of the headers of the signer, only the signature is added to those set explicitly.\<close>

lemma explicit_headers:
  "explicit_header ''host''" "explicit_header ''date''" "explicit_header ''digest''"
  "explicit_header ''content-type''" "\<not> explicit_header ''signature''"
  by (simp_all add: explicit_header_def to_ascii_lowercase_def ascii_lower_def)

lemma signature_header_added:
  assumes "fst ` set hs \<subseteq> {''host'', ''date'', ''digest'', ''content-type''}" and "header_visible v"
  shows "filter (\<lambda>(name, _). \<not> explicit_header name) (extract_headers (hs @ [(''signature'', v)])) =
         [(''signature'', v)]"
proof -
  from assms(1) extract_headers_names [of hs]
  have names: "fst ` set (extract_headers hs) \<subseteq> {''host'', ''date'', ''digest'', ''content-type''}"
    by (rule order_trans [rotated])
  then have "''signature'' \<notin> fst ` set (extract_headers hs)" by auto
  moreover from names have "filter (\<lambda>(name, _). \<not> explicit_header name) (extract_headers hs) = []"
    by (auto simp: filter_empty_conv explicit_headers)
  ultimately show ?thesis
    by (simp add: extract_headers_snoc assms(2) header_insert_new explicit_headers)
qed

definition key_id_ok :: "string \<Rightarrow> bool" where
  "key_id_ok s = list_all (\<lambda>c. ascii_graphic c \<and> c \<noteq> quote \<and> c \<noteq> backslash) s"

lemma key_id_graphic: "key_id_ok s \<Longrightarrow> list_all ascii_graphic s"
  by (simp add: key_id_ok_def list_all_iff)

lemma key_id_plain:
  assumes "key_id_ok s" shows "plain s"
proof -
  from graphic_ascii [OF key_id_graphic [OF assms]] assms show ?thesis
    by (simp add: key_id_ok_def plain_def list_all_iff)
qed

lemma header_visible_append [simp]: "header_visible (s @ t) \<longleftrightarrow> header_visible s \<and> header_visible t"
  by (simp add: header_visible_def)

lemma header_visible_Cons [simp]:
  "header_visible (c # s) \<longleftrightarrow>
     (byte_val c = 9 \<or> 32 \<le> byte_val c \<and> byte_val c \<le> 126) \<and> header_visible s"
  by (simp add: header_visible_def)

lemma header_visible_Nil [simp]: "header_visible []"
  by (simp add: header_visible_def)

lemma graphic_visible: "list_all ascii_graphic s \<Longrightarrow> header_visible s"
  by (auto simp: header_visible_def list_all_iff ascii_graphic_def)

lemma cavage_header_visible:
  assumes "key_id_ok key_id" and "base64_crate n"
    and "components = [''(request-target)'', ''host'', ''date'', ''digest'']"
  shows "header_visible (cavage_header key_id ''rsa-sha256'' components (base64_encode n sig))"
proof -
  have "header_visible key_id" by (rule graphic_visible [OF key_id_graphic [OF assms(1)]])
  moreover have "list_all ascii_graphic (base64_encode n sig)"
    using assms(2) base64_char_graphic unfolding base64_crate_def list_all_iff by blast
  then have "header_visible (base64_encode n sig)" by (rule graphic_visible)
  ultimately show ?thesis by (simp add: cavage_header_def quoted_param_def assms(3))
qed

subsection \<open>Requests\<close>

lemma delivery_request_fields [simp]:
  "rq_url (delivery_request u p h d g b s) = u" "rq_pinned (delivery_request u p h d g b s) = p"
  "rq_method (delivery_request u p h d g b s) = ''POST''" "rq_body (delivery_request u p h d g b s) = b"
  by (simp_all add: delivery_request_def)

lemma list_next_Some [simp]: "list_next xs = Some x \<longleftrightarrow> (\<exists>ys. xs = x # ys)"
  by (cases xs) (auto simp: list_next_def)

text \<open>What a delivery sends: at most the one signed request.\<close>

lemma validate_fetch_world: "validate_fetch_url fd u w = (r, w') \<Longrightarrow> w' = w"
  using app_guard.validate_world [of fd u w] by simp

lemma signed_delivery_Inr:
  assumes "signed_delivery nd account_id inbox_url u body w = (Inr request, w')"
  obtains host key keys password pem sig where "w' = w" "host_header u = Inr host"
    "signing_key_find_active_by_account_id account_id (w_db w) = Inr (key # keys)"
    "get_password (ap_crypto (nd_app nd)) = Inr password"
    "decrypt_key (ap_crypto (nd_app nd)) (sk_encrypted_private_key key) password = Inr pem"
    "http_signer_sign (nd_signing nd) (nd_crates nd)
       (delivery_signing_request inbox_url host (fmt_http_date (nd_net nd) (now_utc (nd_env nd)))
          (delivery_digest (nd_net nd) body) body)
       pem (sk_key_id_uri key) (sk_algorithm key) = Inr sig"
    "request = (\<lambda>client. delivery_request u client host (fmt_http_date (nd_net nd) (now_utc (nd_env nd)))
          (delivery_digest (nd_net nd) body) body (cavage_headers sig))"
  using assms by (auto simp: signed_delivery_def Let_def op_iffs result_iffs)

lemma sends_signed_delivery: "sends 0 (signed_delivery nd account_id inbox_url u body)"
  unfolding signed_delivery_def Let_def by (intro sends_bind_pure sends_intros)

lemma sends_0_world: "sends 0 m \<Longrightarrow> m w = (r, w') \<Longrightarrow> w' = w"
  by (auto simp: sends_def dest!: spec [of _ w])

lemma deliver_run:
  assumes "deliver_activity_to_inbox nd account_id inbox_url a w = (r, w')"
  shows "(r \<noteq> Inr () \<and> w' = w) \<or>
     (\<exists>u addrs request client. url_parse (nd_net nd) inbox_url = Some u \<and>
        validate_fetch_url (nd_fd nd) u w = (Inr addrs, w) \<and>
        signed_delivery nd account_id inbox_url u (json_print (nd_net nd) (activity_document a)) w =
          (Inr request, w) \<and>
        client_for_url (nd_fd nd) u addrs = Inr client \<and>
        w' = w \<lparr> w_requests := w_requests w @ [request client] \<rparr>)"
proof (cases "url_parse (nd_net nd) inbox_url")
  case None
  with assms show ?thesis by (auto simp: deliver_activity_to_inbox_def op_bind_def)
next
  case (Some u)
  let ?body = "json_print (nd_net nd) (activity_document a)"
  obtain rv where v: "validate_fetch_url (nd_fd nd) u w = (rv, w)"
    using validate_fetch_world by (metis surj_pair)
  obtain rs where s: "signed_delivery nd account_id inbox_url u ?body w = (rs, w)"
    using sends_0_world [OF sends_signed_delivery] by (metis surj_pair)
  have run: "deliver_activity_to_inbox nd account_id inbox_url a w =
      op_bind (validate_fetch_url (nd_fd nd) u) (\<lambda>addrs.
      op_bind (signed_delivery nd account_id inbox_url u ?body) (\<lambda>request.
      op_bind (op_lift (client_for_url (nd_fd nd) u addrs)) (\<lambda>client.
      op_bind (send_request (nd_fd nd) (request client)) (\<lambda>response.
      op_lift (ensure (is_success (rs_status response)) Rejected))))) w"
    using Some by (simp add: deliver_activity_to_inbox_def Let_def op_bind_def)
  show ?thesis
  proof (cases rv)
    case (Inl e)
    with v assms show ?thesis by (auto simp: run)
  next
    case valid: (Inr addrs)
    show ?thesis
    proof (cases rs)
      case (Inl e)
      with v s assms valid show ?thesis by (auto simp: run)
    next
      case (Inr request)
      with v s assms valid Some show ?thesis
        by (cases "client_for_url (nd_fd nd) u addrs") (auto simp: run send_request_run op_bind_def split: sum.splits)
    qed
  qed
qed

lemma sends_deliver: "sends 1 (deliver_activity_to_inbox nd account_id inbox_url a)"
  unfolding sends_def
proof
  fix w
  obtain r w' where run: "deliver_activity_to_inbox nd account_id inbox_url a w = (r, w')" by fastforce
  from deliver_run [OF this] show "\<exists>rqs. snd (deliver_activity_to_inbox nd account_id inbox_url a w) =
      w \<lparr> w_requests := w_requests w @ rqs \<rparr> \<and> length rqs \<le> 1 \<and> list_all public_request rqs"
  proof (elim disjE exE conjE)
    assume "w' = w"
    with run show ?thesis by (intro exI [of _ "[]"]) simp
  next
    fix u addrs request client
    assume valid: "validate_fetch_url (nd_fd nd) u w = (Inr addrs, w)"
      and signed: "signed_delivery nd account_id inbox_url u (json_print (nd_net nd) (activity_document a)) w =
          (Inr request, w)"
      and client: "client_for_url (nd_fd nd) u addrs = Inr client"
      and w': "w' = w \<lparr> w_requests := w_requests w @ [request client] \<rparr>"
    from signed have "rq_url (request client) = u" "rq_pinned (request client) = client"
      by (auto elim!: signed_delivery_Inr)
    with valid client have "public_request (request client)" by (rule app_guard.validated_request)
    with run w' show ?thesis by (intro exI [of _ "[request client]"]) simp
  qed
qed

subsection \<open>A delivered request is accepted\<close>

lemma split_on_absent: "c \<notin> set s \<Longrightarrow> split_on c s = [s]"
  by (induction s) auto

lemma digest_header_read:
  assumes "base64_crate n"
  shows "first_some sha256_part (split_on (CHR '','') (delivery_digest n body)) =
     Some (base64_encode n (sha256 n body))"
proof -
  let ?b = "base64_encode n (sha256 n body)"
  have chars: "list_all base64_char ?b" using assms by (simp add: base64_crate_def)
  then have graphic: "list_all ascii_graphic ?b" and comma: "CHR '','' \<notin> set ?b"
    using base64_char_graphic unfolding list_all_iff by blast+
  have "trim_text (''SHA-256='' @ ?b) = ''SHA-256='' @ ?b" "trim_text ?b = ?b"
    using graphic by (auto intro!: trim_text_graphic simp: ascii_graphic_def)
  moreover have "split_once (CHR ''='') (''SHA-256'' @ CHR ''='' # ?b) = Some (''SHA-256'', ?b)"
    by (rule split_once_append) simp
  moreover have "eq_ignore_ascii_case ''SHA-256'' ''sha-256''"
    using char_of_char [of "CHR ''s''"] char_of_char [of "CHR ''h''"] char_of_char [of "CHR ''a''"]
    by (simp add: eq_ignore_ascii_case_def to_ascii_lowercase_def ascii_lower_def)
  ultimately have "sha256_part (delivery_digest n body) = Some ?b"
    by (simp add: sha256_part_def delivery_digest_def)
  moreover from comma have "split_on (CHR '','') (delivery_digest n body) = [delivery_digest n body]"
    by (intro split_on_absent) (simp add: delivery_digest_def)
  ultimately show ?thesis by simp
qed

lemma signer_Inr:
  assumes "http_signer_sign sc c request pem kid alg = Inr sig" and "cavage_crate n sc"
    and "get_header (sr_headers request) ''digest'' \<noteq> None"
    and hs: "hs = map (\<lambda>(k, v). (to_ascii_lowercase k, v)) (sr_headers request)"
    and components: "components = [''(request-target)'', ''host'', ''date'', ''digest'']"
  obtains sign data where "rsa_signer_key c pem = Inr sign"
    "cavage_signing_string n (request \<lparr> sr_headers := hs \<rparr>) components = Some data"
    "cavage_headers sig = extract_headers (hs @
       [(''signature'', cavage_header kid ''rsa-sha256'' components (base64_encode n (sign data)))])"
proof -
  from assms(1,3) obtain hs' sign signed where "http_build sc request = Some hs'"
    and key: "rsa_signer_key c pem = Inr sign"
    and signed: "cavage_request_sign sc request hs' kid ''rsa-sha256'' sign components = Some signed"
    and sig: "cavage_headers sig = extract_headers signed"
    unfolding components by (auto simp: http_signer_sign_def Let_def result_iffs)
  with assms(2) have "hs' = hs" unfolding cavage_crate_def hs by blast
  with signed assms(2) obtain data where
    "cavage_signing_string n (request \<lparr> sr_headers := hs \<rparr>) components = Some data"
    "signed = hs @ [(''signature'', cavage_header kid ''rsa-sha256'' components (base64_encode n (sign data)))]"
    unfolding cavage_crate_def by blast
  with key sig show ?thesis using that [of sign data] by simp
qed

text \<open>The same crates at the receiving end.\<close>

definition same_crates :: "network \<Rightarrow> network \<Rightarrow> bool" where
  "same_crates n m \<longleftrightarrow> url_parse n = url_parse m \<and> sha256 n = sha256 m \<and>
     base64_encode n = base64_encode m \<and> base64_decode n = base64_decode m \<and>
     parse_http_date n = parse_http_date m"

definition same_path :: "url option \<Rightarrow> url option \<Rightarrow> bool" where
  "same_path u v \<longleftrightarrow> map_option u_path u = map_option u_path v \<and> map_option u_query u = map_option u_query v"

text \<open>The server enumerates the headers of a request in any order.\<close>

definition received :: "string \<Rightarrow> (string \<times> string) list \<Rightarrow> http_request \<Rightarrow> http_signing_request" where
  "received public_url hs rq =
     \<lparr> sr_method = rq_method rq, sr_url = public_url, sr_headers = hs, sr_body = Some (rq_body rq) \<rparr>"

abbreviation signed_components :: "string list" where
  "signed_components \<equiv> [''(request-target)'', ''host'', ''date'', ''digest'']"

lemma signing_string_agrees:
  assumes "same_crates n m" and "same_path (url_parse n (sr_url r)) (url_parse n (sr_url q))"
    and "sr_method r = sr_method q"
    and "\<And>h. h \<in> {''host'', ''date'', ''digest''} \<Longrightarrow> get_header (sr_headers r) h = get_header (sr_headers q) h"
  shows "cavage_signing_string m r signed_components = cavage_signing_string n q signed_components"
  using assms
  by (cases "url_parse n (sr_url r)"; cases "url_parse n (sr_url q)")
    (auto simp: cavage_signing_string_def signing_line_def same_crates_def same_path_def split: option.splits)

lemma delivered_headers:
  assumes "mset hs = mset [(''host'', host), (''date'', date), (''digest'', digest),
      (''content-type'', ct), (''signature'', sg)]"
  shows "get_header hs ''host'' = Some host" "get_header hs ''date'' = Some date"
    "get_header hs ''digest'' = Some digest" "get_header hs ''signature'' = Some sg"
    "get_header hs ''signature-input'' = None"
proof -
  have "mset (map (to_ascii_lowercase \<circ> fst) hs) =
      mset [''host'', ''date'', ''digest'', ''content-type'', ''signature'']"
    using arg_cong [OF assms, of "image_mset (to_ascii_lowercase \<circ> fst)"]
    by (simp add: to_ascii_lowercase_def ascii_lower_def)
  note eq = mset_eq_setD [OF this] mset_eq_imp_distinct_iff [OF this]
  from eq(1) have names: "set (map (to_ascii_lowercase \<circ> fst) hs) =
        {''host'', ''date'', ''digest'', ''content-type'', ''signature''}"
    by (simp only: list.set)
  from eq(2) have distinct: "distinct (map (to_ascii_lowercase \<circ> fst) hs)" by simp
  have set: "set hs = {(''host'', host), (''date'', date), (''digest'', digest),
      (''content-type'', ct), (''signature'', sg)}"
    using mset_eq_setD [OF assms] by simp
  show "get_header hs ''host'' = Some host"
    by (rule get_header_lookup [OF distinct, of "''host''"]) (simp_all add: set)
  show "get_header hs ''date'' = Some date"
    by (rule get_header_lookup [OF distinct, of "''date''"]) (simp_all add: set)
  show "get_header hs ''digest'' = Some digest"
    by (rule get_header_lookup [OF distinct, of "''digest''"]) (simp_all add: set)
  show "get_header hs ''signature'' = Some sg"
    by (rule get_header_lookup [OF distinct, of "''signature''"]) (simp_all add: set)
  show "get_header hs ''signature-input'' = None"
    by (rule get_header_absent, subst names) (simp add: to_ascii_lowercase_def ascii_lower_def)
qed

lemma delivery_signed:
  assumes signer: "http_signer_sign (nd_signing nd) (nd_crates nd)
       (delivery_signing_request inbox_url host date digest body) pem kid alg = Inr sig"
    and "cavage_crate (nd_net nd) (nd_signing nd)" and "base64_crate (nd_net nd)" and "key_id_ok kid"
  obtains sign data where "rsa_signer_key (nd_crates nd) pem = Inr sign"
    "cavage_signing_string (nd_net nd) (delivery_signing_request inbox_url host date digest body)
       signed_components = Some data"
    "rq_headers (delivery_request u p host date digest body (cavage_headers sig)) =
       [(''host'', host), (''date'', date), (''digest'', digest), (''content-type'', ACTIVITY_JSON),
        (''signature'', cavage_header kid ''rsa-sha256'' signed_components
           (base64_encode (nd_net nd) (sign data)))]"
proof -
  let ?req = "delivery_signing_request inbox_url host date digest body"
  have "get_header (sr_headers ?req) ''digest'' \<noteq> None"
    by (simp add: delivery_signing_request_def get_header_def eq_ignore_ascii_case_def
        to_ascii_lowercase_def ascii_lower_def)
  moreover have lower: "sr_headers ?req = map (\<lambda>(k, v). (to_ascii_lowercase k, v)) (sr_headers ?req)"
    by (simp add: delivery_signing_request_def to_ascii_lowercase_def ascii_lower_def)
  ultimately obtain sign data where sign: "rsa_signer_key (nd_crates nd) pem = Inr sign"
    and data: "cavage_signing_string (nd_net nd) (?req \<lparr> sr_headers := sr_headers ?req \<rparr>) signed_components = Some data"
    and sig: "cavage_headers sig = extract_headers (sr_headers ?req @ [(''signature'',
      cavage_header kid ''rsa-sha256'' signed_components (base64_encode (nd_net nd) (sign data)))])"
    by (rule signer_Inr [OF signer assms(2) _ _ refl])
  have "fst ` set (sr_headers ?req) \<subseteq> {''host'', ''date'', ''digest'', ''content-type''}"
    by (simp add: delivery_signing_request_def)
  from signature_header_added [OF this cavage_header_visible [OF assms(4,3) refl]] sig
  have "filter (\<lambda>(name, _). \<not> explicit_header name) (cavage_headers sig) = [(''signature'',
      cavage_header kid ''rsa-sha256'' signed_components (base64_encode (nd_net nd) (sign data)))]"
    by (simp only:)
  then have headers: "rq_headers (delivery_request u p host date digest body (cavage_headers sig)) =
       [(''host'', host), (''date'', date), (''digest'', digest), (''content-type'', ACTIVITY_JSON),
        (''signature'', cavage_header kid ''rsa-sha256'' signed_components
           (base64_encode (nd_net nd) (sign data)))]"
    by (simp only: delivery_request_def http_request.simps append.simps)
  have "?req \<lparr> sr_headers := sr_headers ?req \<rparr> = ?req" by simp
  with data show ?thesis by (intro that [OF sign _ headers]) (simp only:)
qed

lemma received_date:
  assumes "httpdate_crate n" and "parse_http_date m = parse_http_date n"
    and "get_header (sr_headers r) ''date'' = Some (fmt_http_date n now)"
    and "0 \<le> now" and "now < 253402300800 * 1000000000" and "\<bar>now - now_utc e\<bar> \<le> 299 * 1000000000"
  shows "validate_date_header m e r = Inr ()"
proof -
  from assms(1,4,5) have "parse_http_date n (fmt_http_date n now) = Some (now - now mod 1000000000)"
    by (simp add: httpdate_crate_def)
  moreover have "0 \<le> now mod 1000000000" "now mod 1000000000 < 1000000000" by simp_all
  with assms(6) have "\<bar>now - now mod 1000000000 - now_utc e\<bar> \<le> DATE_TOLERANCE"
    unfolding DATE_TOLERANCE_def by linarith
  ultimately show ?thesis using assms(2,3) by (simp add: validate_date_Inr)
qed

lemma received_digest:
  assumes "base64_crate n" and "same_crates n m" and "body_bytes r = body"
    and "get_header (sr_headers r) ''digest'' = Some (delivery_digest n body)"
  shows "validate_digest_header m r = Inr ()"
proof -
  from assms(1,2) have "base64_decode m (base64_encode n (sha256 n body)) = Some (sha256 m body)"
    by (simp add: base64_crate_def same_crates_def)
  with digest_header_read [OF assms(1)] assms(3,4) show ?thesis by (simp add: validate_digest_Inr)
qed

lemma delivery_request_headers:
  "get_header (sr_headers (delivery_signing_request inbox_url host date digest body)) ''host'' = Some host"
  "get_header (sr_headers (delivery_signing_request inbox_url host date digest body)) ''date'' = Some date"
  "get_header (sr_headers (delivery_signing_request inbox_url host date digest body)) ''digest'' = Some digest"
  by (simp_all add: delivery_signing_request_def get_header_def eq_ignore_ascii_case_def
      to_ascii_lowercase_def ascii_lower_def)

lemma delivered_shape:
  assumes deliver: "deliver_activity_to_inbox nd account_id inbox_url a w = (Inr (), w')"
    and crates: "base64_crate (nd_net nd)" "cavage_crate (nd_net nd) (nd_signing nd)"
    and key: "signing_key_find_active_by_account_id account_id (w_db w) = Inr (k # ks)" "key_id_ok (sk_key_id_uri k)"
      "\<And>password. get_password (ap_crypto (nd_app nd)) = Inr password \<Longrightarrow>
         decrypt_key (ap_crypto (nd_app nd)) (sk_encrypted_private_key k) password = Inr pem"
    and body: "body = json_print (nd_net nd) (activity_document a)"
    and date: "date = fmt_http_date (nd_net nd) (now_utc (nd_env nd))"
  obtains u host sign data where "url_parse (nd_net nd) inbox_url = Some u" "host_header u = Inr host"
    "rq_method (last (w_requests w')) = ''POST''" "rq_body (last (w_requests w')) = body"
    "rsa_signer_key (nd_crates nd) pem = Inr sign"
    "cavage_signing_string (nd_net nd) (delivery_signing_request inbox_url host date (delivery_digest (nd_net nd) body) body)
       signed_components = Some data"
    "rq_headers (last (w_requests w')) = [(''host'', host), (''date'', date), (''digest'', delivery_digest (nd_net nd) body),
        (''content-type'', ACTIVITY_JSON), (''signature'', cavage_header (sk_key_id_uri k) ''rsa-sha256''
           signed_components (base64_encode (nd_net nd) (sign data)))]"
proof -
  let ?digest = "delivery_digest (nd_net nd) body"
  from deliver_run [OF deliver] obtain u request client where u: "url_parse (nd_net nd) inbox_url = Some u"
    and signed: "signed_delivery nd account_id inbox_url u body w = (Inr request, w)"
    and w': "w' = w \<lparr> w_requests := w_requests w @ [request client] \<rparr>" unfolding body by blast
  from signed key(1,3) obtain host and sig :: http_signing_response where host: "host_header u = Inr host"
    and signer: "http_signer_sign (nd_signing nd) (nd_crates nd)
       (delivery_signing_request inbox_url host date ?digest body) pem (sk_key_id_uri k) (sk_algorithm k) = Inr sig"
    and request: "last (w_requests w') = delivery_request u client host date ?digest body (cavage_headers sig)"
    unfolding date by (elim signed_delivery_Inr) (auto simp: w')
  from delivery_signed [OF signer crates(2,1) key(2), of u client] obtain sign data where
    shape: "rsa_signer_key (nd_crates nd) pem = Inr sign"
    "cavage_signing_string (nd_net nd) (delivery_signing_request inbox_url host date ?digest body)
       signed_components = Some data"
    "rq_headers (last (w_requests w')) = [(''host'', host), (''date'', date), (''digest'', ?digest),
        (''content-type'', ACTIVITY_JSON), (''signature'', cavage_header (sk_key_id_uri k) ''rsa-sha256''
           signed_components (base64_encode (nd_net nd) (sign data)))]"
    unfolding request by metis
  show ?thesis by (rule that [OF u host _ _ shape]) (simp_all add: request delivery_request_def)
qed

text \<open>
  A delivered request, when it reaches a server that runs the same crates with a clock at most
  299 seconds apart, is accepted there under the key identifier of the sender, provided the key
  document published under that identifier has the public half of the key that was opened.
\<close>

theorem delivered_request_verifies:
  assumes deliver: "deliver_activity_to_inbox nd account_id inbox_url a w = (Inr (), w')"
    and crates: "base64_crate (nd_net nd)" "httpdate_crate (nd_net nd)"
      "cavage_crate (nd_net nd) (nd_signing nd)" "signature_crate_ok (rsa_crate (nd_crates nd))"
    and key: "signing_key_find_active_by_account_id account_id (w_db w) = Inr (k # ks)"
      "key_id_ok (sk_key_id_uri k)"
      "rsa2048_generate_raw (nd_crates nd) seed = Inr pair" "sk_public_key_pem k = rk_public_key_pem pair"
      "\<And>password. get_password (ap_crypto (nd_app nd)) = Inr password \<Longrightarrow>
         decrypt_key (ap_crypto (nd_app nd)) (sk_encrypted_private_key k) password = Inr (rk_private_key_pem pair)"
    and clocks: "0 \<le> now_utc (nd_env nd)" "now_utc (nd_env nd) < 253402300800 * 1000000000"
      "\<bar>now_utc (nd_env nd) - now_utc (fd_env fd)\<bar> \<le> 299 * 1000000000"
    and receiver: "same_crates (nd_net nd) (fd_net fd)" "mset hs = mset (rq_headers (last (w_requests w')))"
      "same_path (url_parse (nd_net nd) public_url) (url_parse (nd_net nd) inbox_url)"
    and published: "fetch_actor_key fd (sk_key_id_uri k) v = (Inr published, v')"
      "apk_public_key_pem published = sk_public_key_pem k"
  shows "verify_http_signature fd (nd_crates nd) (received public_url hs (last (w_requests w'))) v =
     (Inr (Valid (sk_key_id_uri k)), v')"
proof -
  let ?n = "nd_net nd" and ?body = "json_print (nd_net nd) (activity_document a)"
  let ?date = "fmt_http_date ?n (now_utc (nd_env nd))" and ?digest = "delivery_digest ?n ?body"
  from deliver crates(1,3) key(1,2,5) obtain u host sign data where
    request: "rq_method (last (w_requests w')) = ''POST''" "rq_body (last (w_requests w')) = ?body"
    and sign: "rsa_signer_key (nd_crates nd) (rk_private_key_pem pair) = Inr sign"
    and data: "cavage_signing_string ?n (delivery_signing_request inbox_url host ?date ?digest ?body)
       signed_components = Some data"
    and shape: "rq_headers (last (w_requests w')) = [(''host'', host), (''date'', ?date), (''digest'', ?digest),
        (''content-type'', ACTIVITY_JSON), (''signature'', cavage_header (sk_key_id_uri k) ''rsa-sha256''
           signed_components (base64_encode ?n (sign data)))]"
    by (rule delivered_shape [OF _ _ _ _ _ _ refl refl])
  note headers = receiver(2) [unfolded shape]
  note hdr = delivered_headers [OF headers]
  let ?r = "received public_url hs (last (w_requests w'))"
  have fields: "sr_headers ?r = hs" "sr_method ?r = ''POST''" "sr_url ?r = public_url" "body_bytes ?r = ?body"
    by (simp_all add: received_def request body_bytes_def)
  have n: "base64_encode (fd_net fd) = base64_encode ?n" "parse_http_date (fd_net fd) = parse_http_date ?n"
    "base64_crate (fd_net fd)"
    using receiver(1) crates(1) by (simp_all add: same_crates_def base64_crate_def)
  have "cavage_signing_string (fd_net fd) ?r signed_components = Some data"
    unfolding data [symmetric]
    by (rule signing_string_agrees [OF receiver(1)])
      (use receiver(3) hdr delivery_request_headers in \<open>auto simp: fields delivery_signing_request_def\<close>)
  moreover have "validate_date_header (fd_net fd) (fd_env fd) ?r = Inr ()"
    by (rule received_date [OF crates(2) n(2) _ clocks]) (simp add: fields hdr)
  moreover have "validate_digest_header (fd_net fd) ?r = Inr ()"
    by (rule received_digest [OF crates(1) receiver(1) fields(4)]) (simp add: fields hdr)
  moreover have "rsa2048_verify (nd_crates nd) data (sign data) (apk_public_key_pem published) = Inr True"
    using rsa_signer_key_generated [OF crates(4) key(3) [unfolded rsa2048_generate_raw_def] sign]
    by (simp add: published(2) key(4))
  ultimately show ?thesis
    by (intro signed_request_valid [where components = signed_components, OF n(3) key_id_plain [OF key(2)]])
      (simp_all add: fields hdr n(1) published(1))
qed

end
