(* ===== verification/Actors.thy ===== *)
theory Actors
  imports Delivery Relations Account_Service
begin

text \<open>
  The documents a local account publishes
  (\<open>application/src/service/activitypub/actor.rs\<close> and \<open>collections.rs\<close>) and the
  delivery of profile updates to followers (\<open>update_person.rs\<close>).
\<close>

text \<open>Turning an error into a value, as \<open>if let Err(error) = ...\<close> does.\<close>

definition op_try :: "'a op \<Rightarrow> 'a kresult op" where
  "op_try m w = (case m w of (r, w') \<Rightarrow> (Inr r, w'))"

subsection \<open>Actor documents\<close>

definition image_url :: "image list \<Rightarrow> image_id option \<Rightarrow> string option" where
  "image_url images i =
     Option.bind i (\<lambda>i. map_option im_url (List.find (\<lambda>im. im_id im = i) images))"

definition get_actor :: "node \<Rightarrow> nanoid \<Rightarrow> actor op" where
  "get_actor nd account_nanoid =
     op_bind (found_visible (nd_env nd) account_nanoid) (\<lambda>account.
     op_bind (query (profile_find_by_account_id (acc_id account))) (\<lambda>profile.
     op_bind (try_query (signing_key_find_active_by_account_id (acc_id account))) (\<lambda>signing_keys.
     op_bind (op_lift (ok_or NotFound (list_next signing_keys))) (\<lambda>signing_key.
     let image_ids = (case profile of
           None \<Rightarrow> []
         | Some p \<Rightarrow> (case pr_icon p of None \<Rightarrow> [] | Some i \<Rightarrow> [i]) @ (case pr_banner p of None \<Rightarrow> [] | Some i \<Rightarrow> [i]))
     in
     op_bind (query (image_find_by_ids image_ids)) (\<lambda>images.
     op_return (actor_new (actor_url_builder_new (nd_base_url nd) (acc_nanoid account)) (acc_name account)
       (Option.bind profile pr_display_name) (Option.bind profile pr_summary)
       \<lparr> ai_icon_url = Option.bind profile (\<lambda>p. image_url images (pr_icon p)),
         ai_banner_url = Option.bind profile (\<lambda>p. image_url images (pr_banner p)) \<rparr>
       (sk_public_key_pem signing_key) (sk_key_id_uri signing_key)))))))"

definition get_webfinger :: "node \<Rightarrow> string \<Rightarrow> string \<Rightarrow> web_finger_response op" where
  "get_webfinger nd account_name domain =
     op_bind (op_lift (account_name_validate account_name)) (\<lambda>_.
     op_bind (query (account_find_by_name (nd_env nd) account_name)) (\<lambda>found.
     op_bind (op_lift (ok_or NotFound found)) (\<lambda>account.
     let actor_url = actor_id (actor_url_builder_new (nd_base_url nd) (acc_nanoid account))
     in op_return
       \<lparr> wf_subject = ''acct:'' @ acc_name account @ ''@'' @ to_ascii_lowercase domain,
         wf_links = Some [\<lparr> wl_rel = ''self'', wl_type = ''application/activity+json'', wl_href = actor_url \<rparr>],
         wf_aliases = Some [actor_url] \<rparr>)))"

subsection \<open>Collections\<close>

definition count_approved :: "follow list \<Rightarrow> nat" where
  "count_approved follows = length (filter (\<lambda>f. fo_approved_at f \<noteq> None) follows)"

definition get_followers_collection :: "node \<Rightarrow> int \<Rightarrow> ordered_collection op" where
  "get_followers_collection nd account_id =
     op_bind (query (account_find_by_id (nd_env nd) account_id)) (\<lambda>found.
     op_bind (op_lift (ok_or NotFound found)) (\<lambda>account.
     op_bind (try_query (find_followers (Local account_id))) (\<lambda>follows.
     op_return (ordered_collection_new
       (actor_followers (actor_url_builder_new (nd_base_url nd) (acc_nanoid account)))
       (count_approved follows) None None))))"

definition get_following_collection :: "node \<Rightarrow> int \<Rightarrow> ordered_collection op" where
  "get_following_collection nd account_id =
     op_bind (query (account_find_by_id (nd_env nd) account_id)) (\<lambda>found.
     op_bind (op_lift (ok_or NotFound found)) (\<lambda>account.
     op_bind (try_query (find_followings (Local account_id))) (\<lambda>follows.
     op_return (ordered_collection_new
       (actor_following (actor_url_builder_new (nd_base_url nd) (acc_nanoid account)))
       (count_approved follows) None None))))"

subsection \<open>Updates of a profile\<close>

text \<open>The URL of an activity with a given identifier.\<close>

definition activity_url :: "string \<Rightarrow> int \<Rightarrow> string" where
  "activity_url public_base_url i =
     trim_end_matches (CHR ''/'') public_base_url @ ''/activities/'' @ int_to_string i"

definition update_person_activity :: "node \<Rightarrow> actor \<Rightarrow> activity op" where
  "update_person_activity nd actor =
     op_bind (generate_id (nd_env nd)) (\<lambda>i.
     op_return
       \<lparr> av_context = Some (JString ACTIVITYSTREAMS_CONTEXT), av_id = activity_url (nd_base_url nd) i,
         av_type = ''Update'', av_actor = at_id actor, av_object = Some (actor_to_value actor),
         av_target = None, av_to = Some [''https://www.w3.org/ns/activitystreams#Public''],
         av_cc = None \<rparr>)"

definition deliver_to_follower :: "node \<Rightarrow> int \<Rightarrow> activity \<Rightarrow> follow \<Rightarrow> unit op" where
  "deliver_to_follower nd account_id a f =
     (case (fo_approved_at f, fo_source f) of
        (Some _, Remote remote_id) \<Rightarrow>
          op_bind (query (remote_account_find_by_id remote_id)) (\<lambda>remote.
          case Option.bind remote ra_inbox_url of
            None \<Rightarrow> op_return ()
          | Some inbox_url \<Rightarrow>
              op_bind (op_try (deliver_activity_to_inbox nd account_id inbox_url a)) (\<lambda>_. op_return ()))
      | _ \<Rightarrow> op_return ())"

definition deliver_update_person :: "node \<Rightarrow> int \<Rightarrow> nanoid \<Rightarrow> unit op" where
  "deliver_update_person nd account_id account_nanoid =
     op_bind (get_actor nd account_nanoid) (\<lambda>actor.
     op_bind (update_person_activity nd actor) (\<lambda>a.
     op_bind (try_query (find_followers (Local account_id))) (\<lambda>followers.
     op_iter (deliver_to_follower nd account_id a) followers)))"

end
