(* ===== verification/Account_Detail.thy ===== *)
theory Account_Detail
  imports Actors Account_Service "HOL-Library.Product_Lexorder"
begin

text \<open>
  Profiles as a client sees and edits them (\<open>application/src/service/account_detail/\<close>): the
  composition of an account with its profile, images and fields (\<open>read.rs\<close>), the checks on an
  update (\<open>validate.rs\<close>), the plan that turns the stored fields into the submitted ones
  (\<open>fields.rs\<close>), and the update itself, one transaction followed by a notification of the
  followers when an image changed (\<open>update.rs\<close>). A hash map collected from a list keeps the
  last entry of a key.
\<close>

subsection \<open>Data transfer objects\<close>

record account_field_dto =
  af_label :: string
  af_content :: string

record update_account_dto =
  up_account_nanoid :: nanoid
  up_is_bot :: "bool field_action"
  up_display_name :: "string field_action"
  up_summary :: "string field_action"
  up_icon_url :: "string field_action"
  up_banner_url :: "string field_action"
  up_fields :: "account_field_dto list option"

record account_detail_dto =
  de_nanoid :: nanoid
  de_name :: string
  de_display_name :: "string option"
  de_summary :: "string option"
  de_icon_url :: "string option"
  de_banner_url :: "string option"
  de_is_bot :: bool
  de_fields :: "account_field_dto list"
  de_created_at :: datetime
  de_moderation :: "moderation_dto option"

definition into_detail ::
  "account_dto \<Rightarrow> string option \<Rightarrow> string option \<Rightarrow> string option \<Rightarrow> string option \<Rightarrow>
   account_field_dto list \<Rightarrow> account_detail_dto" where
  "into_detail a display_name summary icon_url banner_url entries =
     \<lparr> de_nanoid = ad_nanoid a, de_name = ad_name a, de_display_name = display_name,
       de_summary = summary, de_icon_url = icon_url, de_banner_url = banner_url,
       de_is_bot = ad_is_bot a, de_fields = entries, de_created_at = ad_created_at a,
       de_moderation = ad_moderation a \<rparr>"

definition field_of_metadata :: "metadata_projection \<Rightarrow> account_field_dto" where
  "field_of_metadata m = \<lparr> af_label = md_label m, af_content = md_content m \<rparr>"

subsection \<open>Reading\<close>

definition image_urls :: "image list \<Rightarrow> int \<Rightarrow> string option" where
  "image_urls images = map_of (rev (map (\<lambda>im. (im_id im, im_url im)) images))"

definition image_ids :: "int option \<Rightarrow> int option \<Rightarrow> int list" where
  "image_ids icon banner =
     (case icon of None \<Rightarrow> [] | Some i \<Rightarrow> [i]) @ (case banner of None \<Rightarrow> [] | Some i \<Rightarrow> [i])"

definition group_fields ::
  "metadata_projection list \<Rightarrow> int \<Rightarrow> account_field_dto list option" where
  "group_fields entries =
     foldl (\<lambda>m f. m(md_account_id f \<mapsto>
         (case m (md_account_id f) of None \<Rightarrow> [] | Some fs \<Rightarrow> fs) @ [field_of_metadata f]))
       Map.empty entries"

fun detail_rows ::
  "(int \<Rightarrow> string option) \<Rightarrow> (int \<Rightarrow> profile_projection option) \<Rightarrow>
   (int \<Rightarrow> account_field_dto list option) \<Rightarrow> account list \<Rightarrow> account_detail_dto list kresult" where
  "detail_rows images profile_map metadata_map [] = Inr []"
| "detail_rows images profile_map metadata_map (account # accounts) =
     res_bind (ok_or NotFound (profile_map (acc_id account))) (\<lambda>profile.
     res_bind (detail_rows images profile_map (metadata_map(acc_id account := None)) accounts) (\<lambda>details.
     Inr (into_detail (account_dto_from account) (pr_display_name profile) (pr_summary profile)
            (Option.bind (pr_icon profile) images) (Option.bind (pr_banner profile) images)
            (case metadata_map (acc_id account) of None \<Rightarrow> [] | Some fs \<Rightarrow> fs) # details)))"

definition compose_account_details :: "account list \<Rightarrow> db \<Rightarrow> account_detail_dto list kresult" where
  "compose_account_details accounts d =
     (if accounts = [] then Inr []
      else
        let account_ids = map acc_id accounts;
            profiles = profile_find_by_account_ids account_ids d;
            metadata = sort_key (\<lambda>f. (md_account_id f, md_id f)) (metadata_find_by_account_ids account_ids d);
            images = image_urls (image_find_by_ids (concat (map (\<lambda>p. image_ids (pr_icon p) (pr_banner p)) profiles)) d);
            profile_map = map_of (rev (map (\<lambda>p. (pr_account_id p, p)) profiles))
        in detail_rows images profile_map (group_fields metadata) accounts)"

fun permitted_accounts :: "env \<Rightarrow> auth_account_id \<Rightarrow> account list \<Rightarrow> account list op" where
  "permitted_accounts e auth_account_id [] = op_return []"
| "permitted_accounts e auth_account_id (a # as) =
     op_bind (op_try (check_permission e auth_account_id (account_view (acc_id a)))) (\<lambda>checked.
     op_bind (permitted_accounts e auth_account_id as) (\<lambda>rest.
     op_return (if is_ok checked then a # rest else rest)))"

definition get_account_details_by_ids ::
  "env \<Rightarrow> auth_account_id \<Rightarrow> nanoid list \<Rightarrow> account_detail_dto list op" where
  "get_account_details_by_ids e auth_account_id ids =
     op_bind (query (account_find_by_nanoids e ids)) (\<lambda>accounts.
     op_bind (permitted_accounts e auth_account_id accounts) (\<lambda>permitted.
     try_query (compose_account_details permitted)))"

definition get_account_detail :: "env \<Rightarrow> auth_account_id \<Rightarrow> nanoid \<Rightarrow> account_detail_dto op" where
  "get_account_detail e auth_account_id account_nanoid =
     op_bind (get_account_details_by_ids e auth_account_id [account_nanoid]) (\<lambda>details.
     op_lift (ok_or NotFound (list_next details)))"

definition get_all_account_details ::
  "env \<Rightarrow> auth_account_id \<Rightarrow> pagination \<Rightarrow> account_detail_dto list op" where
  "get_all_account_details e auth_account_id pg =
     op_bind (query (account_find_by_auth_id e auth_account_id)) (\<lambda>accounts.
     op_bind (case pg_cursor pg of
                Some cursor \<Rightarrow> query (account_find_by_nanoid e cursor)
              | None \<Rightarrow> op_return None) (\<lambda>cursor.
     try_query (compose_account_details
       (apply_pagination acc_id accounts (pg_limit pg) cursor (pg_direction pg)))))"

subsection \<open>Validation\<close>

definition when_set :: "('a \<Rightarrow> unit kresult) \<Rightarrow> 'a field_action \<Rightarrow> unit kresult" where
  "when_set check action = (case action of Set value \<Rightarrow> check value | _ \<Rightarrow> Inr ())"

fun validate_fields :: "account_field_dto list \<Rightarrow> unit kresult" where
  "validate_fields [] = Inr ()"
| "validate_fields (f # fs) =
     res_bind (label_validate (af_label f)) (\<lambda>_.
     res_bind (content_validate (af_content f)) (\<lambda>_. validate_fields fs))"

definition validate_update_account_dto :: "update_account_dto \<Rightarrow> unit kresult" where
  "validate_update_account_dto dto =
     res_bind (when_set display_name_validate (up_display_name dto)) (\<lambda>_.
     res_bind (when_set summary_validate (up_summary dto)) (\<lambda>_.
     case up_fields dto of None \<Rightarrow> Inr () | Some entries \<Rightarrow> validate_fields entries))"

subsection \<open>Fields\<close>

datatype field_change =
    FieldUpdate metadata_id string string
  | FieldDelete metadata_id
  | FieldCreate string string

definition plan_field_updates ::
  "metadata_projection list \<Rightarrow> account_field_dto list \<Rightarrow> field_change list" where
  "plan_field_updates existing submitted =
     (let paired = min (length existing) (length submitted) in
      concat (map (\<lambda>index.
          let current = existing ! index; new = submitted ! index in
          if md_label current \<noteq> af_label new \<or> md_content current \<noteq> af_content new
          then [FieldUpdate (md_id current) (af_label new) (af_content new)] else []) [0..<paired]) @
      map (\<lambda>field. FieldDelete (md_id field)) (drop paired existing) @
      map (\<lambda>field. FieldCreate (af_label field) (af_content field)) (drop paired submitted))"

fun apply_field_change :: "env \<Rightarrow> account_id \<Rightarrow> field_change \<Rightarrow> unit op" where
  "apply_field_change e account_id (FieldUpdate metadata_id label content) =
     op_bind (try_query (metadata_repository_load metadata_id)) (\<lambda>current.
     op_bind (metadata_repository_save e (metadata_update metadata_id label content (rh_version current))) (\<lambda>_.
     op_bind (try_query (metadata_repository_load metadata_id)) (\<lambda>rehydrated.
     exec (metadata_read_model_update (rh_aggregate rehydrated)))))"
| "apply_field_change e account_id (FieldDelete metadata_id) =
     op_bind (try_query (metadata_repository_load metadata_id)) (\<lambda>current.
     op_bind (metadata_repository_save e (metadata_delete metadata_id (rh_version current))) (\<lambda>_.
     exec (metadata_read_model_delete metadata_id)))"
| "apply_field_change e account_id (FieldCreate label content) =
     op_bind (generate_id e) (\<lambda>metadata_id.
     op_bind (nanoid_default e) (\<lambda>nano.
     op_bind (metadata_repository_save e (metadata_create metadata_id account_id label content nano)) (\<lambda>event.
     op_bind (op_lift (metadata_apply event None)) (\<lambda>entity.
     op_bind (op_lift (ok_or Internal entity)) (\<lambda>metadata.
     exec (metadata_read_model_create metadata))))))"

definition apply_field_updates ::
  "env \<Rightarrow> account_id \<Rightarrow> metadata_projection list \<Rightarrow> account_field_dto list \<Rightarrow> unit op" where
  "apply_field_updates e account_id existing submitted =
     op_iter (apply_field_change e account_id) (plan_field_updates existing submitted)"

subsection \<open>Updating\<close>

definition apply_is_bot :: "bool \<Rightarrow> bool field_action \<Rightarrow> bool" where
  "apply_is_bot current action = (case action of Unchanged \<Rightarrow> current | Clear \<Rightarrow> False | Set v \<Rightarrow> v)"

definition resolve_image_id :: "string option \<Rightarrow> db \<Rightarrow> int option kresult" where
  "resolve_image_id url d =
     (case url of
        None \<Rightarrow> Inr None
      | Some u \<Rightarrow>
          res_bind (image_url_validate u) (\<lambda>_.
          res_bind (ok_or NotFound (image_find_by_url u d)) (\<lambda>im. Inr (Some (im_id im)))))"

definition effective_image_id :: "int field_action \<Rightarrow> int option \<Rightarrow> int option" where
  "effective_image_id action current =
     (case action of Unchanged \<Rightarrow> current | Clear \<Rightarrow> None | Set i \<Rightarrow> Some i)"

definition resolve_field_action_image_id :: "string field_action \<Rightarrow> db \<Rightarrow> int field_action kresult" where
  "resolve_field_action_image_id action d =
     (case action of
        Unchanged \<Rightarrow> Inr Unchanged
      | Clear \<Rightarrow> Inr Clear
      | Set url \<Rightarrow>
          res_bind (resolve_image_id (Some url) d) (\<lambda>resolved.
          case resolved of Some i \<Rightarrow> Inr (Set i) | None \<Rightarrow> Inl Internal))"

text \<open>The three parts of the transaction and the answer it builds.\<close>

definition update_is_bot :: "env \<Rightarrow> account_id \<Rightarrow> bool field_action \<Rightarrow> unit op" where
  "update_is_bot e account_id action =
     op_bind (try_query (account_repository_load e account_id)) (\<lambda>loaded.
     let account = rh_aggregate loaded; is_bot = apply_is_bot (acc_is_bot account) action in
     if is_bot \<noteq> acc_is_bot account then
       op_bind (account_repository_save e (account_update account_id is_bot (rh_version loaded))) (\<lambda>envelope.
       op_bind (op_lift (account_apply e envelope (Some account))) (\<lambda>updated.
       op_bind (op_lift (ok_or Internal updated)) (\<lambda>account.
       exec (account_read_model_update account))))
     else op_return ())"

definition update_profile ::
  "env \<Rightarrow> profile_projection \<Rightarrow> update_account_dto \<Rightarrow> int field_action \<Rightarrow> int field_action \<Rightarrow> unit op" where
  "update_profile e profile dto icon banner =
     (if \<not> is_unchanged (up_display_name dto) \<or> \<not> is_unchanged (up_summary dto) \<or>
         \<not> is_unchanged icon \<or> \<not> is_unchanged banner
      then
        op_bind (profile_repository_save e
          (profile_update (pr_id profile) (up_display_name dto) (up_summary dto) icon banner)) (\<lambda>_.
        op_bind (try_query (profile_repository_load (pr_id profile))) (\<lambda>rehydrated.
        exec (profile_read_model_update (rh_aggregate rehydrated))))
      else op_return ())"

definition shown_image :: "string field_action \<Rightarrow> int option \<Rightarrow> db \<Rightarrow> int option kresult" where
  "shown_image action current d =
     (case action of Unchanged \<Rightarrow> Inr current | Clear \<Rightarrow> Inr None | Set url \<Rightarrow> resolve_image_id (Some url) d)"

definition shown_text :: "string field_action \<Rightarrow> string option \<Rightarrow> string option" where
  "shown_text action current = (case action of Unchanged \<Rightarrow> current | Clear \<Rightarrow> None | Set s \<Rightarrow> Some s)"

definition updated_detail ::
  "env \<Rightarrow> account_id \<Rightarrow> update_account_dto \<Rightarrow> profile_projection \<Rightarrow> metadata_projection list \<Rightarrow>
   account_detail_dto op" where
  "updated_detail e account_id dto profile existing_fields =
     op_bind (query (account_find_by_id e account_id)) (\<lambda>found.
     op_bind (op_lift (ok_or NotFound found)) (\<lambda>account.
     op_bind (try_query (shown_image (up_icon_url dto) (pr_icon profile))) (\<lambda>icon_id.
     op_bind (try_query (shown_image (up_banner_url dto) (pr_banner profile))) (\<lambda>banner_id.
     let entries = (case up_fields dto of
           Some entries \<Rightarrow> entries
         | None \<Rightarrow> map field_of_metadata existing_fields);
         ids = image_ids icon_id banner_id
     in
     op_bind (if ids = [] then op_return [] else query (image_find_by_ids ids)) (\<lambda>found_images.
     let images = image_urls found_images in
     op_return (into_detail (account_dto_from account)
       (shown_text (up_display_name dto) (pr_display_name profile))
       (shown_text (up_summary dto) (pr_summary profile))
       (Option.bind icon_id images) (Option.bind banner_id images) entries))))))"

definition update_detail_rows ::
  "env \<Rightarrow> account_id \<Rightarrow> update_account_dto \<Rightarrow> (account_detail_dto \<times> bool) op" where
  "update_detail_rows e account_id dto =
     op_bind (update_is_bot e account_id (up_is_bot dto)) (\<lambda>_.
     op_bind (query (profile_find_by_account_id account_id)) (\<lambda>found.
     op_bind (op_lift (ok_or NotFound found)) (\<lambda>profile.
     op_bind (try_query (resolve_field_action_image_id (up_icon_url dto))) (\<lambda>icon.
     op_bind (try_query (resolve_field_action_image_id (up_banner_url dto))) (\<lambda>banner.
     let media_changed = (effective_image_id icon (pr_icon profile) \<noteq> pr_icon profile \<or>
           effective_image_id banner (pr_banner profile) \<noteq> pr_banner profile)
     in
     op_bind (update_profile e profile dto icon banner) (\<lambda>_.
     op_bind (query (metadata_find_by_account_id account_id)) (\<lambda>entries.
     let existing_fields = sort_key md_id entries in
     op_bind (case up_fields dto of
         None \<Rightarrow> op_return ()
       | Some submitted \<Rightarrow> apply_field_updates e account_id existing_fields submitted) (\<lambda>_.
     op_bind (updated_detail e account_id dto profile existing_fields) (\<lambda>detail.
     op_return (detail, media_changed))))))))))"

definition update_account_detail ::
  "node \<Rightarrow> auth_account_id \<Rightarrow> update_account_dto \<Rightarrow> account_detail_dto op" where
  "update_account_detail nd auth_account_id dto =
     op_bind (op_lift (validate_update_account_dto dto)) (\<lambda>_.
     op_bind (found_unfiltered (nd_env nd) (up_account_nanoid dto)) (\<lambda>projection.
     op_bind (check_permission (nd_env nd) auth_account_id (account_edit (acc_id projection))) (\<lambda>_.
     if \<not> is_active (acc_status projection) then op_fail Rejected
     else
       op_bind (transaction (update_detail_rows (nd_env nd) (acc_id projection) dto)) (\<lambda>(updated, media_changed).
       if media_changed then
         op_bind (op_try (deliver_update_person nd (acc_id projection) (up_account_nanoid dto))) (\<lambda>_.
         op_return updated)
       else op_return updated))))"

end
