(* ===== verification/Following.thy ===== *)
theory Following
  imports Actors
begin

text \<open>
  Following remote accounts and listing relations
  (\<open>application/src/service/activitypub/outbound_follow.rs\<close>,
  \<open>outbound_unfollow.rs\<close>, \<open>outbound_unfollow/target.rs\<close> and \<open>relations.rs\<close>). The
  statements of these use cases run one by one on a connection, not in a transaction; a follow
  whose delivery fails is deleted again.
\<close>

subsection \<open>Activities\<close>

text \<open>A new entry of the outbox; its identifier is given by the table.\<close>

definition outbox_entry :: "node \<Rightarrow> int \<Rightarrow> string \<Rightarrow> activity \<Rightarrow> datetime option \<Rightarrow> outbox_activity" where
  "outbox_entry nd account_id activity_type a delivered_at =
     \<lparr> oa_id = 0, oa_account_id = account_id, oa_activity_id = av_id a,
       oa_activity_type = activity_type, oa_object_json = json_print (nd_net nd) (activity_document a),
       oa_created_at = now_utc (nd_env nd), oa_delivered_at = delivered_at, oa_attempted_at = None,
       oa_error = None \<rparr>"

definition follow_activity :: "string \<Rightarrow> follow \<Rightarrow> string \<Rightarrow> string \<Rightarrow> activity" where
  "follow_activity public_base_url f local_actor remote_actor_url =
     \<lparr> av_context = Some (JString ACTIVITYSTREAMS_CONTEXT), av_id = activity_url public_base_url (fo_id f),
       av_type = ''Follow'', av_actor = local_actor, av_object = Some (JString remote_actor_url),
       av_target = None, av_to = Some [remote_actor_url], av_cc = None \<rparr>"

definition undo_follow_activity :: "node \<Rightarrow> follow \<Rightarrow> string \<Rightarrow> string \<Rightarrow> activity op" where
  "undo_follow_activity nd f local_actor remote_actor_url =
     op_bind (generate_id (nd_env nd)) (\<lambda>i.
     op_return
       \<lparr> av_context = Some (JString ACTIVITYSTREAMS_CONTEXT), av_id = activity_url (nd_base_url nd) i,
         av_type = ''Undo'', av_actor = local_actor,
         av_object = Some (activity_to_value (follow_activity (nd_base_url nd) f local_actor remote_actor_url)),
         av_target = None, av_to = Some [remote_actor_url], av_cc = None \<rparr>)"

subsection \<open>Following\<close>

text \<open>The account the caller acts for: found, visible, and the caller may sign for it.\<close>

definition acting_account :: "node \<Rightarrow> auth_account_id \<Rightarrow> nanoid \<Rightarrow> account op" where
  "acting_account nd auth_account_id account_nanoid =
     op_bind (found_visible (nd_env nd) account_nanoid) (\<lambda>account.
     op_bind (check_permission (nd_env nd) auth_account_id (account_sign (acc_id account))) (\<lambda>_.
     op_return account))"

definition find_existing_following :: "follow_target_id \<Rightarrow> follow_target_id \<Rightarrow> db \<Rightarrow> follow option kresult" where
  "find_existing_following source destination d =
     res_map (List.find (\<lambda>f. fo_source f = source \<and> fo_destination f = destination))
       (find_followings source d)"

record send_follow_result_dto =
  sf_follow_id :: string
  sf_remote_actor_url :: string
  sf_activity_id :: string
  sf_approved :: bool

definition deliver_follow :: "node \<Rightarrow> int \<Rightarrow> string option \<Rightarrow> activity \<Rightarrow> unit op" where
  "deliver_follow nd account_id inbox_url a =
     op_bind (op_lift (ok_or Rejected inbox_url)) (\<lambda>inbox_url.
     deliver_activity_to_inbox nd account_id inbox_url a)"

text \<open>\<open>change_context\<close> replaces the error.\<close>

definition change_context :: "kernel_error \<Rightarrow> 'a op \<Rightarrow> 'a op" where
  "change_context e m w = (case m w of (Inl _, w') \<Rightarrow> (Inl e, w') | (Inr x, w') \<Rightarrow> (Inr x, w'))"

definition send_follow :: "node \<Rightarrow> auth_account_id \<Rightarrow> nanoid \<Rightarrow> string \<Rightarrow> send_follow_result_dto op" where
  "send_follow nd auth_account_id account_nanoid target =
     op_bind (acting_account nd auth_account_id account_nanoid) (\<lambda>account.
     op_bind (resolve_remote_actor_identifier (nd_fd nd) target) (\<lambda>remote_actor.
     op_bind (upsert_remote_account (nd_fd nd) remote_actor) (\<lambda>remote_account.
     let source = Local (acc_id account); destination = Remote (ra_id remote_account) in
     op_bind (try_query (find_existing_following source destination)) (\<lambda>existing.
     if existing \<noteq> None then op_fail Rejected
     else
       op_bind (generate_id (nd_env nd)) (\<lambda>follow_id.
       op_bind (op_lift (follow_new follow_id source destination None)) (\<lambda>f.
       op_bind (exec (follow_create f)) (\<lambda>_.
       let a = follow_activity (nd_base_url nd) f (local_actor_url (nd_base_url nd) (acc_nanoid account))
                 (ra_url remote_account)
       in
       op_bind (op_try (deliver_follow nd (acc_id account) (ra_inbox_url remote_account) a)) (\<lambda>delivered.
       case delivered of
         Inl _ \<Rightarrow> op_bind (exec (follow_delete (fo_id f))) (\<lambda>_. op_fail Rejected)
       | Inr () \<Rightarrow>
           op_bind (change_context Internal (store_outbox_activity
             (outbox_entry nd (acc_id account) ''Follow'' a (Some (now_utc (nd_env nd)))))) (\<lambda>_.
           op_return
             \<lparr> sf_follow_id = int_to_string (fo_id f), sf_remote_actor_url = ra_url remote_account,
               sf_activity_id = av_id a, sf_approved = False \<rparr>)))))))))"

subsection \<open>Unfollowing\<close>

definition local_actor_nanoid :: "network \<Rightarrow> string \<Rightarrow> string \<Rightarrow> string option" where
  "local_actor_nanoid n public_base_url target =
     Option.bind (url_parse n public_base_url) (\<lambda>base.
     Option.bind (url_parse n target) (\<lambda>actor.
     if u_scheme base \<noteq> u_scheme actor \<or> u_host_str base \<noteq> u_host_str actor \<or>
        u_port_or_known_default base \<noteq> u_port_or_known_default actor then None
     else Option.bind (strip_prefix ''/ap/accounts/'' (u_path actor)) (\<lambda>nano.
       if nano \<noteq> [] \<and> CHR ''/'' \<notin> set nano then Some nano else None)))"

definition local_acct_name :: "network \<Rightarrow> string \<Rightarrow> string \<Rightarrow> string option" where
  "local_acct_name n public_base_url target =
     (let identifier = (case strip_prefix ''acct:'' target of Some s \<Rightarrow> s | None \<Rightarrow> target) in
      Option.bind (split_once (CHR ''@'') identifier) (\<lambda>(name, domain).
      Option.bind (url_parse n public_base_url) (\<lambda>base.
      Option.bind (u_host_str base) (\<lambda>host.
      let local_domain = (case u_port base of Some port \<Rightarrow> host @ '':'' @ nat_to_string port | None \<Rightarrow> host)
      in if name \<noteq> [] \<and> eq_ignore_ascii_case domain local_domain then Some name else None))))"

datatype relation_target_account = LocalAccount account | RemoteAccount remote_account

type_synonym unfollow_target = relation_target_account

text \<open>A lookup that is made only when there is a key to look up.\<close>

definition lookup_with :: "('k \<Rightarrow> db \<Rightarrow> 'a option) \<Rightarrow> 'k option \<Rightarrow> 'a option op" where
  "lookup_with f k = (case k of None \<Rightarrow> op_return None | Some key \<Rightarrow> query (f key))"

definition resolve_unfollow_target :: "node \<Rightarrow> string \<Rightarrow> unfollow_target op" where
  "resolve_unfollow_target nd target =
     op_bind (query (account_find_by_nanoid (nd_env nd) target)) (\<lambda>by_nanoid.
     case by_nanoid of
       Some account \<Rightarrow> op_return (LocalAccount account)
     | None \<Rightarrow>
         op_bind (lookup_with (account_find_by_nanoid (nd_env nd))
           (local_actor_nanoid (nd_net nd) (nd_base_url nd) target)) (\<lambda>by_url.
         case by_url of
           Some account \<Rightarrow> op_return (LocalAccount account)
         | None \<Rightarrow>
             op_bind (lookup_with (account_find_by_name (nd_env nd))
               (local_acct_name (nd_net nd) (nd_base_url nd) target)) (\<lambda>by_name.
             case by_name of
               Some account \<Rightarrow> op_return (LocalAccount account)
             | None \<Rightarrow>
                 op_bind (resolve_remote_actor_identifier (nd_fd nd) target) (\<lambda>actor.
                 op_bind (upsert_remote_account (nd_fd nd) actor) (\<lambda>remote_account.
                 op_return (RemoteAccount remote_account))))))"

definition find_approved_follow :: "follow_target_id \<Rightarrow> follow_target_id \<Rightarrow> follow op" where
  "find_approved_follow source destination =
     op_bind (try_query (find_existing_following source destination)) (\<lambda>found.
     op_lift (ok_or NotFound
       (Option.bind found (\<lambda>f. if fo_approved_at f \<noteq> None then Some f else None))))"

definition delete_approved_follow :: "follow_target_id \<Rightarrow> follow_target_id \<Rightarrow> unit op" where
  "delete_approved_follow source destination =
     op_bind (find_approved_follow source destination) (\<lambda>f. exec (follow_delete (fo_id f)))"

definition send_undo_follow :: "node \<Rightarrow> auth_account_id \<Rightarrow> nanoid \<Rightarrow> string \<Rightarrow> unit op" where
  "send_undo_follow nd auth_account_id account_nanoid target =
     op_bind (acting_account nd auth_account_id account_nanoid) (\<lambda>account.
     let source = Local (acc_id account) in
     op_bind (resolve_unfollow_target nd target) (\<lambda>resolved.
     case resolved of
       LocalAccount destination \<Rightarrow> delete_approved_follow source (Local (acc_id destination))
     | RemoteAccount remote_account \<Rightarrow>
         op_bind (find_approved_follow source (Remote (ra_id remote_account))) (\<lambda>f.
         op_bind (undo_follow_activity nd f (local_actor_url (nd_base_url nd) (acc_nanoid account))
           (ra_url remote_account)) (\<lambda>a.
         op_bind (op_lift (ok_or Rejected (ra_inbox_url remote_account))) (\<lambda>inbox_url.
         op_bind (deliver_activity_to_inbox nd (acc_id account) inbox_url a) (\<lambda>_.
         op_bind (exec (follow_delete (fo_id f))) (\<lambda>_.
         op_bind (change_context Internal (store_outbox_activity
           (outbox_entry nd (acc_id account) ''Undo'' a (Some (now_utc (nd_env nd)))))) (\<lambda>_.
         op_return ()))))))))"

subsection \<open>Lists of relations\<close>

record relation_dto =
  rd_id :: string
  rd_target_type :: string
  rd_target :: string

type_synonym follow_relation_dto = relation_dto

text \<open>How the other side of a relation is shown; a side without a visible account is an error.\<close>

fun show_target :: "env \<Rightarrow> target_id \<Rightarrow> (string \<times> string) op" where
  "show_target e (Local account_id) =
     op_bind (query (account_find_by_id e account_id)) (\<lambda>found.
     op_bind (op_lift (ok_or Internal found)) (\<lambda>account. op_return (''local'', acc_nanoid account)))"
| "show_target e (Remote account_id) =
     op_bind (query (remote_account_find_by_id account_id)) (\<lambda>found.
     op_bind (op_lift (ok_or Internal found)) (\<lambda>account. op_return (''remote'', ra_url account)))"

definition show_relation :: "env \<Rightarrow> int \<Rightarrow> target_id \<Rightarrow> relation_dto op" where
  "show_relation e i target =
     op_bind (show_target e target) (\<lambda>(target_type, target).
     op_return \<lparr> rd_id = int_to_string i, rd_target_type = target_type, rd_target = target \<rparr>)"

definition list_approved_relations :: "env \<Rightarrow> follow_target_id \<Rightarrow> bool \<Rightarrow> follow_relation_dto list op" where
  "list_approved_relations e account following =
     op_bind (try_query (if following then find_followings account else find_followers account)) (\<lambda>relations.
     op_mapM (\<lambda>f. show_relation e (fo_id f) (if following then fo_destination f else fo_source f))
       (filter (\<lambda>f. fo_approved_at f \<noteq> None) relations))"

definition get_follow_relations ::
  "node \<Rightarrow> auth_account_id \<Rightarrow> nanoid \<Rightarrow> bool \<Rightarrow> follow_relation_dto list op" where
  "get_follow_relations nd auth_account_id account_nanoid following =
     op_bind (acting_account nd auth_account_id account_nanoid) (\<lambda>account.
     list_approved_relations (nd_env nd) (Local (acc_id account)) following)"

definition get_followers :: "node \<Rightarrow> auth_account_id \<Rightarrow> nanoid \<Rightarrow> follow_relation_dto list op" where
  "get_followers nd auth_account_id account_nanoid =
     get_follow_relations nd auth_account_id account_nanoid False"

definition get_following :: "node \<Rightarrow> auth_account_id \<Rightarrow> nanoid \<Rightarrow> follow_relation_dto list op" where
  "get_following nd auth_account_id account_nanoid =
     get_follow_relations nd auth_account_id account_nanoid True"

end
