(* ===== verification/Blocking.thy ===== *)
theory Blocking
  imports Following
begin

text \<open>
  Blocking and muting (\<open>application/src/service/block.rs\<close>, \<open>mute.rs\<close> and
  \<open>activitypub/outbound_block.rs\<close>). A block is stored together with the removal of the
  follows between the two parties and the outbox entry, in one transaction; the delivery to a
  remote party comes after it and its failure is only logged. The enums \<open>BlockTarget\<close> and
  \<open>UnfollowTarget\<close> have the same two constructors and share a datatype.
\<close>

subsection \<open>Activities\<close>

definition block_activity :: "string \<Rightarrow> int \<Rightarrow> string \<Rightarrow> string \<Rightarrow> activity" where
  "block_activity public_base_url block_id local_actor remote_actor_url =
     \<lparr> av_context = Some (JString ACTIVITYSTREAMS_CONTEXT), av_id = activity_url public_base_url block_id,
       av_type = ''Block'', av_actor = local_actor, av_object = Some (JString remote_actor_url),
       av_target = None, av_to = Some [remote_actor_url], av_cc = None \<rparr>"

definition undo_block_activity :: "node \<Rightarrow> activity \<Rightarrow> string \<Rightarrow> activity op" where
  "undo_block_activity nd original_block remote_actor_url =
     op_bind (generate_id (nd_env nd)) (\<lambda>i.
     op_return
       \<lparr> av_context = Some (JString ACTIVITYSTREAMS_CONTEXT), av_id = activity_url (nd_base_url nd) i,
         av_type = ''Undo'', av_actor = av_actor original_block,
         av_object = Some (activity_to_value original_block),
         av_target = None, av_to = Some [remote_actor_url], av_cc = None \<rparr>)"

subsection \<open>Targets\<close>

type_synonym block_target = relation_target_account

fun block_target_parts :: "block_target \<Rightarrow> block_target_id \<times> string" where
  "block_target_parts (LocalAccount account) = (Local (acc_id account), acc_nanoid account)"
| "block_target_parts (RemoteAccount remote_account) = (Remote (ra_id remote_account), ra_url remote_account)"

fun block_target_to_follow_target :: "block_target_id \<Rightarrow> follow_target_id" where
  "block_target_to_follow_target (Local account_id) = Local account_id"
| "block_target_to_follow_target (Remote remote_account_id) = Remote remote_account_id"

definition resolve_block_target :: "node \<Rightarrow> string \<Rightarrow> block_target op" where
  "resolve_block_target nd target =
     op_bind (query (account_find_by_nanoid (nd_env nd) target)) (\<lambda>found.
     case found of
       Some account \<Rightarrow> op_return (LocalAccount account)
     | None \<Rightarrow>
         op_bind (resolve_remote_actor_identifier (nd_fd nd) target) (\<lambda>actor.
         op_bind (upsert_remote_account (nd_fd nd) actor) (\<lambda>remote_account.
         op_return (RemoteAccount remote_account))))"

fun target_type_name :: "target_id \<Rightarrow> string" where
  "target_type_name (Local _) = ''local''"
| "target_type_name (Remote _) = ''remote''"

subsection \<open>Blocking\<close>

definition delete_follows :: "follow list \<Rightarrow> unit op" where
  "delete_follows = op_iter (\<lambda>f. exec (follow_delete (fo_id f)))"

definition remove_follows_between :: "follow_target_id \<Rightarrow> follow_target_id \<Rightarrow> unit op" where
  "remove_follows_between a b =
     op_bind (try_query (find_followings a)) (\<lambda>followings_of_a.
     op_bind (delete_follows (filter (\<lambda>f. fo_destination f = b) followings_of_a)) (\<lambda>_.
     op_bind (try_query (find_followings b)) (\<lambda>followings_of_b.
     delete_follows (filter (\<lambda>f. fo_destination f = a) followings_of_b))))"

text \<open>The entry of the outbox, if there is an activity for the other side.\<close>

definition store_delivery ::
  "node \<Rightarrow> int \<Rightarrow> string \<Rightarrow> (activity \<times> string option) option \<Rightarrow> int option op" where
  "store_delivery nd account_id activity_type delivery =
     (case delivery of
        None \<Rightarrow> op_return None
      | Some (a, _) \<Rightarrow>
          op_bind (exec (outbox_create (outbox_entry nd account_id activity_type a None))) (\<lambda>outbox_id.
          op_return (Some outbox_id)))"

text \<open>Delivery after the transaction; a failure is logged.\<close>

definition deliver_stored ::
  "node \<Rightarrow> int \<Rightarrow> int option \<Rightarrow> (activity \<times> string option) option \<Rightarrow> unit op" where
  "deliver_stored nd account_id outbox_id delivery =
     (case (outbox_id, delivery) of
        (Some outbox_id, Some (a, Some inbox_url)) \<Rightarrow>
          op_bind (op_try (deliver_outbox_activity nd outbox_id account_id inbox_url a)) (\<lambda>_. op_return ())
      | _ \<Rightarrow> op_return ())"

definition block_rows ::
  "node \<Rightarrow> int \<Rightarrow> block \<Rightarrow> (activity \<times> string option) option \<Rightarrow> int option op" where
  "block_rows nd account_id b delivery =
     op_bind (try_query (find_blocks (bl_source b))) (\<lambda>existing.
     if list_ex (\<lambda>x. bl_destination x = bl_destination b) existing then op_fail Rejected
     else
       op_bind (exec (block_create b)) (\<lambda>_.
       op_bind (remove_follows_between (block_target_to_follow_target (bl_source b))
         (block_target_to_follow_target (bl_destination b))) (\<lambda>_.
       store_delivery nd account_id ''Block'' delivery)))"

text \<open>The block of a target that was found.\<close>

definition block_resolved :: "node \<Rightarrow> account \<Rightarrow> block_target \<Rightarrow> relation_dto op" where
  "block_resolved nd account resolved =
     (let source = Local (acc_id account); destination = fst (block_target_parts resolved) in
      if source = destination then op_fail Rejected
      else
        op_bind (generate_id (nd_env nd)) (\<lambda>block_id.
        let delivery = (case resolved of
              LocalAccount _ \<Rightarrow> None
            | RemoteAccount remote_account \<Rightarrow>
                Some (block_activity (nd_base_url nd) block_id
                        (local_actor_url (nd_base_url nd) (acc_nanoid account)) (ra_url remote_account),
                      ra_inbox_url remote_account))
        in
        op_bind (op_lift (block_new block_id source destination)) (\<lambda>b.
        op_bind (transaction (block_rows nd (acc_id account) b delivery)) (\<lambda>outbox_id.
        op_bind (deliver_stored nd (acc_id account) outbox_id delivery) (\<lambda>_.
        op_return \<lparr> rd_id = int_to_string (bl_id b), rd_target_type = target_type_name (bl_destination b),
                    rd_target = snd (block_target_parts resolved) \<rparr>)))))"

definition block_account :: "node \<Rightarrow> auth_account_id \<Rightarrow> nanoid \<Rightarrow> string \<Rightarrow> relation_dto op" where
  "block_account nd auth_account_id account_nanoid target =
     op_bind (acting_account nd auth_account_id account_nanoid) (\<lambda>account.
     op_bind (resolve_block_target nd target) (\<lambda>resolved.
     block_resolved nd account resolved))"

definition unblock_rows ::
  "node \<Rightarrow> account \<Rightarrow> block_target_id \<Rightarrow> block_target \<Rightarrow>
   (int option \<times> (activity \<times> string option) option) op" where
  "unblock_rows nd account source resolved =
     op_bind (try_query (find_blocks source)) (\<lambda>blocks.
     op_bind (op_lift (ok_or NotFound
       (List.find (\<lambda>x. bl_destination x = fst (block_target_parts resolved)) blocks))) (\<lambda>b.
     op_bind (case resolved of
         LocalAccount _ \<Rightarrow> op_return None
       | RemoteAccount remote_account \<Rightarrow>
           op_bind (undo_block_activity nd
             (block_activity (nd_base_url nd) (bl_id b)
               (local_actor_url (nd_base_url nd) (acc_nanoid account)) (ra_url remote_account))
             (ra_url remote_account)) (\<lambda>undo.
           op_return (Some (undo, ra_inbox_url remote_account)))) (\<lambda>delivery.
     op_bind (exec (block_delete (bl_id b))) (\<lambda>_.
     op_bind (store_delivery nd (acc_id account) ''Undo'' delivery) (\<lambda>outbox_id.
     op_return (outbox_id, delivery))))))"

definition unblock_account :: "node \<Rightarrow> auth_account_id \<Rightarrow> nanoid \<Rightarrow> string \<Rightarrow> unit op" where
  "unblock_account nd auth_account_id account_nanoid target =
     op_bind (acting_account nd auth_account_id account_nanoid) (\<lambda>account.
     op_bind (resolve_block_target nd target) (\<lambda>resolved.
     op_bind (transaction (unblock_rows nd account (Local (acc_id account)) resolved)) (\<lambda>(outbox_id, delivery).
     deliver_stored nd (acc_id account) outbox_id delivery)))"

definition get_blocks :: "node \<Rightarrow> auth_account_id \<Rightarrow> nanoid \<Rightarrow> relation_dto list op" where
  "get_blocks nd auth_account_id account_nanoid =
     op_bind (acting_account nd auth_account_id account_nanoid) (\<lambda>account.
     op_bind (try_query (find_blocks (Local (acc_id account)))) (\<lambda>blocks.
     op_mapM (\<lambda>b. show_relation (nd_env nd) (bl_id b) (bl_destination b)) blocks))"

subsection \<open>Muting\<close>

definition resolve_mute_target :: "node \<Rightarrow> string \<Rightarrow> (mute_target_id \<times> string) op" where
  "resolve_mute_target nd target =
     op_bind (query (account_find_by_nanoid (nd_env nd) target)) (\<lambda>found.
     case found of
       Some account \<Rightarrow> op_return (Local (acc_id account), acc_nanoid account)
     | None \<Rightarrow>
         op_bind (resolve_remote_actor_identifier (nd_fd nd) target) (\<lambda>actor.
         op_bind (upsert_remote_account (nd_fd nd) actor) (\<lambda>remote_account.
         op_return (Remote (ra_id remote_account), ra_url remote_account))))"

definition mute_account :: "node \<Rightarrow> auth_account_id \<Rightarrow> nanoid \<Rightarrow> string \<Rightarrow> relation_dto op" where
  "mute_account nd auth_account_id account_nanoid target =
     op_bind (acting_account nd auth_account_id account_nanoid) (\<lambda>account.
     let source = Local (acc_id account) in
     op_bind (resolve_mute_target nd target) (\<lambda>(destination, shown).
     if source = destination then op_fail Rejected
     else
       op_bind (generate_id (nd_env nd)) (\<lambda>mute_id.
       op_bind (op_lift (mute_new mute_id source destination)) (\<lambda>m.
       op_bind (exec (mute_insert_if_absent m)) (\<lambda>_.
       op_return \<lparr> rd_id = int_to_string (mu_id m), rd_target_type = target_type_name destination,
                   rd_target = shown \<rparr>)))))"

definition unmute_account :: "node \<Rightarrow> auth_account_id \<Rightarrow> nanoid \<Rightarrow> string \<Rightarrow> unit op" where
  "unmute_account nd auth_account_id account_nanoid target =
     op_bind (acting_account nd auth_account_id account_nanoid) (\<lambda>account.
     op_bind (resolve_mute_target nd target) (\<lambda>(destination, _).
     op_bind (exec (mute_delete_if_exists (Local (acc_id account)) destination)) (\<lambda>_. op_return ())))"

definition get_mutes :: "node \<Rightarrow> auth_account_id \<Rightarrow> nanoid \<Rightarrow> relation_dto list op" where
  "get_mutes nd auth_account_id account_nanoid =
     op_bind (acting_account nd auth_account_id account_nanoid) (\<lambda>account.
     op_bind (try_query (find_mutes (Local (acc_id account)))) (\<lambda>mutes.
     op_mapM (\<lambda>m. show_relation (nd_env nd) (mu_id m) (mu_destination m)) mutes))"

end
