(* ===== verification/Blocking_Theorems.thy ===== *)
theory Blocking_Theorems
  imports Blocking Account_Service_Theorems
begin

text \<open>
  What blocking leaves behind. The lemmas on frames say which tables an operation of the
  federation services can change; they are stated for any view \<open>F\<close> of the database that does
  not look at the tables in question.
\<close>

subsection \<open>Frames\<close>

definition ignores_outbox :: "(db \<Rightarrow> 'a) \<Rightarrow> bool" where
  "ignores_outbox F \<longleftrightarrow> (\<forall>d rows n. F (d \<lparr> t_outbox_activities := rows, t_outbox_next_id := n \<rparr>) = F d) \<and>
     (\<forall>d rows. F (d \<lparr> t_outbox_activities := rows \<rparr>) = F d)"

definition ignores_remotes :: "(db \<Rightarrow> 'a) \<Rightarrow> bool" where
  "ignores_remotes F \<longleftrightarrow> (\<forall>d rows. F (d \<lparr> t_remote_accounts := rows \<rparr>) = F d)"

abbreviation shows_same :: "(db \<Rightarrow> 'a) \<Rightarrow> 'a \<Rightarrow> world \<Rightarrow> bool" where
  "shows_same F R \<equiv> (\<lambda>w. F (w_db w) = R)"

named_theorems frame_intros \<open>operations that a view of the database does not notice\<close>

lemma keeps_sends_db: "sends n m \<Longrightarrow> keeps (shows_same F R) m"
  unfolding keeps_def
proof (intro allI impI)
  fix w :: world assume m: "sends n m" and R: "F (w_db w) = R"
  from m obtain rqs where "snd (m w) = w \<lparr> w_requests := w_requests w @ rqs \<rparr>"
    unfolding sends_def by blast
  with R show "F (w_db (snd (m w))) = R" by simp
qed

lemma keeps_generate [frame_intros]: "keeps (shows_same F R) (generate_id e)"
  by (simp add: keeps_def generate_id_def Let_def)

lemma keeps_op_try [frame_intros]: "keeps P m \<Longrightarrow> keeps P (op_try m)"
  by (auto simp: keeps_def op_try_def split: prod.splits)

lemma keeps_change_context [frame_intros]: "keeps P m \<Longrightarrow> keeps P (change_context e m)"
  by (auto simp: keeps_def change_context_def split: prod.splits sum.splits)

lemma keeps_transaction_view [frame_intros]:
  "keeps (shows_same F R) m \<Longrightarrow> keeps (shows_same F R) (transaction m)"
  by (auto simp: keeps_def transaction_def split: prod.splits sum.splits)

lemma keeps_check_permission [frame_intros]: "keeps P (check_permission e auth p)"
  by (simp add: keeps_def check_permission_world)

lemma keeps_acting_account [frame_intros]: "keeps P (acting_account nd auth nano)"
  unfolding acting_account_def found_visible_def
  by (intro keeps_intros keeps_check_permission)

lemmas keeps_resolve_db [frame_intros] =
  keeps_sends_db [OF sends_resolve_identifier] keeps_sends_db [OF sends_resolve_remote_actor]
  keeps_sends_db [OF sends_deliver]

lemma keeps_upsert_db [frame_intros]:
  "ignores_remotes F \<Longrightarrow> keeps (shows_same F R) (upsert_remote_account fd actor)"
  unfolding upsert_remote_account_def Let_def
  by (intro keeps_intros keeps_generate keeps_exec)
    (auto simp: ignores_remotes_def remote_account_update_def remote_account_create_def Let_def
      result_iffs split: if_splits prod.splits)

lemma keeps_outbox_create [frame_intros]:
  "ignores_outbox F \<Longrightarrow> keeps (shows_same F R) (exec (outbox_create entry))"
  by (rule keeps_exec) (auto simp: ignores_outbox_def outbox_create_def Let_def result_iffs)

lemma keeps_outbox_mark [frame_intros]:
  "ignores_outbox F \<Longrightarrow> keeps (shows_same F R) (exec (outbox_mark_delivered e i))"
  "ignores_outbox F \<Longrightarrow> keeps (shows_same F R) (exec (outbox_mark_delivery_attempt e i err))"
  by (rule keeps_exec, auto simp: ignores_outbox_def outbox_mark_delivered_def outbox_mark_delivery_attempt_def)+

lemma keeps_deliver_outbox [frame_intros]:
  assumes "ignores_outbox F"
  shows "keeps (shows_same F R) (deliver_outbox_activity nd outbox_id account_id inbox_url a)"
  unfolding keeps_def
proof (intro allI impI)
  fix w :: world assume R: "F (w_db w) = R"
  obtain r w1 where run: "deliver_activity_to_inbox nd account_id inbox_url a w = (r, w1)" by fastforce
  have w1: "F (w_db w1) = R"
    using keepsD [OF keeps_sends_db [OF sends_deliver, of F R] R run] by simp
  let ?fail = "\<lambda>e. op_bind (exec (outbox_mark_delivery_attempt (nd_env nd) outbox_id (Some (nd_debug nd w1 e))))
      (\<lambda>_. op_fail e)"
  have "keeps (shows_same F R) (?fail e :: unit op)" for e
    by (intro keeps_intros keeps_outbox_mark assms)
  moreover have "keeps (shows_same F R) (exec (outbox_mark_delivered (nd_env nd) outbox_id))"
    by (intro keeps_outbox_mark assms)
  ultimately show "F (w_db (snd (deliver_outbox_activity nd outbox_id account_id inbox_url a w))) = R"
    using w1 by (cases r) (simp_all add: deliver_outbox_activity_def run keeps_def split: unit.split)
qed

lemma keeps_deliver_stored [frame_intros]:
  "ignores_outbox F \<Longrightarrow> keeps (shows_same F R) (deliver_stored nd account_id outbox_id delivery)"
  by (auto simp: deliver_stored_def split: option.splits prod.splits
      intro!: keeps_intros frame_intros)

lemma keeps_store_delivery [frame_intros]:
  "ignores_outbox F \<Longrightarrow> keeps (shows_same F R) (store_delivery nd account_id ty delivery)"
  by (auto simp: store_delivery_def split: option.splits prod.splits
      intro!: keeps_intros frame_intros)

lemma keeps_resolve_block_target [frame_intros]:
  "ignores_remotes F \<Longrightarrow> keeps (shows_same F R) (resolve_block_target nd target)"
  unfolding resolve_block_target_def by (intro keeps_intros frame_intros)

text \<open>Follows, blocks and mutes, and all tables but those the federation services write.\<close>

definition relation_tables :: "db \<Rightarrow> follow_row list \<times> block_row list \<times> mute_row list" where
  "relation_tables d = (t_follows d, t_blocks d, t_mutes d)"

definition other_tables :: "db \<Rightarrow> db" where
  "other_tables d = d \<lparr> t_follows := [], t_blocks := [], t_remote_accounts := [],
     t_outbox_activities := [], t_outbox_next_id := 0 \<rparr>"

lemma ignores_tables [simp, intro]:
  "ignores_outbox relation_tables" "ignores_remotes relation_tables"
  "ignores_outbox other_tables" "ignores_remotes other_tables" "ignores_outbox t_remote_accounts"
  by (simp_all add: ignores_outbox_def ignores_remotes_def relation_tables_def other_tables_def)

subsection \<open>Removing follows\<close>

definition between_either :: "target_id \<Rightarrow> target_id \<Rightarrow> follow_row \<Rightarrow> bool" where
  "between_either a b r \<longleftrightarrow> follow_between a b r \<or> follow_between b a r"

lemma delete_follows_run:
  assumes "holds_follows fs (w_db w)" and "distinct (map fo_id fs)" and "set xs \<subseteq> set fs"
    and "distinct (map fo_id xs)"
  shows "delete_follows xs w = (Inr (), w \<lparr> w_db := (w_db w)
     \<lparr> t_follows := map follow_row_of (filter (\<lambda>f. fo_id f \<notin> fo_id ` set xs) fs) \<rparr> \<rparr>)"
  using assms
proof (induction xs arbitrary: fs w)
  case Nil
  then show ?case by (simp add: delete_follows_def holds_follows_def)
next
  case (Cons x xs)
  let ?fs = "filter (\<lambda>f. fo_id f \<noteq> fo_id x) fs"
  let ?w = "w \<lparr> w_db := (w_db w) \<lparr> t_follows := map follow_row_of ?fs \<rparr> \<rparr>"
  from Cons.prems(1,3) have "exec (follow_delete (fo_id x)) w = (Inr (), ?w)"
    by (force simp: exec_def follow_delete_def delete_rows_def Let_def holds_follows_def filter_map o_def
        follow_row_of_facts filter_empty_conv)
  moreover have "delete_follows xs ?w = (Inr (), ?w \<lparr> w_db := (w_db ?w)
     \<lparr> t_follows := map follow_row_of (filter (\<lambda>f. fo_id f \<notin> fo_id ` set xs) ?fs) \<rparr> \<rparr>)"
  proof (rule Cons.IH)
    show "holds_follows ?fs (w_db ?w)" using Cons.prems(1) by (auto simp: holds_follows_def)
    show "set xs \<subseteq> set ?fs" using Cons.prems(3,4) by (auto simp: image_iff)
  qed (use Cons.prems in \<open>auto simp: distinct_map_filter\<close>)
  ultimately show ?case
    by (simp add: delete_follows_def conj_commute cong: conj_cong)
qed

lemma delete_follows_filter:
  assumes "holds_follows fs (w_db w)" and ids: "distinct (map fo_id fs)"
  shows "delete_follows (filter P fs) w = (Inr (), w \<lparr> w_db := (w_db w)
     \<lparr> t_follows := map follow_row_of (filter (\<lambda>f. \<not> P f) fs) \<rparr> \<rparr>)"
proof -
  from ids have "inj_on fo_id (set fs)" by (simp add: distinct_map)
  then have "filter (\<lambda>f. fo_id f \<notin> fo_id ` set (filter P fs)) fs = filter (\<lambda>f. \<not> P f) fs"
    by (auto intro!: filter_cong simp: inj_on_def)
  with delete_follows_run [OF assms, of "filter P fs"] show ?thesis
    using distinct_map_filter [OF ids, of P] by simp
qed

lemma remove_follows_run:
  assumes "follow_table_ok (w_db w)"
  shows "remove_follows_between a b w = (Inr (), w \<lparr> w_db := (w_db w)
     \<lparr> t_follows := filter (\<lambda>r. \<not> between_either a b r) (t_follows (w_db w)) \<rparr> \<rparr>)"
proof -
  from assms obtain fs where fs: "holds_follows fs (w_db w)" "pair_wf fo_id fo_source fo_destination fs"
    by (auto simp: follow_table_ok_def)
  then have ids: "distinct (map fo_id fs)" by (simp add: pair_wf_def)
  let ?ab = "\<lambda>f. fo_source f = a \<and> fo_destination f = b" and ?ba = "\<lambda>f. fo_source f = b \<and> fo_destination f = a"
  let ?fs = "filter (\<lambda>f. \<not> ?ab f) fs"
  let ?w = "w \<lparr> w_db := (w_db w) \<lparr> t_follows := map follow_row_of ?fs \<rparr> \<rparr>"
  let ?w' = "?w \<lparr> w_db := (w_db ?w) \<lparr> t_follows := map follow_row_of (filter (\<lambda>f. \<not> ?ba f) ?fs) \<rparr> \<rparr>"
  have fs': "holds_follows ?fs (w_db ?w)" using fs(1) by (auto simp: holds_follows_def)
  note first = delete_follows_filter [OF fs(1) ids, of ?ab]
  note second = delete_follows_filter [OF fs' distinct_map_filter [OF ids], of ?ba]
  have both: "filter (\<lambda>f. fo_destination f = b) (filter (\<lambda>f. fo_source f = a) fs) = filter ?ab fs"
    "filter (\<lambda>f. fo_destination f = a) (filter (\<lambda>f. fo_source f = b) ?fs) = filter ?ba ?fs"
    by (auto intro!: filter_cong)
  have "remove_follows_between a b w = (Inr (), ?w')"
    unfolding remove_follows_between_def
    by (simp only: op_bind_run op_run find_followings_holds [OF fs(1)] both first
        find_followings_holds [OF fs'] second)
  moreover have "map follow_row_of (filter (\<lambda>f. \<not> ?ba f) ?fs) =
      filter (\<lambda>r. \<not> between_either a b r) (t_follows (w_db w))"
    using fs(1) by (auto simp: holds_follows_def filter_map o_def between_either_def follow_row_of_facts
        intro!: filter_cong arg_cong [of _ _ "map follow_row_of"])
  ultimately show ?thesis by (simp del: filter_filter)
qed

subsection \<open>A block\<close>

definition block_table_ok :: "db \<Rightarrow> bool" where
  "block_table_ok d \<longleftrightarrow> (\<exists>bs. holds_blocks bs d \<and> pair_wf bl_id bl_source bl_destination bs)"

lemma follow_table_ok_cong: "t_follows d = t_follows d' \<Longrightarrow> follow_table_ok d = follow_table_ok d'"
  by (simp add: follow_table_ok_def holds_follows_def)

lemma block_table_ok_cong: "t_blocks d = t_blocks d' \<Longrightarrow> block_table_ok d = block_table_ok d'"
  by (simp add: block_table_ok_def holds_blocks_def)

lemma block_create_insert:
  "block_create b d = Inr ((), d') \<Longrightarrow> block_insert_if_absent b d = Inr (True, d')"
  by (auto simp: block_create_def block_insert_if_absent_def split: insert_outcome.splits)

lemma block_insert_row:
  "block_insert_if_absent b d = Inr (True, d') \<Longrightarrow> d' = d \<lparr> t_blocks := t_blocks d @ [block_row_of b] \<rparr>"
  by (auto simp: block_insert_if_absent_def insert_block_def insert_checked_def Let_def
      split: insert_outcome.splits if_splits)

lemma block_table_insert:
  "block_table_ok d \<Longrightarrow> \<not> both_remote (bl_source b) (bl_destination b) \<Longrightarrow>
     block_insert_if_absent b d = Inr (x, d') \<Longrightarrow> block_table_ok d'"
  using block_pairs.add_keeps_wf unfolding block_table_ok_def by blast

lemma block_new_Inr:
  "block_new i s t = Inr b \<longleftrightarrow>
     \<not> both_remote s t \<and> b = \<lparr> bl_id = i, bl_source = s, bl_destination = t \<rparr>"
  by (cases s; cases t) (auto simp: block_new_def)

lemma block_target_to_follow_target_id [simp]: "block_target_to_follow_target t = t"
  by (cases t) simp_all

lemma block_rows_Inr:
  assumes "block_rows nd account_id b delivery w = (Inr outbox_id, w')"
    and "follow_table_ok (w_db w)" and "block_table_ok (w_db w)"
    and "\<not> both_remote (bl_source b) (bl_destination b)"
  shows "relation_tables (w_db w') =
       (filter (\<lambda>r. \<not> between_either (bl_source b) (bl_destination b) r) (t_follows (w_db w)),
        t_blocks (w_db w) @ [block_row_of b], t_mutes (w_db w))"
    and "follow_table_ok (w_db w')" and "block_table_ok (w_db w')"
proof -
  from assms(1) obtain d1 w2 where d1: "block_create b (w_db w) = Inr ((), d1)"
    and rm: "remove_follows_between (bl_source b) (bl_destination b) (w \<lparr> w_db := d1 \<rparr>) = (Inr (), w2)"
    and st: "store_delivery nd account_id ''Block'' delivery w2 = (Inr outbox_id, w')"
    by (auto simp: block_rows_def op_iffs split: if_splits)
  note ins = block_create_insert [OF d1]
  note d1' = block_insert_row [OF ins]
  then have "t_follows d1 = t_follows (w_db w)" by simp
  with assms(2) have ok: "follow_table_ok d1" using follow_table_ok_cong by blast
  from remove_follows_run [of "w \<lparr> w_db := d1 \<rparr>" "bl_source b" "bl_destination b"] ok rm
  have w2: "w_db w2 = d1 \<lparr> t_follows :=
      filter (\<lambda>r. \<not> between_either (bl_source b) (bl_destination b) r) (t_follows d1) \<rparr>" by auto
  have same: "relation_tables (w_db w') = relation_tables (w_db w2)"
    using keepsD [OF keeps_store_delivery [OF ignores_tables(1)] refl st] by simp
  then show "relation_tables (w_db w') =
       (filter (\<lambda>r. \<not> between_either (bl_source b) (bl_destination b) r) (t_follows (w_db w)),
        t_blocks (w_db w) @ [block_row_of b], t_mutes (w_db w))"
    by (simp add: w2 d1' relation_tables_def)
  from same have eq: "t_follows (w_db w') = t_follows (w_db w2)" "t_blocks (w_db w') = t_blocks (w_db w2)"
    by (simp_all add: relation_tables_def)
  show "follow_table_ok (w_db w')" unfolding follow_table_ok_cong [OF eq(1)]
    by (rule follow_table_remove [OF ok]) (simp add: w2)
  have "block_table_ok d1" by (rule block_table_insert [OF assms(3,4) ins])
  then show "block_table_ok (w_db w')"
    unfolding block_table_ok_cong [OF eq(2)] by (simp add: w2 block_table_ok_def holds_blocks_def)
qed

lemma acting_account_Inr:
  "acting_account nd auth nano w = (Inr account, w') \<longleftrightarrow>
     w' = w \<and> account_find_by_nanoid (nd_env nd) nano (w_db w) = Some account \<and>
     check_permission (nd_env nd) auth (account_sign (acc_id account)) w = (Inr (), w)"
  using check_permission_Inr_world
  by (fastforce simp: acting_account_def found_visible_def op_iffs result_iffs)

lemma acting_account_world: "acting_account nd auth nano w = (r, w') \<Longrightarrow> w' = w"
  using keepsD [OF keeps_acting_account [of "\<lambda>x. x = w"] refl] by blast

lemma keepsE: "m w = (r, w') \<Longrightarrow> keeps (shows_same F (F (w_db w))) m \<Longrightarrow> F (w_db w') = F (w_db w)"
  using keepsD [of "shows_same F (F (w_db w))" m w r w'] by simp

lemma keeps_transaction_Inl: "transaction m w = (Inl e, w') \<Longrightarrow> F (w_db w') = F (w_db w)"
  using transaction_rollback by metis

lemma op_try_run [simp]: "op_try m w = (Inr (fst (m w)), snd (m w))"
  by (simp add: op_try_def split: prod.splits)

lemma deliver_stored_Inr: "deliver_stored nd account_id outbox_id delivery w \<noteq> (Inl e, w')"
  by (simp add: deliver_stored_def op_bind_def split: option.splits prod.splits)

text \<open>A failed request leaves follows, blocks and mutes as they were.\<close>

lemma block_resolved_Inl:
  assumes "block_resolved nd account resolved w = (Inl e, w')"
  shows "relation_tables (w_db w') = relation_tables (w_db w)"
  using assms
  by (auto simp: block_resolved_def op_iffs Let_def generate_id_def deliver_stored_Inr split: if_splits)

lemma block_resolved_Inr:
  assumes "block_resolved nd account resolved w = (Inr dto, w')"
  obtains b delivery w1 outbox_id w2 where
    "relation_tables (w_db w1) = relation_tables (w_db w)"
    "bl_source b = Local (acc_id account)" "bl_source b \<noteq> bl_destination b"
    "bl_destination b = fst (block_target_parts resolved)"
    "block_rows nd (acc_id account) b delivery w1 = (Inr outbox_id, w2)"
    "relation_tables (w_db w') = relation_tables (w_db w2)" "rd_id dto = int_to_string (bl_id b)"
    "rd_target dto = snd (block_target_parts resolved)"
proof -
  let ?destination = "fst (block_target_parts resolved)"
  from assms obtain i b delivery w1 outbox_id w2 where "Local (acc_id account) \<noteq> ?destination"
    and gen: "generate_id (nd_env nd) w = (Inr i, w1)"
    and b: "block_new i (Local (acc_id account)) ?destination = Inr b"
    and rows: "block_rows nd (acc_id account) b delivery w1 = (Inr outbox_id, w2)"
    and del: "deliver_stored nd (acc_id account) outbox_id delivery w2 = (Inr (), w')"
    and dto: "rd_id dto = int_to_string (bl_id b)" "rd_target dto = snd (block_target_parts resolved)"
    by (auto simp: block_resolved_def op_iffs Let_def split: if_splits)
  moreover have "relation_tables (w_db w1) = relation_tables (w_db w)"
    by (rule keepsE [OF gen keeps_generate])
  moreover have "relation_tables (w_db w') = relation_tables (w_db w2)"
    by (rule keepsE [OF del keeps_deliver_stored]) simp
  ultimately show thesis by (intro that) (auto simp: block_new_Inr)
qed

lemma block_account_run:
  assumes "block_account nd auth nano target w = (r, w')"
  obtains (early) e where "r = Inl e" "relation_tables (w_db w') = relation_tables (w_db w)"
  | (resolved) account resolved w0 where "acting_account nd auth nano w = (Inr account, w)"
      "resolve_block_target nd target w = (Inr resolved, w0)"
      "relation_tables (w_db w0) = relation_tables (w_db w)"
      "block_resolved nd account resolved w0 = (r, w')"
proof -
  obtain ra where act: "acting_account nd auth nano w = (ra, w)"
    using acting_account_world by (metis surj_pair)
  obtain rt w0 where t: "resolve_block_target nd target w = (rt, w0)" by fastforce
  have w0: "relation_tables (w_db w0) = relation_tables (w_db w)"
    by (rule keepsE [OF t keeps_resolve_block_target]) simp
  show thesis
  proof (cases ra)
    case (Inl e)
    with act assms show ?thesis by (intro early) (auto simp: block_account_def)
  next
    case (Inr account)
    with act assms t w0 early resolved show ?thesis by (cases rt) (auto simp: block_account_def)
  qed
qed

text \<open>C13. 
  A successful block was requested by someone who may sign for the account, is on the party the
  target resolved to, which is another one than the account, adds exactly one block, and removes the follows between the two parties in both directions,
  approved or not; other relations stay. A failed request changes no relation.
\<close>

theorem block_account_severs:
  assumes "block_account nd auth nano target w = (r, w')"
    and ok: "follow_table_ok (w_db w)" "block_table_ok (w_db w)"
  shows "follow_table_ok (w_db w') \<and> block_table_ok (w_db w') \<and>
    (case r of
       Inl e \<Rightarrow> relation_tables (w_db w') = relation_tables (w_db w)
     | Inr dto \<Rightarrow> \<exists>account resolved b.
         account_find_by_nanoid (nd_env nd) nano (w_db w) = Some account \<and>
         check_permission (nd_env nd) auth (account_sign (acc_id account)) w = (Inr (), w) \<and>
         fst (resolve_block_target nd target w) = Inr resolved \<and>
         block_target_parts resolved = (bl_destination b, rd_target dto) \<and>
         bl_source b = Local (acc_id account) \<and> bl_destination b \<noteq> bl_source b \<and>
         rd_id dto = int_to_string (bl_id b) \<and>
         relation_tables (w_db w') =
           (filter (\<lambda>x. \<not> between_either (bl_source b) (bl_destination b) x) (t_follows (w_db w)),
            t_blocks (w_db w) @ [block_row_of b], t_mutes (w_db w)))"
  using assms(1)
proof (cases rule: block_account_run)
  case (early e)
  with ok show ?thesis
    by (simp add: relation_tables_def follow_table_ok_cong [of "w_db w'"] block_table_ok_cong [of "w_db w'"])
next
  case (resolved account found w0)
  from resolved(3) ok have ok0: "follow_table_ok (w_db w0)" "block_table_ok (w_db w0)"
    by (simp_all add: relation_tables_def follow_table_ok_cong [of "w_db w0"] block_table_ok_cong [of "w_db w0"])
  show ?thesis
  proof (cases r)
    case (Inl e)
    with resolved(3,4) ok show ?thesis using block_resolved_Inl [of nd account found w0 e w']
      by (simp add: relation_tables_def follow_table_ok_cong [of "w_db w'"] block_table_ok_cong [of "w_db w'"])
  next
    case (Inr dto)
    from resolved(4) [unfolded Inr] obtain b delivery w1 outbox_id w2 where
      w1: "relation_tables (w_db w1) = relation_tables (w_db w)"
      and b: "bl_source b = Local (acc_id account)" "bl_source b \<noteq> bl_destination b"
      and found: "bl_destination b = fst (block_target_parts found)" "rd_target dto = snd (block_target_parts found)"
      and rows: "block_rows nd (acc_id account) b delivery w1 = (Inr outbox_id, w2)"
      and w': "relation_tables (w_db w') = relation_tables (w_db w2)" "rd_id dto = int_to_string (bl_id b)"
      using resolved(3) by (elim block_resolved_Inr) simp
    have "follow_table_ok (w_db w1)" "block_table_ok (w_db w1)"
      using ok w1 by (simp_all add: relation_tables_def follow_table_ok_cong [of "w_db w1"] block_table_ok_cong [of "w_db w1"])
    note after = block_rows_Inr [OF rows this]
    have "follow_table_ok (w_db w')" "block_table_ok (w_db w')"
      using after(2,3) b(1) w'(1)
      by (simp_all add: relation_tables_def follow_table_ok_cong [of "w_db w'"] block_table_ok_cong [of "w_db w'"])
    with resolved(1,2) b found w' after(1) w1 show ?thesis
      unfolding Inr by (auto simp: acting_account_Inr relation_tables_def intro!: exI [of _ b])
  qed
qed

subsection \<open>An example\<close>

text \<open>Accounts 7 and 8 of one server; 8 follows 7, and the caller 3 owns 7.\<close>

definition pair_account :: account where
  "pair_account = \<lparr> acc_id = 8, acc_name = ''bob'', acc_is_bot = False, acc_status = Active,
     acc_deleted_at = None, acc_version = 9, acc_nanoid = ''n2'', acc_created_at = id_created_at 8 \<rparr>"

definition pair_follow :: follow where
  "pair_follow = \<lparr> fo_id = 1, fo_source = Local 8, fo_destination = Local 7, fo_approved_at = Some 5 \<rparr>"

definition pair_world :: world where
  "pair_world = service_world \<lparr> w_db := (w_db service_world)
     \<lparr> t_accounts := [row_of_account service_account, row_of_account pair_account],
       t_follows := [follow_row_of pair_follow] \<rparr> \<rparr>"

definition pair_node :: node where
  "pair_node = \<lparr> nd_fd = example_fd, nd_crates = toy_crates,
     nd_signing = \<lparr> http_build = (\<lambda>_. None), cavage_request_sign = (\<lambda>_ _ _ _ _ _. None),
                    rfc9421_request_sign = (\<lambda>_ _ _ _ _ _. None) \<rparr>,
     nd_debug = (\<lambda>_ _. []) \<rparr>"

lemma pair_world_lookup:
  "account_find_by_nanoid (keto_env t) ''n1'' (w_db pair_world) = Some service_account"
  "account_find_by_nanoid (keto_env t) ''n2'' (w_db pair_world) = Some pair_account"
  by (simp_all add: account_find_by_nanoid_def pair_world_def account_row_roundtrip
      account_row_roundtrip_expiry visible_row_of_account expire_def)
    (simp_all add: service_account_def pair_account_def row_of_account_def)

lemma pair_world_ok: "follow_table_ok (w_db pair_world)" "block_table_ok (w_db pair_world)"
  by (auto simp: follow_table_ok_def block_table_ok_def pair_world_def holds_follows_def holds_blocks_def
      service_world_def empty_world_def empty_db_def pair_wf_def pair_follow_def
      intro!: exI [of _ "[pair_follow]"])

lemma pair_node_env [simp]: "nd_env pair_node = keto_env 60"
  by (simp add: pair_node_def example_fd_def)

lemma pair_acting: "acting_account pair_node 3 ''n1'' pair_world = (Inr service_account, pair_world)"
proof -
  have "has_relation pair_world (TargetAccount 7 Owner) 3"
    using service_world_relations by (simp add: has_relation_def pair_world_def)
  then show ?thesis
    by (simp add: acting_account_Inr pair_world_lookup check_permissions)
      (simp add: service_account_def)
qed

lemma pair_target: "resolve_block_target pair_node ''n2'' pair_world = (Inr (LocalAccount pair_account), pair_world)"
  by (simp add: resolve_block_target_def op_bind_def query_def pair_world_lookup op_return_def)

lemma pair_blocked: "\<exists>dto. fst (block_account pair_node 3 ''n1'' ''n2'' pair_world) = Inr dto"
proof -
  let ?b = "\<lparr> bl_id = 10, bl_source = Local 7, bl_destination = Local 8 \<rparr>"
  have "generate_id (keto_env 60) pair_world = (Inr 10, pair_world \<lparr> w_last_id := 10 \<rparr>)"
    by (simp add: generate_id_def keto_env_generators pair_world_def service_world_def)
  moreover have "\<exists>w'. block_rows pair_node 7 ?b None (pair_world \<lparr> w_last_id := 10 \<rparr>) = (Inr None, w')"
  proof -
    let ?d = "(w_db pair_world) \<lparr> t_blocks := [block_row_of ?b] \<rparr>"
    have none: "t_blocks (w_db pair_world) = []"
      and ids: "map ar_id (t_accounts (w_db pair_world)) = [7, 8]"
      by (simp_all add: pair_world_def service_world_def empty_world_def empty_db_def row_of_account_def
          service_account_def pair_account_def)
    have "find_blocks (Local 7) (w_db pair_world) = Inr []" by (simp add: find_blocks_def none)
    moreover have "block_create ?b (w_db pair_world) = Inr ((), ?d)"
      by (simp add: block_create_def insert_block_def insert_checked_def block_row_of_def block_checks_def
          block_refs_def side_refs_def nullable_ref_def exclusive_def none ids)
    moreover have "follow_table_ok ?d"
      using pair_world_ok(1) by (simp add: follow_table_ok_def holds_follows_def)
    ultimately show ?thesis by (simp add: block_rows_def exec_def remove_follows_run store_delivery_def)
  qed
  moreover have "block_new 10 (Local 7) (Local 8) = Inr ?b" by (simp add: block_new_def)
  ultimately show ?thesis
    by (auto simp: block_account_def op_run pair_acting pair_target block_resolved_def transaction_def Let_def
       deliver_stored_def pair_account_def service_account_def)
qed

theorem block_account_severs_witness:
  "\<exists>dto w'. block_account pair_node 3 ''n1'' ''n2'' pair_world = (Inr dto, w') \<and> t_follows (w_db w') = []"
proof -
  obtain dto w' where run: "block_account pair_node 3 ''n1'' ''n2'' pair_world = (Inr dto, w')"
    using pair_blocked by (metis prod.collapse)
  moreover have "t_follows (w_db pair_world) = [follow_row_of pair_follow]" by (simp add: pair_world_def)
  ultimately show ?thesis using block_account_severs [OF run pair_world_ok]
    by (auto simp: pair_target relation_tables_def pair_world_lookup between_either_def pair_follow_def
        pair_account_def service_account_def follow_row_of_facts)
qed

end
