(* ===== verification/Account_Detail_Theorems.thy ===== *)
theory Account_Detail_Theorems
  imports Account_Detail Account_Service_Theorems Blocking_Theorems
begin

text \<open>
  What an update of a profile leaves behind: the plan for the fields turns the stored fields into
  the submitted ones, the answer of the update is what a later read shows, and stored texts stay
  within their limits.
\<close>

subsection \<open>The plan\<close>

text \<open>The plan by recursion on both lists.\<close>

fun plan_fields :: "metadata_projection list \<Rightarrow> account_field_dto list \<Rightarrow> field_change list" where
  "plan_fields [] fs = map (\<lambda>f. FieldCreate (af_label f) (af_content f)) fs"
| "plan_fields ms [] = map (\<lambda>m. FieldDelete (md_id m)) ms"
| "plan_fields (m # ms) (f # fs) =
     (if md_label m \<noteq> af_label f \<or> md_content m \<noteq> af_content f
      then [FieldUpdate (md_id m) (af_label f) (af_content f)] else []) @ plan_fields ms fs"

lemma upt_0_Suc: "[0..<Suc n] = 0 # map Suc [0..<n]"
  by (simp add: upt_conv_Cons map_Suc_upt del: upt_Suc)

lemma plan_field_updates_rec: "plan_field_updates ms fs = plan_fields ms fs"
  by (induction ms fs rule: plan_fields.induct)
    (simp_all add: plan_field_updates_def upt_0_Suc o_def Let_def del: upt_Suc cong: if_cong)

text \<open>A stored field as the plan sees it, and what a change does to the list of them.\<close>

type_synonym seen_field = "int \<times> string \<times> string"

inductive change_seen :: "field_change \<Rightarrow> seen_field list \<Rightarrow> seen_field list \<Rightarrow> bool" where
  update: "change_seen (FieldUpdate i label content) xs
     (map (\<lambda>(k, v). if k = i then (k, label, content) else (k, v)) xs)"
| delete: "change_seen (FieldDelete i) xs (filter (\<lambda>(k, v). k \<noteq> i) xs)"
| create: "i \<notin> fst ` set xs \<Longrightarrow> change_seen (FieldCreate label content) xs (xs @ [(i, label, content)])"

inductive_cases change_seenE [elim!]:
  "change_seen (FieldUpdate i label content) xs ys" "change_seen (FieldDelete i) xs ys"
  "change_seen (FieldCreate label content) xs ys"

fun changes_seen :: "field_change list \<Rightarrow> seen_field list \<Rightarrow> seen_field list \<Rightarrow> bool" where
  "changes_seen [] xs ys \<longleftrightarrow> ys = xs"
| "changes_seen (c # cs) xs ys \<longleftrightarrow> (\<exists>zs. change_seen c xs zs \<and> changes_seen cs zs ys)"

definition seen_of :: "metadata_projection \<Rightarrow> seen_field" where
  "seen_of m = (md_id m, md_label m, md_content m)"

definition seen_dto :: "account_field_dto \<Rightarrow> string \<times> string" where
  "seen_dto f = (af_label f, af_content f)"

lemma seen_of_sel [simp]: "fst (seen_of m) = md_id m" "snd (seen_of m) = (md_label m, md_content m)"
  by (simp_all add: seen_of_def)

lemma creates_seen:
  "changes_seen (map (\<lambda>f. FieldCreate (af_label f) (af_content f)) fs) xs ys \<Longrightarrow>
     map snd ys = map snd xs @ map seen_dto fs"
  by (induction fs arbitrary: xs) (auto simp: seen_dto_def)

lemma deletes_seen:
  "changes_seen (map (\<lambda>m. FieldDelete (md_id m)) ms) xs ys \<Longrightarrow>
     ys = filter (\<lambda>(k, v). k \<notin> md_id ` set ms) xs"
proof (induction ms arbitrary: xs)
  case (Cons m ms)
  from Cons.prems have "changes_seen (map (\<lambda>m. FieldDelete (md_id m)) ms) (filter (\<lambda>(k, v). k \<noteq> md_id m) xs) ys"
    by auto
  from Cons.IH [OF this] show ?case by (auto intro: filter_cong)
qed auto

lemma update_seen_middle:
  assumes "distinct (map fst (pre @ (i, v) # post))"
  shows "map (\<lambda>(k, u). if k = i then (k, new) else (k, u)) (pre @ (i, v) # post) = pre @ (i, new) # post"
proof -
  have "map (\<lambda>(k, u). if k = i then (k, new) else (k, u)) xs = xs" if "i \<notin> fst ` set xs" for xs
    using that by (intro map_idI) force
  with assms show ?thesis by auto
qed

lemma plan_seen:
  assumes "changes_seen (plan_fields ms fs) (pre @ map seen_of ms) ys"
    and "distinct (map fst (pre @ map seen_of ms))"
  shows "map snd ys = map snd pre @ map seen_dto fs"
  using assms
proof (induction ms fs arbitrary: pre rule: plan_fields.induct)
  case (1 fs)
  then show ?case using creates_seen by fastforce
next
  case (2 m ms)
  then have "ys = filter (\<lambda>(k, v). k \<notin> md_id ` set (m # ms)) (pre @ map seen_of (m # ms))"
    by (intro deletes_seen) simp
  also have "filter (\<lambda>(k, v). k \<notin> md_id ` set (m # ms)) pre = pre"
    using 2(2) by (intro filter_True) (force simp: seen_of_def)
  then have "filter (\<lambda>(k, v). k \<notin> md_id ` set (m # ms)) (pre @ map seen_of (m # ms)) = pre"
    by (auto simp: seen_of_def filter_empty_conv)
  finally show ?case by simp
next
  case (3 m ms f fs)
  let ?pre = "pre @ [(md_id m, seen_dto f)]"
  have d: "distinct (map fst (?pre @ map seen_of ms))" using "3.prems"(2) by (auto simp: o_def)
  have first: "pre @ map seen_of (m # ms) = pre @ (md_id m, md_label m, md_content m) # map seen_of ms"
    by (simp add: seen_of_def)
  note updated = update_seen_middle [OF "3.prems"(2) [unfolded first]]
  have "changes_seen (plan_fields ms fs) (?pre @ map seen_of ms) ys"
  proof (cases "md_label m \<noteq> af_label f \<or> md_content m \<noteq> af_content f")
    case True
    with "3.prems"(1) updated show ?thesis by (simp only: plan_fields.simps first if_True append.simps
      changes_seen.simps append_assoc seen_dto_def) (elim exE conjE change_seenE, simp only:)
  next
    case False
    with "3.prems"(1) show ?thesis by (simp add: seen_of_def [abs_def] seen_dto_def)
  qed
  from "3.IH" [OF this d] show ?case by simp
qed

subsection \<open>The stored fields\<close>

definition seen_row :: "metadata_row \<Rightarrow> seen_field" where
  "seen_row r = (mw_id r, mw_label r, mw_content r)"

definition seen_fields :: "account_id \<Rightarrow> db \<Rightarrow> seen_field list" where
  "seen_fields i d = map seen_row (sort_key mw_id (filter (\<lambda>r. mw_account_id r = i) (t_metadatas d)))"

text \<open>Identifiers of fields are distinct and were drawn from the generator.\<close>

definition fields_ok :: "world \<Rightarrow> bool" where
  "fields_ok w \<longleftrightarrow> ids_ahead w \<and> distinct (map mw_id (t_metadatas (w_db w))) \<and>
     list_all (\<lambda>r. mw_id r \<le> w_last_id w) (t_metadatas (w_db w))"

lemma sort_key_map_same:
  assumes "\<And>x. f (g x) = f x"
  shows "sort_key f (map g xs) = map g (sort_key f xs)"
proof -
  have "insort_key f (g x) (map g ys) = map g (insort_key f x ys)" for x ys
    by (induction ys) (simp_all add: assms)
  then show ?thesis by (induction xs) simp_all
qed

lemma seen_fields_metadata:
  "seen_fields i d = map seen_of (sort_key md_id (metadata_find_by_account_id i d))"
proof -
  have "map seen_of (sort_key md_id (map metadata_projection_from rs)) = map seen_row (sort_key mw_id rs)" for rs
  proof (induction rs)
    case (Cons r rs)
    have "map seen_of (insort_key md_id (metadata_projection_from r) xs) =
        insort_key fst (seen_of (metadata_projection_from r)) (map seen_of xs)" for xs
      by (induction xs) simp_all
    moreover have "map seen_row (insort_key mw_id r ys) = insort_key fst (seen_row r) (map seen_row ys)" for ys
      by (induction ys) (simp_all add: seen_row_def)
    moreover have "seen_of (metadata_projection_from r) = seen_row r"
      by (simp add: seen_of_def seen_row_def metadata_projection_from_def)
    ultimately show ?case using Cons by simp
  qed simp
  then show ?thesis by (simp add: seen_fields_def metadata_find_by_account_id_def)
qed

text \<open>What the three changes do to the rows.\<close>

lemma seen_fields_update:
  "seen_fields i (d \<lparr> t_metadatas := map (\<lambda>r. if mw_id r = k then r \<lparr> mw_label := l, mw_content := c, mw_version := v \<rparr> else r)
      (t_metadatas d) \<rparr>) = map (\<lambda>(j, u). if j = k then (j, l, c) else (j, u)) (seen_fields i d)"
proof -
  let ?g = "\<lambda>r :: metadata_row. if mw_id r = k then r \<lparr> mw_label := l, mw_content := c, mw_version := v \<rparr> else r"
  have "filter (\<lambda>r. mw_account_id r = i) (map ?g rs) = map ?g (filter (\<lambda>r. mw_account_id r = i) rs)" for rs
    by (induction rs) simp_all
  then show ?thesis
    by (simp add: seen_fields_def sort_key_map_same [of mw_id ?g] o_def seen_row_def)
qed

lemma seen_fields_delete:
  "seen_fields i (d \<lparr> t_metadatas := filter (\<lambda>r. mw_id r \<noteq> k) (t_metadatas d) \<rparr>) =
     filter (\<lambda>(j, u). j \<noteq> k) (seen_fields i d)"
  by (simp add: seen_fields_def filter_map o_def seen_row_def filter_sort_key conj_commute)

lemma seen_fields_create:
  assumes "list_all (\<lambda>r. mw_id r \<le> mw_id x) (t_metadatas d)" and "mw_account_id x = i"
  shows "seen_fields i (d \<lparr> t_metadatas := t_metadatas d @ [x] \<rparr>) = seen_fields i d @ [seen_row x]"
proof -
  have "sort_key mw_id (filter (\<lambda>r. mw_account_id r = i) (t_metadatas d) @ [x]) =
      sort_key mw_id (filter (\<lambda>r. mw_account_id r = i) (t_metadatas d)) @ [x]"
    by (rule sort_key_snoc_max) (use assms(1) in \<open>auto simp: list_all_iff\<close>)
  with assms(2) show ?thesis by (simp add: seen_fields_def)
qed

text \<open>The operations behind a change.\<close>

lemma metadata_load_events:
  "metadata_repository_load i d = Inr r \<longleftrightarrow>
     from_events_allow_deletion metadata_apply (find_by_id (t_metadata_events d) i None) = Inr (Some r)"
  by (auto simp: metadata_repository_load_def metadata_events_find_by_id_def result_iffs)

lemma metadata_load_after_update:
  assumes "ids_ahead w" "snowflake_crate e"
    and save: "metadata_repository_save e (metadata_update i label content v) w = (Inr ev, w1)"
    and load: "metadata_repository_load i (w_db w1) = Inr r1"
  shows "md_label (rh_aggregate r1) = label" "md_content (rh_aggregate r1) = content"
    "md_id (rh_aggregate r1) = i"
proof -
  let ?old = "find_by_id (t_metadata_events (w_db w)) i None"
  have events: "find_by_id (t_metadata_events (w_db w1)) i None = ?old @ [ev]"
    using meta_port.save_appends [OF assms(1-3)] by (simp add: metadata_update_def)
  have ev: "ee_event ev = MetadataUpdated label content"
    using meta_port.save_Inr(1) [OF save] by (simp add: envelope_of_def metadata_update_def)
  from load have fold: "res_fold metadata_apply (?old @ [ev]) None = Inr (Some (rh_aggregate r1))"
    unfolding metadata_load_events events by (auto simp: from_events_allow_deletion_def Let_def result_iffs)
  then obtain m where "metadata_apply ev m = Inr (Some (rh_aggregate r1))"
    by (auto simp: res_fold_append result_iffs)
  with ev obtain x where "x \<lparr> md_label := label, md_content := content, md_version := ee_version ev \<rparr> = rh_aggregate r1"
    by (auto simp: metadata_apply_def split: option.splits)
  from this [symmetric] show "md_label (rh_aggregate r1) = label" "md_content (rh_aggregate r1) = content" by simp_all
  have "same_stream i (?old @ [ev])" using find_by_id_same_stream [of i "t_metadata_events (w_db w1)" None] by (simp add: events)
  with fold show "md_id (rh_aggregate r1) = i" by (rule meta.fold_id) simp
qed

lemma fields_ok_rows:
  assumes "fields_ok w" and "distinct (map mw_id rows)" and "list_all (\<lambda>r. mw_id r \<le> w_last_id w) rows"
  shows "fields_ok (w \<lparr> w_db := (w_db w) \<lparr> t_metadatas := rows \<rparr> \<rparr>)"
  using assms by (simp add: fields_ok_def ids_ahead_def)

lemma fields_ok_later:
  assumes "fields_ok w" and "ids_ahead w1" and "t_metadatas (w_db w1) = t_metadatas (w_db w)"
    and "w_last_id w \<le> w_last_id w1"
  shows "fields_ok w1"
  using assms by (auto simp: fields_ok_def list_all_iff)

lemma fields_ok_save:
  assumes "metadata_repository_save e c w = (Inr ev, w1)" and "fields_ok w" and "snowflake_crate e"
  shows "fields_ok w1" and "t_metadatas (w_db w1) = t_metadatas (w_db w)" and "w_last_id w < w_last_id w1"
    and "seen_fields i (w_db w1) = seen_fields i (w_db w)"
proof -
  note saved = meta_port.save_Inr [OF assms(1)]
  show rows: "t_metadatas (w_db w1) = t_metadatas (w_db w)"
    using assms(1) by (auto simp: meta_port.save_eq Let_def split: sum.splits)
  from saved(2) assms(3) show less: "w_last_id w < w_last_id w1" by (simp add: snowflake_crate_def)
  have "ids_ahead w1"
    by (rule keepsD [OF meta_port.save_keeps_ahead [OF assms(3)] _ assms(1)]) (use assms(2) in \<open>simp add: fields_ok_def\<close>)
  with rows less show "fields_ok w1" by (intro fields_ok_later [OF assms(2)]) simp_all
  from rows show "seen_fields i (w_db w1) = seen_fields i (w_db w)" by (simp add: seen_fields_def)
qed

lemma field_change_seen:
  assumes run: "apply_field_change e i c w = (Inr (), w')" and ok: "fields_ok w" and e: "snowflake_crate e"
  shows "change_seen c (seen_fields i (w_db w)) (seen_fields i (w_db w')) \<and> fields_ok w'"
proof (cases c)
  case (FieldUpdate k label content)
  with run obtain r :: "metadata rehydrated" and ev and w1 :: world and r1 :: "metadata rehydrated" and d where
    save: "metadata_repository_save e (metadata_update k label content (rh_version r)) w = (Inr ev, w1)"
    and load: "metadata_repository_load k (w_db w1) = Inr r1"
    and upd: "metadata_read_model_update (rh_aggregate r1) (w_db w1) = Inr ((), d)" and w': "w' = w1 \<lparr> w_db := d \<rparr>"
    by (auto simp: op_iffs)
  note saved = fields_ok_save [OF save ok e]
  note loaded = metadata_load_after_update [OF _ e save load]
  let ?g = "\<lambda>x :: metadata_row. if mw_id x = k then x \<lparr> mw_label := label, mw_content := content,
      mw_version := md_version (rh_aggregate r1) \<rparr> else x"
  have d: "d = (w_db w1) \<lparr> t_metadatas := map ?g (t_metadatas (w_db w1)) \<rparr>"
    using upd loaded ok by (auto simp: metadata_read_model_update_def update_rows_def Let_def fields_ok_def split: if_splits)
  have "map mw_id (map ?g rs) = map mw_id rs" for rs by (induction rs) simp_all
  moreover have "list_all (\<lambda>r. mw_id r \<le> n) (map ?g rs) = list_all (\<lambda>r. mw_id r \<le> n) rs" for n rs
    by (induction rs) simp_all
  ultimately have "fields_ok w'" using saved(1) unfolding w' d
    by (intro fields_ok_rows) (simp_all only: fields_ok_def)
  with saved(4) show ?thesis
    by (simp add: w' d FieldUpdate seen_fields_update change_seen.update)
next
  case (FieldDelete k)
  with run obtain r :: "metadata rehydrated" and ev and w1 :: world and d where
    save: "metadata_repository_save e (metadata_delete k (rh_version r)) w = (Inr ev, w1)"
    and del: "metadata_read_model_delete k (w_db w1) = Inr ((), d)" and w': "w' = w1 \<lparr> w_db := d \<rparr>"
    by (auto simp: op_iffs)
  note saved = fields_ok_save [OF save ok e]
  have d: "d = (w_db w1) \<lparr> t_metadatas := filter (\<lambda>x. mw_id x \<noteq> k) (t_metadatas (w_db w1)) \<rparr>"
    using del by (auto simp: metadata_read_model_delete_def delete_rows_def Let_def split: if_splits)
  have "fields_ok w'" using saved(1) fields_ok_rows [OF saved(1), of "filter (\<lambda>x. mw_id x \<noteq> k) (t_metadatas (w_db w1))"]
    by (auto simp: w' d fields_ok_def distinct_map_filter list_all_iff)
  with saved(4) show ?thesis by (simp add: w' d FieldDelete seen_fields_delete change_seen.delete)
next
  case (FieldCreate label content)
  let ?k = "next_snowflake e (w_last_id w)"
  let ?w = "w \<lparr> w_last_id := ?k, w_nano_seed := w_nano_seed w + 1 \<rparr>"
  from run FieldCreate obtain nano ev and w1 :: world and m d where
    save: "metadata_repository_save e (metadata_create ?k i label content nano) ?w = (Inr ev, w1)"
    and m: "metadata_apply ev None = Inr (Some m)"
    and ins: "metadata_read_model_create m (w_db w1) = Inr ((), d)" and w': "w' = w1 \<lparr> w_db := d \<rparr>"
    by (auto simp: op_iffs result_iffs generate_id_def nanoid_default_def Let_def)
  have k: "w_last_id w < ?k" using e by (simp add: snowflake_crate_def)
  have "ids_ahead ?w" using ok k by (auto simp: fields_ok_def ids_ahead_def intro: versions_below_mono)
  then have ok1: "fields_ok ?w" using ok k by (auto simp: fields_ok_def list_all_iff)
  note saved = fields_ok_save [OF save ok1 e]
  have ev: "ee_event ev = MetadataCreated i label content nano" "ee_id ev = ?k"
    using meta_port.save_Inr(1) [OF save] by (simp_all add: envelope_of_def metadata_create_def)
  with m have row: "mw_id (row_of_metadata m) = ?k" "mw_account_id (row_of_metadata m) = i"
      "seen_row (row_of_metadata m) = (?k, label, content)"
    by (auto simp: metadata_apply_def row_of_metadata_def seen_row_def)
  have d: "d = (w_db w1) \<lparr> t_metadatas := t_metadatas (w_db w1) @ [row_of_metadata m] \<rparr>"
    using ins by (auto simp: metadata_read_model_create_def insert_row_def Let_def result_iffs split: if_splits)
  have below: "\<forall>r \<in> set (t_metadatas (w_db w1)). mw_id r < ?k" using ok k saved(2) by (fastforce simp: fields_ok_def list_all_iff)
  then have "fields_ok w'"
    using saved(1,3) unfolding w' d
    by (intro fields_ok_rows) (auto simp: fields_ok_def list_all_iff row)
  moreover have "seen_fields i d = seen_fields i (w_db w) @ [(?k, label, content)]"
    using below saved(4) by (simp add: d seen_fields_create row list_all_iff less_imp_le)
  moreover have "?k \<notin> fst ` set (seen_fields i (w_db w))"
    using below saved(2) by (auto simp: seen_fields_def seen_row_def)
  ultimately show ?thesis by (simp add: w' FieldCreate change_seen.create)
qed

lemma field_updates_seen:
  assumes "apply_field_updates e i existing submitted w = (Inr (), w')" and "fields_ok w" and "snowflake_crate e"
  shows "changes_seen (plan_field_updates existing submitted) (seen_fields i (w_db w)) (seen_fields i (w_db w'))"
    and "fields_ok w'"
proof -
  have "changes_seen cs (seen_fields i (w_db w)) (seen_fields i (w_db w')) \<and> fields_ok w'"
    if "op_iter (apply_field_change e i) cs w = (Inr (), w')" "fields_ok w" for cs and w :: world
    using that
  proof (induction cs arbitrary: w)
    case (Cons c cs)
    then obtain w1 where "apply_field_change e i c w = (Inr (), w1)" "op_iter (apply_field_change e i) cs w1 = (Inr (), w')"
      by (auto simp: op_iffs)
    with Cons field_change_seen [OF _ _ assms(3)] show ?case by fastforce
  qed simp
  with assms show "changes_seen (plan_field_updates existing submitted) (seen_fields i (w_db w)) (seen_fields i (w_db w'))"
    and "fields_ok w'" unfolding apply_field_updates_def by blast+
qed

text \<open>The stored fields become the submitted ones.\<close>

lemma fields_replaced:
  assumes run: "apply_field_updates e i (sort_key md_id (metadata_find_by_account_id i (w_db w))) submitted w = (Inr (), w')"
    and ok: "fields_ok w" and e: "snowflake_crate e"
  shows "map field_of_metadata (sort_key md_id (metadata_find_by_account_id i (w_db w'))) = submitted"
proof -
  let ?ms = "sort_key md_id (metadata_find_by_account_id i (w_db w))"
  from field_updates_seen(1) [OF run ok e]
  have "changes_seen (plan_fields ?ms submitted) ([] @ map seen_of ?ms) (seen_fields i (w_db w'))"
    by (simp add: plan_field_updates_rec seen_fields_metadata)
  moreover have "distinct (map fst ([] @ map seen_of ?ms))"
  proof -
    have "distinct (map mw_id (filter (\<lambda>r. mw_account_id r = i) (t_metadatas (w_db w))))"
      using ok by (simp add: fields_ok_def distinct_map_filter)
    then have "distinct (map md_id (metadata_find_by_account_id i (w_db w)))"
      by (simp add: metadata_find_by_account_id_def o_def metadata_projection_from_def)
    then show ?thesis by (simp add: o_def distinct_map)
  qed
  ultimately have "map snd (seen_fields i (w_db w')) = map seen_dto submitted" using plan_seen [of ?ms submitted "[]"] by simp
  then have "map seen_dto (map field_of_metadata (sort_key md_id (metadata_find_by_account_id i (w_db w')))) =
      map seen_dto submitted"
    by (simp add: seen_fields_metadata o_def seen_dto_def field_of_metadata_def)
  moreover have "inj seen_dto" by (auto simp: inj_def seen_dto_def intro: account_field_dto.equality)
  ultimately show ?thesis using map_injective by blast
qed

subsection \<open>Composing one account\<close>

lemma filter_unique_row:
  "distinct (map k xs) \<Longrightarrow> List.find (\<lambda>y. k y = v) xs = Some x \<Longrightarrow> filter (\<lambda>y. k y = v) xs = [x]"
proof (induction xs)
  case (Cons y ys)
  then show ?case by (cases "k y = v") (auto simp: filter_empty_conv image_iff)
qed simp

lemma sort_key_same_first:
  assumes "\<forall>x \<in> set xs. f x = a"
  shows "sort_key (\<lambda>x. (f x, g x)) xs = sort_key g xs"
  using assms
proof (induction xs)
  case (Cons x xs)
  have "insort_key (\<lambda>x. (f x, g x)) x ys = insort_key g x ys" if "\<forall>y \<in> set ys. f y = a" for ys
    using that Cons.prems by (induction ys) (auto simp: less_eq_prod_def)
  with Cons show ?case by simp
qed simp

lemma group_fields_same:
  assumes "\<forall>f \<in> set xs. md_account_id f = i" and "m i = None \<or> m i = Some ys"
  shows "(case foldl (\<lambda>m f. m(md_account_id f \<mapsto>
         (case m (md_account_id f) of None \<Rightarrow> [] | Some fs \<Rightarrow> fs) @ [field_of_metadata f])) m xs i of
       None \<Rightarrow> [] | Some fs \<Rightarrow> fs) = (case m i of None \<Rightarrow> [] | Some fs \<Rightarrow> fs) @ map field_of_metadata xs"
  using assms by (induction xs arbitrary: m ys) (auto split: option.splits)

lemma compose_single:
  assumes "distinct (map pw_account_id (t_profiles d))" and "profile_find_by_account_id (acc_id a) d = Some p"
  shows "compose_account_details [a] d = Inr [into_detail (account_dto_from a) (pr_display_name p) (pr_summary p)
     (Option.bind (pr_icon p) (image_urls (image_find_by_ids (image_ids (pr_icon p) (pr_banner p)) d)))
     (Option.bind (pr_banner p) (image_urls (image_find_by_ids (image_ids (pr_icon p) (pr_banner p)) d)))
     (map field_of_metadata (sort_key md_id (metadata_find_by_account_id (acc_id a) d)))]"
proof -
  have one: "profile_find_by_account_ids [acc_id a] d = [p]"
    using assms filter_unique_row [of pw_account_id "t_profiles d" "acc_id a"]
    by (auto simp: profile_find_by_account_id_def profile_find_by_account_ids_def)
  have p: "pr_account_id p = acc_id a"
    using assms(2) by (auto simp: profile_find_by_account_id_def profile_projection_from_def dest!: find_SomeD)
  have "metadata_find_by_account_ids [acc_id a] d = metadata_find_by_account_id (acc_id a) d"
    by (simp add: metadata_find_by_account_ids_def metadata_find_by_account_id_def)
  moreover have same: "\<forall>f \<in> set (metadata_find_by_account_id (acc_id a) d). md_account_id f = acc_id a"
    by (auto simp: metadata_find_by_account_id_def metadata_projection_from_def)
  ultimately have meta: "sort_key (\<lambda>f. (md_account_id f, md_id f)) (metadata_find_by_account_ids [acc_id a] d) =
      sort_key md_id (metadata_find_by_account_id (acc_id a) d)"
    by (simp only: sort_key_same_first)
  have "(case group_fields (sort_key md_id (metadata_find_by_account_id (acc_id a) d)) (acc_id a) of
      None \<Rightarrow> [] | Some fs \<Rightarrow> fs) = map field_of_metadata (sort_key md_id (metadata_find_by_account_id (acc_id a) d))"
    using same group_fields_same [of _ "acc_id a" Map.empty] by (simp add: group_fields_def)
  with one p show ?thesis by (simp add: compose_account_details_def Let_def meta)
qed

subsection \<open>The parts of an update\<close>

text \<open>Tables that the three parts leave alone.\<close>

definition keys_of_accounts :: "db \<Rightarrow> (int \<times> nanoid) list" where
  "keys_of_accounts d = map (\<lambda>r. (ar_id r, ar_nanoid r)) (t_accounts d)"

definition profile_side :: "db \<Rightarrow> (int \<times> nanoid) list \<times> profile_row list \<times> profile_event event_table \<times> image_row list" where
  "profile_side d = (keys_of_accounts d, t_profiles d, t_profile_events d, t_images d)"

lemma keys_after_account_update:
  assumes "account_read_model_update a d = Inr ((), d')"
  shows "profile_side d' = profile_side d" and "t_metadatas d' = t_metadatas d"
    and "t_metadata_events d' = t_metadata_events d" and "t_account_events d' = t_account_events d"
proof -
  from assms obtain f where "d' = d \<lparr> t_accounts := map (\<lambda>r. if ar_id r = acc_id a then f r else r) (t_accounts d) \<rparr>"
    and "\<And>r. ar_id (f r) = ar_id r \<and> ar_nanoid (f r) = ar_nanoid r"
    by (auto simp: account_read_model_update_def update_account_rows_def update_rows_def Let_def result_iffs
        split: prod.splits if_splits)
  then show "profile_side d' = profile_side d" and "t_metadatas d' = t_metadatas d"
    and "t_metadata_events d' = t_metadata_events d" and "t_account_events d' = t_account_events d"
    by (simp_all add: profile_side_def keys_of_accounts_def)
qed

lemma fields_ok_accounts:
  assumes "fields_ok w" and "t_metadatas d' = t_metadatas (w_db w)" and "t_metadata_events d' = t_metadata_events (w_db w)"
    and "t_account_events d' = t_account_events (w_db w)" and "t_profile_events d' = t_profile_events (w_db w)"
  shows "fields_ok (w \<lparr> w_db := d' \<rparr>)"
  using assms by (simp add: fields_ok_def ids_ahead_def)

lemma update_is_bot_run:
  assumes run: "update_is_bot e i action w = (Inr (), w')" and ok: "fields_ok w" and e: "snowflake_crate e"
  shows "fields_ok w' \<and> profile_side (w_db w') = profile_side (w_db w) \<and> w_keto w' = w_keto w"
proof (cases "w' = w")
  case False
  with run obtain c :: account_command and ev and w1 :: world and a :: account and d where save: "account_repository_save e c w = (Inr ev, w1)"
    and upd: "account_read_model_update a (w_db w1) = Inr ((), d)" and w': "w' = w1 \<lparr> w_db := d \<rparr>"
    by (fastforce simp: update_is_bot_def op_iffs Let_def split: if_splits)
  note keys = keys_after_account_update [OF upd]
  have w1: "profile_side (w_db w1) = profile_side (w_db w)" "t_metadatas (w_db w1) = t_metadatas (w_db w)"
    "w_keto w1 = w_keto w" "w_last_id w \<le> w_last_id w1"
    using save e by (auto simp: acc_port.save_eq Let_def profile_side_def keys_of_accounts_def snowflake_crate_def
        less_imp_le split: sum.splits)
  have "ids_ahead w1"
    by (rule keepsD [OF acc_port.save_keeps_ahead [OF e] _ save]) (use ok in \<open>simp add: fields_ok_def\<close>)
  then have "fields_ok w1" by (rule fields_ok_later [OF ok _ w1(2,4)])
  moreover have "t_profile_events d = t_profile_events (w_db w1)" using keys(1) by (simp add: profile_side_def)
  ultimately have "fields_ok w'" unfolding w' using keys by (intro fields_ok_accounts) simp_all
  with keys(1) w1 show ?thesis by (simp add: w')
qed (use ok in simp)

lemma profile_load_after_update:
  assumes "ids_ahead w" and "snowflake_crate e"
    and load: "profile_repository_load (pr_id p) (w_db w) = Inr \<lparr> rh_aggregate = p, rh_version = v \<rparr>"
    and save: "profile_repository_save e (profile_update (pr_id p) display_name summary icon banner) w = (Inr ev, w1)"
    and "profile_repository_load (pr_id p) (w_db w1) = Inr r"
  shows "rh_aggregate r = p \<lparr> pr_display_name := field_update display_name (pr_display_name p),
     pr_summary := field_update summary (pr_summary p), pr_icon := field_update icon (pr_icon p),
     pr_banner := field_update banner (pr_banner p), pr_version := ee_version ev \<rparr>"
proof -
  have "ee_event ev = ProfileUpdated display_name summary icon banner"
    using prof_port.save_Inr(1) [OF save] by (simp add: envelope_of_def profile_update_def)
  with prof_repo.load_after_save [OF assms(1,2) load save] assms(5) show ?thesis
    by (auto simp: profile_update_def profile_apply_def)
qed

lemma update_profile_run:
  assumes run: "update_profile e p dto icon banner w = (Inr (), w')" and ok: "fields_ok w" and e: "snowflake_crate e"
    and found: "profile_find_by_account_id i (w_db w) = Some p"
    and current: "profile_repository_load (pr_id p) (w_db w) = Inr \<lparr> rh_aggregate = p, rh_version = v \<rparr>"
  shows "fields_ok w' \<and> keys_of_accounts (w_db w') = keys_of_accounts (w_db w) \<and>
    t_images (w_db w') = t_images (w_db w) \<and> w_keto w' = w_keto w \<and>
    map pw_account_id (t_profiles (w_db w')) = map pw_account_id (t_profiles (w_db w)) \<and>
    (\<exists>q. profile_find_by_account_id i (w_db w') = Some q \<and>
       pr_display_name q = field_update (up_display_name dto) (pr_display_name p) \<and>
       pr_summary q = field_update (up_summary dto) (pr_summary p) \<and>
       pr_icon q = field_update icon (pr_icon p) \<and> pr_banner q = field_update banner (pr_banner p))"
proof (cases "is_unchanged (up_display_name dto) \<and> is_unchanged (up_summary dto) \<and> is_unchanged icon \<and> is_unchanged banner")
  case True
  then have "up_display_name dto = Unchanged" "up_summary dto = Unchanged" "icon = Unchanged" "banner = Unchanged"
    by (auto simp: is_unchanged_def split: field_action.splits)
  moreover have "w' = w" using run True by (simp add: update_profile_def)
  ultimately show ?thesis using ok found by simp
next
  case False
  with run obtain ev and w1 :: world and r :: "profile rehydrated" and d where
    save: "profile_repository_save e (profile_update (pr_id p) (up_display_name dto) (up_summary dto) icon banner) w = (Inr ev, w1)"
    and load: "profile_repository_load (pr_id p) (w_db w1) = Inr r"
    and upd: "profile_read_model_update (rh_aggregate r) (w_db w1) = Inr ((), d)" and w': "w' = w1 \<lparr> w_db := d \<rparr>"
    by (auto simp: update_profile_def op_iffs)
  have ids: "ids_ahead w" using ok by (simp add: fields_ok_def)
  note agg = profile_load_after_update [OF ids e current save load]
  let ?f = "\<lambda>x :: profile_row. x \<lparr> pw_display := pr_display_name (rh_aggregate r), pw_summary := pr_summary (rh_aggregate r),
      pw_icon_id := pr_icon (rh_aggregate r), pw_banner_id := pr_banner (rh_aggregate r), pw_version := pr_version (rh_aggregate r) \<rparr>"
  have d: "d = (w_db w1) \<lparr> t_profiles := map (\<lambda>x. if pw_id x = pr_id p then ?f x else x) (t_profiles (w_db w1)) \<rparr>"
    using upd agg by (auto simp: profile_read_model_update_def update_rows_def Let_def split: if_splits)
  have w1: "t_profiles (w_db w1) = t_profiles (w_db w)" "t_metadatas (w_db w1) = t_metadatas (w_db w)"
    "keys_of_accounts (w_db w1) = keys_of_accounts (w_db w)" "t_images (w_db w1) = t_images (w_db w)"
    "w_keto w1 = w_keto w" "w_last_id w \<le> w_last_id w1"
    using save e by (auto simp: prof_port.save_eq Let_def keys_of_accounts_def snowflake_crate_def
        less_imp_le split: sum.splits)
  have "ids_ahead w1" by (rule keepsD [OF prof_port.save_keeps_ahead [OF e] ids save])
  then have "fields_ok w1" by (rule fields_ok_later [OF ok _ w1(2,6)])
  then have "fields_ok w'" unfolding w' d by (intro fields_ok_accounts) simp_all
  moreover have "\<exists>q. profile_find_by_account_id i (w_db w') = Some q \<and>
       pr_display_name q = field_update (up_display_name dto) (pr_display_name p) \<and>
       pr_summary q = field_update (up_summary dto) (pr_summary p) \<and>
       pr_icon q = field_update icon (pr_icon p) \<and> pr_banner q = field_update banner (pr_banner p)"
  proof -
    from found obtain x where x: "List.find (\<lambda>x. pw_account_id x = i) (t_profiles (w_db w)) = Some x"
      and p: "p = profile_projection_from x" by (auto simp: profile_find_by_account_id_def)
    let ?g = "\<lambda>x. if pw_id x = pr_id p then ?f x else x"
    have "List.find (\<lambda>x. pw_account_id x = i) (map ?g rs) = map_option ?g (List.find (\<lambda>x. pw_account_id x = i) rs)" for rs
      by (induction rs) simp_all
    with x have "profile_find_by_account_id i (w_db w') = Some (profile_projection_from (?g x))"
      by (simp add: profile_find_by_account_id_def w' d w1(1))
    moreover have "pw_id x = pr_id p" by (simp add: p profile_projection_from_def)
    ultimately show ?thesis by (simp add: agg profile_projection_from_def)
  qed
  ultimately show ?thesis using w1 by (auto simp: w' d keys_of_accounts_def)
qed

lemma keeps_side_save: "keeps (\<lambda>w. profile_side (w_db w) = R \<and> w_keto w = K) (metadata_repository_save e c)"
  by (auto simp: keeps_def meta_port.save_eq Let_def profile_side_def keys_of_accounts_def split: sum.splits)

lemma keeps_side_exec:
  assumes "\<And>d x d'. f d = Inr (x, d') \<Longrightarrow> \<exists>rows. d' = d \<lparr> t_metadatas := rows \<rparr>"
  shows "keeps (\<lambda>w. profile_side (w_db w) = R \<and> w_keto w = K) (exec f)"
  by (rule keeps_exec) (use assms in \<open>fastforce simp: profile_side_def keys_of_accounts_def\<close>)

lemma field_updates_side:
  assumes "apply_field_updates e i existing submitted w = (Inr (), w')"
  shows "profile_side (w_db w') = profile_side (w_db w) \<and> w_keto w' = w_keto w"
proof -
  let ?P = "\<lambda>v. profile_side (w_db v) = profile_side (w_db w) \<and> w_keto v = w_keto w"
  have "keeps ?P (generate_id e)" "keeps ?P (nanoid_default e)"
    by (auto simp: keeps_def generate_id_def nanoid_default_def Let_def)
  moreover have "keeps ?P (exec (metadata_read_model_update m))" "keeps ?P (exec (metadata_read_model_delete k))"
    "keeps ?P (exec (metadata_read_model_create m))" for m k
    by (rule keeps_side_exec, auto simp: metadata_read_model_update_def metadata_read_model_delete_def
        metadata_read_model_create_def Let_def result_iffs split: prod.splits if_splits)+
  ultimately have "keeps ?P (apply_field_change e i c)" for c
    by (cases c) (simp_all add: keeps_side_save keeps_intros)
  then have "keeps ?P (apply_field_updates e i existing submitted)"
    unfolding apply_field_updates_def by (intro keeps_intros)
  from keepsD [OF this _ assms] show ?thesis by simp
qed

subsection \<open>Reading after an update\<close>

text \<open>
  What the read side relies on: accounts and profiles are found by unique keys, and the profile
  row of the account has caught up with the events of the profile.
\<close>

definition read_side_ok :: "account_id \<Rightarrow> world \<Rightarrow> bool" where
  "read_side_ok i w \<longleftrightarrow> fields_ok w \<and> distinct (map ar_id (t_accounts (w_db w))) \<and>
     distinct (map ar_nanoid (t_accounts (w_db w))) \<and> distinct (map pw_account_id (t_profiles (w_db w))) \<and>
     (\<forall>p. profile_find_by_account_id i (w_db w) = Some p \<longrightarrow>
       (\<exists>v. profile_repository_load (pr_id p) (w_db w) = Inr \<lparr> rh_aggregate = p, rh_version = v \<rparr>))"

lemma field_update_shown: "shown_text a x = field_update a x"
  by (cases a) (simp_all add: shown_text_def)

lemma shown_image_resolved:
  assumes "resolve_field_action_image_id action d = Inr resolved" and "t_images d' = t_images d"
    and "shown_image action old d' = Inr x"
  shows "x = field_update resolved old"
  using assms by (cases action)
    (auto simp: resolve_field_action_image_id_def shown_image_def resolve_image_id_def image_find_by_url_def result_iffs)

lemma image_lookup: "(if ids = [] then op_return [] else query (image_find_by_ids ids)) = query (image_find_by_ids ids)"
  by (auto simp: fun_eq_iff image_find_by_ids_def)

lemma updated_detail_Inr:
  assumes run: "updated_detail e i dto p existing w = (Inr detail, w')"
  obtains a icon_id banner_id where "w' = w" "account_find_by_id e i (w_db w) = Some a"
    "shown_image (up_icon_url dto) (pr_icon p) (w_db w) = Inr icon_id"
    "shown_image (up_banner_url dto) (pr_banner p) (w_db w) = Inr banner_id"
    "detail = into_detail (account_dto_from a) (field_update (up_display_name dto) (pr_display_name p))
       (field_update (up_summary dto) (pr_summary p))
       (Option.bind icon_id (image_urls (image_find_by_ids (image_ids icon_id banner_id) (w_db w))))
       (Option.bind banner_id (image_urls (image_find_by_ids (image_ids icon_id banner_id) (w_db w))))
       (case up_fields dto of Some fs \<Rightarrow> fs | None \<Rightarrow> map field_of_metadata existing)"
proof -
  from run obtain a and icon_id and banner_id where *: "account_find_by_id e i (w_db w) = Some a"
    "shown_image (up_icon_url dto) (pr_icon p) (w_db w) = Inr icon_id"
    "shown_image (up_banner_url dto) (pr_banner p) (w_db w) = Inr banner_id"
    by (auto simp: updated_detail_def op_iffs result_iffs)
  from run show ?thesis unfolding updated_detail_def image_lookup Let_def
    by (intro that [OF _ *]) (auto simp: op_bind_def * field_update_shown)
qed

lemma rows_read_back:
  assumes run: "update_detail_rows e i dto w = (Inr (detail, media_changed), w')"
    and ok: "read_side_ok i w" and e: "snowflake_crate e"
  obtains a where "account_find_by_id e i (w_db w') = Some a" "acc_id a = i"
    "compose_account_details [a] (w_db w') = Inr [detail]"
    "keys_of_accounts (w_db w') = keys_of_accounts (w_db w)" "w_keto w' = w_keto w"
proof -
  from run obtain w1 w2 w3 :: world and p :: profile and icon banner where
    bot: "update_is_bot e i (up_is_bot dto) w = (Inr (), w1)"
    and p: "profile_find_by_account_id i (w_db w1) = Some p"
    and icon: "resolve_field_action_image_id (up_icon_url dto) (w_db w1) = Inr icon"
    and banner: "resolve_field_action_image_id (up_banner_url dto) (w_db w1) = Inr banner"
    and prof: "update_profile e p dto icon banner w1 = (Inr (), w2)"
    and fields: "(case up_fields dto of None \<Rightarrow> op_return ()
       | Some submitted \<Rightarrow> apply_field_updates e i (sort_key md_id (metadata_find_by_account_id i (w_db w2))) submitted) w2 = (Inr (), w3)"
    and detail: "updated_detail e i dto p (sort_key md_id (metadata_find_by_account_id i (w_db w2))) w3 = (Inr detail, w')"
    by (simp add: update_detail_rows_def op_iffs result_iffs Let_def) blast
  from ok have ok0: "fields_ok w" by (simp add: read_side_ok_def)
  note b = update_is_bot_run [OF bot ok0 e]
  have side: "t_profiles (w_db w1) = t_profiles (w_db w)" "t_profile_events (w_db w1) = t_profile_events (w_db w)"
    "keys_of_accounts (w_db w1) = keys_of_accounts (w_db w)"
    using b by (simp_all add: profile_side_def)
  obtain v where current: "profile_repository_load (pr_id p) (w_db w1) = Inr \<lparr> rh_aggregate = p, rh_version = v \<rparr>"
    using ok p side by (auto simp: read_side_ok_def profile_find_by_account_id_def prof_repo.load_eq)
  note u = update_profile_run [OF prof _ e p current]
  have f: "fields_ok w2" "profile_side (w_db w3) = profile_side (w_db w2)" "w_keto w3 = w_keto w2"
    "map field_of_metadata (sort_key md_id (metadata_find_by_account_id i (w_db w3))) =
      (case up_fields dto of Some fs \<Rightarrow> fs | None \<Rightarrow> map field_of_metadata (sort_key md_id (metadata_find_by_account_id i (w_db w2))))"
    using u b fields field_updates_side fields_replaced [OF _ _ e] by (auto split: option.splits)
  from detail obtain a icon_id banner_id where w': "w' = w3" and a: "account_find_by_id e i (w_db w3) = Some a"
    and shown: "shown_image (up_icon_url dto) (pr_icon p) (w_db w3) = Inr icon_id"
      "shown_image (up_banner_url dto) (pr_banner p) (w_db w3) = Inr banner_id"
    and d: "detail = into_detail (account_dto_from a) (field_update (up_display_name dto) (pr_display_name p))
       (field_update (up_summary dto) (pr_summary p))
       (Option.bind icon_id (image_urls (image_find_by_ids (image_ids icon_id banner_id) (w_db w3))))
       (Option.bind banner_id (image_urls (image_find_by_ids (image_ids icon_id banner_id) (w_db w3))))
       (case up_fields dto of Some fs \<Rightarrow> fs
        | None \<Rightarrow> map field_of_metadata (sort_key md_id (metadata_find_by_account_id i (w_db w2))))"
    by (rule updated_detail_Inr)
  have images: "t_images (w_db w3) = t_images (w_db w1)" using f(2) u b by (simp add: profile_side_def)
  have ids: "icon_id = field_update icon (pr_icon p)" "banner_id = field_update banner (pr_banner p)"
    using shown_image_resolved [OF icon images shown(1)] shown_image_resolved [OF banner images shown(2)] by simp_all
  have id: "acc_id a = i" using a by (auto simp: account_find_by_id_def account_from_def account_from_row_def dest!: find_SomeD)
  obtain q where q: "profile_find_by_account_id i (w_db w3) = Some q"
      "pr_display_name q = field_update (up_display_name dto) (pr_display_name p)"
      "pr_summary q = field_update (up_summary dto) (pr_summary p)"
      "pr_icon q = icon_id" "pr_banner q = banner_id"
    using u b f(2) ids by (auto simp: profile_side_def profile_find_by_account_id_def)
  have "distinct (map pw_account_id (t_profiles (w_db w3)))"
    using ok u b f(2) side by (simp add: profile_side_def read_side_ok_def)
  from compose_single [OF this] q id f(4) have "compose_account_details [a] (w_db w3) = Inr [detail]"
    by (simp add: d)
  then show ?thesis using that a id u b f side by (simp add: w' profile_side_def)
qed

lemma account_of_key:
  assumes "account_find_by_id e i d = Some a" and key: "(i, nano) \<in> set (keys_of_accounts d)"
    and "distinct (map ar_id (t_accounts d))" and "distinct (map ar_nanoid (t_accounts d))"
  shows "account_find_by_nanoids e [nano] d = [a]"
proof -
  from assms(1) obtain r where r: "List.find (\<lambda>r. ar_id r = i \<and> visible e r) (t_accounts d) = Some r"
    and a: "a = account_from e r" by (auto simp: account_find_by_id_def)
  then have in_r: "r \<in> set (t_accounts d)" "ar_id r = i" "visible e r" by (auto dest!: find_SomeD)
  from key obtain x where "x \<in> set (t_accounts d)" "ar_id x = i" "ar_nanoid x = nano"
    by (auto simp: keys_of_accounts_def)
  with in_r assms(3) have nano: "ar_nanoid r = nano" by (auto simp: distinct_map inj_on_def)
  have "filter (\<lambda>r. ar_nanoid r = nano) (t_accounts d) = [r]"
    by (rule filter_unique_row [OF assms(4)], rule find_unique_row [OF assms(4) in_r(1) nano])
  then have "filter (visible e) (filter (\<lambda>r. ar_nanoid r = nano) (t_accounts d)) = [r]"
    using in_r(3) by simp
  then show ?thesis by (simp add: account_find_by_nanoids_def a conj_commute)
qed

lemma keys_distinct:
  assumes "keys_of_accounts d' = keys_of_accounts d"
  shows "map ar_id (t_accounts d') = map ar_id (t_accounts d)"
    and "map ar_nanoid (t_accounts d') = map ar_nanoid (t_accounts d)"
  using arg_cong [OF assms, of "map fst"] arg_cong [OF assms, of "map snd"]
  by (simp_all add: keys_of_accounts_def o_def)

lemma keeps_deliver_update_person:
  "keeps (\<lambda>w. w_db w = D \<and> w_keto w = K) (deliver_update_person nd account_id nano)"
proof -
  have send: "keeps (\<lambda>w. w_db w = D \<and> w_keto w = K) (op_try (deliver_activity_to_inbox nd account_id inbox a))" for inbox a
  proof (rule keeps_op_try, unfold keeps_def, intro allI impI)
    fix w :: world assume w: "w_db w = D \<and> w_keto w = K"
    from sends_deliver obtain rqs where
      "snd (deliver_activity_to_inbox nd account_id inbox a w) = w \<lparr> w_requests := w_requests w @ rqs \<rparr>"
      unfolding sends_def by blast
    with w show "w_db (snd (deliver_activity_to_inbox nd account_id inbox a w)) = D \<and>
        w_keto (snd (deliver_activity_to_inbox nd account_id inbox a w)) = K" by simp
  qed
  have gen: "keeps (\<lambda>w. w_db w = D \<and> w_keto w = K) (generate_id e)" for e
    by (simp add: keeps_def generate_id_def Let_def)
  have "keeps (\<lambda>w. w_db w = D \<and> w_keto w = K) (deliver_to_follower nd account_id a f)" for a f
    unfolding deliver_to_follower_def by (auto split: option.splits target_id.splits intro!: keeps_intros send)
  then show ?thesis
    unfolding deliver_update_person_def get_actor_def found_visible_def update_person_activity_def Let_def
    by (intro keeps_intros gen)
qed

lemma permitted_single:
  "check_permission e auth (account_view (acc_id a)) w = (Inr (), w) \<Longrightarrow>
     permitted_accounts e auth [a] w = (Inr [a], w)"
  by simp

text \<open>C9. 
  What an update answers is what the caller reads next: the answer, put together from the
  request and the profile before the update, equals the account as a later read composes it from
  the tables, the submitted fields in their order included.
\<close>

theorem update_then_read:
  assumes run: "update_account_detail nd auth dto w = (Inr detail, w')"
    and crates: "keto_service (nd_env nd)" "snowflake_crate (nd_env nd)"
    and found: "account_find_by_nanoid_unfiltered (nd_env nd) (up_account_nanoid dto) (w_db w) = Some projection"
    and ok: "read_side_ok (acc_id projection) w"
  shows "get_account_detail (nd_env nd) auth (up_account_nanoid dto) w' = (Inr detail, w')"
proof -
  let ?e = "nd_env nd" and ?i = "acc_id projection" and ?nano = "up_account_nanoid dto"
  from run found have edit: "check_permission ?e auth (account_edit ?i) w = (Inr (), w)"
    using check_permission_Inr_world by (fastforce simp: update_account_detail_def found_unfiltered_def op_iffs)
  with run found obtain media_changed w1 where
    rows: "update_detail_rows ?e ?i dto w = (Inr (detail, media_changed), w1)"
    and w': "w' = w1 \<or> snd (deliver_update_person nd ?i ?nano w1) = w'"
    by (auto simp: update_account_detail_def found_unfiltered_def op_iffs split: if_splits)
  have db: "w_db w' = w_db w1 \<and> w_keto w' = w_keto w1"
    using w' keeps_deliver_update_person [of "w_db w1" "w_keto w1" nd ?i ?nano] by (auto simp: keeps_def)
  from rows_read_back [OF rows ok crates(2)] obtain a where a: "account_find_by_id ?e ?i (w_db w1) = Some a" "acc_id a = ?i"
    "compose_account_details [a] (w_db w1) = Inr [detail]"
    and keys: "keys_of_accounts (w_db w1) = keys_of_accounts (w_db w)" and keto: "w_keto w1 = w_keto w" .
  from found have "(?i, ?nano) \<in> set (keys_of_accounts (w_db w))"
    by (auto simp: account_find_by_nanoid_unfiltered_def keys_of_accounts_def account_from_row_def dest!: find_SomeD)
  then have "account_find_by_nanoids ?e [?nano] (w_db w1) = [a]"
    using ok keys_distinct [OF keys] keys by (intro account_of_key [OF a(1)]) (simp_all add: read_side_ok_def)
  moreover have "check_permission ?e auth (account_view (acc_id a)) w' = (Inr (), w')"
    using edit crates(1) keto db a(2) by (auto simp: check_permissions has_relation_def split: if_splits)
  ultimately show ?thesis using a(3) db
    by (simp add: get_account_detail_def get_account_details_by_ids_def op_bind_def list_next_def)
qed

subsection \<open>Limits on texts\<close>

fun metadata_event_ok :: "metadata_event \<Rightarrow> bool" where
  "metadata_event_ok (MetadataCreated _ l c _) \<longleftrightarrow> is_ok (label_validate l) \<and> is_ok (content_validate c)"
| "metadata_event_ok (MetadataUpdated l c) \<longleftrightarrow> is_ok (label_validate l) \<and> is_ok (content_validate c)"
| "metadata_event_ok MetadataDeleted \<longleftrightarrow> True"

definition optional_ok :: "('a \<Rightarrow> unit kresult) \<Rightarrow> 'a option \<Rightarrow> bool" where
  "optional_ok check x = (case x of None \<Rightarrow> True | Some v \<Rightarrow> is_ok (check v))"

fun profile_event_ok :: "profile_event \<Rightarrow> bool" where
  "profile_event_ok (ProfileCreated _ dn sm _ _ _) \<longleftrightarrow> optional_ok display_name_validate dn \<and> optional_ok summary_validate sm"
| "profile_event_ok (ProfileUpdated dn sm _ _) \<longleftrightarrow>
     is_ok (when_set display_name_validate dn) \<and> is_ok (when_set summary_validate sm)"

text \<open>Every stored text, in events and in rows, is within the limit of its kind.\<close>

definition limits_ok :: "db \<Rightarrow> bool" where
  "limits_ok d \<longleftrightarrow>
     list_all (\<lambda>r. metadata_event_ok (er_data r)) (et_rows (t_metadata_events d)) \<and>
     list_all (\<lambda>r. profile_event_ok (er_data r)) (et_rows (t_profile_events d)) \<and>
     list_all (\<lambda>r. is_ok (label_validate (mw_label r)) \<and> is_ok (content_validate (mw_content r))) (t_metadatas d) \<and>
     list_all (\<lambda>r. optional_ok display_name_validate (pw_display r) \<and> optional_ok summary_validate (pw_summary r)) (t_profiles d)"

abbreviation keeps_limits :: "'a op \<Rightarrow> bool" where
  "keeps_limits \<equiv> keeps (\<lambda>w. limits_ok (w_db w))"

lemma keeps_limits_frame: "keeps (shows_same limits_ok True) m \<Longrightarrow> keeps_limits m"
  by simp

lemma keeps_bind_result:
  "keeps P m \<Longrightarrow> (\<And>w x w'. P w \<Longrightarrow> m w = (Inr x, w') \<Longrightarrow> keeps P (f x)) \<Longrightarrow> keeps P (op_bind m f)"
  by (fastforce simp: keeps_def op_bind_def split: sum.splits prod.splits)

lemma keeps_try_query:
  "(\<And>w x. P w \<Longrightarrow> q (w_db w) = Inr x \<Longrightarrow> keeps P (f x)) \<Longrightarrow> keeps P (op_bind (try_query q) f)"
  by (auto simp: keeps_def op_bind_def split: sum.splits)

lemma find_by_id_events:
  "list_all (\<lambda>r. Q (er_data r)) (et_rows t) \<Longrightarrow> ev \<in> set (find_by_id t i s) \<Longrightarrow> Q (ee_event ev)"
  by (cases s) (auto simp: find_by_id_def event_row_try_from_def list_all_iff)

lemma metadata_load_limits:
  assumes "limits_ok d" and "metadata_repository_load i d = Inr r"
  shows "is_ok (label_validate (md_label (rh_aggregate r)))" "is_ok (content_validate (md_content (rh_aggregate r)))"
proof -
  let ?evs = "find_by_id (t_metadata_events d) i None"
  let ?P = "\<lambda>m. \<forall>x. m = Some x \<longrightarrow> is_ok (label_validate (md_label x)) \<and> is_ok (content_validate (md_content x))"
  from assms(2) have fold: "res_fold metadata_apply ?evs None = Inr (Some (rh_aggregate r))"
    unfolding metadata_load_events by (auto simp: from_events_allow_deletion_def Let_def result_iffs split: if_splits)
  have "?P (Some (rh_aggregate r))"
  proof (rule res_fold_invariant [OF fold])
    fix ev s t assume ev: "ev \<in> set ?evs" and s: "?P s" and ap: "metadata_apply ev s = Inr t"
    have "metadata_event_ok (ee_event ev)"
      using find_by_id_events [where Q = metadata_event_ok, OF _ ev] assms(1) by (simp add: limits_ok_def)
    with s ap show "?P t"
      by (auto simp: metadata_apply_def split: metadata_event.splits option.splits if_splits)
  qed simp
  then show "is_ok (label_validate (md_label (rh_aggregate r)))" "is_ok (content_validate (md_content (rh_aggregate r)))"
    by simp_all
qed

lemma field_update_ok:
  "is_ok (when_set check a) \<Longrightarrow> optional_ok check x \<Longrightarrow> optional_ok check (field_update a x)"
  by (cases a) (simp_all add: when_set_def optional_ok_def)

lemma profile_load_limits:
  assumes "limits_ok d" and "profile_repository_load i d = Inr r"
  shows "optional_ok display_name_validate (pr_display_name (rh_aggregate r))"
    "optional_ok summary_validate (pr_summary (rh_aggregate r))"
proof -
  let ?evs = "find_by_id (t_profile_events d) i None"
  let ?P = "\<lambda>m. \<forall>x. m = Some x \<longrightarrow> optional_ok display_name_validate (pr_display_name x) \<and>
      optional_ok summary_validate (pr_summary x)"
  from assms(2) have fold: "res_fold profile_apply ?evs None = Inr (Some (rh_aggregate r))"
    unfolding prof_repo.load_Inr_iff by (auto simp: from_events_def Let_def result_iffs split: if_splits)
  have "?P (Some (rh_aggregate r))"
  proof (rule res_fold_invariant [OF fold])
    fix ev s t assume ev: "ev \<in> set ?evs" and s: "?P s" and ap: "profile_apply ev s = Inr t"
    have "profile_event_ok (ee_event ev)"
      using find_by_id_events [where Q = profile_event_ok, OF _ ev] assms(1) by (simp add: limits_ok_def)
    with s ap show "?P t"
      by (auto simp: profile_apply_def field_update_ok split: profile_event.splits option.splits)
  qed simp
  then show "optional_ok display_name_validate (pr_display_name (rh_aggregate r))"
    "optional_ok summary_validate (pr_summary (rh_aggregate r))" by simp_all
qed

lemma persist_events:
  "persist_internal t c v = Inr t' \<Longrightarrow> list_all (\<lambda>r. Q (er_data r)) (et_rows t) \<Longrightarrow> Q (ce_event c) \<Longrightarrow>
     list_all (\<lambda>r. Q (er_data r)) (et_rows t')"
  by (auto simp: persist_internal_Inr_iff insert_event_Inr_iff list_all_iff)

lemma limits_metadata_save: "metadata_event_ok (ce_event c) \<Longrightarrow> keeps_limits (metadata_repository_save e c)"
  by (auto simp: keeps_def meta_port.save_eq Let_def limits_ok_def persist_events split: sum.splits)

lemma limits_profile_save: "profile_event_ok (ce_event c) \<Longrightarrow> keeps_limits (profile_repository_save e c)"
  by (auto simp: keeps_def prof_port.save_eq Let_def limits_ok_def persist_events split: sum.splits)

lemma limits_account_save: "keeps_limits (account_repository_save e c)"
  by (auto simp: keeps_def acc_port.save_eq Let_def limits_ok_def split: sum.splits)

lemma limits_read_models:
  "is_ok (label_validate (md_label m)) \<Longrightarrow> is_ok (content_validate (md_content m)) \<Longrightarrow>
     keeps_limits (exec (metadata_read_model_update m)) \<and> keeps_limits (exec (metadata_read_model_create m))"
  "optional_ok display_name_validate (pr_display_name p) \<Longrightarrow> optional_ok summary_validate (pr_summary p) \<Longrightarrow>
     keeps_limits (exec (profile_read_model_update p))"
  "keeps_limits (exec (metadata_read_model_delete k))"
  "keeps_limits (exec (account_read_model_update a))"
  by ((intro conjI keeps_exec; auto simp: limits_ok_def metadata_read_model_update_def metadata_read_model_create_def
      metadata_read_model_delete_def profile_read_model_update_def account_read_model_update_def insert_row_Inr_iff
      row_of_metadata_def update_account_rows_def update_rows_def delete_rows_def Let_def result_iffs list_all_iff
      split: prod.splits if_splits)+)

fun field_change_ok :: "field_change \<Rightarrow> bool" where
  "field_change_ok (FieldUpdate _ l c) \<longleftrightarrow> is_ok (label_validate l) \<and> is_ok (content_validate c)"
| "field_change_ok (FieldDelete _) \<longleftrightarrow> True"
| "field_change_ok (FieldCreate l c) \<longleftrightarrow> is_ok (label_validate l) \<and> is_ok (content_validate c)"

lemma limits_generate: "keeps_limits (generate_id e)" "keeps_limits (nanoid_default e)"
  by (auto simp: keeps_def generate_id_def nanoid_default_def Let_def)

lemma limits_field_create:
  assumes "is_ok (label_validate l)" and "is_ok (content_validate c)"
  shows "keeps_limits (op_bind (metadata_repository_save e (metadata_create k i l c nano)) (\<lambda>event.
     op_bind (op_lift (metadata_apply event None)) (\<lambda>entity.
     op_bind (op_lift (ok_or Internal entity)) (\<lambda>metadata.
     exec (metadata_read_model_create metadata)))))"
proof (rule keeps_bind_result)
  show "keeps_limits (metadata_repository_save e (metadata_create k i l c nano))"
    using assms by (intro limits_metadata_save) (simp add: metadata_create_def)
next
  fix w ev w' assume "metadata_repository_save e (metadata_create k i l c nano) w = (Inr ev, w')"
  then have "ee_event ev = MetadataCreated i l c nano"
    using meta_port.save_Inr(1) by (fastforce simp: envelope_of_def metadata_create_def)
  with assms show "keeps_limits (op_bind (op_lift (metadata_apply ev None)) (\<lambda>entity.
     op_bind (op_lift (ok_or Internal entity)) (\<lambda>metadata. exec (metadata_read_model_create metadata))))"
    using limits_read_models(1) by (auto simp: metadata_apply_def keeps_def op_bind_def)
qed

lemma limits_reloaded:
  "metadata_repository_load k d = Inr r \<Longrightarrow> limits_ok d \<Longrightarrow>
     keeps_limits (exec (metadata_read_model_update (rh_aggregate r)))"
  using limits_read_models(1) metadata_load_limits by blast

lemma limits_field_change:
  "field_change_ok c \<Longrightarrow> keeps_limits (apply_field_change e i c)"
  by (cases c) (auto intro!: keeps_try_query keeps_bind limits_metadata_save limits_read_models(3)
      limits_generate limits_field_create intro: limits_reloaded simp: metadata_update_def metadata_delete_def)

lemma validate_fields_iff:
  "validate_fields fs = Inr () \<longleftrightarrow>
     list_all (\<lambda>f. is_ok (label_validate (af_label f)) \<and> is_ok (content_validate (af_content f))) fs"
  by (induction fs) (auto simp: result_iffs is_ok_def split: sum.splits)

lemma plan_changes_ok:
  "validate_fields fs = Inr () \<Longrightarrow> list_all field_change_ok (plan_field_updates existing fs)"
  by (auto simp: validate_fields_iff plan_field_updates_def list_all_iff Let_def dest: in_set_dropD split: if_splits)

lemma limits_field_updates:
  assumes "validate_fields fs = Inr ()"
  shows "keeps_limits (apply_field_updates e i existing fs)"
proof -
  have "keeps_limits (op_iter (apply_field_change e i) cs)" if "list_all field_change_ok cs" for cs
    using that by (induction cs) (auto intro: keeps_intros limits_field_change)
  from this [OF plan_changes_ok [OF assms]] show ?thesis unfolding apply_field_updates_def .
qed

lemma limits_update_rows:
  assumes "validate_update_account_dto dto = Inr ()"
  shows "keeps_limits (update_detail_rows e i dto)"
proof -
  have ok: "is_ok (when_set display_name_validate (up_display_name dto))" "is_ok (when_set summary_validate (up_summary dto))"
    "\<And>fs. up_fields dto = Some fs \<Longrightarrow> validate_fields fs = Inr ()"
    using assms by (auto simp: validate_update_account_dto_def result_iffs is_ok_def split: sum.splits)
  have bot: "keeps_limits (update_is_bot e i action)" for action
    unfolding update_is_bot_def Let_def by (intro keeps_intros limits_account_save limits_read_models(4))
  have prof: "keeps_limits (update_profile e p dto icon banner)" for p icon banner
    unfolding update_profile_def
    by (intro keeps_if keeps_bind limits_profile_save keeps_try_query limits_read_models(2) profile_load_limits keeps_pure)
      (use ok in \<open>simp_all add: profile_update_def\<close>)
  have detail: "keeps_limits (updated_detail e i dto p existing)" for p existing
    unfolding updated_detail_def Let_def by (intro keeps_intros)
  have "keeps_limits (case up_fields dto of None \<Rightarrow> op_return () | Some fs \<Rightarrow> apply_field_updates e i existing fs)" for existing
    using ok(3) by (auto intro: keeps_intros limits_field_updates split: option.splits)
  then show ?thesis unfolding update_detail_rows_def Let_def
    by (intro keeps_bind bot prof detail) (auto intro: keeps_intros)
qed

definition field_ok :: "account_field_dto \<Rightarrow> bool" where
  "field_ok f \<longleftrightarrow> is_ok (label_validate (af_label f)) \<and> is_ok (content_validate (af_content f))"

definition detail_ok :: "account_detail_dto \<Rightarrow> bool" where
  "detail_ok d \<longleftrightarrow> optional_ok display_name_validate (de_display_name d) \<and>
     optional_ok summary_validate (de_summary d) \<and> list_all field_ok (de_fields d)"

lemma group_fields_snoc:
  "group_fields (entries @ [f]) = (group_fields entries)(md_account_id f \<mapsto>
     (case group_fields entries (md_account_id f) of None \<Rightarrow> [] | Some fs \<Rightarrow> fs) @ [field_of_metadata f])"
  by (simp add: group_fields_def)

lemma group_fields_ok:
  "list_all field_ok (map field_of_metadata entries) \<Longrightarrow> group_fields entries i = Some fs \<Longrightarrow> list_all field_ok fs"
proof (induction entries arbitrary: i fs rule: rev_induct)
  case Nil
  then show ?case by (simp add: group_fields_def)
next
  case (snoc f entries)
  then show ?case by (auto simp: group_fields_snoc split: if_splits option.splits)
qed

lemma detail_rows_ok:
  assumes "\<And>i p. profile_map i = Some p \<Longrightarrow>
      optional_ok display_name_validate (pr_display_name p) \<and> optional_ok summary_validate (pr_summary p)"
  shows "(\<And>i fs. metadata_map i = Some fs \<Longrightarrow> list_all field_ok fs) \<Longrightarrow>
      detail_rows images profile_map metadata_map accounts = Inr ds \<Longrightarrow> list_all detail_ok ds"
proof (induction accounts arbitrary: metadata_map ds)
  case (Cons a as)
  from Cons.prems(2) obtain p rest where p: "profile_map (acc_id a) = Some p"
    and rest: "detail_rows images profile_map (metadata_map(acc_id a := None)) as = Inr rest"
    and ds: "ds = into_detail (account_dto_from a) (pr_display_name p) (pr_summary p)
            (Option.bind (pr_icon p) images) (Option.bind (pr_banner p) images)
            (case metadata_map (acc_id a) of None \<Rightarrow> [] | Some fs \<Rightarrow> fs) # rest"
    by (auto simp: result_iffs)
  have "list_all detail_ok rest" by (rule Cons.IH [OF _ rest]) (auto intro: Cons.prems(1) split: if_splits)
  moreover have "detail_ok (hd ds)"
    using ds assms [OF p] Cons.prems(1) by (auto simp: detail_ok_def into_detail_def split: option.splits)
  ultimately show ?case by (simp add: ds)
qed simp

lemma details_within_limits:
  assumes "limits_ok d" and "compose_account_details accounts d = Inr ds"
  shows "list_all detail_ok ds"
proof (cases "accounts = []")
  case False
  let ?ids = "map acc_id accounts"
  let ?profiles = "map_of (rev (map (\<lambda>p. (pr_account_id p, p)) (profile_find_by_account_ids ?ids d)))"
  let ?fields = "sort_key (\<lambda>f. (md_account_id f, md_id f)) (metadata_find_by_account_ids ?ids d)"
  have "optional_ok display_name_validate (pr_display_name p) \<and> optional_ok summary_validate (pr_summary p)"
    if "?profiles i = Some p" for i p
    using map_of_SomeD [OF that] assms(1)
    by (auto simp: limits_ok_def profile_find_by_account_ids_def profile_projection_from_def list_all_iff)
  moreover have "list_all field_ok (map field_of_metadata ?fields)"
    using assms(1) by (auto simp: limits_ok_def metadata_find_by_account_ids_def metadata_projection_from_def
        list_all_iff field_ok_def field_of_metadata_def)
  ultimately show ?thesis using assms(2) False
    by (intro detail_rows_ok [OF _ group_fields_ok]) (auto simp: compose_account_details_def Let_def)
qed (use assms in \<open>simp add: compose_account_details_def\<close>)

text \<open>C10. 
  The limits on profile texts and fields (a display name of at most 100 characters, a summary of at
  most 2000, labels of at most 255 and contents of at most 1000) are an invariant of what is stored:
  \<open>update_account_detail\<close> keeps it in the events and in the read models whether it succeeds or
  fails, and every detail composed from the tables afterwards is within the limits.
\<close>

theorem texts_within_limits:
  assumes "limits_ok (w_db w)" and "update_account_detail nd auth dto w = (r, w')"
  shows "limits_ok (w_db w') \<and>
    (\<forall>accounts ds. compose_account_details accounts (w_db w') = Inr ds \<longrightarrow> list_all detail_ok ds)"
proof -
  have "keeps_limits (update_account_detail nd auth dto)"
  proof (cases "validate_update_account_dto dto = Inr ()")
    case True
    have tx: "keeps_limits (transaction (update_detail_rows e i dto))" for e i
      using limits_update_rows [OF True] by (intro keeps_limits_frame keeps_transaction_view) simp
    have send: "keeps_limits (deliver_update_person nd i nano)" for i nano
      using keeps_deliver_update_person [of _ _ nd i nano] by (auto simp: keeps_def)
    show ?thesis unfolding update_account_detail_def found_unfiltered_def
      by (intro keeps_bind keeps_if keeps_pure keeps_check_permission) 
        (auto intro!: keeps_intros tx send keeps_op_try split: prod.splits)
  next
    case False
    then show ?thesis by (auto simp: update_account_detail_def keeps_def op_bind_def split: sum.splits)
  qed
  then have "limits_ok (w_db w')" using assms by (auto simp: keeps_def dest: spec [of _ w])
  then show ?thesis using details_within_limits by blast
qed

subsection \<open>An example\<close>

definition detail_profile :: profile where
  "detail_profile = \<lparr> pr_id = 2, pr_account_id = 7, pr_display_name = Some ''alice'', pr_summary = None,
     pr_icon = None, pr_banner = None, pr_version = 8, pr_nanoid = ''p'' \<rparr>"

text \<open>The account of the example service with its profile and one field.\<close>

definition detail_world :: world where
  "detail_world = service_world \<lparr> w_db := (w_db service_world)
     \<lparr> t_profiles := [row_of_profile detail_profile],
       t_profile_events := \<lparr> et_rows = [\<lparr> er_seq = 1, er_version = 8, er_id = 2,
         er_data = ProfileCreated 7 (Some ''alice'') None None None ''p'' \<rparr>], et_next_seq = 2 \<rparr>,
       t_metadatas := [\<lparr> mw_id = 4, mw_account_id = 7, mw_label = ''site'', mw_content = ''a'',
         mw_version = 6, mw_nanoid = ''m'' \<rparr>],
       t_metadata_events := \<lparr> et_rows = [\<lparr> er_seq = 1, er_version = 6, er_id = 4,
         er_data = MetadataCreated 7 ''site'' ''a'' ''m'' \<rparr>], et_next_seq = 2 \<rparr> \<rparr> \<rparr>"

definition detail_request :: update_account_dto where
  "detail_request = \<lparr> up_account_nanoid = ''n1'', up_is_bot = Unchanged, up_display_name = Set ''Alice'',
     up_summary = Unchanged, up_icon_url = Clear, up_banner_url = Unchanged,
     up_fields = Some [\<lparr> af_label = ''site'', af_content = ''b'' \<rparr>] \<rparr>"

lemma detail_rows_example:
  "\<exists>detail changed w'. update_detail_rows (keto_env 60) 7 detail_request detail_world = (Inr (detail, changed), w')"
  by (simp add: update_detail_rows_def update_is_bot_def update_profile_def apply_field_updates_def updated_detail_def
     detail_request_def Let_def op_bind_def acc_repo.load_eq prof_repo.load_eq metadata_load_events
     detail_world_def service_world_def empty_world_def empty_db_def find_by_id_def event_row_try_from_def from_events_def
     from_events_allow_deletion_def account_apply_def apply_is_bot_def profile_find_by_account_id_def
     profile_projection_from_def detail_profile_def row_of_profile_def resolve_field_action_image_id_def
     effective_image_id_def is_unchanged_def prof_port.save_eq meta_port.save_eq persist_internal_def
     insert_event_def insert_event_where_def max_version_def stream_rows_def profile_update_def metadata_update_def envelope_of_def
     profile_apply_def metadata_apply_def exec_def profile_read_model_update_def metadata_read_model_update_def
     update_rows_def metadata_find_by_account_id_def metadata_projection_from_def plan_field_updates_def
     account_find_by_id_def shown_image_def image_ids_def keto_env_generators created_at_of_id nullable_ref_def
     metadata_repository_load_def metadata_events_find_by_id_def visible_def service_account_def row_of_account_def) blast

lemma detail_world_lookup:
  "account_find_by_nanoid_unfiltered (keto_env t) ''n1'' (w_db detail_world) = Some service_account"
  using service_world_lookup(1) [of t] by (simp add: account_find_by_nanoid_unfiltered_def detail_world_def)

lemma detail_update_runs:
  "\<exists>detail w'. update_account_detail pair_node 3 detail_request detail_world = (Inr detail, w')"
proof -
  have valid: "validate_update_account_dto detail_request = Inr ()" by code_simp
  obtain detail changed w' where "update_detail_rows (keto_env 60) 7 detail_request detail_world = (Inr (detail, changed), w')"
    using detail_rows_example by blast
  moreover have "check_permission (keto_env 60) 3 (account_edit 7) detail_world = (Inr (), detail_world)"
    using service_world_relations by (simp add: check_permissions has_relation_def detail_world_def)
  moreover have "up_account_nanoid detail_request = ''n1''" by (simp add: detail_request_def)
  moreover have "acc_id service_account = 7" "is_active (acc_status service_account)"
    by (simp_all add: service_account_def)
  ultimately show ?thesis
    by (simp add: update_account_detail_def op_bind_def valid found_unfiltered_def detail_world_lookup transaction_def
        op_try_run split: prod.splits)
qed

lemma detail_world_ok: "read_side_ok 7 detail_world" "limits_ok (w_db detail_world)"
proof -
  show "limits_ok (w_db detail_world)"
    by (simp add: limits_ok_def detail_world_def row_of_profile_def detail_profile_def) code_simp
  have "ids_ahead detail_world"
    by (simp add: detail_world_def ids_ahead_def service_world_def empty_world_def empty_db_def versions_below_def
      wf_event_table_def empty_event_table_def)
  then show "read_side_ok 7 detail_world"
    by (simp add: read_side_ok_def fields_ok_def detail_world_def service_world_def profile_find_by_account_id_def
      row_of_profile_def detail_profile_def profile_projection_from_def prof_repo.load_eq find_by_id_def
      event_row_try_from_def from_events_def profile_apply_def)
qed

theorem update_then_read_witness:
  "\<exists>detail w'. update_account_detail pair_node 3 detail_request detail_world = (Inr detail, w') \<and>
     get_account_detail (keto_env 60) 3 ''n1'' w' = (Inr detail, w')"
proof -
  obtain detail w' where run: "update_account_detail pair_node 3 detail_request detail_world = (Inr detail, w')"
    using detail_update_runs by blast
  have "up_account_nanoid detail_request = ''n1''" "acc_id service_account = 7"
    by (simp_all add: detail_request_def service_account_def)
  with update_then_read [OF run, of service_account] detail_world_lookup [of 60] detail_world_ok(1) run
  show ?thesis by auto
qed

theorem texts_within_limits_witness:
  "\<exists>detail w'. update_account_detail pair_node 3 detail_request detail_world = (Inr detail, w') \<and> limits_ok (w_db w')"
proof -
  obtain detail w' where run: "update_account_detail pair_node 3 detail_request detail_world = (Inr detail, w')"
    using detail_update_runs by blast
  with texts_within_limits [OF detail_world_ok(2) run] show ?thesis by blast
qed

end
