(* ===== verification/Inbox.thy ===== *)
theory Inbox
  imports Blocking
begin

text \<open>
  The handlers of inbound activities (\<open>application/src/service/activitypub/inbox/\<close>): the
  dispatch on the activity type, and Follow, Accept, Block and Undo.
\<close>

record inbox_activity_dto =
  ib_account_id :: int
  ib_account_nanoid :: nanoid
  ib_activity :: activity

subsection \<open>Reading activities\<close>

definition activity_object_id :: "activity \<Rightarrow> string option" where
  "activity_object_id a =
     (case av_object a of
        Some (JString value) \<Rightarrow> Some value
      | Some (JObject m) \<Rightarrow> json_get_str ''id'' (JObject m)
      | _ \<Rightarrow> None)"

definition nested_activity :: "string \<Rightarrow> activity \<Rightarrow> activity option" where
  "nested_activity type_name a =
     Option.bind (av_object a) (\<lambda>obj.
     Option.bind (activity_from_value obj) (\<lambda>nested.
     if av_type nested = type_name then Some nested else None))"

definition undo_follow_object :: "activity \<Rightarrow> activity option" where
  "undo_follow_object a = nested_activity ''Follow'' a"

definition undo_object_is_follow :: "activity \<Rightarrow> bool" where
  "undo_object_is_follow a \<longleftrightarrow> undo_follow_object a \<noteq> None"

definition undo_block_object :: "activity \<Rightarrow> activity option" where
  "undo_block_object a = nested_activity ''Block'' a"

definition undo_object_is_block :: "activity \<Rightarrow> bool" where
  "undo_object_is_block a \<longleftrightarrow> undo_block_object a \<noteq> None"

definition ensure_local_actor_matches :: "string \<Rightarrow> nanoid \<Rightarrow> string \<Rightarrow> unit kresult" where
  "ensure_local_actor_matches public_base_url account_nanoid object_id =
     ensure (trim_end_matches (CHR ''/'') object_id = local_actor_url public_base_url account_nanoid) Rejected"

definition accept_activity :: "string \<Rightarrow> follow \<Rightarrow> string \<Rightarrow> activity \<Rightarrow> activity" where
  "accept_activity public_base_url f actor original_follow =
     \<lparr> av_context = Some (JString ACTIVITYSTREAMS_CONTEXT), av_id = activity_url public_base_url (fo_id f),
       av_type = ''Accept'', av_actor = actor, av_object = Some (activity_to_value original_follow),
       av_target = None, av_to = Some [av_actor original_follow], av_cc = None \<rparr>"

subsection \<open>Handlers\<close>

definition deliver_accept :: "node \<Rightarrow> int \<Rightarrow> int \<Rightarrow> string \<Rightarrow> activity \<Rightarrow> unit op" where
  "deliver_accept nd account_id outbox_id inbox_url a =
     deliver_outbox_activity nd outbox_id account_id inbox_url a"

text \<open>The object of a Follow, Block or their Undo is the local actor of the inbox.\<close>

definition addressed :: "node \<Rightarrow> nanoid \<Rightarrow> activity \<Rightarrow> unit op" where
  "addressed nd account_nanoid a =
     op_bind (op_lift (ok_or Rejected (activity_object_id a))) (\<lambda>actor_url.
     op_lift (ensure_local_actor_matches (nd_base_url nd) account_nanoid actor_url))"

definition sender_account :: "node \<Rightarrow> activity \<Rightarrow> remote_account op" where
  "sender_account nd a =
     op_bind (resolve_remote_actor (nd_fd nd) (av_actor a)) (\<lambda>remote_actor.
     upsert_remote_account (nd_fd nd) remote_actor)"

definition accept_rows :: "node \<Rightarrow> inbox_activity_dto \<Rightarrow> follow \<Rightarrow> (bool \<times> (int \<times> activity) option) op" where
  "accept_rows nd dto f =
     op_bind (exec (follow_insert_if_absent f)) (\<lambda>inserted.
     if \<not> inserted then op_return (False, None)
     else
       let accept = accept_activity (nd_base_url nd) f
             (local_actor_url (nd_base_url nd) (ib_account_nanoid dto)) (ib_activity dto)
       in
       op_bind (exec (outbox_create (outbox_entry nd (ib_account_id dto) ''Accept'' accept None))) (\<lambda>outbox_id.
       op_return (True, Some (outbox_id, accept))))"

definition handle_follow_activity :: "node \<Rightarrow> inbox_activity_dto \<Rightarrow> unit op" where
  "handle_follow_activity nd dto =
     op_bind (addressed nd (ib_account_nanoid dto) (ib_activity dto)) (\<lambda>_.
     op_bind (sender_account nd (ib_activity dto)) (\<lambda>remote_account.
     op_bind (generate_id (nd_env nd)) (\<lambda>i.
     op_bind (op_lift (follow_new i (Remote (ra_id remote_account)) (Local (ib_account_id dto))
       (Some (now_utc (nd_env nd))))) (\<lambda>f.
     op_bind (transaction (accept_rows nd dto f)) (\<lambda>accepted.
     case (accepted, ra_inbox_url remote_account) of
       ((True, Some (outbox_id, accept)), Some inbox_url) \<Rightarrow>
         op_bind (op_try (deliver_accept nd (ib_account_id dto) outbox_id inbox_url accept)) (\<lambda>_. op_return ())
     | _ \<Rightarrow> op_return ())))))"

definition handle_undo_follow :: "node \<Rightarrow> inbox_activity_dto \<Rightarrow> unit op" where
  "handle_undo_follow nd dto =
     op_bind (op_lift (ok_or Rejected (undo_follow_object (ib_activity dto)))) (\<lambda>follow_activity.
     op_bind (addressed nd (ib_account_nanoid dto) follow_activity) (\<lambda>_.
     op_bind (query (remote_account_find_by_url (av_actor (ib_activity dto)))) (\<lambda>found.
     case found of
       None \<Rightarrow> op_return ()
     | Some remote_account \<Rightarrow>
         op_bind (exec (follow_delete_if_exists (Remote (ra_id remote_account)) (Local (ib_account_id dto))))
           (\<lambda>_. op_return ()))))"

definition handle_accept_activity :: "node \<Rightarrow> inbox_activity_dto \<Rightarrow> unit op" where
  "handle_accept_activity nd dto =
     op_bind (op_lift (ok_or Rejected (nested_activity ''Follow'' (ib_activity dto)))) (\<lambda>nested_follow.
     if trim_end_matches (CHR ''/'') (av_actor nested_follow) \<noteq>
        trim_end_matches (CHR ''/'') (local_actor_url (nd_base_url nd) (ib_account_nanoid dto)) then op_return ()
     else
       op_bind (op_lift (ok_or Rejected (activity_object_id nested_follow))) (\<lambda>remote_actor_url.
       if trim_end_matches (CHR ''/'') (av_actor (ib_activity dto)) \<noteq>
          trim_end_matches (CHR ''/'') remote_actor_url then op_return ()
       else
         op_bind (query (remote_account_find_by_url remote_actor_url)) (\<lambda>found.
         op_bind (op_lift (ok_or NotFound found)) (\<lambda>remote_account.
         op_bind (exec (approve_follow_if_pending (nd_env nd) (Local (ib_account_id dto))
           (Remote (ra_id remote_account)))) (\<lambda>_. op_return ())))))"

definition inbound_block_rows :: "block \<Rightarrow> unit op" where
  "inbound_block_rows b =
     op_bind (exec (block_insert_if_absent b)) (\<lambda>inserted.
     if inserted then
       remove_follows_between (block_target_to_follow_target (bl_source b))
         (block_target_to_follow_target (bl_destination b))
     else op_return ())"

definition handle_block_activity :: "node \<Rightarrow> inbox_activity_dto \<Rightarrow> unit op" where
  "handle_block_activity nd dto =
     op_bind (addressed nd (ib_account_nanoid dto) (ib_activity dto)) (\<lambda>_.
     op_bind (sender_account nd (ib_activity dto)) (\<lambda>remote_account.
     op_bind (generate_id (nd_env nd)) (\<lambda>i.
     op_bind (op_lift (block_new i (Remote (ra_id remote_account)) (Local (ib_account_id dto)))) (\<lambda>b.
     transaction (inbound_block_rows b)))))"

definition handle_undo_block_activity :: "node \<Rightarrow> inbox_activity_dto \<Rightarrow> unit op" where
  "handle_undo_block_activity nd dto =
     op_bind (op_lift (ok_or Rejected (undo_block_object (ib_activity dto)))) (\<lambda>block_activity.
     op_bind (addressed nd (ib_account_nanoid dto) block_activity) (\<lambda>_.
     op_bind (query (remote_account_find_by_url (av_actor (ib_activity dto)))) (\<lambda>found.
     case found of
       None \<Rightarrow> op_return ()
     | Some remote_account \<Rightarrow>
         transaction (op_bind
           (exec (block_delete_if_exists (Remote (ra_id remote_account)) (Local (ib_account_id dto))))
           (\<lambda>_. op_return ())))))"

definition handle_inbox_activity :: "node \<Rightarrow> inbox_activity_dto \<Rightarrow> unit op" where
  "handle_inbox_activity nd dto =
     (let a = ib_activity dto in
      if av_type a = ''Follow'' then handle_follow_activity nd dto
      else if av_type a = ''Accept'' then handle_accept_activity nd dto
      else if av_type a = ''Block'' then handle_block_activity nd dto
      else if av_type a = ''Undo'' \<and> undo_object_is_follow a then handle_undo_follow nd dto
      else if av_type a = ''Undo'' \<and> undo_object_is_block a then handle_undo_block_activity nd dto
      else op_return ())"

end
