(* ===== verification/Inbox_Route.thy ===== *)
theory Inbox_Route
  imports Inbox
begin

text \<open>
  The HTTP side of the inbox: the statuses of errors (\<open>server/src/error.rs\<close>), the lookups of
  \<open>server/src/api/activitypub.rs\<close> and the route \<open>server/src/route/activitypub/inbox.rs\<close>,
  from the request as axum hands it over to the status of the answer. A header map is the list
  of its entries, names in lower case; the values of a name stay in their order. The build
  without \<open>test-mode\<close> is modelled; messages are kept without the error they quote.
\<close>

subsection \<open>Errors\<close>

datatype error_status =
    Report kernel_error
  | StatusCode http_status
  | StatusCodeWithMessage http_status string

text \<open>\<open>attached\<close> is the first text attached to the report, if it has one.\<close>

fun into_response :: "string option \<Rightarrow> error_status \<Rightarrow> http_status \<times> string" where
  "into_response attached (Report Concurrency) = (409, [])"
| "into_response attached (Report Timeout) = (408, [])"
| "into_response attached (Report Internal) = (500, [])"
| "into_response attached (Report PermissionDenied) = (403, [])"
| "into_response attached (Report NotFound) = (404, [])"
| "into_response attached (Report Rejected) = (422, [])"
| "into_response attached (Report Validation) =
     (400, case attached of Some message \<Rightarrow> message | None \<Rightarrow> ''Validation failed'')"
| "into_response attached (StatusCode code) = (code, [])"
| "into_response attached (StatusCodeWithMessage code message) = (code, message)"

text \<open>A handler changes the world and fails with a status.\<close>

type_synonym 'a handler = "world \<Rightarrow> (error_status + 'a) \<times> world"

definition srv_bind :: "'a handler \<Rightarrow> ('a \<Rightarrow> 'b handler) \<Rightarrow> 'b handler" where
  "srv_bind m f w = (case m w of (Inl e, w') \<Rightarrow> (Inl e, w') | (Inr x, w') \<Rightarrow> f x w')"

definition srv_lift :: "error_status + 'a \<Rightarrow> 'a handler" where
  "srv_lift r w = (r, w)"

text \<open>\<open>map_err(ErrorStatus::from)\<close>, and the variant that replaces every error.\<close>

definition srv_op :: "'a op \<Rightarrow> 'a handler" where
  "srv_op m w = (case m w of (Inl e, w') \<Rightarrow> (Inl (Report e), w') | (Inr x, w') \<Rightarrow> (Inr x, w'))"

definition srv_op_or :: "error_status \<Rightarrow> 'a op \<Rightarrow> 'a handler" where
  "srv_op_or e m w = (case m w of (Inl _, w') \<Rightarrow> (Inl e, w') | (Inr x, w') \<Rightarrow> (Inr x, w'))"

subsection \<open>Requests\<close>

record inbound_request =
  in_method :: string
  in_original_uri :: string
  in_headers :: "(string \<times> string) list"
  in_body :: string

text \<open>\<open>HeaderMap::get\<close> with \<open>to_str().ok()\<close>: the first value, if it is visible ASCII.\<close>

definition header_str :: "string \<Rightarrow> (string \<times> string) list \<Rightarrow> string option" where
  "header_str name headers =
     Option.bind (map_of headers name) (\<lambda>value. if header_visible value then Some value else None)"

subsection \<open>Lookups\<close>

definition public_base_host_header :: "node \<Rightarrow> error_status + string" where
  "public_base_host_header nd =
     res_bind (ok_or (StatusCodeWithMessage 500 ''Invalid PUBLIC_BASE_URL'')
       (url_parse (nd_net nd) (nd_base_url nd))) (\<lambda>url.
     res_bind (ok_or (StatusCodeWithMessage 500 ''PUBLIC_BASE_URL must include a host'') (u_host_str url)) (\<lambda>host.
     Inr (case u_port url of Some port \<Rightarrow> host @ '':'' @ nat_to_string port | None \<Rightarrow> host)))"

definition find_account_id_by_nanoid :: "node \<Rightarrow> string \<Rightarrow> int handler" where
  "find_account_id_by_nanoid nd i =
     (if trim_text i = [] then
        srv_lift (Inl (StatusCodeWithMessage 400 ''Account ID cannot be empty''))
      else
        srv_bind (srv_op (query (account_find_by_nanoid (nd_env nd) i))) (\<lambda>found.
        srv_lift (ok_or (StatusCode 404) (map_option acc_id found))))"

subsection \<open>The route\<close>

definition headers_to_map :: "(string \<times> string) list \<Rightarrow> (string \<times> string) list" where
  "headers_to_map headers =
     foldl (\<lambda>m (name, value). if header_visible value then header_insert name value m else m) [] headers"

definition signature_key_document_matches_actor :: "network \<Rightarrow> string \<Rightarrow> string \<Rightarrow> bool" where
  "signature_key_document_matches_actor n key_id actor =
     (case url_parse n key_id of
        None \<Rightarrow> False
      | Some key_url \<Rightarrow> same_activitypub_id (u_as_str (url_without_fragment n key_url)) actor)"

definition ensure_signature_owner_matches_actor :: "node \<Rightarrow> string \<Rightarrow> activity \<Rightarrow> unit handler" where
  "ensure_signature_owner_matches_actor nd key_id a =
     srv_bind (srv_op_or (StatusCode 401) (fetch_actor_key (nd_fd nd) key_id)) (\<lambda>actor_key.
     srv_lift (ensure (same_activitypub_id (apk_owner actor_key) (av_actor a) \<and>
       signature_key_document_matches_actor (nd_net nd) key_id (av_actor a)) (StatusCode 401)))"

definition ensure_host_matches_public_base_url :: "string \<Rightarrow> (string \<times> string) list \<Rightarrow> error_status + unit" where
  "ensure_host_matches_public_base_url expected headers =
     res_bind (ok_or (StatusCode 401) (header_str ''host'' headers)) (\<lambda>actual.
     ensure (eq_ignore_ascii_case actual expected) (StatusCode 401))"

definition verification_input :: "node \<Rightarrow> inbound_request \<Rightarrow> http_signature_verification_input" where
  "verification_input nd rq =
     \<lparr> sr_method = in_method rq,
       sr_url = trim_end_matches (CHR ''/'') (nd_base_url nd) @ in_original_uri rq,
       sr_headers = headers_to_map (in_headers rq), sr_body = Some (in_body rq) \<rparr>"

definition post_inbox :: "node \<Rightarrow> nanoid \<Rightarrow> inbound_request \<Rightarrow> http_status handler" where
  "post_inbox nd nanoid rq =
     (let content_type = (case header_str ''content-type'' (in_headers rq) of Some v \<Rightarrow> v | None \<Rightarrow> []) in
      if content_type \<noteq> ''application/activity+json'' then
        srv_lift (Inl (StatusCodeWithMessage 400 ''Content-Type must be application/activity+json''))
      else
        srv_bind (find_account_id_by_nanoid nd nanoid) (\<lambda>account_id.
        srv_bind (srv_lift (public_base_host_header nd)) (\<lambda>expected.
        srv_bind (srv_lift (ensure_host_matches_public_base_url expected (in_headers rq))) (\<lambda>_.
        srv_bind (srv_op (verify_http_signature (nd_fd nd) (nd_crates nd) (verification_input nd rq))) (\<lambda>verified.
        case verified of
          Invalid reason \<Rightarrow> srv_lift (Inl (StatusCode 401))
        | Valid key_id \<Rightarrow>
            srv_bind (srv_lift (ok_or (StatusCodeWithMessage 400 ''Malformed ActivityPub activity'')
              (Option.bind (json_parse (nd_net nd) (in_body rq)) activity_from_value))) (\<lambda>a.
            srv_bind (ensure_signature_owner_matches_actor nd key_id a) (\<lambda>_.
            srv_bind (srv_op (handle_inbox_activity nd
              \<lparr> ib_account_id = account_id, ib_account_nanoid = nanoid, ib_activity = a \<rparr>)) (\<lambda>_.
            srv_lift (Inr 202)))))))))"

subsection \<open>Running handlers\<close>

lemma srv_bind_Inr_iff:
  "srv_bind m f w = (Inr y, w') \<longleftrightarrow> (\<exists>x w1. m w = (Inr x, w1) \<and> f x w1 = (Inr y, w'))"
  by (auto simp: srv_bind_def split: prod.splits sum.splits)

lemma srv_bind_Inl_iff:
  "srv_bind m f w = (Inl e, w') \<longleftrightarrow> m w = (Inl e, w') \<or> (\<exists>x w1. m w = (Inr x, w1) \<and> f x w1 = (Inl e, w'))"
  by (auto simp: srv_bind_def split: prod.splits sum.splits)

lemma srv_lift_iff [simp]: "srv_lift r w = (s, w') \<longleftrightarrow> s = r \<and> w' = w"
  by (auto simp: srv_lift_def)

lemma srv_op_iffs [simp]:
  "srv_op m w = (Inr x, w') \<longleftrightarrow> m w = (Inr x, w')"
  "srv_op m w = (Inl s, w') \<longleftrightarrow> (\<exists>e. s = Report e \<and> m w = (Inl e, w'))"
  "srv_op_or s0 m w = (Inr x, w') \<longleftrightarrow> m w = (Inr x, w')"
  "srv_op_or s0 m w = (Inl s, w') \<longleftrightarrow> s = s0 \<and> (\<exists>e. m w = (Inl e, w'))"
  by (auto simp: srv_op_def srv_op_or_def split: prod.splits sum.splits)

lemma srv_bind_run: "m w = (Inr x, w') \<Longrightarrow> srv_bind m f w = f x w'"
  by (simp add: srv_bind_def)

lemmas srv_iffs = srv_bind_Inr_iff srv_bind_Inl_iff

end
