(* ===== verification/Inbox_Theorems.thy ===== *)
theory Inbox_Theorems
  imports Inbox Blocking_Theorems
begin

text \<open>
  What an inbound activity can change: relations between the account of the inbox and the remote
  account of the actor, entries of the outbox and the cached remote account, and nothing else.
\<close>

subsection \<open>Relations of two parties\<close>

definition block_between_either :: "target_id \<Rightarrow> target_id \<Rightarrow> block_row \<Rightarrow> bool" where
  "block_between_either a b r \<longleftrightarrow> block_between a b r \<or> block_between b a r"

text \<open>
  From \<open>d0\<close> to \<open>d\<close> only follows and blocks between \<open>a\<close> and \<open>b\<close>, remote accounts and the outbox
  have changed.
\<close>

definition confined :: "target_id \<Rightarrow> target_id \<Rightarrow> db \<Rightarrow> db \<Rightarrow> bool" where
  "confined a b d0 d \<longleftrightarrow> follow_table_ok d \<and> block_table_ok d \<and> other_tables d = other_tables d0 \<and>
     filter (\<lambda>r. \<not> between_either a b r) (t_follows d) = filter (\<lambda>r. \<not> between_either a b r) (t_follows d0) \<and>
     filter (\<lambda>r. \<not> block_between_either a b r) (t_blocks d) =
       filter (\<lambda>r. \<not> block_between_either a b r) (t_blocks d0)"

abbreviation confines :: "target_id \<Rightarrow> target_id \<Rightarrow> db \<Rightarrow> 'a op \<Rightarrow> bool" where
  "confines a b d0 \<equiv> keeps (\<lambda>w. confined a b d0 (w_db w))"

text \<open>A view of the database that the inbox leaves alone but for the relations of one pair.\<close>

definition federation_view :: "db \<Rightarrow> db \<times> follow_row list \<times> block_row list \<times> mute_row list" where
  "federation_view d = (other_tables d, relation_tables d)"

lemma ignores_view [simp, intro]: "ignores_outbox federation_view" "ignores_remotes federation_view"
  by (simp_all add: ignores_outbox_def ignores_remotes_def federation_view_def relation_tables_def other_tables_def)

lemma confined_refl: "follow_table_ok d \<Longrightarrow> block_table_ok d \<Longrightarrow> confined a b d d"
  by (simp add: confined_def)

lemma confined_view:
  "federation_view d = federation_view d1 \<Longrightarrow> confined a b d0 d = confined a b d0 d1"
  by (simp add: confined_def federation_view_def relation_tables_def follow_table_ok_cong [of d d1]
      block_table_ok_cong [of d d1])

lemma confines_view:
  assumes "\<And>R. keeps (shows_same federation_view R) m"
  shows "confines a b d0 m"
  unfolding keeps_def
proof (intro allI impI)
  fix w :: world assume w: "confined a b d0 (w_db w)"
  have "federation_view (w_db (snd (m w))) = federation_view (w_db w)"
    using assms [of "federation_view (w_db w)"] by (simp add: keeps_def)
  from confined_view [OF this] w show "confined a b d0 (w_db (snd (m w)))" by simp
qed

lemma confines_transaction: "confines a b d0 m \<Longrightarrow> confines a b d0 (transaction m)"
  by (auto simp: keeps_def transaction_def split: prod.splits sum.splits; metis snd_conv)

lemma table_ok_updates [simp]:
  "block_table_ok (d \<lparr> t_follows := fs \<rparr>) = block_table_ok d"
  "follow_table_ok (d \<lparr> t_blocks := bs \<rparr>) = follow_table_ok d"
  by (simp_all add: block_table_ok_def follow_table_ok_def holds_blocks_def holds_follows_def)

lemma confined_follows:
  assumes "confined a b d0 d" and "follow_table_ok (d \<lparr> t_follows := rows \<rparr>)"
    and "filter (\<lambda>r. \<not> between_either a b r) rows = filter (\<lambda>r. \<not> between_either a b r) (t_follows d)"
  shows "confined a b d0 (d \<lparr> t_follows := rows \<rparr>)"
  using assms by (simp add: confined_def other_tables_def)

lemma confined_blocks:
  assumes "confined a b d0 d" and "block_table_ok (d \<lparr> t_blocks := rows \<rparr>)"
    and "filter (\<lambda>r. \<not> block_between_either a b r) rows =
      filter (\<lambda>r. \<not> block_between_either a b r) (t_blocks d)"
  shows "confined a b d0 (d \<lparr> t_blocks := rows \<rparr>)"
  using assms by (simp add: confined_def other_tables_def)

lemma confined_oks: "confined a b d0 d \<Longrightarrow> follow_table_ok d" "confined a b d0 d \<Longrightarrow> block_table_ok d"
  by (simp_all add: confined_def)

lemma follow_insert_row:
  "follow_insert_if_absent f d = Inr (x, d') \<Longrightarrow> d' = d \<or> d' = d \<lparr> t_follows := t_follows d @ [follow_row_of f] \<rparr>"
  by (auto simp: follow_insert_if_absent_def insert_follow_def insert_checked_def Let_def
      split: insert_outcome.splits if_splits)

lemma block_insert_row_or_same:
  "block_insert_if_absent b d = Inr (x, d') \<Longrightarrow> d' = d \<or> d' = d \<lparr> t_blocks := t_blocks d @ [block_row_of b] \<rparr>"
  by (auto simp: block_insert_if_absent_def insert_block_def insert_checked_def Let_def
      split: insert_outcome.splits if_splits)

lemma block_table_remove:
  assumes "block_table_ok d" and "t_blocks d' = filter P (t_blocks d)"
  shows "block_table_ok d'"
proof -
  from assms(1) obtain bs where bs: "holds_blocks bs d" "pair_wf bl_id bl_source bl_destination bs"
    by (auto simp: block_table_ok_def)
  then have "holds_blocks (filter (P \<circ> block_row_of) bs) d'"
    using assms(2) by (auto simp: holds_blocks_def filter_map)
  with pair_wf_filter [OF bs(2)] show ?thesis unfolding block_table_ok_def by blast
qed

subsection \<open>The statements of the handlers\<close>

lemma confines_follow_insert:
  assumes "fo_source f = a" "fo_destination f = b" "\<not> both_remote a b"
  shows "confines a b d0 (exec (follow_insert_if_absent f))"
proof (rule keeps_exec)
  fix w x d assume w: "confined a b d0 (w_db w)" and ins: "follow_insert_if_absent f (w_db w) = Inr (x, d)"
  have "follow_table_ok d" using follow_table_insert [OF confined_oks(1) [OF w] _ ins] assms by simp
  then show "confined a b d0 (w_db (w \<lparr> w_db := d \<rparr>))"
    using follow_insert_row [OF ins] w assms confined_follows [OF w, of "t_follows (w_db w) @ [follow_row_of f]"]
    by (auto simp: between_either_def follow_row_of_facts)
qed

lemma confines_block_insert:
  assumes "bl_source x = a" "bl_destination x = b" "\<not> both_remote a b"
  shows "confines a b d0 (exec (block_insert_if_absent x))"
proof (rule keeps_exec)
  fix w y d assume w: "confined a b d0 (w_db w)" and ins: "block_insert_if_absent x (w_db w) = Inr (y, d)"
  have "block_table_ok d" using block_table_insert [OF confined_oks(2) [OF w] _ ins] assms by simp
  then show "confined a b d0 (w_db (w \<lparr> w_db := d \<rparr>))"
    using block_insert_row_or_same [OF ins] w assms
      confined_blocks [OF w, of "t_blocks (w_db w) @ [block_row_of x]"]
    by (auto simp: block_between_either_def block_row_of_facts)
qed

lemma confines_approve: "confines a b d0 (exec (approve_follow_if_pending e b a))"
proof (rule keeps_exec)
  fix w x d assume w: "confined a b d0 (w_db w)" and ap: "approve_follow_if_pending e b a (w_db w) = Inr (x, d)"
  let ?g = "\<lambda>r. if follow_between b a r \<and> fw_approved_at r = None then r \<lparr> fw_approved_at := Some (now_utc e) \<rparr> else r"
  have d: "d = (w_db w) \<lparr> t_follows := map ?g (t_follows (w_db w)) \<rparr>"
    using ap by (auto simp: approve_follow_if_pending_def update_rows_def Let_def)
  have g: "between_either a b (?g r) = between_either a b r" for r
    by (simp add: between_either_def follow_between_def split: prod.splits)
  have "filter (\<lambda>r. \<not> between_either a b r) (map ?g rs) = filter (\<lambda>r. \<not> between_either a b r) rs" for rs
    by (induction rs) (simp_all add: g, simp add: between_either_def)
  with w follow_table_approve [OF confined_oks(1) [OF w] ap] show "confined a b d0 (w_db (w \<lparr> w_db := d \<rparr>))"
    by (simp add: d confined_follows)
qed

lemma filter_narrow: "(\<And>x. P x \<Longrightarrow> Q x) \<Longrightarrow> filter P (filter Q xs) = filter P xs"
  by (auto intro: filter_cong)

lemma confined_remove_follows:
  assumes "confined a b d0 d" and "\<And>r. \<not> between_either a b r \<Longrightarrow> P r"
  shows "confined a b d0 (d \<lparr> t_follows := filter P (t_follows d) \<rparr>)"
  using assms filter_narrow [of "\<lambda>r. \<not> between_either a b r" P]
  by (intro confined_follows follow_table_remove [OF confined_oks(1)]) auto

lemma confines_follow_delete: "confines a b d0 (exec (follow_delete_if_exists a b))"
  by (rule keeps_exec)
    (auto simp: follow_delete_if_exists_def delete_rows_def Let_def between_either_def intro!: confined_remove_follows)

lemma confines_block_delete: "confines a b d0 (exec (block_delete_if_exists a b))"
proof (rule keeps_exec)
  fix w x d assume w: "confined a b d0 (w_db w)" and del: "block_delete_if_exists a b (w_db w) = Inr (x, d)"
  then have d: "d = (w_db w) \<lparr> t_blocks := filter (\<lambda>r. \<not> block_between a b r) (t_blocks (w_db w)) \<rparr>"
    by (auto simp: block_delete_if_exists_def delete_rows_def Let_def)
  have "block_table_ok d" by (rule block_table_remove [OF confined_oks(2) [OF w]]) (simp add: d)
  with w filter_narrow [of "\<lambda>r. \<not> block_between_either a b r" "\<lambda>r. \<not> block_between a b r"]
  show "confined a b d0 (w_db (w \<lparr> w_db := d \<rparr>))"
    by (simp add: d block_between_either_def confined_blocks)
qed

lemma confines_remove_follows: "confines a b d0 (remove_follows_between a b)"
  unfolding keeps_def
  by (simp add: remove_follows_run confined_oks confined_remove_follows)

subsection \<open>The handlers\<close>

text \<open>The remote account of the actor, and what an activity may do in its name.\<close>

definition sender_row :: "inbox_activity_dto \<Rightarrow> db \<Rightarrow> remote_account \<Rightarrow> bool" where
  "sender_row dto d ra \<longleftrightarrow> remote_account_find_by_url (ra_url ra) d = Some ra \<and>
     same_activitypub_id (ra_url ra) (av_actor (ib_activity dto))"

definition inbox_effect :: "inbox_activity_dto \<Rightarrow> db \<Rightarrow> db \<Rightarrow> bool" where
  "inbox_effect dto d d' \<longleftrightarrow> remote_accounts_ok d' \<and>
     (federation_view d' = federation_view d \<or>
      (\<exists>ra. sender_row dto d' ra \<and> confined (Remote (ra_id ra)) (Local (ib_account_id dto)) d d'))"

definition tables_ok :: "db \<Rightarrow> bool" where
  "tables_ok d \<longleftrightarrow> follow_table_ok d \<and> block_table_ok d \<and> remote_accounts_ok d"

lemma inbox_effect_refl: "tables_ok d \<Longrightarrow> inbox_effect dto d d"
  by (simp add: inbox_effect_def tables_ok_def)

lemma upsert_keeps_ok: "keeps (\<lambda>w. remote_accounts_ok (w_db w)) (upsert_remote_account fd actor)"
  unfolding keeps_def
proof (intro allI impI)
  fix w :: world assume ok: "remote_accounts_ok (w_db w)"
  obtain r w' where run: "upsert_remote_account fd actor w = (r, w')" by fastforce
  have "remote_accounts_ok (w_db w')"
  proof (cases r)
    case (Inl e)
    with run have "w_db w' = w_db w"
      by (auto simp: upsert_remote_account_def op_iffs generate_id_def Let_def split: option.splits)
    with ok show ?thesis by simp
  next
    case (Inr x)
    with run ok upsert_remote_account_row show ?thesis by blast
  qed
  with run show "remote_accounts_ok (w_db (snd (upsert_remote_account fd actor w)))" by simp
qed

lemma sender_account_run:
  assumes run: "sender_account nd a w = (r, w1)" and ok: "remote_accounts_ok (w_db w)"
  shows "federation_view (w_db w1) = federation_view (w_db w)" and "remote_accounts_ok (w_db w1)"
    and "r = Inr ra \<Longrightarrow> remote_account_find_by_url (ra_url ra) (w_db w1) = Some ra \<and>
      same_activitypub_id (ra_url ra) (av_actor a)"
proof -
  have "keeps (shows_same federation_view R) (sender_account nd a)" for R
    unfolding sender_account_def by (intro keeps_intros frame_intros ignores_view)
  from keepsE [OF run this] show "federation_view (w_db w1) = federation_view (w_db w)" .
  have "keeps (\<lambda>w. remote_accounts_ok (w_db w)) (sender_account nd a)"
    unfolding sender_account_def
    using keeps_sends_db [OF sends_resolve_remote_actor, of remote_accounts_ok True]
    by (intro keeps_intros upsert_keeps_ok) simp
  from keepsD [OF this ok run] show "remote_accounts_ok (w_db w1)" .
  assume "r = Inr ra"
  with run obtain actor w0 where act: "resolve_remote_actor (nd_fd nd) (av_actor a) w = (Inr actor, w0)"
    and ups: "upsert_remote_account (nd_fd nd) actor w0 = (Inr ra, w1)"
    by (auto simp: sender_account_def op_iffs)
  have "w_db w0 = w_db w" using keepsE [OF act keeps_sends_db [OF sends_resolve_remote_actor], of "\<lambda>d. d"] by simp
  moreover have "ra_url ra = rr_url actor"
    using ups by (auto simp: upsert_remote_account_def op_iffs Let_def split: option.splits)
  ultimately
  show "remote_account_find_by_url (ra_url ra) (w_db w1) = Some ra \<and> same_activitypub_id (ra_url ra) (av_actor a)"
    using upsert_remote_account_row [OF ups] ok resolve_remote_actor_same [OF act] by simp
qed

text \<open>Work for the sender once its account is known.\<close>

lemma known_sender_effect:
  assumes "T w1 = (r, w')" and "confined (Remote (ra_id ra)) (Local (ib_account_id dto)) d0 (w_db w1)"
    and "remote_accounts_ok (w_db w1)" and "sender_row dto (w_db w1) ra"
    and "confines (Remote (ra_id ra)) (Local (ib_account_id dto)) d0 T"
    and "\<And>R. keeps (shows_same t_remote_accounts R) T"
  shows "inbox_effect dto d0 (w_db w')"
proof -
  have same: "t_remote_accounts (w_db w') = t_remote_accounts (w_db w1)"
    by (rule keepsE [OF assms(1,6)])
  have "confined (Remote (ra_id ra)) (Local (ib_account_id dto)) d0 (w_db w')"
    by (rule keepsD [OF assms(5,2,1)])
  with same assms(3,4) show ?thesis
    by (auto simp: inbox_effect_def sender_row_def remote_accounts_ok_def remote_account_find_by_url_def)
qed

lemma sender_effect:
  assumes run: "op_bind (sender_account nd (ib_activity dto)) T w = (r, w')" and ok: "tables_ok (w_db w)"
    and "\<And>ra. confines (Remote (ra_id ra)) (Local (ib_account_id dto)) (w_db w) (T ra)"
    and "\<And>ra R. keeps (shows_same t_remote_accounts R) (T ra)"
  shows "inbox_effect dto (w_db w) (w_db w')"
proof -
  obtain rs w1 where s: "sender_account nd (ib_activity dto) w = (rs, w1)" by fastforce
  from ok have ok': "remote_accounts_ok (w_db w)" by (simp add: tables_ok_def)
  note sent = sender_account_run [OF s ok']
  show ?thesis
  proof (cases rs)
    case (Inl e)
    with run s have "w' = w1" by auto
    with sent(1,2) show ?thesis by (simp add: inbox_effect_def)
  next
    case (Inr ra)
    with run s have T: "T ra w1 = (r, w')" by simp
    have "confined (Remote (ra_id ra)) (Local (ib_account_id dto)) (w_db w) (w_db w1)"
      using confined_view [OF sent(1)] confined_refl ok by (simp add: tables_ok_def)
    from known_sender_effect [OF T this sent(2) _ assms(3,4)] sent(3) [OF Inr] show ?thesis
      by (simp add: sender_row_def)
  qed
qed

lemma lookup_effect:
  assumes run: "op_bind (query (remote_account_find_by_url url)) T w = (r, w')" and ok: "tables_ok (w_db w)"
    and url: "same_activitypub_id url (av_actor (ib_activity dto))"
    and none: "snd (T None w) = w"
    and some: "\<And>ra. confines (Remote (ra_id ra)) (Local (ib_account_id dto)) (w_db w) (T (Some ra))"
      "\<And>ra R. keeps (shows_same t_remote_accounts R) (T (Some ra))"
  shows "inbox_effect dto (w_db w) (w_db w')"
proof (cases "remote_account_find_by_url url (w_db w)")
  case None
  with run have "T None w = (r, w')" by simp
  with none have "w' = w" by (metis snd_conv)
  with ok show ?thesis by (simp add: inbox_effect_refl)
next
  case (Some ra)
  with run have T: "T (Some ra) w = (r, w')" by simp
  from Some have "ra_url ra = url"
    by (auto simp: remote_account_find_by_url_def remote_account_from_def dest!: find_SomeD)
  with Some url have "sender_row dto (w_db w) ra" by (simp add: sender_row_def)
  with known_sender_effect [OF T _ _ _ some] ok show ?thesis
    by (simp add: tables_ok_def confined_refl)
qed

lemma keeps_remotes [frame_intros]:
  "keeps (shows_same t_remote_accounts R) (exec (follow_insert_if_absent f))"
  "keeps (shows_same t_remote_accounts R) (exec (approve_follow_if_pending e s t))"
  "keeps (shows_same t_remote_accounts R) (exec (follow_delete_if_exists s t))"
  "keeps (shows_same t_remote_accounts R) (exec (follow_delete i))"
  "keeps (shows_same t_remote_accounts R) (exec (block_insert_if_absent b))"
  "keeps (shows_same t_remote_accounts R) (exec (block_delete_if_exists s t))"
  by (rule keeps_exec, auto dest!: follow_insert_row block_insert_row_or_same
      simp: approve_follow_if_pending_def follow_delete_if_exists_def follow_delete_def block_delete_if_exists_def
        Let_def split: prod.splits if_splits)+

lemma keeps_remotes_removal [frame_intros]:
  "keeps (shows_same t_remote_accounts R) (remove_follows_between a b)"
  unfolding remove_follows_between_def delete_follows_def by (intro keeps_intros frame_intros)

lemmas confines_intros = keeps_intros confines_transaction confines_follow_insert confines_block_insert
  confines_approve confines_follow_delete confines_block_delete confines_remove_follows

lemma addressed_world: "snd (addressed nd nano a w) = w"
  by (auto simp: addressed_def op_bind_def split: sum.splits)

lemma addressed_effect:
  assumes "op_bind (addressed nd nano a) (\<lambda>_. m) w = (r, w')" and "tables_ok (w_db w)"
    and "m w = (r, w') \<Longrightarrow> inbox_effect dto (w_db w) (w_db w')"
  shows "inbox_effect dto (w_db w) (w_db w')"
proof (cases "fst (addressed nd nano a w)")
  case (Inl e)
  then have "addressed nd nano a w = (Inl e, w)" using addressed_world [of nd nano a w] by (metis prod.collapse)
  with assms(1,2) show ?thesis by (auto simp: inbox_effect_refl)
next
  case (Inr x)
  then have "addressed nd nano a w = (Inr x, w)" using addressed_world [of nd nano a w] by (metis prod.collapse)
  with assms(1,3) show ?thesis by simp
qed

lemma lift_effect:
  assumes "op_bind (op_lift v) f w = (r, w')" and "tables_ok (w_db w)"
    and "\<And>x. f x w = (r, w') \<Longrightarrow> inbox_effect dto (w_db w) (w_db w')"
  shows "inbox_effect dto (w_db w) (w_db w')"
  using assms by (cases v) (auto simp: inbox_effect_refl)

lemma keeps_lift: "(\<And>x. v = Inr x \<Longrightarrow> keeps P (f x)) \<Longrightarrow> keeps P (op_bind (op_lift v) f)"
  by (cases v) (simp_all add: keeps_def)

lemma keeps_deliver_accept [frame_intros]:
  "ignores_outbox F \<Longrightarrow> keeps (shows_same F R) (deliver_accept nd account_id outbox_id inbox_url a)"
  unfolding deliver_accept_def by (rule keeps_deliver_outbox)

lemma keeps_accept_delivery:
  assumes "\<And>outbox_id accept inbox_url. keeps P (g outbox_id accept inbox_url)"
  shows "keeps P (case (accepted, inbox) of
       ((True, Some (outbox_id, accept)), Some inbox_url) \<Rightarrow> g outbox_id accept inbox_url
     | _ \<Rightarrow> op_return ())"
  using assms by (auto simp: keeps_pure split: prod.splits bool.splits option.splits)

lemma confines_accept_rows:
  assumes "fo_source f = a" "fo_destination f = b" "\<not> both_remote a b"
  shows "confines a b d0 (accept_rows nd dto f)"
  unfolding accept_rows_def Let_def
  by (intro confines_intros assms confines_view [OF keeps_outbox_create] ignores_view)

lemma follow_new_Inr:
  "follow_new i s t x = Inr f \<longleftrightarrow> \<not> both_remote s t \<and>
     f = \<lparr> fo_id = i, fo_source = s, fo_destination = t, fo_approved_at = x \<rparr>"
  by (cases s; cases t) (auto simp: follow_new_def)

lemma follow_effect:
  assumes run: "handle_follow_activity nd dto w = (r, w')" and ok: "tables_ok (w_db w)"
  shows "inbox_effect dto (w_db w) (w_db w')"
  using run unfolding handle_follow_activity_def
proof (rule addressed_effect [OF _ ok], elim sender_effect [OF _ ok])
  fix ra
  show "confines (Remote (ra_id ra)) (Local (ib_account_id dto)) (w_db w)
    (op_bind (generate_id (nd_env nd)) (\<lambda>i.
     op_bind (op_lift (follow_new i (Remote (ra_id ra)) (Local (ib_account_id dto))
       (Some (now_utc (nd_env nd))))) (\<lambda>f.
     op_bind (transaction (accept_rows nd dto f)) (\<lambda>accepted.
     case (accepted, ra_inbox_url ra) of
       ((True, Some (outbox_id, accept)), Some inbox_url) \<Rightarrow>
         op_bind (op_try (deliver_accept nd (ib_account_id dto) outbox_id inbox_url accept)) (\<lambda>_. op_return ())
     | _ \<Rightarrow> op_return ()))))"
    by (intro keeps_bind keeps_lift confines_view [OF keeps_generate] confines_transaction confines_accept_rows
        keeps_accept_delivery confines_view [OF keeps_op_try [OF keeps_deliver_accept]] ignores_view keeps_pure)
      (auto simp: follow_new_Inr)
next
  fix ra R
  show "keeps (shows_same t_remote_accounts R)
    (op_bind (generate_id (nd_env nd)) (\<lambda>i.
     op_bind (op_lift (follow_new i (Remote (ra_id ra)) (Local (ib_account_id dto))
       (Some (now_utc (nd_env nd))))) (\<lambda>f.
     op_bind (transaction (accept_rows nd dto f)) (\<lambda>accepted.
     case (accepted, ra_inbox_url ra) of
       ((True, Some (outbox_id, accept)), Some inbox_url) \<Rightarrow>
         op_bind (op_try (deliver_accept nd (ib_account_id dto) outbox_id inbox_url accept)) (\<lambda>_. op_return ())
     | _ \<Rightarrow> op_return ()))))"
    unfolding accept_rows_def Let_def
    by (intro keeps_intros keeps_accept_delivery frame_intros ignores_tables)
qed

lemma block_effect:
  assumes run: "handle_block_activity nd dto w = (r, w')" and ok: "tables_ok (w_db w)"
  shows "inbox_effect dto (w_db w) (w_db w')"
  using run unfolding handle_block_activity_def
proof (rule addressed_effect [OF _ ok], elim sender_effect [OF _ ok])
  fix ra
  let ?block = "\<lambda>i. block_new i (Remote (ra_id ra)) (Local (ib_account_id dto))"
  show "confines (Remote (ra_id ra)) (Local (ib_account_id dto)) (w_db w)
    (op_bind (generate_id (nd_env nd)) (\<lambda>i. op_bind (op_lift (?block i)) (\<lambda>b. transaction (inbound_block_rows b))))"
  proof (intro keeps_lift keeps_bind [OF confines_view [OF keeps_generate]] confines_transaction)
    fix i b assume "?block i = Inr b"
    then have b: "bl_source b = Remote (ra_id ra)" "bl_destination b = Local (ib_account_id dto)"
      by (auto simp: block_new_Inr)
    show "confines (Remote (ra_id ra)) (Local (ib_account_id dto)) (w_db w) (inbound_block_rows b)"
      using b unfolding inbound_block_rows_def block_target_to_follow_target_id
      by (auto intro!: confines_intros)
  qed
  fix R
  show "keeps (shows_same t_remote_accounts R)
    (op_bind (generate_id (nd_env nd)) (\<lambda>i. op_bind (op_lift (?block i)) (\<lambda>b. transaction (inbound_block_rows b))))"
    unfolding inbound_block_rows_def by (intro keeps_intros frame_intros)
qed

lemma undo_follow_effect:
  assumes run: "handle_undo_follow nd dto w = (r, w')" and ok: "tables_ok (w_db w)"
  shows "inbox_effect dto (w_db w) (w_db w')"
  using run unfolding handle_undo_follow_def
  by (rule lift_effect [OF _ ok], elim addressed_effect [OF _ ok] lookup_effect [OF _ ok])
    (simp_all add: same_activitypub_id_def, (intro confines_intros frame_intros)+)

lemma undo_block_effect:
  assumes run: "handle_undo_block_activity nd dto w = (r, w')" and ok: "tables_ok (w_db w)"
  shows "inbox_effect dto (w_db w) (w_db w')"
  using run unfolding handle_undo_block_activity_def
  by (rule lift_effect [OF _ ok], elim addressed_effect [OF _ ok] lookup_effect [OF _ ok])
    (simp_all add: same_activitypub_id_def, (intro confines_intros frame_intros)+)

lemma accept_effect:
  assumes run: "handle_accept_activity nd dto w = (r, w')" and ok: "tables_ok (w_db w)"
  shows "inbox_effect dto (w_db w) (w_db w')"
  using run unfolding handle_accept_activity_def
proof (rule lift_effect [OF _ ok])
  fix nested
  let ?rest = "\<lambda>url. op_bind (query (remote_account_find_by_url url)) (\<lambda>found.
       op_bind (op_lift (ok_or NotFound found)) (\<lambda>remote_account.
       op_bind (exec (approve_follow_if_pending (nd_env nd) (Local (ib_account_id dto))
           (Remote (ra_id remote_account)))) (\<lambda>_. op_return ())))"
  have rest: "inbox_effect dto (w_db w) (w_db w')"
    if "?rest url w = (r, w')" and "same_activitypub_id url (av_actor (ib_activity dto))" for url
    using that(1)
  proof (rule lookup_effect [OF _ ok that(2)])
    fix ra
    show "confines (Remote (ra_id ra)) (Local (ib_account_id dto)) (w_db w)
      (op_bind (op_lift (ok_or NotFound (Some ra))) (\<lambda>remote_account.
       op_bind (exec (approve_follow_if_pending (nd_env nd) (Local (ib_account_id dto))
           (Remote (ra_id remote_account)))) (\<lambda>_. op_return ())))"
      by (rule keeps_lift) (auto intro!: confines_intros)
  qed (simp, intro keeps_intros frame_intros)
  assume "(if trim_end_matches (CHR ''/'') (av_actor nested) \<noteq>
        trim_end_matches (CHR ''/'') (local_actor_url (nd_base_url nd) (ib_account_nanoid dto)) then op_return ()
     else op_bind (op_lift (ok_or Rejected (activity_object_id nested))) (\<lambda>url.
       if trim_end_matches (CHR ''/'') (av_actor (ib_activity dto)) \<noteq> trim_end_matches (CHR ''/'') url
       then op_return () else ?rest url)) w = (r, w')"
  then show ?thesis using rest ok
    by (auto simp: inbox_effect_refl same_activitypub_id_def elim!: lift_effect split: if_splits)
qed

lemma inbox_activity_effect:
  assumes "handle_inbox_activity nd dto w = (r, w')" and "tables_ok (w_db w)"
  shows "inbox_effect dto (w_db w) (w_db w')"
  using assms
  by (auto simp: handle_inbox_activity_def Let_def inbox_effect_refl follow_effect accept_effect block_effect
      undo_follow_effect undo_block_effect split: if_splits)

subsection \<open>Failing handlers\<close>

text \<open>An operation that fails leaves the view as it was; an operation that never fails.\<close>

definition fails_quietly :: "'a op \<Rightarrow> bool" where
  "fails_quietly m \<longleftrightarrow> (\<forall>w e w'. m w = (Inl e, w') \<longrightarrow> federation_view (w_db w') = federation_view (w_db w))"

definition never_fails :: "'a op \<Rightarrow> bool" where
  "never_fails m \<longleftrightarrow> (\<forall>w e w'. m w \<noteq> (Inl e, w'))"

named_theorems quiet_intros \<open>operations that fail without a trace\<close>

lemma fails_quietly_basic [quiet_intros]:
  "fails_quietly (op_return x)" "fails_quietly (op_lift v)" "fails_quietly (exec f)"
  "fails_quietly (transaction m)"
  by (auto simp: fails_quietly_def exec_def transaction_def split: sum.splits prod.splits)

lemma fails_quietly_view:
  assumes "\<And>R. keeps (shows_same federation_view R) m"
  shows "fails_quietly m"
  using keepsE [OF _ assms] by (auto simp: fails_quietly_def)

lemma fails_quietly_bind:
  assumes "\<And>R. keeps (shows_same federation_view R) m" and "\<And>x. fails_quietly (f x)"
  shows "fails_quietly (op_bind m f)"
  unfolding fails_quietly_def
proof (intro allI impI)
  fix w e w' assume run: "op_bind m f w = (Inl e, w')"
  obtain r w1 where m: "m w = (r, w1)" by fastforce
  from keepsE [OF m assms(1)] have "federation_view (w_db w1) = federation_view (w_db w)" .
  with run m assms(2) show "federation_view (w_db w') = federation_view (w_db w)"
    by (cases r) (auto simp: fails_quietly_def)
qed

lemma fails_quietly_last:
  "fails_quietly m \<Longrightarrow> (\<And>x. never_fails (f x)) \<Longrightarrow> fails_quietly (op_bind m f)"
  unfolding fails_quietly_def never_fails_def op_bind_Inl_iff by blast

lemma never_fails_basic [simp]: "never_fails (op_return x)" "never_fails (op_bind (op_try m) (\<lambda>_. op_return y))"
  by (simp_all add: never_fails_def)

lemma fails_quietly_if [quiet_intros]: "fails_quietly m \<Longrightarrow> fails_quietly n \<Longrightarrow> fails_quietly (if b then m else n)"
  by simp

lemma fails_quietly_option [quiet_intros]:
  "fails_quietly m \<Longrightarrow> (\<And>x. fails_quietly (f x)) \<Longrightarrow> fails_quietly (case c of None \<Rightarrow> m | Some x \<Rightarrow> f x)"
  by (cases c) auto

lemma keeps_sender_account [frame_intros]:
  "ignores_remotes F \<Longrightarrow> keeps (shows_same F R) (sender_account nd a)"
  unfolding sender_account_def by (intro keeps_intros frame_intros)

lemma keeps_addressed [frame_intros]: "keeps P (addressed nd nano a)"
  unfolding addressed_def by (intro keeps_intros)

lemmas fails_quietly_binds [quiet_intros] =
  fails_quietly_bind [OF keeps_pure(3)] fails_quietly_bind [OF keeps_pure(4)]
  fails_quietly_bind [OF keeps_addressed] fails_quietly_bind [OF keeps_sender_account [OF ignores_view(2)]]
  fails_quietly_bind [OF keeps_generate]
  fails_quietly_last [OF fails_quietly_basic(3)] fails_quietly_last [OF fails_quietly_basic(4)]

lemma accept_delivery_never_fails:
  "never_fails (case (accepted, inbox) of
       ((True, Some (outbox_id, accept)), Some inbox_url) \<Rightarrow>
         op_bind (op_try (deliver_accept nd i outbox_id inbox_url accept)) (\<lambda>_. op_return ())
     | _ \<Rightarrow> op_return ())"
  by (auto split: prod.splits bool.splits option.splits)

lemma inbox_activity_error:
  assumes "handle_inbox_activity nd dto w = (Inl e, w')"
  shows "federation_view (w_db w') = federation_view (w_db w)"
proof -
  have "fails_quietly (handle_inbox_activity nd dto)"
    unfolding handle_inbox_activity_def handle_follow_activity_def handle_accept_activity_def
      handle_block_activity_def handle_undo_follow_def handle_undo_block_activity_def Let_def
    by (intro quiet_intros never_fails_basic accept_delivery_never_fails)
  with assms show ?thesis by (simp add: fails_quietly_def)
qed

end
