(* ===== verification/Inbox_Route_Theorems.thy ===== *)
theory Inbox_Route_Theorems
  imports Inbox_Route Inbox_Theorems
begin

text \<open>
  What a request to the inbox can do: an accepted one carries a signature of its actor over the
  request, and changes only relations between that actor and the account of the inbox; a refused
  one leaves all relations and all accounts alone.
\<close>

text \<open>The request is signed, and the key is one of the actor of the activity.\<close>

definition signed_request :: "node \<Rightarrow> inbound_request \<Rightarrow> string \<Rightarrow> string \<Rightarrow> bool" where
  "signed_request nd rq key_id pem \<longleftrightarrow>
     (\<exists>header parsed data.
        get_header (headers_to_map (in_headers rq)) ''signature'' = Some header \<and>
        parse_cavage_signature (nd_net nd) header = Some parsed \<and> cs_key_id parsed = key_id \<and>
        {''(request-target)'', ''host'', ''date''} \<subseteq> set (cs_headers parsed) \<and>
        (in_body rq \<noteq> [] \<longrightarrow> ''digest'' \<in> set (cs_headers parsed)) \<and>
        cavage_signing_string (nd_net nd) (verification_input nd rq) (cs_headers parsed) = Some data \<and>
        (rsa2048_verify (nd_crates nd) data (cs_signature parsed) pem = Inr True \<or>
         ed25519_verify (nd_crates nd) data (cs_signature parsed) pem = Inr True))"

definition body_digest_ok :: "node \<Rightarrow> inbound_request \<Rightarrow> bool" where
  "body_digest_ok nd rq \<longleftrightarrow>
     (in_body rq \<noteq> [] \<longrightarrow>
       (\<exists>d v. get_header (headers_to_map (in_headers rq)) ''digest'' = Some d \<and>
          first_some sha256_part (split_on (CHR '','') d) = Some v \<and>
          base64_decode (nd_net nd) v = Some (sha256 (nd_net nd) (in_body rq))))"

definition date_fresh :: "node \<Rightarrow> inbound_request \<Rightarrow> bool" where
  "date_fresh nd rq \<longleftrightarrow>
     (\<exists>date t. get_header (headers_to_map (in_headers rq)) ''date'' = Some date \<and>
        parse_http_date (nd_net nd) date = Some t \<and> \<bar>t - now_utc (nd_env nd)\<bar> \<le> DATE_TOLERANCE)"

lemma verified_request:
  assumes "verify_http_signature (nd_fd nd) (nd_crates nd) (verification_input nd rq) w = (Inr (Valid key_id), w1)"
  obtains key where "fetch_actor_key (nd_fd nd) key_id w = (Inr key, w1)" "apk_id key = key_id"
    "signed_request nd rq key_id (apk_public_key_pem key)" "body_digest_ok nd rq" "date_fresh nd rq"
proof -
  from assms obtain header and parsed :: cavage_signature and data and key :: actor_public_key where
    header: "get_header (headers_to_map (in_headers rq)) ''signature'' = Some header"
      "parse_cavage_signature (nd_net nd) header = Some parsed" "cs_key_id parsed = key_id"
    and checks: "validate_required_signed_headers (verification_input nd rq) (cs_headers parsed) = Inr ()"
      "validate_date_header (nd_net nd) (nd_env nd) (verification_input nd rq) = Inr ()"
      "validate_digest_header (nd_net nd) (verification_input nd rq) = Inr ()"
    and data: "cavage_signing_string (nd_net nd) (verification_input nd rq) (cs_headers parsed) = Some data"
    and key: "fetch_actor_key (nd_fd nd) key_id w = (Inr key, w1)"
    and sig: "verify_cavage_signature (nd_crates nd) data (cs_signature parsed) (apk_public_key_pem key)
      (cs_algorithm parsed) = Inr True"
    unfolding verify_Valid by (auto simp: verification_input_def)
  have "signed_request nd rq key_id (apk_public_key_pem key)"
    unfolding signed_request_def
    using header data verify_cavage_True [OF sig] checks(1)
    by (intro exI [of _ header] exI [of _ parsed] exI [of _ data])
      (auto simp: validate_required_Inr has_body_def verification_input_def)
  moreover have "body_digest_ok nd rq"
    using checks(3) by (auto simp: body_digest_ok_def validate_digest_Inr has_body_def body_bytes_def verification_input_def)
  moreover have "date_fresh nd rq"
    using checks(2) by (auto simp: date_fresh_def validate_date_Inr verification_input_def)
  ultimately show ?thesis using that key fetch_actor_key_id [OF key] by blast
qed

lemma sends_same_db: "sends n m \<Longrightarrow> m w = (r, w') \<Longrightarrow> w_db w' = w_db w"
  unfolding sends_def by (metis snd_conv world.select_convs(1) world.surjective world.update_convs(5))

lemma verify_same_db: "verify_http_signature fd c request w = (r, w') \<Longrightarrow> w_db w' = w_db w"
  by (rule sends_same_db [OF sends_verify])

lemma fetch_key_same_db: "fetch_actor_key fd key_id w = (r, w') \<Longrightarrow> w_db w' = w_db w"
  by (rule sends_same_db [OF sends_fetch_actor_key])

lemma find_account_run:
  "find_account_id_by_nanoid nd nano w = (r, w') \<Longrightarrow> w' = w \<and>
     (\<forall>i. r = Inr i \<longrightarrow> (\<exists>a. account_find_by_nanoid (nd_env nd) nano (w_db w) = Some a \<and> acc_id a = i))"
  by (cases r) (auto simp: find_account_id_by_nanoid_def srv_iffs ok_or_def split: if_splits option.splits)

lemma owner_check_run:
  "ensure_signature_owner_matches_actor nd key_id a w = (r, w') \<Longrightarrow>
     \<exists>k. fetch_actor_key (nd_fd nd) key_id w = (k, w') \<and>
       (r = Inr () \<longrightarrow> (\<exists>key. k = Inr key \<and> same_activitypub_id (apk_owner key) (av_actor a) \<and>
         signature_key_document_matches_actor (nd_net nd) key_id (av_actor a)))"
  by (cases r) (auto simp: ensure_signature_owner_matches_actor_def srv_iffs ensure_def split: if_splits)

lemma post_inbox_accepted:
  assumes "post_inbox nd nano rq w = (Inr s, w')"
  obtains account a key_id and key w1 w2 where "s = 202"
    "header_str ''content-type'' (in_headers rq) = Some ''application/activity+json''"
    "account_find_by_nanoid (nd_env nd) nano (w_db w) = Some account"
    "verify_http_signature (nd_fd nd) (nd_crates nd) (verification_input nd rq) w = (Inr (Valid key_id), w1)"
    "Option.bind (json_parse (nd_net nd) (in_body rq)) activity_from_value = Some a"
    "fetch_actor_key (nd_fd nd) key_id w1 = (Inr key, w2)" "same_activitypub_id (apk_owner key) (av_actor a)"
    "signature_key_document_matches_actor (nd_net nd) key_id (av_actor a)"
    "handle_inbox_activity nd \<lparr> ib_account_id = acc_id account, ib_account_nanoid = nano, ib_activity = a \<rparr> w2 = (Inr (), w')"
proof -
  have ct: "header_str ''content-type'' (in_headers rq) = Some ''application/activity+json''"
    using assms by (auto simp: post_inbox_def Let_def split: if_splits option.splits)
  with assms obtain i v w1 where i: "find_account_id_by_nanoid nd nano w = (Inr i, w)"
    and v: "verify_http_signature (nd_fd nd) (nd_crates nd) (verification_input nd rq) w = (Inr v, w1)"
    and rest: "(case v of Invalid reason \<Rightarrow> srv_lift (Inl (StatusCode 401))
        | Valid key_id \<Rightarrow>
            srv_bind (srv_lift (ok_or (StatusCodeWithMessage 400 ''Malformed ActivityPub activity'')
              (Option.bind (json_parse (nd_net nd) (in_body rq)) activity_from_value))) (\<lambda>a.
            srv_bind (ensure_signature_owner_matches_actor nd key_id a) (\<lambda>_.
            srv_bind (srv_op (handle_inbox_activity nd
              \<lparr> ib_account_id = i, ib_account_nanoid = nano, ib_activity = a \<rparr>)) (\<lambda>_.
            srv_lift (Inr 202))))) w1 = (Inr s, w')"
    by (auto simp: post_inbox_def Let_def srv_bind_Inr_iff dest: find_account_run)
  from rest obtain key_id a w2 where key_id: "v = Valid key_id" and s: "s = 202"
    and a: "Option.bind (json_parse (nd_net nd) (in_body rq)) activity_from_value = Some a"
    and owner: "ensure_signature_owner_matches_actor nd key_id a w1 = (Inr (), w2)"
    and run: "handle_inbox_activity nd \<lparr> ib_account_id = i, ib_account_nanoid = nano, ib_activity = a \<rparr> w2 = (Inr (), w')"
    by (auto simp: srv_bind_Inr_iff result_iffs ok_or_def split: signature_verification_result.splits option.splits)
  from find_account_run [OF i] obtain account where
    account: "account_find_by_nanoid (nd_env nd) nano (w_db w) = Some account" "acc_id account = i" by auto
  from owner_check_run [OF owner] obtain key where
    "fetch_actor_key (nd_fd nd) key_id w1 = (Inr key, w2)" "same_activitypub_id (apk_owner key) (av_actor a)"
    "signature_key_document_matches_actor (nd_net nd) key_id (av_actor a)" by auto
  with that s ct account v [unfolded key_id] a run show ?thesis by blast
qed

text \<open>Handlers that leave the database alone, and handlers that do so when they fail.\<close>

definition steady :: "'a handler \<Rightarrow> bool" where
  "steady m \<longleftrightarrow> (\<forall>w. w_db (snd (m w)) = w_db w)"

definition refuses_quietly :: "'a handler \<Rightarrow> bool" where
  "refuses_quietly m \<longleftrightarrow> (\<forall>w e w'. m w = (Inl e, w') \<longrightarrow> federation_view (w_db w') = federation_view (w_db w))"

lemma steady_run: "steady m \<Longrightarrow> m w = (r, w') \<Longrightarrow> w_db w' = w_db w"
  unfolding steady_def by (metis snd_conv)

lemma steadyI: "(\<And>w r w'. m w = (r, w') \<Longrightarrow> w_db w' = w_db w) \<Longrightarrow> steady m"
  unfolding steady_def by (metis prod.collapse)

lemma refuses_bind: "steady m \<Longrightarrow> (\<And>x. refuses_quietly (f x)) \<Longrightarrow> refuses_quietly (srv_bind m f)"
  unfolding refuses_quietly_def srv_bind_Inl_iff by (metis steady_run)

lemma refuses_lift: "refuses_quietly (srv_lift r)"
  by (simp add: refuses_quietly_def)

lemma refuses_handled: "refuses_quietly (srv_bind (srv_op (handle_inbox_activity nd dto)) (\<lambda>_. srv_lift (Inr s)))"
  by (auto simp: refuses_quietly_def srv_iffs dest: inbox_activity_error)

lemma steady_parts:
  "steady (srv_lift r)" "steady (find_account_id_by_nanoid nd nano)"
  "steady (srv_op (verify_http_signature fd c request))" "steady (ensure_signature_owner_matches_actor nd key_id a)"
proof -
  show "steady (srv_lift r)" by (simp add: steady_def srv_lift_def)
  show "steady (find_account_id_by_nanoid nd nano)" by (rule steadyI) (auto dest: find_account_run)
  have "w_db w' = w_db w" if "srv_op (verify_http_signature fd c request) w = (r, w')" for w r w'
    using that by (cases r) (auto dest: verify_same_db)
  then show "steady (srv_op (verify_http_signature fd c request))" by (rule steadyI)
  show "steady (ensure_signature_owner_matches_actor nd key_id a)"
    by (rule steadyI) (auto dest!: owner_check_run fetch_key_same_db)
qed

lemma refuses_case:
  "(\<And>key_id. refuses_quietly (m key_id)) \<Longrightarrow>
     refuses_quietly (case v of Invalid reason \<Rightarrow> srv_lift (Inl s) | Valid key_id \<Rightarrow> m key_id)"
  by (cases v) (simp_all add: refuses_lift)

lemma post_inbox_refuses: "refuses_quietly (post_inbox nd nano rq)"
  unfolding post_inbox_def Let_def
  by (auto intro!: refuses_bind refuses_case refuses_lift refuses_handled steady_parts)

text \<open>C6. 
  An accepted request has status 202, is posted to an existing visible account, has a body that
  parses as an activity, a digest of that body, a date at most five minutes off and a signature
  over target, host, date and digest that verifies under a key whose document is the actor and
  whose owner is the actor. It changes nothing but relations between that actor and the account
  (and the outbox and the cache of remote accounts). A refused request changes no relation and
  no account at all.
\<close>

theorem inbox_authentic:
  assumes run: "post_inbox nd nano rq w = (r, w')" and ok: "tables_ok (w_db w)"
  shows "case r of
      Inl e \<Rightarrow> federation_view (w_db w') = federation_view (w_db w)
    | Inr s \<Rightarrow> s = 202 \<and> body_digest_ok nd rq \<and> date_fresh nd rq \<and>
        (\<exists>account a key_id key key' w1 w2.
           account_find_by_nanoid (nd_env nd) nano (w_db w) = Some account \<and>
           Option.bind (json_parse (nd_net nd) (in_body rq)) activity_from_value = Some a \<and>
           fetch_actor_key (nd_fd nd) key_id w = (Inr key, w1) \<and> signed_request nd rq key_id (apk_public_key_pem key) \<and>
           signature_key_document_matches_actor (nd_net nd) key_id (av_actor a) \<and>
           fetch_actor_key (nd_fd nd) key_id w1 = (Inr key', w2) \<and> same_activitypub_id (apk_owner key') (av_actor a) \<and>
           inbox_effect \<lparr> ib_account_id = acc_id account, ib_account_nanoid = nano, ib_activity = a \<rparr> (w_db w) (w_db w'))"
proof (cases r)
  case (Inl e)
  from post_inbox_refuses run [unfolded Inl] have "federation_view (w_db w') = federation_view (w_db w)"
    unfolding refuses_quietly_def by blast
  with Inl show ?thesis by simp
next
  case (Inr s)
  from run [unfolded Inr] obtain account a key_id and key' w1 w2 where s: "s = 202"
    and account: "account_find_by_nanoid (nd_env nd) nano (w_db w) = Some account"
    and verified: "verify_http_signature (nd_fd nd) (nd_crates nd) (verification_input nd rq) w = (Inr (Valid key_id), w1)"
    and a: "Option.bind (json_parse (nd_net nd) (in_body rq)) activity_from_value = Some a"
    and owner: "fetch_actor_key (nd_fd nd) key_id w1 = (Inr key', w2)" "same_activitypub_id (apk_owner key') (av_actor a)"
      "signature_key_document_matches_actor (nd_net nd) key_id (av_actor a)"
    and handled: "handle_inbox_activity nd \<lparr> ib_account_id = acc_id account, ib_account_nanoid = nano, ib_activity = a \<rparr> w2 = (Inr (), w')"
    by (rule post_inbox_accepted)
  from verified obtain key where key: "fetch_actor_key (nd_fd nd) key_id w = (Inr key, w1)"
    and signed: "signed_request nd rq key_id (apk_public_key_pem key)" "body_digest_ok nd rq" "date_fresh nd rq"
    by (rule verified_request)
  have db: "w_db w2 = w_db w" using fetch_key_same_db [OF key] fetch_key_same_db [OF owner(1)] by simp
  from inbox_activity_effect [OF handled] ok
  have "inbox_effect \<lparr> ib_account_id = acc_id account, ib_account_nanoid = nano, ib_activity = a \<rparr> (w_db w) (w_db w')"
    by (simp add: db)
  with Inr s account a key signed owner show ?thesis by simp blast
qed

subsection \<open>An example\<close>

definition alice_like :: activity where
  "alice_like = \<lparr> av_context = None, av_id = ''https://remote.example/likes/1'', av_type = ''Like'', av_actor = alice_url,
     av_object = None, av_target = None, av_to = None, av_cc = None \<rparr>"

definition alice_key_id :: string where "alice_key_id = alice_url @ ''#main-key''"

text \<open>Alice with the key that the example primitives generate from the seed 7.\<close>

definition alice_signer :: actor where
  "alice_signer =
     actor_new (actor_url_builder_new ''https://remote.example'' ''alice'') ''alice'' None None
       \<lparr> ai_icon_url = None, ai_banner_url = None \<rparr> ''7'' alice_key_id"

definition route_node :: node where
  "route_node = pair_node \<lparr> nd_fd := example_fd \<lparr> fd_app := (fd_app example_fd) \<lparr> ap_base_url := ''https://home.example'' \<rparr>, fd_net :=
     table_net [(alice_url, ok_page ''alice'')]
       [(''alice'', actor_to_value alice_signer), (''{}'', activity_document alice_like)] \<rparr> \<rparr>"

abbreviation route_digest :: string where "route_digest \<equiv> delivery_digest (nd_net route_node) ''{}''"

definition route_data :: string where
  "route_data = join_lines [''(request-target): post /ap/accounts/n1/inbox'', ''host: home.example'', ''date: 0'',
     ''digest: '' @ route_digest]"

definition like_request :: inbound_request where
  "like_request = \<lparr> in_method = ''POST'', in_original_uri = ''/ap/accounts/n1/inbox'',
     in_headers = [(''host'', ''home.example''), (''date'', ''0''), (''digest'', route_digest),
       (''content-type'', ''application/activity+json''),
       (''signature'', cavage_header alice_key_id ''rsa-sha256'' signed_components
         (hex_text (''7'' @ route_data)))],
     in_body = ''{}'' \<rparr>"

lemma route_net:
  "url_parse (nd_net route_node) = simple_url" "url_without_fragment (nd_net route_node) = cut_fragment"
  "nd_env route_node = keto_env 60" "nd_base_url route_node = ''https://home.example''"
  "json_parse (nd_net route_node) ''{}'' = Some (activity_document alice_like)"
  "base64_encode (nd_net route_node) = hex_text" "nd_crates route_node = toy_crates"
  "client_builds (nd_net route_node)" "sha256 (nd_net route_node) = (\<lambda>s. s)"
  "http_send (nd_net route_node) rqs rq =
     (if u_as_str (rq_url rq) = alice_url then Some (ok_page ''alice'') else None)"
  "json_parse (nd_net route_node) ''alice'' = Some (actor_to_value alice_signer)"
  "parse_http_date (nd_net route_node) ''0'' = Some 0"
  by (simp_all add: route_node_def pair_node_def example_fd_def table_net_def) code_simp

lemma route_base64: "base64_crate (nd_net route_node)"
  by (simp add: route_node_def)

lemma like_parses:
  "Option.bind (json_parse (nd_net route_node) (in_body like_request)) activity_from_value = Some alice_like"
  by (simp add: like_request_def route_net activity_document_roundtrip no_null_values_def alice_like_def)

lemma route_fetch_guard:
  "key_validate_fetch_url (nd_fd route_node) alice_parsed w = (Inr [(V4 (ipv4_new 93 184 216 34), 443)], w)"
proof -
  have "host_lowercase ''remote.example'' = ''remote.example''"
    by (simp add: host_lowercase_def to_ascii_lowercase_def ascii_lower_def trim_end_matches_def)
  moreover have "\<not> is_localhost ''remote.example''"
    by (simp add: is_localhost_def ends_with_def starts_with_def)
  ultimately show ?thesis
    using remote_example_host public_example
    by (simp add: key_validate_fetch_url_def alice_parsed_def op_bind_def resolve_public_def
        validate_public_ip_def route_node_def table_net_def)
qed

lemma alice_key_document:
  "actor_public_key_from_json alice_key_id (actor_to_value alice_signer) =
     Some \<lparr> apk_id = alice_key_id, apk_owner = alice_url, apk_public_key_pem = ''7'' \<rparr>"
  by (simp add: actor_public_key_from_json_def actor_to_value_def public_key_to_value_def alice_signer_def actor_new_def
      key_value_matches_key_id_def public_key_value_to_actor_key_def alice_key_id_def ser_opt_def json_get_str_def
      actor_id_def actor_url_builder_new_def alice_url_def trim_end_matches_def ACTORS_PATH_def)

lemma alice_key_fetched:
  "\<exists>w'. fetch_actor_key (nd_fd route_node) alice_key_id w =
     (Inr \<lparr> apk_id = alice_key_id, apk_owner = alice_url, apk_public_key_pem = ''7'' \<rparr>, w')"
proof -
  have u: "\<exists>u. simple_url alice_key_id = Some u \<and> cut_fragment u = alice_parsed"
    by (simp add: simple_url_def alice_key_id_def alice_url_def alice_parsed_def strip_prefix_def starts_with_def cut_fragment_def)
  then obtain u where u: "simple_url alice_key_id = Some u" "cut_fragment u = alice_parsed" by blast
  have six: "(6 :: nat) = Suc 5" by simp
  have "\<exists>w'. fetch_limited_json (nd_fd route_node) 6 alice_parsed w = (Inr (actor_to_value alice_signer), w')"
    unfolding six fetch_limited_json.simps op_bind_def
    by (simp add: route_fetch_guard key_client_for_url_def pinned_addresses_def remote_example_host send_request_run
        route_net ok_page_def is_redirection_def is_success_def MAX_RESPONSE_BYTES_def)
  then show ?thesis using u route_net(1,2)
    by (auto simp: fetch_actor_key_def op_bind_def alice_key_document)
qed

lemma route_visible:
  "header_visible (cavage_header alice_key_id ''rsa-sha256'' signed_components (hex_text (''7'' @ route_data)))"
  "header_visible route_digest"
proof -
  have "key_id_ok alice_key_id"
    by (simp add: key_id_ok_def alice_key_id_def alice_url_def ascii_graphic_def)
  then show "header_visible (cavage_header alice_key_id ''rsa-sha256'' signed_components (hex_text (''7'' @ route_data)))"
    using cavage_header_visible [OF _ route_base64 refl, of alice_key_id "''7'' @ route_data"] by (simp add: route_net(6))
  show "header_visible route_digest"
    by (simp add: delivery_digest_def route_net hex_text_def header_visible_def)
qed

lemma route_header_map: "headers_to_map (in_headers like_request) = in_headers like_request"
  using route_visible
  by (simp add: headers_to_map_def like_request_def header_insert_def header_visible_def)

lemma route_headers:
  "get_header (in_headers like_request) ''host'' = Some ''home.example''"
  "get_header (in_headers like_request) ''date'' = Some ''0''"
  "get_header (in_headers like_request) ''digest'' = Some route_digest"
  "get_header (in_headers like_request) ''signature'' =
     Some (cavage_header alice_key_id ''rsa-sha256'' signed_components (hex_text (''7'' @ route_data)))"
  "get_header (in_headers like_request) ''signature-input'' = None"
  using delivered_headers [of "in_headers like_request", OF arg_cong [OF _, of _ _ mset]]
  by (simp_all add: like_request_def)

lemma like_verified:
  "\<exists>w'. verify_http_signature (nd_fd route_node) toy_crates (verification_input route_node like_request) w =
     (Inr (Valid alice_key_id), w')"
proof -
  let ?r = "verification_input route_node like_request"
  have headers: "sr_headers ?r = in_headers like_request" "sr_method ?r = ''POST''" "body_bytes ?r = ''{}''"
    "sr_url ?r = ''https://home.example/ap/accounts/n1/inbox''"
    by (simp_all add: verification_input_def route_header_map body_bytes_def)
      (simp_all add: like_request_def route_net trim_end_matches_def)
  obtain w' where key: "fetch_actor_key (nd_fd route_node) alice_key_id w =
     (Inr \<lparr> apk_id = alice_key_id, apk_owner = alice_url, apk_public_key_pem = ''7'' \<rparr>, w')"
    using alice_key_fetched by blast
  note route_base64
  moreover have "plain alice_key_id" by (simp add: plain_def alice_key_id_def alice_url_def ascii_graphic_def) 
  moreover have "cavage_signing_string (nd_net route_node) ?r signed_components = Some route_data"
    by (simp add: cavage_signing_string_def headers route_net signing_line_def route_headers simple_url_def
        strip_prefix_def starts_with_def to_ascii_lowercase_def ascii_lower_def route_data_def) code_simp
  moreover have "validate_date_header (nd_net route_node) (nd_env route_node) ?r = Inr ()"
    by (simp add: validate_date_Inr headers route_headers route_net DATE_TOLERANCE_def keto_env_def clock_env_def)
  moreover have "validate_digest_header (nd_net route_node) ?r = Inr ()"
    by (rule received_digest [OF route_base64 _ headers(3)]) (simp_all add: headers route_headers same_crates_def)
  moreover have "rsa2048_verify toy_crates route_data (''7'' @ route_data) ''7'' = Inr True"
    by (simp add: rsa2048_verify_def crate_verify_def toy_crates_def toy_rsa_def toy_signatures_def from_utf8_def)
  ultimately have "verify_http_signature (nd_fd route_node) toy_crates ?r w = (Inr (Valid alice_key_id), w')"
    by (intro signed_request_valid [where components = signed_components, OF _ _ _ _ _ _ _ _ key])
      (simp_all add: headers route_headers route_net)
  then show ?thesis by blast
qed

lemma route_host: "public_base_host_header route_node = Inr ''home.example''"
  by (simp add: public_base_host_header_def route_net simple_url_def strip_prefix_def starts_with_def)

lemma n1_text: "trim_text ''n1'' \<noteq> []"
  by code_simp

lemma alice_key_matches: "signature_key_document_matches_actor (nd_net route_node) alice_key_id alice_url"
  by (simp add: signature_key_document_matches_actor_def route_net simple_url_def alice_key_id_def alice_url_def
      strip_prefix_def starts_with_def cut_fragment_def same_activitypub_id_def)

lemma like_accepted: "\<exists>w'. post_inbox route_node ''n1'' like_request service_world = (Inr 202, w')"
proof -
  obtain w1 where v: "verify_http_signature (nd_fd route_node) toy_crates (verification_input route_node like_request)
      service_world = (Inr (Valid alice_key_id), w1)" using like_verified by blast
  obtain w2 where "fetch_actor_key (nd_fd route_node) alice_key_id w1 =
     (Inr \<lparr> apk_id = alice_key_id, apk_owner = alice_url, apk_public_key_pem = ''7'' \<rparr>, w2)"
    using alice_key_fetched by blast
  then have "ensure_signature_owner_matches_actor route_node alice_key_id alice_like w1 = (Inr (), w2)"
    using alice_key_matches
    by (simp add: ensure_signature_owner_matches_actor_def srv_bind_Inr_iff ensure_def alice_like_def same_activitypub_id_def)
  moreover have hdr: "header_str ''host'' (in_headers like_request) = Some ''home.example''"
    "header_str ''content-type'' (in_headers like_request) = Some ''application/activity+json''"
    by (simp_all add: header_str_def like_request_def header_visible_def)
  moreover have "find_account_id_by_nanoid route_node ''n1'' service_world = (Inr 7, service_world)"
    using service_world_lookup(2) [of 60] n1_text
    by (simp add: find_account_id_by_nanoid_def srv_bind_def srv_op_def srv_lift_def route_net service_account_def)
  moreover have "ensure_host_matches_public_base_url ''home.example'' (in_headers like_request) = Inr ()"
    by (simp add: ensure_host_matches_public_base_url_def hdr eq_ignore_ascii_case_def ensure_def)
  moreover have "handle_inbox_activity route_node \<lparr> ib_account_id = 7, ib_account_nanoid = ''n1'', ib_activity = alice_like \<rparr> w2 = (Inr (), w2)"
    by (simp add: handle_inbox_activity_def alice_like_def)
  ultimately show ?thesis
    using v like_parses by (simp add: post_inbox_def srv_bind_run route_host route_net)
qed

theorem inbox_authentic_witness:
  "\<exists>w'. post_inbox route_node ''n1'' like_request service_world = (Inr 202, w') \<and>
     body_digest_ok route_node like_request \<and> date_fresh route_node like_request"
proof -
  obtain w' where run: "post_inbox route_node ''n1'' like_request service_world = (Inr 202, w')"
    using like_accepted by blast
  have "tables_ok (w_db service_world)"
    by (simp add: tables_ok_def follow_table_ok_def block_table_ok_def remote_accounts_ok_def holds_follows_def
        holds_blocks_def service_world_def empty_db_def pair_wf_def)
  from inbox_authentic [OF run this] run show ?thesis by auto
qed

end
