(* ===== verification/Federation_Theorems.thy ===== *)
theory Federation_Theorems
  imports Inbox_Route_Theorems
begin

text \<open>
  Two servers together: what one delivers, the inbox route of the other accepts.
\<close>

subsection \<open>Headers on arrival\<close>

lemma headers_to_map_snoc:
  "headers_to_map (hs @ [(name, value)]) =
     (if header_visible value then header_insert name value (headers_to_map hs) else headers_to_map hs)"
  by (simp add: headers_to_map_def)

lemma headers_to_map_same:
  "distinct (map fst hs) \<Longrightarrow> list_all (header_visible \<circ> snd) hs \<Longrightarrow> headers_to_map hs = hs"
proof (induction hs rule: rev_induct)
  case (snoc h hs)
  then show ?case
    by (cases h) (auto simp: headers_to_map_snoc header_insert_def map_of_eq_None_iff split: if_splits dest: map_of_SomeD)
qed (simp add: headers_to_map_def)

lemma header_str_mem:
  "distinct (map fst hs) \<Longrightarrow> list_all (header_visible \<circ> snd) hs \<Longrightarrow> (name, value) \<in> set hs \<Longrightarrow>
     header_str name hs = Some value"
  by (auto simp: header_str_def list_all_iff map_of_eq_Some_iff)

lemma delivered_headers_arrive:
  assumes "mset hs = mset [(''host'', host), (''date'', date), (''digest'', digest), (''content-type'', ACTIVITY_JSON),
      (''signature'', sg)]"
    and "header_visible host" "header_visible date" "header_visible digest" "header_visible sg"
  shows "headers_to_map hs = hs" "header_str ''host'' hs = Some host"
    "header_str ''content-type'' hs = Some ''application/activity+json''"
proof -
  have "mset (map fst hs) = mset [''host'', ''date'', ''digest'', ''content-type'', ''signature'']"
    using arg_cong [OF assms(1), of "image_mset fst"] by simp
  from mset_eq_imp_distinct_iff [OF this] have "distinct (map fst hs)" by simp
  moreover have set: "set hs = {(''host'', host), (''date'', date), (''digest'', digest),
      (''content-type'', ACTIVITY_JSON), (''signature'', sg)}"
    using mset_eq_setD [OF assms(1)] by simp
  moreover have "header_visible ACTIVITY_JSON" by (simp add: ACTIVITY_JSON_def header_visible_def)
  then have "list_all (header_visible \<circ> snd) hs" using assms(2-) by (simp add: list_all_iff set)
  ultimately show "headers_to_map hs = hs" "header_str ''host'' hs = Some host"
    "header_str ''content-type'' hs = Some ''application/activity+json''"
    by (simp_all add: headers_to_map_same header_str_mem ACTIVITY_JSON_def)
qed

lemma delivery_digest_visible: "base64_crate n \<Longrightarrow> header_visible (delivery_digest n body)"
proof -
  assume "base64_crate n"
  then have "list_all ascii_graphic (base64_encode n (sha256 n body))"
    using base64_char_graphic unfolding base64_crate_def list_all_iff by blast
  then have "header_visible (base64_encode n (sha256 n body))" by (rule graphic_visible)
  then show ?thesis by (simp add: delivery_digest_def header_visible_def)
qed

subsection \<open>Delivery between servers\<close>


subsection \<open>An example\<close>

text \<open>A signer that does what the crates promise.\<close>

definition toy_signing :: "network \<Rightarrow> signing_crates" where
  "toy_signing n =
     \<lparr> http_build = (\<lambda>request. Some (map (\<lambda>(k, v). (to_ascii_lowercase k, v)) (sr_headers request))),
       cavage_request_sign = (\<lambda>request hs key_id algorithm sign components.
         map_option (\<lambda>data. hs @ [(''signature'', cavage_header key_id algorithm components (base64_encode n (sign data)))])
           (cavage_signing_string n (request \<lparr> sr_headers := hs \<rparr>) components)),
       rfc9421_request_sign = (\<lambda>request hs key_id algorithm sign components. Some hs) \<rparr>"

lemma toy_signing_ok: "cavage_crate n (toy_signing n)"
  by (auto simp: cavage_crate_def toy_signing_def)

definition n1_inbox :: string where
  "n1_inbox = ''https://home.example/ap/accounts/n1/inbox''"

definition sender_node :: node where
  "sender_node =
     \<lparr> nd_fd = \<lparr> fd_app = \<lparr> ap_env = keto_env 60, ap_crypto = plain_crypto, ap_base_url = ''https://remote.example'' \<rparr>,
                fd_net = table_net [(n1_inbox, ok_page [])] [], fd_allowed_hosts = None \<rparr>,
       nd_crates = toy_crates, nd_signing = toy_signing (table_net [(n1_inbox, ok_page [])] []), nd_debug = (\<lambda>_ _. []) \<rparr>"

definition sender_key :: signing_key where
  "sender_key = \<lparr> sk_id = 1, sk_account_id = 7, sk_algorithm = Rsa2048,
     sk_encrypted_private_key = \<lparr> ep_ciphertext = ''7'', ep_nonce = [], ep_salt = ''secret'', ep_algorithm = Rsa2048 \<rparr>,
     sk_public_key_pem = ''7'', sk_key_id_uri = alice_key_id, sk_created_at = 0, sk_revoked_at = None \<rparr>"

definition sender_world :: world where
  "sender_world = empty_world \<lparr> w_db := empty_db \<lparr> t_signing_keys := [row_of_signing_key sender_key] \<rparr> \<rparr>"

definition n1_url :: url where
  "n1_url = \<lparr> u_as_str = n1_inbox, u_scheme = ''https'', u_username = [], u_password = None,
     u_host_str = Some ''home.example'', u_port = None, u_port_or_known_default = Some 443,
     u_path = ''/ap/accounts/n1/inbox'', u_query = None \<rparr>"

lemma n1_url_parsed: "simple_url n1_inbox = Some n1_url"
  by (simp add: simple_url_def n1_inbox_def n1_url_def strip_prefix_def starts_with_def)

lemma sender_net:
  "url_parse (nd_net sender_node) = simple_url" "client_builds (nd_net sender_node)"
  "nd_env sender_node = keto_env 60" "nd_crates sender_node = toy_crates"
  "base64_crate (nd_net sender_node)" "httpdate_crate (nd_net sender_node)"
  "cavage_crate (nd_net sender_node) (nd_signing sender_node)"
  "same_crates (nd_net sender_node) (nd_net route_node)"
  "json_print (nd_net sender_node) = (\<lambda>_. ''{}'')"
  "http_send (nd_net sender_node) rqs rq = (if u_as_str (rq_url rq) = n1_inbox then Some (ok_page []) else None)"
  "ap_crypto (nd_app sender_node) = plain_crypto"
  by (simp_all add: sender_node_def toy_signing_ok)
    (simp_all add: table_net_def same_crates_def route_node_def)

lemma sender_guard: "validate_fetch_url (nd_fd sender_node) n1_url w = (Inr [(V4 (ipv4_new 93 184 216 34), 443)], w)"
proof -
  have "host_lowercase ''home.example'' = ''home.example''"
    by (simp add: host_lowercase_def to_ascii_lowercase_def ascii_lower_def trim_end_matches_def)
  moreover have "\<not> is_localhost ''home.example''"
    by (simp add: is_localhost_def ends_with_def starts_with_def)
  moreover have "parse_ip_addr ''home.example'' = None"
    by (rule parse_ip_addr_name) (simp_all add: hex_val_def)
  ultimately show ?thesis
    using public_example
    by (simp add: validate_fetch_url_def n1_url_def op_bind_def resolve_public_def
        is_fetch_host_allowed_def validate_public_ip_def sender_node_def table_net_def)
qed

lemma sender_key_found: "signing_key_find_active_by_account_id 7 (w_db sender_world) = Inr [sender_key]"
  by (simp add: signing_key_find_active_by_account_id_def sender_world_def row_of_signing_key_def sender_key_def
      signing_key_try_from_def signing_algorithm_parse_def)

lemma sender_signs:
  "\<exists>sig. http_signer_sign (nd_signing sender_node) toy_crates
     (delivery_signing_request n1_inbox ''home.example'' date digest body) ''7'' alice_key_id Rsa2048 = Inr sig"
proof -
  have "\<exists>sign. rsa_signer_key toy_crates ''7'' = Inr sign"
    by (simp add: rsa_signer_key_def toy_crates_def toy_rsa_def toy_signatures_def from_utf8_def)
  moreover have "\<exists>data. cavage_signing_string (nd_net sender_node)
      (delivery_signing_request n1_inbox ''home.example'' date digest body \<lparr> sr_headers :=
         map (\<lambda>(k, v). (to_ascii_lowercase k, v)) (sr_headers (delivery_signing_request n1_inbox ''home.example'' date digest body)) \<rparr>)
      signed_components = Some data"
    by (simp add: cavage_signing_string_def sender_net signing_line_def delivery_signing_request_def get_header_def
        n1_url_parsed eq_ignore_ascii_case_def to_ascii_lowercase_def ascii_lower_def)
  ultimately show ?thesis
    by (auto simp: http_signer_sign_def sender_node_def toy_signing_def Let_def delivery_request_headers)
qed

lemma sender_delivers: "\<exists>w'. deliver_activity_to_inbox sender_node 7 n1_inbox alice_like sender_world = (Inr (), w')"
proof -
  have host: "host_header n1_url = Inr ''home.example''" by (simp add: host_header_def n1_url_def)
  obtain sig where sig: "http_signer_sign (nd_signing sender_node) toy_crates
     (delivery_signing_request n1_inbox ''home.example'' (fmt_http_date (nd_net sender_node) (now_utc (keto_env 60)))
        (delivery_digest (nd_net sender_node) ''{}'') ''{}'') ''7'' alice_key_id Rsa2048 = Inr sig"
    using sender_signs by blast
  have "\<exists>request. signed_delivery sender_node 7 n1_inbox n1_url ''{}'' sender_world = (Inr request, sender_world) \<and>
      (\<forall>client. u_as_str (rq_url (request client)) = n1_inbox)"
    using sig
    by (simp add: signed_delivery_def Let_def op_bind_def host sender_key_found list_next_def sender_net plain_crypto_def
        sender_key_def op_return_def) (simp add: delivery_request_def n1_url_def)
  then show ?thesis
    by (auto simp: deliver_activity_to_inbox_def op_bind_def sender_net n1_url_parsed sender_guard client_for_url_def
        send_request_run ok_page_def is_success_def ensure_def)
qed

lemma sender_date: "header_visible (fmt_http_date (nd_net sender_node) (now_utc (nd_env sender_node)))"
proof -
  have "header_visible (int_to_string 0)" by code_simp
  then show ?thesis by (simp add: sender_node_def table_net_def keto_env_def clock_env_def)
qed

lemma sender_pair:
  "rsa2048_generate_raw toy_crates 7 = Inr \<lparr> rk_public_key_pem = ''7'', rk_private_key_pem = ''7'', rk_algorithm = Rsa2048 \<rparr>"
  by (simp add: rsa2048_generate_raw_def raw_generator_def toy_crates_def toy_rsa_def toy_signatures_def) code_simp

lemma sender_opens:
  "get_password plain_crypto = Inr password \<Longrightarrow>
     decrypt_key plain_crypto (sk_encrypted_private_key sender_key) password = Inr ''7''"
  by (simp add: plain_crypto_def sender_key_def)


end
