(* ===== verification/Auth.thy ===== *)
theory Auth
  imports Inbox_Route
begin

text \<open>
  Authentication of API requests (\<open>server/src/auth.rs\<close>): the cache of the public keys of the
  identity provider with its limited refetching, the bearer token and its validation, and the
  auth account that the claims stand for (\<open>resolve_auth_account_id\<close> of
  \<open>server/src/api/mod.rs\<close>). The \<open>jsonwebtoken\<close> crate and the identity provider are
  parameters; what the provider answers may depend on all requests sent to it before. Instants
  are nanoseconds.
\<close>

subsection \<open>Data\<close>

record oidc_config =
  oc_issuer_url :: string
  oc_expected_audience :: string
  oc_jwks_refetch_interval_secs :: nat

definition oidc_config_from_env :: "(string \<Rightarrow> string option) \<Rightarrow> oidc_config" where
  "oidc_config_from_env var =
     \<lparr> oc_issuer_url = (case var ''HYDRA_ISSUER_URL'' of Some v \<Rightarrow> v | None \<Rightarrow> ''http://localhost:4444''),
       oc_expected_audience = (case var ''EXPECTED_AUDIENCE'' of Some v \<Rightarrow> v | None \<Rightarrow> ''emumet''),
       oc_jwks_refetch_interval_secs = 300 \<rparr>"

datatype one_or_many = One string | Many "string list"

record auth_claims =
  ac_iss :: string
  ac_sub :: string
  ac_aud :: one_or_many
  ac_exp :: nat

record oidc_auth_info =
  oi_issuer :: string
  oi_subject :: string

definition oidc_auth_info_from :: "auth_claims \<Rightarrow> oidc_auth_info" where
  "oidc_auth_info_from claims = \<lparr> oi_issuer = ac_iss claims, oi_subject = ac_sub claims \<rparr>"

text \<open>The key algorithms of a \<open>Jwk\<close> by their names; \<open>jwk_parameters\<close> is the key material.\<close>

record jwk =
  jwk_key_id :: "string option"
  jwk_key_algorithm :: "string option"
  jwk_parameters :: string

type_synonym jwk_set = "jwk list"
type_synonym decoding_key = string

record jwt_validation =
  jv_algorithm :: string
  jv_audience :: "string list"
  jv_issuer :: "string list"

text \<open>
  The \<open>jsonwebtoken\<close> crate: \<open>decode_header\<close> yields the \<open>kid\<close> of a well-formed header,
  \<open>jwt_decode\<close> the claims of a valid token at a time, in seconds.
\<close>

record jwt_crate =
  jwks_find :: "jwk_set \<Rightarrow> string \<Rightarrow> jwk option"
  from_jwk :: "jwk \<Rightarrow> decoding_key option"
  decode_header :: "string \<Rightarrow> string option option"
  jwt_decode :: "int \<Rightarrow> string \<Rightarrow> decoding_key \<Rightarrow> jwt_validation \<Rightarrow> auth_claims option"

subsection \<open>The cache of keys\<close>

record jwks_cache =
  jc_jwks :: "jwk_set option"
  jc_jwks_uri :: "string option"
  jc_last_fetch :: int
  jc_issuer_url :: string
  jc_min_refetch_interval :: nat

datatype idp_request = Discovery string | Jwks string

text \<open>
  The identity provider: how long it takes to answer, the \<open>jwks_uri\<close> of a discovery document
  and a set of keys. \<open>None\<close> is a request that failed, \<open>Some None\<close> an answer that does
  not parse.
\<close>

record idp =
  idp_latency :: "(int \<times> idp_request) list \<Rightarrow> nat"
  idp_discovery :: "(int \<times> idp_request) list \<Rightarrow> string \<Rightarrow> string option option"
  idp_jwks :: "(int \<times> idp_request) list \<Rightarrow> string \<Rightarrow> jwk_set option option"

text \<open>The cache, the clock, and the requests sent, with the instants at which they were sent.\<close>

record jwks_world =
  jw_cache :: jwks_cache
  jw_now :: int
  jw_log :: "(int \<times> idp_request) list"

definition idp_get :: "idp \<Rightarrow> idp_request \<Rightarrow> jwks_world \<Rightarrow> jwks_world" where
  "idp_get p rq w =
     w \<lparr> jw_now := jw_now w + int (idp_latency p (jw_log w)), jw_log := jw_log w @ [(jw_now w, rq)] \<rparr>"

text \<open>\<open>Instant::checked_sub\<close>: seconds of 64 bits.\<close>

definition instant_checked_sub :: "int \<Rightarrow> nat \<Rightarrow> int option" where
  "instant_checked_sub t d =
     (if t - int d < - (2 ^ 63) * 1000000000 then None else Some (t - int d))"

definition jwks_cache_new :: "string \<Rightarrow> nat \<Rightarrow> int \<Rightarrow> jwks_cache" where
  "jwks_cache_new issuer_url min_refetch_interval now =
     (let initial_last_fetch =
            (case instant_checked_sub now (min_refetch_interval + 1000000000) of Some t \<Rightarrow> t | None \<Rightarrow> now)
      in \<lparr> jc_jwks = None, jc_jwks_uri = None, jc_last_fetch = initial_last_fetch,
           jc_issuer_url = issuer_url, jc_min_refetch_interval = min_refetch_interval \<rparr>)"

definition fetch_jwks_inner :: "idp \<Rightarrow> string \<Rightarrow> jwks_world \<Rightarrow> jwks_world" where
  "fetch_jwks_inner p jwks_uri w =
     (let w' = idp_get p (Jwks jwks_uri) w in
      case idp_jwks p (jw_log w) jwks_uri of
        Some (Some jwks) \<Rightarrow>
          w' \<lparr> jw_cache := (jw_cache w') \<lparr> jc_jwks := Some jwks, jc_last_fetch := jw_now w' \<rparr> \<rparr>
      | Some None \<Rightarrow> w' \<lparr> jw_cache := (jw_cache w') \<lparr> jc_last_fetch := jw_now w' \<rparr> \<rparr>
      | None \<Rightarrow> w' \<lparr> jw_cache := (jw_cache w') \<lparr> jc_last_fetch := jw_now w' \<rparr> \<rparr>)"

definition discovery_url :: "string \<Rightarrow> string" where
  "discovery_url issuer_url = trim_end_matches (CHR ''/'') issuer_url @ ''/.well-known/openid-configuration''"

definition try_init :: "idp \<Rightarrow> jwks_world \<Rightarrow> jwks_world" where
  "try_init p w =
     (let url = discovery_url (jc_issuer_url (jw_cache w)); w' = idp_get p (Discovery url) w in
      case idp_discovery p (jw_log w) url of
        Some (Some jwks_uri) \<Rightarrow>
          let w'' = fetch_jwks_inner p jwks_uri w' in
          w'' \<lparr> jw_cache := (jw_cache w'') \<lparr> jc_jwks_uri := Some jwks_uri \<rparr> \<rparr>
      | Some None \<Rightarrow> w'
      | None \<Rightarrow> w')"

definition key_from_cache :: "jwt_crate \<Rightarrow> string \<Rightarrow> jwks_cache \<Rightarrow> decoding_key option" where
  "key_from_cache j kid inner =
     Option.bind (jc_jwks inner) (\<lambda>jwks.
     Option.bind (jwks_find j jwks kid) (\<lambda>jwk.
     case jwk_key_algorithm jwk of
       Some alg \<Rightarrow> if alg \<noteq> ''RS256'' then None else from_jwk j jwk
     | None \<Rightarrow> from_jwk j jwk))"

text \<open>The part of \<open>get_key\<close> that runs with the refresh mutex held.\<close>

definition refresh_key :: "jwt_crate \<Rightarrow> idp \<Rightarrow> string \<Rightarrow> jwks_world \<Rightarrow> decoding_key option \<times> jwks_world" where
  "refresh_key j p kid w =
     (case key_from_cache j kid (jw_cache w) of
        Some key \<Rightarrow> (Some key, w)
      | None \<Rightarrow>
          let elapsed = max 0 (jw_now w - jc_last_fetch (jw_cache w)) in
          if elapsed \<ge> int (jc_min_refetch_interval (jw_cache w)) then
            let w' = (case jc_jwks_uri (jw_cache w) of
                        Some uri \<Rightarrow> fetch_jwks_inner p uri w
                      | None \<Rightarrow> try_init p w)
            in (key_from_cache j kid (jw_cache w'), w')
          else (None, w))"

definition get_key :: "jwt_crate \<Rightarrow> idp \<Rightarrow> string \<Rightarrow> jwks_world \<Rightarrow> decoding_key option \<times> jwks_world" where
  "get_key j p kid w =
     (case key_from_cache j kid (jw_cache w) of
        Some key \<Rightarrow> (Some key, w)
      | None \<Rightarrow> refresh_key j p kid w)"

subsection \<open>The middleware\<close>

definition extract_bearer_token :: "(string \<times> string) list \<Rightarrow> http_status + string" where
  "extract_bearer_token headers =
     res_bind (ok_or 401 (map_of headers ''authorization'')) (\<lambda>header_value.
     res_bind (ok_or 401 (if header_visible header_value then Some header_value else None)) (\<lambda>header_str.
     ok_or 401 (strip_prefix ''Bearer '' header_str)))"

text \<open>The claims that are inserted into the request, or the status of the refusal.\<close>

definition auth_middleware_core ::
  "jwt_crate \<Rightarrow> idp \<Rightarrow> int \<Rightarrow> oidc_config \<Rightarrow> (string \<times> string) list \<Rightarrow> jwks_world \<Rightarrow>
   (http_status + auth_claims) \<times> jwks_world" where
  "auth_middleware_core j p unix_time config headers w =
     (case res_bind (extract_bearer_token headers) (\<lambda>token.
           res_bind (ok_or 401 (decode_header j token)) (\<lambda>header_kid.
           res_bind (ok_or 401 header_kid) (\<lambda>kid. Inr (token, kid)))) of
        Inl status \<Rightarrow> (Inl status, w)
      | Inr (token, kid) \<Rightarrow>
          (case get_key j p kid w of
             (None, w') \<Rightarrow> (Inl 401, w')
           | (Some key, w') \<Rightarrow>
               (ok_or 401 (jwt_decode j unix_time token key
                  \<lparr> jv_algorithm = ''RS256'', jv_audience = [oc_expected_audience config],
                    jv_issuer = [oc_issuer_url config] \<rparr>), w')))"

subsection \<open>The account behind the claims\<close>

definition resolve_auth_account_id :: "env \<Rightarrow> oidc_auth_info \<Rightarrow> int op" where
  "resolve_auth_account_id e auth_info =
     op_bind (query (auth_host_find_by_url (oi_issuer auth_info))) (\<lambda>found.
     op_bind (case found of
         Some auth_host \<Rightarrow> op_return auth_host
       | None \<Rightarrow>
           op_bind (generate_id e) (\<lambda>i.
           let auth_host = \<lparr> ah_id = i, ah_url = oi_issuer auth_info \<rparr> in
           op_bind (exec (auth_host_create auth_host)) (\<lambda>_. op_return auth_host))) (\<lambda>auth_host.
     op_bind (auth_account_find_or_create e (ah_id auth_host) (oi_subject auth_info)) (\<lambda>auth_account.
     op_return (aa_id auth_account))))"

end
