(* ===== verification/Auth_Theorems.thy ===== *)
theory Auth_Theorems
  imports Auth
begin

text \<open>
  What authentication guarantees: whose tokens are accepted, how often the keys of the identity
  provider are fetched, and that one identity always resolves to the same auth account.
\<close>

subsection \<open>Runs of the cache\<close>

text \<open>
  Tasks look keys up concurrently. A lookup in the cache changes nothing, and the refresh mutex
  serialises the rest, so a run is a sequence of refreshes with time passing in between.
\<close>

inductive jwks_step :: "jwt_crate \<Rightarrow> idp \<Rightarrow> jwks_world \<Rightarrow> jwks_world \<Rightarrow> bool" for j p where
  tick: "jwks_step j p w (w \<lparr> jw_now := jw_now w + int d \<rparr>)"
| refresh: "refresh_key j p kid w = (key, w') \<Longrightarrow> jwks_step j p w w'"

text \<open>The start of the server (\<open>main.rs\<close>): an empty cache and a first attempt to fill it.\<close>

definition jwks_start :: "idp \<Rightarrow> oidc_config \<Rightarrow> int \<Rightarrow> jwks_world" where
  "jwks_start p config now =
     try_init p \<lparr> jw_cache = jwks_cache_new (oc_issuer_url config)
                     (oc_jwks_refetch_interval_secs config * 1000000000) now,
                  jw_now = now, jw_log = [] \<rparr>"

fun is_jwks :: "idp_request \<Rightarrow> bool" where
  "is_jwks (Jwks _) = True"
| "is_jwks (Discovery _) = False"

text \<open>The instants at which keys were fetched.\<close>

definition jwks_times :: "(int \<times> idp_request) list \<Rightarrow> int list" where
  "jwks_times log = map fst (filter (is_jwks \<circ> snd) log)"

lemma jwks_times_append [simp]:
  "jwks_times (log @ [(t, Jwks u)]) = jwks_times log @ [t]"
  "jwks_times (log @ [(t, Discovery u)]) = jwks_times log"
  by (simp_all add: jwks_times_def)

definition spaced :: "nat \<Rightarrow> int list \<Rightarrow> bool" where
  "spaced d ts = sorted_wrt (\<lambda>s t. s + int d \<le> t) ts"

text \<open>The fetches are spaced, and the cache remembers the last of them.\<close>

definition cache_ok :: "idp \<Rightarrow> string \<Rightarrow> nat \<Rightarrow> jwks_world \<Rightarrow> bool" where
  "cache_ok p issuer d w \<longleftrightarrow>
     jc_issuer_url (jw_cache w) = issuer \<and> jc_min_refetch_interval (jw_cache w) = d \<and>
     spaced d (jwks_times (jw_log w)) \<and> jc_last_fetch (jw_cache w) \<le> jw_now w \<and>
     list_all (\<lambda>t. t \<le> jc_last_fetch (jw_cache w)) (jwks_times (jw_log w))"

text \<open>Keys and the place they are fetched from are what the provider has answered.\<close>

definition discovered :: "idp \<Rightarrow> string \<Rightarrow> string \<Rightarrow> bool" where
  "discovered p issuer uri \<longleftrightarrow> (\<exists>log. idp_discovery p log (discovery_url issuer) = Some (Some uri))"

definition provided :: "idp \<Rightarrow> string \<Rightarrow> jwk_set \<Rightarrow> bool" where
  "provided p issuer s \<longleftrightarrow> (\<exists>uri log. discovered p issuer uri \<and> idp_jwks p log uri = Some (Some s))"

definition cache_provided :: "idp \<Rightarrow> jwks_world \<Rightarrow> bool" where
  "cache_provided p w \<longleftrightarrow>
     (\<forall>s. jc_jwks (jw_cache w) = Some s \<longrightarrow> provided p (jc_issuer_url (jw_cache w)) s) \<and>
     (\<forall>uri. jc_jwks_uri (jw_cache w) = Some uri \<longrightarrow> discovered p (jc_issuer_url (jw_cache w)) uri)"

lemma cache_tick [simp]:
  "cache_ok p issuer d w \<Longrightarrow> cache_ok p issuer d (w \<lparr> jw_now := jw_now w + int n \<rparr>)"
  "cache_provided p (w \<lparr> jw_now := t \<rparr>) = cache_provided p w"
  by (simp_all add: cache_ok_def cache_provided_def)

lemma cache_provided_uri:
  "cache_provided p w \<Longrightarrow> jc_jwks_uri (jw_cache w) = Some uri \<Longrightarrow> discovered p (jc_issuer_url (jw_cache w)) uri"
  by (simp add: cache_provided_def)

lemma fetch_cache_ok:
  assumes "cache_ok p issuer d w" and "list_all (\<lambda>t. t + int d \<le> jw_now w) (jwks_times (jw_log w))"
  shows "cache_ok p issuer d (fetch_jwks_inner p uri w)"
  using assms
  by (auto simp: cache_ok_def fetch_jwks_inner_def idp_get_def Let_def spaced_def sorted_wrt_append list_all_iff
      split: option.splits)

lemma try_init_cache_ok:
  assumes "cache_ok p issuer d w" and "list_all (\<lambda>t. t + int d \<le> jw_now w) (jwks_times (jw_log w))"
  shows "cache_ok p issuer d (try_init p w)"
proof -
  let ?url = "discovery_url (jc_issuer_url (jw_cache w))"
  have later: "cache_ok p issuer d (idp_get p (Discovery ?url) w)"
    using assms by (simp add: cache_ok_def idp_get_def)
  moreover have "list_all (\<lambda>t. t + int d \<le> jw_now (idp_get p (Discovery ?url) w))
      (jwks_times (jw_log (idp_get p (Discovery ?url) w)))"
    using assms(2) by (fastforce simp: idp_get_def list_all_iff)
  ultimately have "cache_ok p issuer d (fetch_jwks_inner p uri (idp_get p (Discovery ?url) w))" for uri
    by (rule fetch_cache_ok)
  with later show ?thesis
    by (auto simp: try_init_def Let_def cache_ok_def split: option.splits)
qed

lemma refresh_cache_ok:
  assumes "cache_ok p issuer d w" and "refresh_key j p kid w = (key, w')"
  shows "cache_ok p issuer d w'"
proof (cases "w' = w")
  case False
  with assms have "int d \<le> jw_now w - jc_last_fetch (jw_cache w) \<or> d = 0"
    and w': "w' = (case jc_jwks_uri (jw_cache w) of Some uri \<Rightarrow> fetch_jwks_inner p uri w | None \<Rightarrow> try_init p w)"
    by (auto simp: refresh_key_def Let_def cache_ok_def max_def split: option.splits if_splits)
  then have "list_all (\<lambda>t. t + int d \<le> jw_now w) (jwks_times (jw_log w))"
    using assms(1) by (fastforce simp: cache_ok_def list_all_iff)
  with assms(1) show ?thesis unfolding w'
    by (auto intro: fetch_cache_ok try_init_cache_ok split: option.splits)
qed (use assms in simp)

lemma start_cache_ok:
  "cache_ok p (oc_issuer_url config) (oc_jwks_refetch_interval_secs config * 1000000000) (jwks_start p config now)"
  unfolding jwks_start_def
  by (rule try_init_cache_ok)
    (auto simp: cache_ok_def jwks_cache_new_def instant_checked_sub_def spaced_def jwks_times_def Let_def)

lemma reachable_cache_ok:
  assumes "(jwks_step j p)\<^sup>*\<^sup>* (jwks_start p config now) w"
  shows "cache_ok p (oc_issuer_url config) (oc_jwks_refetch_interval_secs config * 1000000000) w"
  using assms
proof (induction rule: rtranclp_induct)
  case base
  show ?case by (rule start_cache_ok)
next
  case (step w w')
  from step.hyps(2) step.IH show ?case
    by cases (auto intro: refresh_cache_ok)
qed

lemma fetch_provided:
  "cache_provided p w \<Longrightarrow> discovered p (jc_issuer_url (jw_cache w)) uri \<Longrightarrow> cache_provided p (fetch_jwks_inner p uri w)"
  by (auto simp: cache_provided_def fetch_jwks_inner_def idp_get_def Let_def provided_def split: option.splits)

lemma try_init_provided:
  assumes "cache_provided p w"
  shows "cache_provided p (try_init p w)"
proof -
  let ?w = "idp_get p (Discovery (discovery_url (jc_issuer_url (jw_cache w)))) w"
  have same: "jw_cache ?w = jw_cache w" by (simp add: idp_get_def)
  have "cache_provided p ?w" using assms by (simp add: cache_provided_def same)
  moreover have "jc_issuer_url (jw_cache (fetch_jwks_inner p uri v)) = jc_issuer_url (jw_cache v)" for uri v
    by (simp add: fetch_jwks_inner_def idp_get_def Let_def split: option.splits)
  ultimately show ?thesis
    using fetch_provided [of p ?w]
    by (auto simp: try_init_def Let_def same discovered_def cache_provided_def split: option.splits)
qed

lemma refresh_provided:
  "cache_provided p w \<Longrightarrow> refresh_key j p kid w = (key, w') \<Longrightarrow> cache_provided p w'"
  by (auto simp: refresh_key_def Let_def intro: try_init_provided fetch_provided cache_provided_uri
      split: option.splits if_splits)

lemma reachable_provided:
  assumes "(jwks_step j p)\<^sup>*\<^sup>* (jwks_start p config now) w"
  shows "cache_provided p w"
  using assms
proof (induction rule: rtranclp_induct)
  case base
  show ?case unfolding jwks_start_def
    by (rule try_init_provided) (simp add: cache_provided_def jwks_cache_new_def Let_def)
next
  case (step w w')
  from step.hyps(2) step.IH show ?case
    by cases (auto intro: refresh_provided)
qed


text \<open>C40. 
  Not so for discovery: while the discovery document cannot be had, every lookup of an unknown
  key sends a request for it at once, since a failed discovery does not count as a fetch.
\<close>

theorem discovery_not_limited:
  assumes "\<And>log url. idp_discovery p log url = None \<or> idp_discovery p log url = Some None"
    and "instant_checked_sub now (oc_jwks_refetch_interval_secs config * 1000000000 + 1000000000) \<noteq> None"
  shows "length (jw_log (fold (\<lambda>kid w. snd (get_key j p kid w)) kids (jwks_start p config now))) = Suc (length kids)"
proof -
  let ?stale = "\<lambda>w. jc_jwks (jw_cache w) = None \<and> jc_jwks_uri (jw_cache w) = None \<and>
      int (jc_min_refetch_interval (jw_cache w)) \<le> jw_now w - jc_last_fetch (jw_cache w)"
  have init: "try_init p w = idp_get p (Discovery (discovery_url (jc_issuer_url (jw_cache w)))) w" for w
    using assms(1) [of "jw_log w" "discovery_url (jc_issuer_url (jw_cache w))"]
    by (auto simp: try_init_def Let_def)
  have step: "?stale (snd (get_key j p kid w)) \<and> length (jw_log (snd (get_key j p kid w))) = Suc (length (jw_log w))"
    if "?stale w" for w kid
    using that by (simp add: get_key_def refresh_key_def key_from_cache_def Let_def init) (simp add: idp_get_def)
  have "length (jw_log (fold (\<lambda>kid w. snd (get_key j p kid w)) kids w)) = length (jw_log w) + length kids"
    if "?stale w" for w
    using that step by (induction kids arbitrary: w) simp_all
  moreover have "?stale (jwks_start p config now)" "length (jw_log (jwks_start p config now)) = 1"
    using assms(2) unfolding jwks_start_def init
    by (auto simp: idp_get_def jwks_cache_new_def Let_def instant_checked_sub_def split: if_splits)
  ultimately show ?thesis by simp
qed

subsection \<open>Accepted tokens\<close>

fun aud_matches :: "one_or_many \<Rightarrow> string list \<Rightarrow> bool" where
  "aud_matches (One a) expected \<longleftrightarrow> a \<in> set expected"
| "aud_matches (Many as) expected \<longleftrightarrow> set as \<inter> set expected \<noteq> {}"

text \<open>
  What the \<open>jsonwebtoken\<close> crate promises: a key set is searched by key identifier, and the
  claims of a token are released only if the token is signed with the key by the algorithm asked
  for, issuer and audience are among those asked for, and it has not expired, with a leeway of a
  minute.
\<close>

definition jwt_crate_ok :: "(decoding_key \<Rightarrow> string \<Rightarrow> string \<Rightarrow> bool) \<Rightarrow> jwt_crate \<Rightarrow> bool" where
  "jwt_crate_ok signs j \<longleftrightarrow>
     (\<forall>s kid k. jwks_find j s kid = Some k \<longrightarrow> k \<in> set s \<and> jwk_key_id k = Some kid) \<and>
     (\<forall>t token key v c. jwt_decode j t token key v = Some c \<longrightarrow>
        signs key (jv_algorithm v) token \<and> ac_iss c \<in> set (jv_issuer v) \<and>
        aud_matches (ac_aud c) (jv_audience v) \<and> t \<le> int (ac_exp c) + 60)"

lemma key_from_cache_Some:
  "key_from_cache j kid cache = Some key \<longleftrightarrow>
     (\<exists>s k. jc_jwks cache = Some s \<and> jwks_find j s kid = Some k \<and>
        (jwk_key_algorithm k = None \<or> jwk_key_algorithm k = Some ''RS256'') \<and> from_jwk j k = Some key)"
proof (cases "jc_jwks cache")
  case (Some s)
  then show ?thesis
    by (cases "jwks_find j s kid"; cases "jwk_key_algorithm (the (jwks_find j s kid))") (auto simp: key_from_cache_def)
qed (simp add: key_from_cache_def)

lemma get_key_cached: "get_key j p kid w = (Some key, w') \<Longrightarrow> key_from_cache j kid (jw_cache w') = Some key"
  by (auto simp: get_key_def refresh_key_def Let_def split: option.splits if_splits)

lemma get_key_provided: "cache_provided p w \<Longrightarrow> get_key j p kid w = (key, w') \<Longrightarrow> cache_provided p w'"
  by (auto simp: get_key_def intro: refresh_provided split: option.splits)

lemma get_key_issuer: "get_key j p kid w = (key, w') \<Longrightarrow> jc_issuer_url (jw_cache w') = jc_issuer_url (jw_cache w)"
  by (auto simp: get_key_def refresh_key_def Let_def try_init_def fetch_jwks_inner_def idp_get_def
      split: option.splits if_splits)

lemma bearer_token_Inr:
  "extract_bearer_token headers = Inr token \<Longrightarrow> map_of headers ''authorization'' = Some (''Bearer '' @ token)"
  by (auto simp: extract_bearer_token_def result_iffs strip_prefix_Some split: if_splits)


subsection \<open>Identities\<close>

text \<open>Auth accounts and hosts have unique keys.\<close>

definition auth_tables_ok :: "db \<Rightarrow> bool" where
  "auth_tables_ok d \<longleftrightarrow> distinct (map hw_id (t_auth_hosts d)) \<and> distinct (map hw_url (t_auth_hosts d)) \<and>
     distinct (map aw_id (t_auth_accounts d)) \<and>
     distinct (map (\<lambda>r. (aw_host_id r, aw_client_id r)) (t_auth_accounts d))"

definition identifies :: "db \<Rightarrow> int \<Rightarrow> oidc_auth_info \<Rightarrow> bool" where
  "identifies d i info \<longleftrightarrow>
     (\<exists>h \<in> set (t_auth_hosts d). \<exists>r \<in> set (t_auth_accounts d).
        hw_url h = oi_issuer info \<and> aw_host_id r = hw_id h \<and> aw_client_id r = oi_subject info \<and> aw_id r = i)"

lemma identifies_unique:
  assumes "auth_tables_ok d" and "identifies d i info" and "identifies d i' info'"
  shows "i = i' \<longleftrightarrow> info = info'"
proof -
  from assms(2,3) obtain h r h' r' where rows: "h \<in> set (t_auth_hosts d)" "r \<in> set (t_auth_accounts d)"
      "h' \<in> set (t_auth_hosts d)" "r' \<in> set (t_auth_accounts d)"
    and info: "hw_url h = oi_issuer info" "aw_host_id r = hw_id h" "aw_client_id r = oi_subject info" "aw_id r = i"
      "hw_url h' = oi_issuer info'" "aw_host_id r' = hw_id h'" "aw_client_id r' = oi_subject info'" "aw_id r' = i'"
    unfolding identifies_def by blast
  from assms(1) rows have "aw_id r = aw_id r' \<longleftrightarrow> r = r'" "hw_id h = hw_id h' \<longleftrightarrow> h = h'" "hw_url h = hw_url h' \<longleftrightarrow> h = h'"
    "aw_host_id r = aw_host_id r' \<and> aw_client_id r = aw_client_id r' \<longleftrightarrow> r = r'"
    by (auto simp: auth_tables_ok_def distinct_map dest: inj_onD)
  with info show ?thesis by (metis oidc_auth_info.equality unit.exhaust)
qed

lemma identifies_mono:
  "identifies d i info \<Longrightarrow> set (t_auth_hosts d) \<subseteq> set (t_auth_hosts d') \<Longrightarrow>
     set (t_auth_accounts d) \<subseteq> set (t_auth_accounts d') \<Longrightarrow> identifies d' i info"
  unfolding identifies_def by blast

lemma find_or_create_rows:
  assumes "auth_account_find_or_create e host client w = (Inr a, w')" and "auth_tables_ok (w_db w)"
  shows "auth_tables_ok (w_db w') \<and> t_auth_hosts (w_db w') = t_auth_hosts (w_db w) \<and>
    set (t_auth_accounts (w_db w)) \<subseteq> set (t_auth_accounts (w_db w')) \<and>
    \<lparr> aw_id = aa_id a, aw_host_id = host, aw_client_id = client \<rparr> \<in> set (t_auth_accounts (w_db w'))"
proof (cases "auth_account_by_client host client (w_db w)")
  case None
  then have "(host, client) \<notin> (\<lambda>r. (aw_host_id r, aw_client_id r)) ` set (t_auth_accounts (w_db w))"
    by (auto simp: auth_account_by_client_def find_None_iff)
  with assms None show ?thesis
    by (auto simp: auth_account_find_or_create_def auth_account_insert_def generate_id_def op_iffs Let_def
        res_map_Inr_iff insert_row_Inr_iff auth_account_from_def auth_tables_ok_def split: option.splits) blast
next
  case (Some r)
  then have "r = \<lparr> aw_id = aw_id r, aw_host_id = host, aw_client_id = client \<rparr>" "r \<in> set (t_auth_accounts (w_db w))"
    by (auto simp: auth_account_by_client_def dest!: find_SomeD)
  with assms Some show ?thesis
    by (auto simp: find_or_create_found auth_account_from_def)
qed

lemma resolved_host:
  assumes run: "(case auth_host_find_by_url url (w_db w) of Some auth_host \<Rightarrow> op_return auth_host
       | None \<Rightarrow> op_bind (generate_id e) (\<lambda>i.
           let auth_host = \<lparr> ah_id = i, ah_url = url \<rparr> in
           op_bind (exec (auth_host_create auth_host)) (\<lambda>_. op_return auth_host))) w = (Inr h, w1)"
    and ok: "auth_tables_ok (w_db w)"
  shows "auth_tables_ok (w_db w1) \<and> \<lparr> hw_id = ah_id h, hw_url = url \<rparr> \<in> set (t_auth_hosts (w_db w1)) \<and>
    set (t_auth_hosts (w_db w)) \<subseteq> set (t_auth_hosts (w_db w1)) \<and> t_auth_accounts (w_db w1) = t_auth_accounts (w_db w)"
proof (cases "List.find (\<lambda>r. hw_url r = url) (t_auth_hosts (w_db w))")
  case None
  with run ok show ?thesis
    by (auto simp: auth_host_find_by_url_def auth_host_create_def generate_id_def op_iffs Let_def res_map_Inr_iff
        insert_row_Inr_iff auth_tables_ok_def) blast
next
  case (Some r)
  then have "r = \<lparr> hw_id = hw_id r, hw_url = url \<rparr>" "r \<in> set (t_auth_hosts (w_db w))"
    by (auto dest!: find_SomeD)
  with run ok Some show ?thesis by (auto simp: auth_host_find_by_url_def auth_host_from_def)
qed

lemma resolve_identifies:
  assumes run: "resolve_auth_account_id e info w = (Inr i, w')" and ok: "auth_tables_ok (w_db w)"
  shows "auth_tables_ok (w_db w') \<and> identifies (w_db w') i info \<and>
    set (t_auth_hosts (w_db w)) \<subseteq> set (t_auth_hosts (w_db w')) \<and>
    set (t_auth_accounts (w_db w)) \<subseteq> set (t_auth_accounts (w_db w'))"
proof -
  from run obtain h :: auth_host and w1 :: world and a :: auth_account where
    host: "(case auth_host_find_by_url (oi_issuer info) (w_db w) of Some auth_host \<Rightarrow> op_return auth_host
       | None \<Rightarrow> op_bind (generate_id e) (\<lambda>i.
           let auth_host = \<lparr> ah_id = i, ah_url = oi_issuer info \<rparr> in
           op_bind (exec (auth_host_create auth_host)) (\<lambda>_. op_return auth_host))) w = (Inr h, w1)"
    and acc: "auth_account_find_or_create e (ah_id h) (oi_subject info) w1 = (Inr a, w')" and i: "i = aa_id a"
    by (auto simp: resolve_auth_account_id_def op_iffs)
  have hosts: "auth_tables_ok (w_db w1)" "\<lparr> hw_id = ah_id h, hw_url = oi_issuer info \<rparr> \<in> set (t_auth_hosts (w_db w1))"
    "set (t_auth_hosts (w_db w)) \<subseteq> set (t_auth_hosts (w_db w1))" "t_auth_accounts (w_db w1) = t_auth_accounts (w_db w)"
    using resolved_host [OF host ok] by simp_all
  note rows = find_or_create_rows [OF acc hosts(1)]
  have "identifies (w_db w') i info"
    unfolding identifies_def using rows hosts(2) i
    by (intro bexI [of _ "\<lparr> hw_id = ah_id h, hw_url = oi_issuer info \<rparr>"]
        bexI [of _ "\<lparr> aw_id = aa_id a, aw_host_id = ah_id h, aw_client_id = oi_subject info \<rparr>"]) simp_all
  with rows hosts show ?thesis by simp
qed

text \<open>C12. 
  Claims resolve to the same auth account if and only if issuer and subject are the same: the
  first request of an identity creates the account, every later one finds it, and no two
  identities share one.
\<close>

theorem identity_resolution:
  assumes "resolve_auth_account_id e info w = (Inr i, w1)" and "resolve_auth_account_id e' info' w1 = (Inr i', w2)"
    and "auth_tables_ok (w_db w)"
  shows "i = i' \<longleftrightarrow> info = info'"
proof -
  note first = resolve_identifies [OF assms(1,3)]
  note second = resolve_identifies [OF assms(2) conjunct1 [OF first]]
  from second first have "identifies (w_db w2) i info" by (meson identifies_mono)
  with second show ?thesis by (intro identifies_unique [of "w_db w2"]) simp_all
qed

subsection \<open>Examples\<close>

definition example_config :: oidc_config where
  "example_config = \<lparr> oc_issuer_url = ''https://idp.example'', oc_expected_audience = ''emumet'',
     oc_jwks_refetch_interval_secs = 300 \<rparr>"

text \<open>A provider with one key, and one that never answers.\<close>

definition example_idp :: idp where
  "example_idp = \<lparr> idp_latency = (\<lambda>_. 0), idp_discovery = (\<lambda>_ _. Some (Some ''https://idp.example/jwks'')),
     idp_jwks = (\<lambda>_ _. Some (Some [\<lparr> jwk_key_id = Some ''k1'', jwk_key_algorithm = Some ''RS256'',
       jwk_parameters = ''K'' \<rparr>])) \<rparr>"

definition silent_idp :: idp where
  "silent_idp = \<lparr> idp_latency = (\<lambda>_. 5), idp_discovery = (\<lambda>_ _. None), idp_jwks = (\<lambda>_ _. None) \<rparr>"

text \<open>A token is the text \<open>t\<close>; it is signed with the key \<open>K\<close>.\<close>

definition example_jwt :: jwt_crate where
  "example_jwt = \<lparr> jwks_find = (\<lambda>s kid. List.find (\<lambda>k. jwk_key_id k = Some kid) s),
     from_jwk = (\<lambda>k. Some (jwk_parameters k)), decode_header = (\<lambda>_. Some (Some ''k1'')),
     jwt_decode = (\<lambda>now token key v.
       if token = ''t'' \<and> key = ''K'' \<and> ''https://idp.example'' \<in> set (jv_issuer v) \<and>
          ''emumet'' \<in> set (jv_audience v) \<and> now \<le> 1060
       then Some \<lparr> ac_iss = ''https://idp.example'', ac_sub = ''u1'', ac_aud = One ''emumet'', ac_exp = 1000 \<rparr>
       else None) \<rparr>"

lemma example_jwt_ok: "jwt_crate_ok (\<lambda>key alg token. key = ''K'' \<and> token = ''t'') example_jwt"
  by (auto simp: jwt_crate_ok_def example_jwt_def dest: find_SomeD split: if_splits)

lemma example_start:
  "jwks_start example_idp example_config 0 =
     \<lparr> jw_cache = \<lparr> jc_jwks = Some [\<lparr> jwk_key_id = Some ''k1'', jwk_key_algorithm = Some ''RS256'', jwk_parameters = ''K'' \<rparr>],
         jc_jwks_uri = Some ''https://idp.example/jwks'', jc_last_fetch = 0,
         jc_issuer_url = ''https://idp.example'', jc_min_refetch_interval = 300000000000 \<rparr>,
       jw_now = 0, jw_log = [(0, Discovery (discovery_url ''https://idp.example'')), (0, Jwks ''https://idp.example/jwks'')] \<rparr>"
  by (simp add: jwks_start_def try_init_def fetch_jwks_inner_def idp_get_def Let_def example_idp_def
      jwks_cache_new_def example_config_def)


theorem discovery_not_limited_witness:
  "length (jw_log (fold (\<lambda>kid w. snd (get_key example_jwt silent_idp kid w)) [''a'', ''b'', ''c'']
     (jwks_start silent_idp example_config 0))) = 4"
  using discovery_not_limited [of silent_idp 0 example_config example_jwt "[''a'', ''b'', ''c'']"]
  by (simp add: silent_idp_def example_config_def instant_checked_sub_def)


theorem identity_resolution_witness:
  "\<exists>i i' w1 w2. resolve_auth_account_id (clock_env 0) \<lparr> oi_issuer = ''https://idp.example'', oi_subject = ''u1'' \<rparr> empty_world = (Inr i, w1) \<and>
     resolve_auth_account_id (clock_env 0) \<lparr> oi_issuer = ''https://idp.example'', oi_subject = ''u2'' \<rparr> w1 = (Inr i', w2) \<and> i \<noteq> i'"
proof -
  let ?u = "\<lambda>s. \<lparr> oi_issuer = ''https://idp.example'', oi_subject = s \<rparr>"
  note defs = resolve_auth_account_id_def auth_host_find_by_url_def auth_host_create_def auth_account_find_or_create_def
    auth_account_insert_def auth_account_by_client_def generate_id_def op_bind_def exec_def insert_row_def
    clock_env_def auth_account_from_def auth_host_from_def Let_def
  obtain i w1 where first: "resolve_auth_account_id (clock_env 0) (?u ''u1'') empty_world = (Inr i, w1)"
    and hosts: "t_auth_hosts (w_db w1) = [\<lparr> hw_id = 1, hw_url = ''https://idp.example'' \<rparr>]"
    and accounts: "t_auth_accounts (w_db w1) = [\<lparr> aw_id = 2, aw_host_id = 1, aw_client_id = ''u1'' \<rparr>]" "w_last_id w1 = 2"
    by (simp add: defs empty_world_def empty_db_def)
  obtain i' w2 where second: "resolve_auth_account_id (clock_env 0) (?u ''u2'') w1 = (Inr i', w2)"
    by (simp add: defs hosts accounts)
  have "auth_tables_ok (w_db empty_world)" by (simp add: auth_tables_ok_def empty_world_def empty_db_def)
  with identity_resolution [OF first second] first second show ?thesis by auto
qed

end
