(* ===== verification/Spec2Isabelle.thy ===== *)
theory Spec2Isabelle
  imports Account_Service_Theorems Projection Account_Detail_Theorems Federation_Theorems Auth_Theorems
begin

text \<open>
  A verification development for Emumet, the account service of ShuttlePub: it keeps accounts
  with their profiles and fields, moderates them, federates with other servers over ActivityPub
  and authenticates its users against an OpenID provider.

  \<^bold>\<open>The program.\<close> The crate \<open>kernel\<close> has the entities, the event-sourced aggregates and the
  interfaces; \<open>driver\<close> implements them on PostgreSQL, Ory Keto and the crates for cryptography
  and HTTP signatures; \<open>application\<close> has the use cases and the projectors that keep the read
  models up to date; \<open>server\<close> puts HTTP in front. A use case reads the read model, asks Keto for
  permission, loads an aggregate by replaying its events, saves one event under the version it
  has loaded, and writes the read model; projectors repeat that last step from the event log.
  Activities are stored in the outbox, signed and posted to remote inboxes; the inbox route
  verifies the signature of what arrives and hands it to the handlers.

  \<^bold>\<open>How it is modelled.\<close> Functions of the sources are HOL functions under the name of the source.
  A Rust string is its UTF-8 bytes, an \<open>i64\<close> identifier an \<open>int\<close>, a time the number of
  nanoseconds since 1970, an IP address a word, \<open>Result\<close> a sum with the error on the left.
  Fallible stateful code is an \<open>'a op\<close>, a function on the \<open>world\<close>: the database (a record of
  tables, each the list of its rows), the state of the identifier generators, the tuples in Keto
  and the HTTP requests sent. A transaction restores the database, and only it, on failure.
  External code is a record that the definitions take as argument: \<open>env\<close> (clock, identifiers,
  hash order, Keto), \<open>network\<close> (parsers, digests, peers), \<open>crypto_crates\<close> and
  \<open>signing_crates\<close> (cryptography and the signing crates), \<open>jwt_crate\<close> and \<open>idp\<close> (tokens and
  the identity provider). What it promises is a named hypothesis (\<open>time_crate\<close>,
  \<open>snowflake_crate\<close>, \<open>keto_service\<close>, \<open>base64_crate\<close>, \<open>httpdate_crate\<close>,
  \<open>cavage_crate\<close>, \<open>signature_crate_ok\<close>, \<open>sealing_crates\<close>, \<open>jwt_crate_ok\<close>), and every
  theorem that has one comes with a witness on a concrete instance.

  \<^bold>\<open>Foundations.\<close>
  \<^item> \<open>Emumet_Prelude\<close> has results and the generic lemmas, \<open>Rust_Strings\<close> and \<open>Json\<close> the parts
    of the standard library and of \<open>serde_json\<close> that are used, \<open>Kernel_Base\<close> the errors,
    envelopes, identifiers and field actions, \<open>Value_Objects\<close> the validators, \<open>Crypto\<close> and
    \<open>Network\<close> the interfaces to the outside, \<open>Pagination\<close> cursors.
  \<^item> \<open>Event_Sourcing\<close> states the contract of an aggregate (locales \<open>event_sourced\<close> and
    \<open>undeletable\<close>); \<open>Account_Aggregate\<close>, \<open>Profile_Aggregate\<close> and \<open>Metadata_Aggregate\<close>
    have the three of them and interpret it. Accounts refine an abstract life cycle.
  \<^item> \<open>Event_Store\<close> has the event tables and their conditional insert; \<open>Database\<close> the schema and
    the monad; \<open>Event_Repositories\<close> load and save, with optimistic concurrency proved once in
    the locales \<open>event_port\<close> and \<open>aggregate_repository\<close>.

  \<^bold>\<open>Storage.\<close>
  \<^item> \<open>Account_Read_Model\<close>, \<open>Read_Models\<close> and \<open>Crud_Repositories\<close> have the queries and writes
    of the read models and of the tables without events, \<open>Relations\<close> follows, blocks and mutes
    as instances of the locale \<open>pair_store\<close>, \<open>Signing_Keys\<close> the keys of accounts.
  \<^item> \<open>Permission\<close> has the Keto client and the rules of \<open>ory/keto/namespaces.ts\<close>: a check
    succeeds exactly when the rules grant it.
  \<^item> \<open>Projection\<close> has the three projectors: a poll makes progress and leaves the row that replay
    yields, except in two situations that are proved as well.

  \<^bold>\<open>Use cases.\<close>
  \<^item> \<open>Account_Service\<close> has the account use cases, with the locale \<open>guarded_command\<close> for those
    that test a guard and save; \<open>Account_Service_Theorems\<close> their outcome on every branch.
  \<^item> \<open>Account_Detail\<close> has reading and updating profiles; \<open>Account_Detail_Theorems\<close> shows that
    the answer of an update is what is read next, and that texts stay within their limits.

  \<^bold>\<open>Federation.\<close>
  \<^item> \<open>Actor_Url\<close> and \<open>Activity_Streams\<close> have the documents; \<open>Ip_Blocks\<close> and \<open>Ssrf\<close> the guard
    of outgoing requests (locale \<open>fetch_guard\<close>, with the check of the application and that of the
    driver as instances); \<open>Remote_Actors\<close> resolution; \<open>Crypto_Drivers\<close>, \<open>Http_Signatures\<close>
    and \<open>Http_Signer\<close> keys and signatures.
  \<^item> \<open>Delivery\<close>, \<open>Actors\<close>, \<open>Following\<close>, \<open>Blocking\<close> and \<open>Inbox\<close> have the use cases,
    \<open>Inbox_Route\<close> the HTTP side of the inbox. \<open>Blocking_Theorems\<close> shows what a block severs,
    \<open>Inbox_Theorems\<close> what an activity can change, \<open>Inbox_Route_Theorems\<close> that only its actor
    can have sent it, and \<open>Federation_Theorems\<close> that what one server delivers reaches the
    handler of the other.

  \<^bold>\<open>Authentication.\<close> \<open>Auth\<close> has the key cache, the middleware and the resolution of claims;
  \<open>Auth_Theorems\<close> shows which tokens pass, that key fetches are spaced in every run
  (\<open>jwks_step\<close>), that discovery requests are not, and that identities and auth accounts
  correspond one to one.

  \<^bold>\<open>Bounds and fuel.\<close> Redirects are followed with the counter of the source: six requests, the
  first and five redirects, after which the request is refused. Response bodies for keys are
  limited to a mebibyte. Paging through Keto ends because every page shortens what is left
  (\<open>list_instance_roles_pages\<close>). All other recursion is structural.

  \<^bold>\<open>Not modelled.\<close> Losing a connection to PostgreSQL, and interleavings inside one statement or
  transaction: a transaction is atomic, and two writers are two transactions in a row. Routing,
  request extraction and OpenAPI descriptions of the server, and the routes other than the
  inbox. The use case \<open>SignRequestUseCase::sign\<close> of \<open>application/src/signing_key.rs\<close> with its
  endpoint. Media upload (\<open>application/src/service/media.rs\<close>, \<open>driver/src/storage.rs\<close>): image
  decoding and object storage by external crates. The OAuth2 login and consent endpoints, an
  exchange with the services Hydra and Kratos. The timer loop of \<open>projection_worker.rs\<close> around
  the projectors, process start and wiring. Logging. The feature \<open>test-mode\<close>. Test code and the
  end-to-end tests.
\<close>

end
